(* ===== verification/Himmelblau_Prelude.thy ===== *)
theory Himmelblau_Prelude
  imports Main "HOL-Library.Word"
begin

text \<open>
  The vocabulary the component theories share.
  \<^item> The effects of the daemon's code: a program runs on an explicit state and either
    returns a value with the next state, panics, or blocks for ever on a lock that its own
    task already holds (\<open>outcome\<close>, \<open>prog\<close>).
  \<^item> A small program logic: \<open>keeps R m\<close> says that no run of \<open>m\<close> blocks and that every
    returning run relates its first and last state by \<open>R\<close>; the locale \<open>kept\<close> proves the
    rules for sequencing once, for every preorder \<open>R\<close>.
  \<^item> The parts of Rust's standard library the sources use on strings, integers and
    system time. A Rust \<open>str\<close> is a \<open>string\<close>, that is its bytes; case folding is
    ASCII case folding.
\<close>

section \<open>Programs\<close>

datatype 'a outcome =
    Return 'a
  | Panic
  | Blocked

type_synonym ('s, 'a) prog = "'s \<Rightarrow> ('a \<times> 's) outcome"

definition pret :: "'a \<Rightarrow> ('s, 'a) prog" where
  "pret x = (\<lambda>s. Return (x, s))"

definition pbind :: "('s, 'a) prog \<Rightarrow> ('a \<Rightarrow> ('s, 'b) prog) \<Rightarrow> ('s, 'b) prog" where
  "pbind m f = (\<lambda>s. case m s of
      Return (a, s') \<Rightarrow> f a s'
    | Panic \<Rightarrow> Panic
    | Blocked \<Rightarrow> Blocked)"

text \<open>Rust's \<open>?\<close>: an error ends the function with that error.\<close>

definition pbindE :: "('s, 'e + 'a) prog \<Rightarrow> ('a \<Rightarrow> ('s, 'e + 'b) prog) \<Rightarrow> ('s, 'e + 'b) prog" where
  "pbindE m f = pbind m (\<lambda>r. case r of Inl e \<Rightarrow> pret (Inl e) | Inr a \<Rightarrow> f a)"

definition map_err :: "('e \<Rightarrow> 'f) \<Rightarrow> ('s, 'e + 'a) prog \<Rightarrow> ('s, 'f + 'a) prog" where
  "map_err f m = pbind m (\<lambda>r. pret (case r of Inl e \<Rightarrow> Inl (f e) | Inr a \<Rightarrow> Inr a))"

definition pgets :: "('s \<Rightarrow> 'a) \<Rightarrow> ('s, 'a) prog" where
  "pgets f = (\<lambda>s. Return (f s, s))"

definition pmodify :: "('s \<Rightarrow> 's) \<Rightarrow> ('s, unit) prog" where
  "pmodify f = (\<lambda>s. Return ((), f s))"

definition ppanic :: "('s, 'a) prog" where
  "ppanic = (\<lambda>s. Panic)"

text \<open>Running a program on a part of a larger state.\<close>

definition pzoom :: "('s \<Rightarrow> 't) \<Rightarrow> ('t \<Rightarrow> 's \<Rightarrow> 's) \<Rightarrow> ('t, 'a) prog \<Rightarrow> ('s, 'a) prog" where
  "pzoom rd wr m = (\<lambda>s. case m (rd s) of
      Return (a, t) \<Rightarrow> Return (a, wr t s)
    | Panic \<Rightarrow> Panic
    | Blocked \<Rightarrow> Blocked)"

text \<open>Rust's \<open>try_for_each\<close>.\<close>

fun ptry_for_each :: "('a \<Rightarrow> ('s, 'e + unit) prog) \<Rightarrow> 'a list \<Rightarrow> ('s, 'e + unit) prog" where
  "ptry_for_each f [] = pret (Inr ())"
| "ptry_for_each f (x # xs) = pbindE (f x) (\<lambda>_. ptry_for_each f xs)"

lemmas prog_defs = pret_def pbind_def pbindE_def map_err_def pgets_def pmodify_def ppanic_def
  pzoom_def

lemma pret_Return [simp]: "pret x s = Return (y, t) \<longleftrightarrow> y = x \<and> t = s"
  by (auto simp: pret_def)

lemma pgets_Return [simp]: "pgets f s = Return (y, t) \<longleftrightarrow> y = f s \<and> t = s"
  by (auto simp: pgets_def)

lemma pmodify_Return [simp]: "pmodify f s = Return (y, t) \<longleftrightarrow> t = f s"
  by (auto simp: pmodify_def)

lemma ppanic_Return [simp]: "ppanic s \<noteq> Return x"
  by (simp add: ppanic_def)

lemma pbind_Return:
  "pbind m f s = Return (b, t) \<longleftrightarrow> (\<exists>a u. m s = Return (a, u) \<and> f a u = Return (b, t))"
  by (auto simp: pbind_def split: outcome.splits prod.splits)

lemma pbindE_Return:
  "pbindE m f s = Return (b, t) \<longleftrightarrow>
     (\<exists>e. m s = Return (Inl e, t) \<and> b = Inl e) \<or>
     (\<exists>a u. m s = Return (Inr a, u) \<and> f a u = Return (b, t))"
  by (cases "m s") (auto simp: pbindE_def pbind_def pret_def split: sum.splits prod.splits)

lemma map_err_Return:
  "map_err f m s = Return (b, t) \<longleftrightarrow>
     (\<exists>e. m s = Return (Inl e, t) \<and> b = Inl (f e)) \<or>
     (\<exists>a. m s = Return (Inr a, t) \<and> b = Inr a)"
  by (cases "m s") (auto simp: map_err_def pbind_def pret_def split: sum.splits prod.splits)

lemma pzoom_Return:
  "pzoom g p m s = Return (a, t) \<longleftrightarrow> (\<exists>u. m (g s) = Return (a, u) \<and> t = p u s)"
  by (auto simp: pzoom_def split: outcome.splits prod.splits)

lemmas prog_Return = pbind_Return pbindE_Return map_err_Return pzoom_Return

text \<open>A returning program taken apart, statement by statement.\<close>

lemma pbind_elim:
  assumes "pbind m f s = Return r"
  obtains x u where "m s = Return (x, u)" "f x u = Return r"
  using assms by (auto simp: pbind_def split: outcome.splits)

lemma pbindE_elim:
  assumes "pbindE m f s = Return (Inr a, t)"
  obtains x u where "m s = Return (Inr x, u)" "f x u = Return (Inr a, t)"
  using assms by (auto simp: pbindE_Return)

lemma option_elim:
  assumes "(case x of None \<Rightarrow> m | Some y \<Rightarrow> k y) s = Return r"
  obtains "x = None" "m s = Return r" | y where "x = Some y" "k y s = Return r"
  using assms by (cases x) simp_all

lemma sum_elim:
  assumes "(case x of Inl y \<Rightarrow> m y | Inr y \<Rightarrow> k y) s = Return r"
  obtains y where "x = Inl y" "m y s = Return r" | y where "x = Inr y" "k y s = Return r"
  using assms by (cases x) simp_all

lemma prod_elim:
  assumes "(case x of (y, z) \<Rightarrow> k y z) s = Return r"
  obtains y z where "x = (y, z)" "k y z s = Return r"
  using assms by (cases x) simp_all

lemma if_elim:
  assumes "(if b then m else n) s = Return r"
  obtains "b" "m s = Return r" | "\<not> b" "n s = Return r"
  using assms by (cases b) simp_all

lemmas run_elims = pbind_elim pbindE_elim option_elim sum_elim prod_elim if_elim

section \<open>What a program keeps\<close>

definition keeps :: "('s \<Rightarrow> 's \<Rightarrow> bool) \<Rightarrow> ('s, 'a) prog \<Rightarrow> bool" where
  "keeps R m \<longleftrightarrow> (\<forall>s. m s \<noteq> Blocked \<and> (\<forall>a t. m s = Return (a, t) \<longrightarrow> R s t))"

text \<open>The relation of an invariant: where it holds before, it holds after.\<close>

definition inv_rel :: "('s \<Rightarrow> bool) \<Rightarrow> 's \<Rightarrow> 's \<Rightarrow> bool" where
  "inv_rel I s t \<longleftrightarrow> (I s \<longrightarrow> I t)"

lemma keepsI: "(\<And>s. m s \<noteq> Blocked) \<Longrightarrow> (\<And>s a t. m s = Return (a, t) \<Longrightarrow> R s t) \<Longrightarrow> keeps R m"
  by (auto simp: keeps_def)

lemma keeps_not_Blocked: "keeps R m \<Longrightarrow> m s \<noteq> Blocked"
  by (auto simp: keeps_def)

lemma pbind_Blocked:
  "pbind m f s = Blocked \<longleftrightarrow> m s = Blocked \<or> (\<exists>a t. m s = Return (a, t) \<and> f a t = Blocked)"
  by (auto simp: pbind_def split: outcome.splits prod.splits)

lemma pbindE_Blocked:
  "pbindE m f s = Blocked \<longleftrightarrow> m s = Blocked \<or> (\<exists>a t. m s = Return (Inr a, t) \<and> f a t = Blocked)"
  by (cases "m s") (auto simp: pbindE_def pbind_def pret_def split: sum.splits prod.splits)

lemma map_err_Blocked: "map_err f m s = Blocked \<longleftrightarrow> m s = Blocked"
  by (cases "m s") (auto simp: map_err_def pbind_def pret_def split: sum.splits prod.splits)

lemma pzoom_Blocked: "pzoom g p m s = Blocked \<longleftrightarrow> m (g s) = Blocked"
  by (auto simp: pzoom_def split: outcome.splits prod.splits)

lemma simple_Blocked [simp]: "pret x s \<noteq> Blocked" "pgets f s \<noteq> Blocked" "pmodify g s \<noteq> Blocked"
  "ppanic s \<noteq> Blocked"
  by (simp_all add: pret_def pgets_def pmodify_def ppanic_def)

lemmas prog_Blocked = pbind_Blocked pbindE_Blocked map_err_Blocked pzoom_Blocked

lemma keepsD: "keeps R m \<Longrightarrow> m s = Return (a, t) \<Longrightarrow> R s t"
  by (auto simp: keeps_def)

lemma keeps_invD: "keeps (inv_rel I) m \<Longrightarrow> m s = Return (a, t) \<Longrightarrow> I s \<Longrightarrow> I t"
  by (auto simp: keeps_def inv_rel_def)

lemma keeps_pzoom:
  assumes "keeps Q m" and "\<And>s t. Q (g s) t \<Longrightarrow> R s (p t s)"
  shows "keeps R (pzoom g p m)"
  using assms by (auto simp: keeps_def pzoom_Return pzoom_Blocked)

locale kept =
  fixes R :: "'s \<Rightarrow> 's \<Rightarrow> bool"
  assumes R_refl: "R s s"
    and R_trans: "R s t \<Longrightarrow> R t u \<Longrightarrow> R s u"
begin

lemma pret_keeps: "keeps R (pret x)"
  by (simp add: keeps_def R_refl)

lemma pgets_keeps: "keeps R (pgets f)"
  by (simp add: keeps_def R_refl)

lemma ppanic_keeps: "keeps R ppanic"
  by (simp add: keeps_def)

lemma pmodify_keeps: "(\<And>s. R s (f s)) \<Longrightarrow> keeps R (pmodify f)"
  by (simp add: keeps_def)

lemma pbind_keeps: "keeps R m \<Longrightarrow> (\<And>a. keeps R (f a)) \<Longrightarrow> keeps R (pbind m f)"
  unfolding keeps_def pbind_Return pbind_Blocked by (metis R_trans)

lemma pbindE_keeps: "keeps R m \<Longrightarrow> (\<And>a. keeps R (f a)) \<Longrightarrow> keeps R (pbindE m f)"
  unfolding keeps_def pbindE_Return pbindE_Blocked by (metis R_trans)

lemma map_err_keeps: "keeps R m \<Longrightarrow> keeps R (map_err g m)"
  by (auto simp: keeps_def map_err_Return map_err_Blocked)

lemma ptry_for_each_keeps: "(\<And>x. keeps R (f x)) \<Longrightarrow> keeps R (ptry_for_each f xs)"
  by (induction xs) (auto intro: pret_keeps pbindE_keeps)

lemma if_keeps: "keeps R m \<Longrightarrow> keeps R n \<Longrightarrow> keeps R (if b then m else n)"
  by simp

lemma case_option_keeps:
  "keeps R m \<Longrightarrow> (\<And>y. keeps R (f y)) \<Longrightarrow> keeps R (case x of None \<Rightarrow> m | Some y \<Rightarrow> f y)"
  by (cases x) simp_all

lemma case_sum_keeps:
  "(\<And>y. keeps R (f y)) \<Longrightarrow> (\<And>y. keeps R (g y)) \<Longrightarrow> keeps R (case x of Inl y \<Rightarrow> f y | Inr y \<Rightarrow> g y)"
  by (cases x) simp_all

lemma case_list_keeps:
  "keeps R m \<Longrightarrow> (\<And>y ys. keeps R (f y ys)) \<Longrightarrow> keeps R (case x of [] \<Rightarrow> m | y # ys \<Rightarrow> f y ys)"
  by (cases x) simp_all

lemma case_prod_keeps: "(\<And>y z. keeps R (f y z)) \<Longrightarrow> keeps R (case x of (y, z) \<Rightarrow> f y z)"
  by (cases x) simp_all

lemma Let_keeps: "(\<And>y. keeps R (f y)) \<Longrightarrow> keeps R (let y = x in f y)"
  by (simp add: Let_def)

lemmas flow = pret_keeps pgets_keeps ppanic_keeps pbind_keeps pbindE_keeps
  map_err_keeps ptry_for_each_keeps if_keeps case_option_keeps case_sum_keeps case_list_keeps
  case_prod_keeps Let_keeps

end

lemma kept_inv_rel: "kept (inv_rel I)"
  by unfold_locales (auto simp: inv_rel_def)

section \<open>What a program leaves alone\<close>

definition leaves :: "('s \<Rightarrow> 'b) \<Rightarrow> ('s, 'a) prog \<Rightarrow> bool" where
  "leaves f m \<longleftrightarrow> (\<forall>s a t. m s = Return (a, t) \<longrightarrow> f t = f s)"

lemma leavesD: "leaves f m \<Longrightarrow> m s = Return (a, t) \<Longrightarrow> f t = f s"
  by (simp add: leaves_def)

lemma leaves_pret: "leaves f (pret x)"
  by (simp add: leaves_def)

lemma leaves_pgets: "leaves f (pgets g)"
  by (simp add: leaves_def)

lemma leaves_ppanic: "leaves f ppanic"
  by (simp add: leaves_def)

lemma leaves_pmodify: "(\<And>s. f (g s) = f s) \<Longrightarrow> leaves f (pmodify g)"
  by (simp add: leaves_def)

lemma leaves_pbind: "leaves f m \<Longrightarrow> (\<And>a. leaves f (k a)) \<Longrightarrow> leaves f (pbind m k)"
  unfolding leaves_def pbind_Return by metis

lemma leaves_pbindE: "leaves f m \<Longrightarrow> (\<And>a. leaves f (k a)) \<Longrightarrow> leaves f (pbindE m k)"
  unfolding leaves_def pbindE_Return by metis

lemma leaves_map_err: "leaves f m \<Longrightarrow> leaves f (map_err g m)"
  unfolding leaves_def map_err_Return by metis

lemma leaves_pzoom: "(\<And>s t. f (p t s) = f s) \<Longrightarrow> leaves f (pzoom g p m)"
  by (auto simp: leaves_def pzoom_Return)

lemma leaves_if: "leaves f m \<Longrightarrow> leaves f n \<Longrightarrow> leaves f (if b then m else n)"
  by simp

lemma leaves_option:
  "leaves f m \<Longrightarrow> (\<And>y. leaves f (k y)) \<Longrightarrow> leaves f (case x of None \<Rightarrow> m | Some y \<Rightarrow> k y)"
  by (cases x) simp_all

lemma leaves_sum:
  "(\<And>y. leaves f (k y)) \<Longrightarrow> (\<And>y. leaves f (l y)) \<Longrightarrow> leaves f (case x of Inl y \<Rightarrow> k y | Inr y \<Rightarrow> l y)"
  by (cases x) simp_all

lemma leaves_prod: "(\<And>y z. leaves f (k y z)) \<Longrightarrow> leaves f (case x of (y, z) \<Rightarrow> k y z)"
  by (cases x) simp_all

lemma leaves_Let: "(\<And>y. leaves f (k y)) \<Longrightarrow> leaves f (let y = x in k y)"
  by (simp add: Let_def)

lemmas leaves_flow = leaves_pret leaves_pgets leaves_ppanic leaves_pbind leaves_pbindE leaves_map_err leaves_if
  leaves_option leaves_sum leaves_prod leaves_Let

section \<open>What a program returns\<close>

definition yields :: "('a \<Rightarrow> bool) \<Rightarrow> ('s, 'a) prog \<Rightarrow> bool" where
  "yields P m \<longleftrightarrow> (\<forall>s a t. m s = Return (a, t) \<longrightarrow> P a)"

lemma yieldsD: "yields P m \<Longrightarrow> m s = Return (a, t) \<Longrightarrow> P a"
  unfolding yields_def by blast

lemma yields_pret [simp]: "yields P (pret x) \<longleftrightarrow> P x"
  by (simp add: yields_def)

lemma yields_ppanic [simp]: "yields P ppanic"
  by (simp add: yields_def)

lemma yields_pbind: "(\<And>a. yields P (f a)) \<Longrightarrow> yields P (pbind m f)"
  unfolding yields_def pbind_Return by blast

lemma yields_pbind_via: "yields Q m \<Longrightarrow> (\<And>a. Q a \<Longrightarrow> yields P (f a)) \<Longrightarrow> yields P (pbind m f)"
  unfolding yields_def pbind_Return by blast

section \<open>Programs that succeed\<close>

text \<open>Total correctness: from \<open>P\<close> the program returns, without error, a value and state in \<open>Q\<close>.\<close>

definition succeeds :: "('s \<Rightarrow> bool) \<Rightarrow> ('s, 'e + 'a) prog \<Rightarrow> ('a \<Rightarrow> 's \<Rightarrow> bool) \<Rightarrow> bool" where
  "succeeds P m Q \<longleftrightarrow> (\<forall>s. P s \<longrightarrow> (\<exists>a t. m s = Return (Inr a, t) \<and> Q a t))"

lemma succeedsD: "succeeds P m Q \<Longrightarrow> P s \<Longrightarrow> \<exists>a t. m s = Return (Inr a, t) \<and> Q a t"
  by (simp add: succeeds_def)

lemma succeeds_pret: "(\<And>s. P s \<Longrightarrow> Q a s) \<Longrightarrow> succeeds P (pret (Inr a)) Q"
  by (simp add: succeeds_def)

lemma succeeds_pbindE:
  "succeeds P m R \<Longrightarrow> (\<And>a. succeeds (R a) (f a) Q) \<Longrightarrow> succeeds P (pbindE m f) Q"
  unfolding succeeds_def pbindE_Return by metis

lemma succeeds_if:
  "(b \<Longrightarrow> succeeds P m Q) \<Longrightarrow> (\<not> b \<Longrightarrow> succeeds P n Q) \<Longrightarrow> succeeds P (if b then m else n) Q"
  by simp

lemma succeeds_pre: "succeeds P m Q \<Longrightarrow> (\<And>s. P' s \<Longrightarrow> P s) \<Longrightarrow> succeeds P' m Q"
  by (simp add: succeeds_def)

lemma succeeds_conj [simp]: "succeeds (\<lambda>s. b \<and> P s) m Q \<longleftrightarrow> (b \<longrightarrow> succeeds P m Q)"
  by (auto simp: succeeds_def)

lemma succeeds_ptry_for_each:
  "(\<And>x. succeeds I (f x) (\<lambda>_. I)) \<Longrightarrow> succeeds I (ptry_for_each f xs) (\<lambda>_. I)"
  by (induction xs) (auto intro: succeeds_pret succeeds_pbindE)

section \<open>Rust's standard library\<close>

type_synonym u8 = "8 word"
type_synonym u32 = "32 word"
type_synonym u64 = "64 word"
type_synonym bytes = "8 word list"

definition sub_saturating :: "'l::len word \<Rightarrow> 'l word \<Rightarrow> 'l word" where
  "sub_saturating a b = (if a < b then 0 else a - b)"

subsection \<open>Strings\<close>

definition lower_char :: "char \<Rightarrow> char" where
  "lower_char c = (if 65 \<le> (of_char c :: nat) \<and> (of_char c :: nat) \<le> 90
     then char_of ((of_char c :: nat) + 32) else c)"

definition to_lowercase :: "string \<Rightarrow> string" where
  "to_lowercase s = map lower_char s"

text \<open>SQLite's \<open>COLLATE NOCASE\<close>: equality up to the case of ASCII letters.\<close>

definition eq_nocase :: "string \<Rightarrow> string \<Rightarrow> bool" where
  "eq_nocase a b \<longleftrightarrow> to_lowercase a = to_lowercase b"

definition is_space :: "char \<Rightarrow> bool" where
  "is_space c \<longleftrightarrow> (9 \<le> (of_char c :: nat) \<and> (of_char c :: nat) \<le> 13) \<or> of_char c = (32 :: nat)"

definition trim_start :: "string \<Rightarrow> string" where
  "trim_start s = dropWhile is_space s"

definition trim_end :: "string \<Rightarrow> string" where
  "trim_end s = rev (dropWhile is_space (rev s))"

definition trim :: "string \<Rightarrow> string" where
  "trim s = trim_end (trim_start s)"

definition starts_with :: "string \<Rightarrow> string \<Rightarrow> bool" where
  "starts_with p s \<longleftrightarrow> take (length p) s = p"

fun contains_str :: "string \<Rightarrow> string \<Rightarrow> bool" where
  "contains_str p [] = (p = [])"
| "contains_str p (c # cs) = (starts_with p (c # cs) \<or> contains_str p cs)"

definition ends_with :: "string \<Rightarrow> string \<Rightarrow> bool" where
  "ends_with p s \<longleftrightarrow> length p \<le> length s \<and> drop (length s - length p) s = p"

text \<open>\<open>str::split\<close> on a character: always at least one piece.\<close>

fun split_char :: "char \<Rightarrow> string \<Rightarrow> string list" where
  "split_char d [] = [[]]"
| "split_char d (c # cs) =
     (if c = d then [] # split_char d cs
      else (case split_char d cs of [] \<Rightarrow> [[c]] | w # ws \<Rightarrow> (c # w) # ws))"

lemma lower_char_idem [simp]: "lower_char (lower_char c) = lower_char c"
proof (cases "65 \<le> (of_char c :: nat) \<and> (of_char c :: nat) \<le> 90")
  case True
  then have "(of_char (lower_char c) :: nat) = of_char c + 32"
    by (simp add: lower_char_def)
  with True show ?thesis
    unfolding lower_char_def [of "lower_char c"] by simp
next
  case False
  then have "lower_char c = c"
    unfolding lower_char_def by (rule if_not_P)
  then show ?thesis by simp
qed

lemma to_lowercase_idem [simp]: "to_lowercase (to_lowercase s) = to_lowercase s"
  by (simp add: to_lowercase_def)

lemma eq_nocase_refl [simp]: "eq_nocase s s"
  by (simp add: eq_nocase_def)

lemma split_char_ne [simp]: "split_char d s \<noteq> []"
  by (induction s) (auto split: list.splits)

lemma split_char_id: "d \<notin> set s \<Longrightarrow> split_char d s = [s]"
  by (induction s) auto

lemma split_char_append: "d \<notin> set a \<Longrightarrow> split_char d (a @ d # s) = a # split_char d s"
  by (induction a) (auto split: list.splits)

lemma hd_split_char: "hd (split_char d s) = takeWhile (\<lambda>c. c \<noteq> d) s"
  by (induction s) (auto split: list.splits)

text \<open>\<open>String::from_utf8\<close>: a continuation byte, and the sequences that are well formed.\<close>

definition utf8_cont :: "u8 \<Rightarrow> bool" where
  "utf8_cont b \<longleftrightarrow> 0x80 \<le> b \<and> b \<le> 0xBF"

fun valid_utf8 :: "bytes \<Rightarrow> bool" where
  "valid_utf8 [] = True"
| "valid_utf8 (a # rest) =
     (if a < 0x80 then valid_utf8 rest
      else (case rest of
          [] \<Rightarrow> False
        | b # rest2 \<Rightarrow>
            if 0xC2 \<le> a \<and> a \<le> 0xDF then utf8_cont b \<and> valid_utf8 rest2
            else (case rest2 of
                [] \<Rightarrow> False
              | c # rest3 \<Rightarrow>
                  if 0xE0 \<le> a \<and> a \<le> 0xEF then
                    utf8_cont b \<and> (a = 0xE0 \<longrightarrow> 0xA0 \<le> b) \<and> (a = 0xED \<longrightarrow> b \<le> 0x9F) \<and> utf8_cont c \<and> valid_utf8 rest3
                  else (case rest3 of
                      [] \<Rightarrow> False
                    | d # rest4 \<Rightarrow>
                        0xF0 \<le> a \<and> a \<le> 0xF4 \<and> utf8_cont b \<and> (a = 0xF0 \<longrightarrow> 0x90 \<le> b) \<and> (a = 0xF4 \<longrightarrow> b \<le> 0x8F)
                          \<and> utf8_cont c \<and> utf8_cont d \<and> valid_utf8 rest4))))"

definition from_utf8 :: "bytes \<Rightarrow> string option" where
  "from_utf8 b = (if valid_utf8 b then Some (map (\<lambda>x. char_of (unat x)) b) else None)"

definition as_bytes :: "string \<Rightarrow> bytes" where
  "as_bytes s = map of_char s"

subsection \<open>Decimal numbers\<close>

definition digit_char :: "nat \<Rightarrow> char" where
  "digit_char d = char_of (48 + d)"

fun show_nat :: "nat \<Rightarrow> string" where
  "show_nat n = (if n < 10 then [digit_char n] else show_nat (n div 10) @ [digit_char (n mod 10)])"

declare show_nat.simps [simp del]

definition to_digit :: "char \<Rightarrow> nat option" where
  "to_digit c = (if 48 \<le> (of_char c :: nat) \<and> (of_char c :: nat) \<le> 57 then Some (of_char c - 48) else None)"

fun parse_digits :: "nat \<Rightarrow> string \<Rightarrow> nat option" where
  "parse_digits acc [] = Some acc"
| "parse_digits acc (c # cs) =
     (case to_digit c of None \<Rightarrow> None | Some d \<Rightarrow> parse_digits (10 * acc + d) cs)"

text \<open>
  \<open>str::parse\<close> for an unsigned integer of \<open>w\<close> bits: an optional plus sign, at least one
  digit, only digits, and a value that fits.
\<close>

definition parse_uint :: "nat \<Rightarrow> string \<Rightarrow> nat option" where
  "parse_uint w s =
     (let ds = (case s of c # cs \<Rightarrow> (if c = CHR ''+'' then cs else s) | [] \<Rightarrow> [])
      in if ds = [] then None
         else (case parse_digits 0 ds of None \<Rightarrow> None | Some n \<Rightarrow> if n < 2 ^ w then Some n else None))"

definition show_bool :: "bool \<Rightarrow> string" where
  "show_bool b = (if b then ''true'' else ''false'')"

lemma of_char_digit_char: "d < 10 \<Longrightarrow> (of_char (digit_char d) :: nat) = 48 + d"
  by (simp add: digit_char_def)

lemma to_digit_digit_char [simp]: "d < 10 \<Longrightarrow> to_digit (digit_char d) = Some d"
  by (simp add: to_digit_def of_char_digit_char)

lemma parse_digits_append:
  "parse_digits acc (xs @ [c]) =
     (case parse_digits acc xs of None \<Rightarrow> None
      | Some n \<Rightarrow> (case to_digit c of None \<Rightarrow> None | Some d \<Rightarrow> Some (10 * n + d)))"
  by (induction xs arbitrary: acc) (auto split: option.splits)

lemma parse_digits_show_nat: "parse_digits 0 (show_nat n) = Some n"
proof (induction n rule: show_nat.induct)
  case (1 n)
  show ?case
  proof (cases "n < 10")
    case True
    then show ?thesis by (simp add: show_nat.simps [of n])
  next
    case False
    then show ?thesis
      using "1.IH" by (simp add: show_nat.simps [of n] parse_digits_append)
  qed
qed

lemma show_nat_ne [simp]: "show_nat n \<noteq> []"
  by (subst show_nat.simps) simp

lemma hd_show_nat: "\<exists>d < 10. hd (show_nat n) = digit_char d"
proof (induction n rule: show_nat.induct)
  case (1 n)
  then show ?case by (cases "n < 10") (auto simp: show_nat.simps [of n])
qed

lemma show_nat_not_plus: "show_nat n = c # cs \<Longrightarrow> c \<noteq> CHR ''+''"
proof
  assume n: "show_nat n = c # cs" and c: "c = CHR ''+''"
  from hd_show_nat [of n] n c obtain d where d: "d < 10" "digit_char d = CHR ''+''"
    by auto
  then have "(of_char (digit_char d) :: nat) = of_char CHR ''+''" by simp
  with d(1) show False by (simp add: of_char_digit_char)
qed

lemma parse_show_nat:
  assumes "n < 2 ^ w"
  shows "parse_uint w (show_nat n) = Some n"
proof (cases "show_nat n")
  case Nil
  then show ?thesis by simp
next
  case (Cons c cs)
  then have "c \<noteq> CHR ''+''" by (rule show_nat_not_plus)
  with assms Cons show ?thesis
    using parse_digits_show_nat [of n] by (simp add: parse_uint_def del: parse_digits.simps)
qed

lemma show_nat_inj: "show_nat m = show_nat n \<longleftrightarrow> m = n"
  by (metis parse_digits_show_nat option.inject)

subsection \<open>System time\<close>

text \<open>
  A \<open>SystemTime\<close> is the number of nanoseconds since the Unix epoch; its seconds are an
  \<open>i64\<close>. Adding a duration of whole seconds panics where the seconds overflow.
\<close>

type_synonym systime = int

definition time_add_secs :: "systime \<Rightarrow> nat \<Rightarrow> systime option" where
  "time_add_secs t n =
     (if t div 1000000000 + int n < 2 ^ 63 then Some (t + int n * 1000000000) else None)"

text \<open>\<open>duration_since(UNIX_EPOCH)\<close> in whole seconds; an error before the epoch.\<close>

definition secs_since_epoch :: "systime \<Rightarrow> nat option" where
  "secs_since_epoch t = (if 0 \<le> t then Some (nat (t div 1000000000)) else None)"

lemma secs_since_epoch_add:
  "time_add_secs t n = Some e \<Longrightarrow> 0 \<le> t \<Longrightarrow> secs_since_epoch e = Some (nat (t div 1000000000) + n)"
  by (auto simp: time_add_secs_def secs_since_epoch_def nat_add_distrib pos_imp_zdiv_nonneg_iff
      split: if_splits)

end
