(* ===== verification/Idp_Interface.thy ===== *)
theory Idp_Interface
  imports Himmelblau_Prelude
begin

text \<open>
  The data that crosses the daemon's interfaces: the tokens, states, requests and results of
  the identity-provider trait (\<open>idprovider/interface.rs\<close>), the messages between the
  daemon and its PAM and NSS clients (\<open>unix_proto.rs\<close>) and the attribute choices of the
  configuration (\<open>unix_config.rs\<close>). Constructors of enums that share a name carry the
  enum's initials. Values of types of third-party crates are opaque.
\<close>

type_synonym opaque = string
type_synonym Uuid = "128 word"
type_synonym SealedData = opaque
type_synonym UnixUserToken = opaque
type_synonym KerberosCredentials = opaque
type_synonym NoncompliantRule = opaque

section \<open>Attribute choices\<close>

datatype HomeAttr = HA_Uuid | HA_Spn | HA_Cn | HA_Name

datatype UidAttr = UA_Name | UA_Spn

section \<open>The identity-provider trait\<close>

datatype IdpError =
    Transport
  | ProviderUnauthorised
  | BadRequest
  | NotFound string string
  | KeyStore
  | TpmError

datatype CacheState =
    Online
  | Offline
  | OfflineNextCheck systime

datatype Id = IdName string | IdGid u32

record GroupToken =
  gt_name :: string
  gt_spn :: string
  gt_uuid :: Uuid
  gt_gidnumber :: u32

record UserToken =
  ut_name :: string
  ut_spn :: string
  ut_uuid :: Uuid
  ut_real_gidnumber :: "u32 option"
  ut_gidnumber :: u32
  ut_displayname :: string
  ut_shell :: "string option"
  ut_groups :: "GroupToken list"
  ut_tenant_id :: "Uuid option"
  ut_valid :: bool

datatype UserTokenState =
    UseCached
  | UserNotFound
  | UserUpdate UserToken

datatype AuthCredHandler =
    CH_MFA opaque "string option" "string option" "string option"
  | CH_ReauthPassword string
  | CH_SetupPin "UnixUserToken option"
  | CH_HelloTOTP string "SealedData option"
  | CH_ChangePassword string
  | CH_PasswordFirst "opaque list" bool
  | CH_None

datatype AuthRequest =
    AR_Password
  | AR_MFACode string
  | AR_HelloTOTP string
  | AR_MFAPoll string u32
  | AR_MFAPollWait
  | AR_SetupPin string
  | AR_Pin
  | AR_Fido string "string list" bool bool
  | AR_ChangePassword string
  | AR_InitDenied string

datatype AuthResult =
    Auth_Success UserToken
  | Auth_Denied string
  | Auth_Next AuthRequest

datatype AuthCacheAction =
    NoCacheAction
  | PasswordHashUpdate string

section \<open>Messages between the daemon and its clients\<close>

record NssUser =
  nu_name :: string
  nu_uid :: u32
  nu_gid :: u32
  nu_gecos :: string
  nu_homedir :: string
  nu_shell :: string

record NssGroup =
  ng_name :: string
  ng_gid :: u32
  ng_members :: "string list"

datatype PamAuthResponse =
    PR_Unknown
  | PR_Success
  | PR_Denied string
  | PR_Password
  | PR_MFACode string
  | PR_HelloTOTP string
  | PR_MFAPoll string u32
  | PR_MFAPollWait
  | PR_SetupPin string
  | PR_Pin
  | PR_Fido string "string list" bool bool
  | PR_ChangePassword string
  | PR_InitDenied string

datatype PamAuthRequest =
    PQ_Password string
  | PQ_MFACode string
  | PQ_HelloTOTP string
  | PQ_MFAPoll u32
  | PQ_SetupPin string
  | PQ_Pin string
  | PQ_Fido string
  | PQ_FidoUnavailable

datatype ClientRequest =
    NssAccounts
  | NssAccountByUid u32
  | NssAccountByName string
  | NssGroups
  | NssGroupByGid u32
  | NssGroupByName string
  | NssInitgroups string
  | PamAuthenticateInit string string bool bool
  | PamAuthenticateStep PamAuthRequest
  | PamAccountAllowed string
  | PamAccountBeginSession string
  | PamChangeAuthToken string string string string
  | PamTryUnseal string string
  | InvalidateCache
  | ClearCache
  | OfflineBreakGlass "u64 option"
  | Status
  | ComplianceCheck

datatype ClientResponse =
    CR_NssAccounts "NssUser list"
  | CR_NssAccount "NssUser option"
  | CR_NssGroups "NssGroup list"
  | CR_NssGroup "NssGroup option"
  | CR_NssInitgroups "u32 list option"
  | CR_PamStatus "bool option"
  | CR_PamAuthenticateStepResponse PamAuthResponse
  | CR_Ok
  | CR_Error
  | CR_NotAuthenticated
  | CR_NonCompliant "NoncompliantRule list"

record HomeDirectoryInfo =
  hd_uid :: u32
  hd_gid :: u32
  hd_name :: string
  hd_aliases :: "string list"

section \<open>Conversions\<close>

fun into_PamAuthResponse :: "AuthRequest \<Rightarrow> PamAuthResponse" where
  "into_PamAuthResponse AR_Password = PR_Password"
| "into_PamAuthResponse (AR_MFACode msg) = PR_MFACode msg"
| "into_PamAuthResponse (AR_HelloTOTP msg) = PR_HelloTOTP msg"
| "into_PamAuthResponse (AR_MFAPoll msg polling_interval) = PR_MFAPoll msg polling_interval"
| "into_PamAuthResponse AR_MFAPollWait = PR_MFAPollWait"
| "into_PamAuthResponse (AR_SetupPin msg) = PR_SetupPin msg"
| "into_PamAuthResponse AR_Pin = PR_Pin"
| "into_PamAuthResponse (AR_Fido challenge allow_list has_key has_cross_device) =
     PR_Fido challenge allow_list has_key has_cross_device"
| "into_PamAuthResponse (AR_ChangePassword msg) = PR_ChangePassword msg"
| "into_PamAuthResponse (AR_InitDenied msg) = PR_InitDenied msg"

definition id_to_string :: "Id \<Rightarrow> string" where
  "id_to_string i = (case i of IdName s \<Rightarrow> s | IdGid g \<Rightarrow> show_nat (unat g))"

definition show_u64_option :: "u64 option \<Rightarrow> string" where
  "show_u64_option x = (case x of None \<Rightarrow> ''None'' | Some n \<Rightarrow> ''Some('' @ show_nat (unat n) @ '')'')"

fun as_safe_string :: "ClientRequest \<Rightarrow> string" where
  "as_safe_string NssAccounts = ''NssAccounts''"
| "as_safe_string (NssAccountByUid i) = ''NssAccountByUid('' @ show_nat (unat i) @ '')''"
| "as_safe_string (NssAccountByName i) = ''NssAccountByName('' @ i @ '')''"
| "as_safe_string NssGroups = ''NssGroups''"
| "as_safe_string (NssGroupByGid i) = ''NssGroupByGid('' @ show_nat (unat i) @ '')''"
| "as_safe_string (NssGroupByName i) = ''NssGroupByName('' @ i @ '')''"
| "as_safe_string (NssInitgroups i) = ''NssInitgroups('' @ i @ '')''"
| "as_safe_string (PamAuthenticateInit i service no_hello_pin force_reauth) =
     ''PamAuthenticateInit('' @ i @ '', '' @ service @ '', no_hello_pin: '' @ show_bool no_hello_pin @
     '', force_reauth: '' @ show_bool force_reauth @ '')''"
| "as_safe_string (PamAuthenticateStep _) = ''PamAuthenticateStep''"
| "as_safe_string (PamAccountAllowed i) = ''PamAccountAllowed('' @ i @ '')''"
| "as_safe_string (PamAccountBeginSession _) = ''PamAccountBeginSession''"
| "as_safe_string (PamChangeAuthToken i _ _ _) = ''PamChangeAuthToken('' @ i @ '', ...)''"
| "as_safe_string (PamTryUnseal i _) = ''PamTryUnseal('' @ i @ '')''"
| "as_safe_string InvalidateCache = ''InvalidateCache''"
| "as_safe_string ClearCache = ''ClearCache''"
| "as_safe_string (OfflineBreakGlass ttl) = ''OfflineBreakGlass('' @ show_u64_option ttl @ '')''"
| "as_safe_string Status = ''Status''"
| "as_safe_string ComplianceCheck = ''ComplianceCheck''"

lemma into_PamAuthResponse_never_final:
  "into_PamAuthResponse r \<noteq> PR_Success" "into_PamAuthResponse r \<noteq> PR_Unknown"
  "into_PamAuthResponse r \<noteq> PR_Denied m"
  by (cases r; simp)+

lemma into_PamAuthResponse_inj: "into_PamAuthResponse q = into_PamAuthResponse r \<longleftrightarrow> q = r"
  by (cases q; cases r; simp)

lemma into_PamAuthResponse_Pin [simp]: "into_PamAuthResponse r = PR_Pin \<longleftrightarrow> r = AR_Pin"
  by (cases r) simp_all

end
