(* ===== verification/Cache_Db.thy ===== *)
theory Cache_Db
  imports Idp_Interface
begin

text \<open>
  The SQLite cache of accounts, groups, memberships and sealed keys (\<open>db.rs\<close>).
  \<^item> \<open>tables\<close> is the database: one list of rows per table, in the order of their row ids.
  \<^item> \<open>dbconn\<close> is the connection behind the mutex of \<open>Db\<close>: the committed tables, the
    tables of the open transaction, and whether a live \<open>DbTxn\<close> holds the guard.
  \<^item> Each SQL statement of the source is a function on tables, run by \<open>sql\<close>. The engine
    may refuse any statement: \<open>sql_fault\<close> says which of the connection's statements
    fail. A refused statement changes nothing and ends neither the transaction nor the
    connection. \<open>foreign_keys\<close> is the engine's default for the enforcement of foreign
    keys, which the sources never set.
  \<^item> \<open>deps\<close> holds what the code takes from third-party crates: JSON encoding, the text
    form of a UUID, and the password hash, which runs inside the HSM.
\<close>

section \<open>Tables\<close>

record account_row =
  ar_uuid :: string
  ar_name :: string
  ar_spn :: string
  ar_gidnumber :: u32
  ar_password :: "bytes option"
  ar_token :: bytes
  ar_expiry :: int

record group_row =
  gr_uuid :: string
  gr_name :: string
  gr_spn :: string
  gr_gidnumber :: u32
  gr_token :: bytes
  gr_expiry :: int

record tables =
  schema :: "string list"
  db_version_t :: "(string \<times> int) list"
  account_t :: "account_row list"
  group_t :: "group_row list"
  memberof_t :: "(string \<times> string) list" \<comment> \<open>\<open>(g_uuid, a_uuid)\<close>\<close>
  hsm_int_t :: "(string \<times> bytes) list"
  hsm_data_t :: "(string \<times> bytes) list"

definition empty_tables :: tables where
  "empty_tables = \<lparr>schema = [], db_version_t = [], account_t = [], group_t = [], memberof_t = [],
     hsm_int_t = [], hsm_data_t = []\<rparr>"

datatype CacheError =
    Cryptography
  | SerdeJson
  | Parse
  | Sqlite
  | TooManyResults
  | TransactionInvalidState
  | Tpm

record 'h deps =
  ser_user :: "UserToken \<Rightarrow> bytes option"
  de_user :: "bytes \<Rightarrow> UserToken option"
  ser_group :: "GroupToken \<Rightarrow> bytes option"
  de_group :: "bytes \<Rightarrow> GroupToken option"
  uuid_str :: "Uuid \<Rightarrow> string"
  ser_key :: "opaque \<Rightarrow> bytes option"
  de_key :: "bytes \<Rightarrow> opaque option"
  pw_new :: "string \<Rightarrow> 'h \<Rightarrow> opaque option \<times> 'h"
  ser_pw :: "opaque \<Rightarrow> bytes option"
  de_pw :: "bytes \<Rightarrow> opaque option"
  pw_verify :: "opaque \<Rightarrow> string \<Rightarrow> 'h \<Rightarrow> bool option \<times> 'h"

section \<open>The connection and its transactions\<close>

record dbconn =
  disk :: tables
  txn :: "tables option"
  guard :: bool
  sql_fault :: "nat \<Rightarrow> bool"
  stmt_no :: nat
  foreign_keys :: bool

definition cur :: "dbconn \<Rightarrow> tables" where
  "cur c = (case txn c of Some t \<Rightarrow> t | None \<Rightarrow> disk c)"

definition put_cur :: "tables \<Rightarrow> dbconn \<Rightarrow> dbconn" where
  "put_cur t c = (case txn c of Some _ \<Rightarrow> c\<lparr>txn := Some t\<rparr> | None \<Rightarrow> c\<lparr>disk := t\<rparr>)"

text \<open>
  One statement on the named tables. The function gets the foreign-key setting and the
  tables; \<open>None\<close> is a violated constraint.
\<close>

definition sql :: "string list \<Rightarrow> (bool \<Rightarrow> tables \<Rightarrow> ('a \<times> tables) option)
    \<Rightarrow> (dbconn, CacheError + 'a) prog" where
  "sql ts f = (\<lambda>c.
     let c' = c\<lparr>stmt_no := Suc (stmt_no c)\<rparr> in
     if sql_fault c (stmt_no c) \<or> \<not> set ts \<subseteq> set (schema (cur c)) then Return (Inl Sqlite, c')
     else (case f (foreign_keys c) (cur c) of
         None \<Rightarrow> Return (Inl Sqlite, c')
       | Some (a, t) \<Rightarrow> Return (Inr a, put_cur t c')))"

definition sql_select :: "string list \<Rightarrow> (tables \<Rightarrow> 'a) \<Rightarrow> (dbconn, CacheError + 'a) prog" where
  "sql_select ts q = sql ts (\<lambda>_ t. Some (q t, t))"

definition sql_exec :: "string list \<Rightarrow> (tables \<Rightarrow> tables) \<Rightarrow> (dbconn, CacheError + unit) prog" where
  "sql_exec ts f = sql ts (\<lambda>_ t. Some ((), f t))"

definition sql_prepare :: "string list \<Rightarrow> (dbconn, CacheError + unit) prog" where
  "sql_prepare ts = sql_exec ts (\<lambda>t. t)"

text \<open>
  \<open>Db::write\<close>: waits for the guard, then \<open>BEGIN TRANSACTION\<close>, which must succeed. The
  engine refuses to begin a transaction within a transaction.
\<close>

definition db_write :: "(dbconn, unit) prog" where
  "db_write = (\<lambda>c.
     if guard c then Blocked
     else if sql_fault c (stmt_no c) \<or> txn c \<noteq> None then Panic
     else Return ((), c\<lparr>guard := True, txn := Some (disk c), stmt_no := Suc (stmt_no c)\<rparr>))"

text \<open>Deferred foreign keys are checked when the transaction commits.\<close>

definition fk_dangling :: "tables \<Rightarrow> bool" where
  "fk_dangling t \<longleftrightarrow> (\<exists>m \<in> set (memberof_t t). fst m \<notin> gr_uuid ` set (group_t t))"

text \<open>
  \<open>commit\<close> consumes the \<open>DbTxn\<close>: it marks it committed before it runs the statement,
  so the guard goes back without a rollback even where the statement fails.
\<close>

definition commit :: "(dbconn, CacheError + unit) prog" where
  "commit = (\<lambda>c.
     let c' = c\<lparr>guard := False, stmt_no := Suc (stmt_no c)\<rparr> in
     (case txn c of
        None \<Rightarrow> Return (Inl Sqlite, c')
      | Some t \<Rightarrow>
          if sql_fault c (stmt_no c) \<or> (foreign_keys c \<and> fk_dangling t) then Return (Inl Sqlite, c')
          else Return (Inr (), c'\<lparr>disk := t, txn := None\<rparr>)))"

text \<open>Dropping a \<open>DbTxn\<close> that was not committed rolls it back, or panics.\<close>

definition drop_txn :: "(dbconn, unit) prog" where
  "drop_txn = (\<lambda>c.
     if sql_fault c (stmt_no c) \<or> txn c = None then Panic
     else Return ((), c\<lparr>guard := False, txn := None, stmt_no := Suc (stmt_no c)\<rparr>))"

section \<open>Schema and versions\<close>

definition DBV_MAIN :: string where
  "DBV_MAIN = ''main''"

definition get_db_version :: "string \<Rightarrow> (dbconn, int) prog" where
  "get_db_version key =
     pbind (sql_select [''db_version_t''] (\<lambda>t. map_of (db_version_t t) key))
       (\<lambda>r. pret (case r of Inr (Some v) \<Rightarrow> v | _ \<Rightarrow> 0))"

text \<open>\<open>INSERT OR REPLACE\<close> into a table of two columns keyed by the first.\<close>

definition kv_replace :: "string \<Rightarrow> 'v \<Rightarrow> (string \<times> 'v) list \<Rightarrow> (string \<times> 'v) list" where
  "kv_replace k v xs = filter (\<lambda>x. fst x \<noteq> k) xs @ [(k, v)]"

definition kv_delete :: "string \<Rightarrow> (string \<times> 'v) list \<Rightarrow> (string \<times> 'v) list" where
  "kv_delete k xs = filter (\<lambda>x. fst x \<noteq> k) xs"

definition set_db_version :: "string \<Rightarrow> int \<Rightarrow> (dbconn, CacheError + unit) prog" where
  "set_db_version key v =
     sql_exec [''db_version_t''] (\<lambda>t. t\<lparr>db_version_t := kv_replace key v (db_version_t t)\<rparr>)"

definition create_table :: "string \<Rightarrow> (dbconn, CacheError + unit) prog" where
  "create_table n = sql_exec []
     (\<lambda>t. if n \<in> set (schema t) then t else t\<lparr>schema := schema t @ [n]\<rparr>)"

section \<open>Key store\<close>

definition get_tagged_hsm_key :: "(bytes \<Rightarrow> 'k option) \<Rightarrow> string
    \<Rightarrow> (dbconn, CacheError + 'k option) prog" where
  "get_tagged_hsm_key de tag =
     pbindE (sql_prepare [''hsm_data_t'']) (\<lambda>_.
     pbindE (sql_select [''hsm_data_t''] (\<lambda>t. map_of (hsm_data_t t) tag)) (\<lambda>data.
     pret (Inr (case data of Some d \<Rightarrow> de d | None \<Rightarrow> None))))"

definition insert_tagged_hsm_key :: "('k \<Rightarrow> bytes option) \<Rightarrow> string \<Rightarrow> 'k
    \<Rightarrow> (dbconn, CacheError + unit) prog" where
  "insert_tagged_hsm_key ser tag key =
     (case ser key of
        None \<Rightarrow> pret (Inl SerdeJson)
      | Some data \<Rightarrow>
          pbindE (sql_prepare [''hsm_data_t'']) (\<lambda>_.
          sql_exec [''hsm_data_t''] (\<lambda>t. t\<lparr>hsm_data_t := kv_replace tag data (hsm_data_t t)\<rparr>)))"

definition delete_tagged_hsm_key :: "string \<Rightarrow> (dbconn, CacheError + unit) prog" where
  "delete_tagged_hsm_key tag =
     sql_exec [''hsm_data_t''] (\<lambda>t. t\<lparr>hsm_data_t := kv_delete tag (hsm_data_t t)\<rparr>)"

definition get_hsm_int_key :: "'h deps \<Rightarrow> string \<Rightarrow> (dbconn, CacheError + opaque option) prog" where
  "get_hsm_int_key d k =
     pbindE (sql_prepare [''hsm_int_t'']) (\<lambda>_.
     pbindE (sql_select [''hsm_int_t''] (\<lambda>t. map_of (hsm_int_t t) k)) (\<lambda>data.
     pret (Inr (case data of Some b \<Rightarrow> de_key d b | None \<Rightarrow> None))))"

definition insert_hsm_int_key :: "'h deps \<Rightarrow> string \<Rightarrow> opaque \<Rightarrow> (dbconn, CacheError + unit) prog" where
  "insert_hsm_int_key d k key =
     (case ser_key d key of
        None \<Rightarrow> pret (Inl SerdeJson)
      | Some data \<Rightarrow>
          pbindE (sql_prepare [''hsm_int_t'']) (\<lambda>_.
          sql_exec [''hsm_int_t''] (\<lambda>t. t\<lparr>hsm_int_t := kv_replace k data (hsm_int_t t)\<rparr>)))"

definition get_hsm_machine_key :: "'h deps \<Rightarrow> (dbconn, CacheError + opaque option) prog" where
  "get_hsm_machine_key d = get_hsm_int_key d ''mk''"

definition insert_hsm_machine_key :: "'h deps \<Rightarrow> opaque \<Rightarrow> (dbconn, CacheError + unit) prog" where
  "insert_hsm_machine_key d machine_key = insert_hsm_int_key d ''mk'' machine_key"

definition get_hsm_hmac_key :: "'h deps \<Rightarrow> (dbconn, CacheError + opaque option) prog" where
  "get_hsm_hmac_key d = get_hsm_int_key d ''hmac''"

definition insert_hsm_hmac_key :: "'h deps \<Rightarrow> opaque \<Rightarrow> (dbconn, CacheError + unit) prog" where
  "insert_hsm_hmac_key d hmac_key = insert_hsm_int_key d ''hmac'' hmac_key"

section \<open>Whole-cache operations\<close>

text \<open>\<open>DELETE FROM account_t WHERE ...\<close>, with the cascade to the memberships.\<close>

definition delete_accounts :: "(account_row \<Rightarrow> bool) \<Rightarrow> bool \<Rightarrow> tables \<Rightarrow> tables" where
  "delete_accounts P fk t = t\<lparr>
     account_t := filter (\<lambda>r. \<not> P r) (account_t t),
     memberof_t := (if fk
       then filter (\<lambda>m. snd m \<notin> set (map ar_uuid (filter P (account_t t)))) (memberof_t t)
       else memberof_t t)\<rparr>"

definition sql_delete_accounts :: "(account_row \<Rightarrow> bool) \<Rightarrow> (dbconn, CacheError + unit) prog" where
  "sql_delete_accounts P = sql [''account_t''] (\<lambda>fk t. Some ((), delete_accounts P fk t))"

definition invalidate :: "(dbconn, CacheError + unit) prog" where
  "invalidate =
     pbindE (sql_exec [''group_t''] (\<lambda>t. t\<lparr>group_t := map (\<lambda>r. r\<lparr>gr_expiry := 0\<rparr>) (group_t t)\<rparr>)) (\<lambda>_.
     pbindE (sql_exec [''account_t''] (\<lambda>t. t\<lparr>account_t := map (\<lambda>r. r\<lparr>ar_expiry := 0\<rparr>) (account_t t)\<rparr>)) (\<lambda>_.
     pret (Inr ())))"

definition clear :: "(dbconn, CacheError + unit) prog" where
  "clear =
     pbindE (sql_exec [''memberof_t''] (\<lambda>t. t\<lparr>memberof_t := []\<rparr>)) (\<lambda>_.
     pbindE (sql_exec [''group_t''] (\<lambda>t. t\<lparr>group_t := []\<rparr>)) (\<lambda>_.
     pbindE (sql_delete_accounts (\<lambda>_. True)) (\<lambda>_.
     pret (Inr ()))))"

text \<open>
  SQLite's \<open>LIKE\<close>: a percent sign stands for any string, an underscore for any one
  character, and ASCII letters match in either case.
\<close>

function (sequential) like_match :: "string \<Rightarrow> string \<Rightarrow> bool" where
  "like_match [] s = (s = [])"
| "like_match (p # ps) [] = (p = CHR ''%'' \<and> like_match ps [])"
| "like_match (p # ps) (c # cs) =
     (if p = CHR ''%'' then like_match ps (c # cs) \<or> like_match (p # ps) cs
      else (p = CHR ''_'' \<or> lower_char p = lower_char c) \<and> like_match ps cs)"
  by pat_completeness auto
termination
  by (relation "measure (\<lambda>(ps, s). length ps + length s)") auto

definition is_hello_key :: "string \<Rightarrow> bool" where
  "is_hello_key k \<longleftrightarrow> like_match ''%/hello'' k \<or> like_match ''%/hello_decoupled'' k
     \<or> like_match ''%/hello_prt'' k"

definition clear_hello_keys :: "(dbconn, CacheError + unit) prog" where
  "clear_hello_keys =
     pbindE (sql_exec [''hsm_data_t'']
       (\<lambda>t. t\<lparr>hsm_data_t := filter (\<lambda>x. \<not> is_hello_key (fst x)) (hsm_data_t t)\<rparr>)) (\<lambda>_.
     pret (Inr ()))"

definition clear_hsm :: "(dbconn, CacheError + unit) prog" where
  "clear_hsm =
     pbindE clear (\<lambda>_.
     pbindE (sql_exec [''hsm_int_t''] (\<lambda>t. t\<lparr>hsm_int_t := []\<rparr>)) (\<lambda>_.
     pbindE (sql_exec [''hsm_data_t''] (\<lambda>t. t\<lparr>hsm_data_t := []\<rparr>)) (\<lambda>_.
     pret (Inr ()))))"

definition migrate :: "(dbconn, CacheError + unit) prog" where
  "migrate =
     pbindE (sql_prepare []) (\<lambda>_.
     pbindE (create_table ''db_version_t'') (\<lambda>_.
     pbind (get_db_version DBV_MAIN) (\<lambda>db_version.
     pbindE
       (if db_version < 1 then
          pbindE (create_table ''account_t'') (\<lambda>_.
          pbindE (create_table ''group_t'') (\<lambda>_.
          pbindE (create_table ''memberof_t'') (\<lambda>_.
          pbindE (create_table ''hsm_int_t'') (\<lambda>_.
          pbindE (create_table ''hsm_data_t'') (\<lambda>_.
          clear_hsm)))))
        else pret (Inr ())) (\<lambda>_.
     pbindE (set_db_version DBV_MAIN 1) (\<lambda>_.
     pret (Inr ()))))))"

section \<open>Accounts\<close>

definition get_account_data_name :: "string \<Rightarrow> (dbconn, CacheError + (bytes \<times> int) list) prog" where
  "get_account_data_name account_id =
     pbindE (sql_prepare [''account_t'']) (\<lambda>_.
     sql_select [''account_t''] (\<lambda>t. map (\<lambda>r. (ar_token r, ar_expiry r))
       (filter (\<lambda>r. ar_uuid r = account_id \<or> eq_nocase (ar_name r) account_id
          \<or> eq_nocase (ar_spn r) account_id) (account_t t))))"

definition get_account_data_gid :: "u32 \<Rightarrow> (dbconn, CacheError + (bytes \<times> int) list) prog" where
  "get_account_data_gid gid =
     pbindE (sql_prepare [''account_t'']) (\<lambda>_.
     sql_select [''account_t''] (\<lambda>t. map (\<lambda>r. (ar_token r, ar_expiry r))
       (filter (\<lambda>r. ar_gidnumber r = gid) (account_t t))))"

definition u64_of_i64 :: "int \<Rightarrow> nat option" where
  "u64_of_i64 i = (if 0 \<le> i then Some (nat i) else None)"

definition i64_of_u64 :: "nat \<Rightarrow> int option" where
  "i64_of_u64 n = (if n < 2 ^ 63 then Some (int n) else None)"

text \<open>
  What \<open>get_account\<close> and \<open>get_group\<close> do with the rows: at most one may match; a token
  that does not parse counts as absent.
\<close>

definition one_token :: "(bytes \<Rightarrow> 'k option) \<Rightarrow> (bytes \<times> int) list \<Rightarrow> CacheError + ('k \<times> nat) option" where
  "one_token de data =
     (if length data \<ge> 2 then Inl TooManyResults
      else (case data of
          [] \<Rightarrow> Inr None
        | (token, expiry) # _ \<Rightarrow>
            (case de token of
               None \<Rightarrow> Inr None
             | Some t \<Rightarrow> (case u64_of_i64 expiry of None \<Rightarrow> Inl Parse | Some e \<Rightarrow> Inr (Some (t, e))))))"

definition get_account :: "'h deps \<Rightarrow> Id \<Rightarrow> (dbconn, CacheError + (UserToken \<times> nat) option) prog" where
  "get_account d account_id =
     pbindE (case account_id of
          IdName n \<Rightarrow> get_account_data_name n
        | IdGid g \<Rightarrow> get_account_data_gid g) (\<lambda>data.
     pret (one_token (de_user d) data))"

definition get_accounts :: "'h deps \<Rightarrow> (dbconn, CacheError + UserToken list) prog" where
  "get_accounts d =
     pbindE (sql_prepare [''account_t'']) (\<lambda>_.
     pbindE (sql_select [''account_t''] (\<lambda>t. map ar_token (account_t t))) (\<lambda>data.
     pret (Inr (List.map_filter (de_user d) data))))"

definition account_conflicts :: "string \<Rightarrow> UserToken \<Rightarrow> account_row \<Rightarrow> bool" where
  "account_conflicts u account r \<longleftrightarrow> ar_uuid r \<noteq> u \<and>
     (ar_name r = ut_name account \<or> ar_spn r = ut_spn account \<or> ar_gidnumber r = ut_gidnumber account)"

definition account_unique :: "account_row list \<Rightarrow> bool" where
  "account_unique rs \<longleftrightarrow> distinct (map ar_uuid rs) \<and> distinct (map ar_name rs)
     \<and> distinct (map ar_spn rs) \<and> distinct (map ar_gidnumber rs)"

definition store_accounts :: "'a \<Rightarrow> account_row list \<Rightarrow> tables \<Rightarrow> ('a \<times> tables) option" where
  "store_accounts x rs t = (if account_unique rs then Some (x, t\<lparr>account_t := rs\<rparr>) else None)"

definition account_set :: "UserToken \<Rightarrow> bytes \<Rightarrow> int \<Rightarrow> account_row \<Rightarrow> account_row" where
  "account_set account data expire r = r\<lparr>ar_name := ut_name account, ar_spn := ut_spn account,
     ar_gidnumber := ut_gidnumber account, ar_token := data, ar_expiry := expire\<rparr>"

definition update_account_rows :: "string \<Rightarrow> UserToken \<Rightarrow> bytes \<Rightarrow> int
    \<Rightarrow> bool \<Rightarrow> tables \<Rightarrow> (nat \<times> tables) option" where
  "update_account_rows u account data expire fk t =
     store_accounts (length (filter (\<lambda>r. ar_uuid r = u) (account_t t)))
       (map (\<lambda>r. if ar_uuid r = u then account_set account data expire r else r) (account_t t)) t"

text \<open>
  \<open>INSERT ... ON CONFLICT(uuid) DO UPDATE\<close>; the update part assigns the excluded row's
  name to the SPN column, as the statement says.
\<close>

definition insert_account_row :: "string \<Rightarrow> UserToken \<Rightarrow> bytes \<Rightarrow> int
    \<Rightarrow> bool \<Rightarrow> tables \<Rightarrow> (unit \<times> tables) option" where
  "insert_account_row u account data expire fk t =
     (if u \<in> set (map ar_uuid (account_t t)) then
        store_accounts () (map (\<lambda>r. if ar_uuid r = u
          then (account_set account data expire r)\<lparr>ar_spn := ut_name account\<rparr> else r) (account_t t)) t
      else
        store_accounts () (account_t t @ [\<lparr>ar_uuid = u, ar_name = ut_name account,
          ar_spn = ut_spn account, ar_gidnumber = ut_gidnumber account, ar_password = None,
          ar_token = data, ar_expiry = expire\<rparr>]) t)"

definition insert_membership :: "string \<Rightarrow> string \<Rightarrow> bool \<Rightarrow> tables \<Rightarrow> (unit \<times> tables) option" where
  "insert_membership a_uuid g_uuid fk t =
     (if fk \<and> a_uuid \<notin> set (map ar_uuid (account_t t)) then None
      else Some ((), t\<lparr>memberof_t := memberof_t t @ [(g_uuid, a_uuid)]\<rparr>))"

definition update_account :: "'h deps \<Rightarrow> UserToken \<Rightarrow> nat \<Rightarrow> (dbconn, CacheError + unit) prog" where
  "update_account d account expire =
     (case ser_user d account of
        None \<Rightarrow> pret (Inl SerdeJson)
      | Some data \<Rightarrow>
     (case i64_of_u64 expire of
        None \<Rightarrow> pret (Inl Parse)
      | Some ex \<Rightarrow>
     (let account_uuid = uuid_str d (ut_uuid account) in
     pbindE (sql_delete_accounts (account_conflicts account_uuid account)) (\<lambda>_.
     pbindE (sql [''account_t''] (update_account_rows account_uuid account data ex)) (\<lambda>updated.
     pbindE
       (if updated = 0 then
          pbindE (sql_prepare [''account_t'']) (\<lambda>_.
          sql [''account_t''] (insert_account_row account_uuid account data ex))
        else pret (Inr ())) (\<lambda>_.
     pbindE (sql_prepare [''memberof_t'']) (\<lambda>_.
     pbindE (sql_exec [''memberof_t'']
       (\<lambda>t. t\<lparr>memberof_t := filter (\<lambda>m. snd m \<noteq> account_uuid) (memberof_t t)\<rparr>)) (\<lambda>_.
     pbindE (sql_prepare [''memberof_t'']) (\<lambda>_.
     ptry_for_each
       (\<lambda>g. sql [''memberof_t''] (insert_membership account_uuid (uuid_str d (gt_uuid g))))
       (ut_groups account))))))))))"

definition delete_account :: "'h deps \<Rightarrow> Uuid \<Rightarrow> (dbconn, CacheError + unit) prog" where
  "delete_account d a_uuid =
     (let account_uuid = uuid_str d a_uuid in
     pbindE (sql_exec [''memberof_t'']
       (\<lambda>t. t\<lparr>memberof_t := filter (\<lambda>m. snd m \<noteq> account_uuid) (memberof_t t)\<rparr>)) (\<lambda>_.
     sql_delete_accounts (\<lambda>r. ar_uuid r = account_uuid)))"

text \<open>Cached passwords: the hash is computed and verified inside the HSM.\<close>

definition on_db :: "(dbconn, 'a) prog \<Rightarrow> (dbconn \<times> 'h, 'a) prog" where
  "on_db m = pzoom fst (\<lambda>c s. (c, snd s)) m"

definition on_hsm :: "('h \<Rightarrow> 'a \<times> 'h) \<Rightarrow> (dbconn \<times> 'h, 'a) prog" where
  "on_hsm f = (\<lambda>s. Return (fst (f (snd s)), (fst s, snd (f (snd s)))))"

definition update_account_password :: "'h deps \<Rightarrow> Uuid \<Rightarrow> string
    \<Rightarrow> (dbconn \<times> 'h, CacheError + unit) prog" where
  "update_account_password d a_uuid cred =
     pbind (on_hsm (pw_new d cred)) (\<lambda>pw.
     (case pw of
        None \<Rightarrow> pret (Inl Cryptography)
      | Some p \<Rightarrow>
     (case ser_pw d p of
        None \<Rightarrow> pret (Inl SerdeJson)
      | Some data \<Rightarrow>
          on_db (sql_exec [''account_t''] (\<lambda>t. t\<lparr>account_t :=
            map (\<lambda>r. if ar_uuid r = uuid_str d a_uuid then r\<lparr>ar_password := Some data\<rparr> else r)
              (account_t t)\<rparr>)))))"

definition check_account_password :: "'h deps \<Rightarrow> Uuid \<Rightarrow> string
    \<Rightarrow> (dbconn \<times> 'h, CacheError + bool) prog" where
  "check_account_password d a_uuid cred =
     pbindE (on_db (sql_prepare [''account_t''])) (\<lambda>_.
     pbindE (on_db (sql_select [''account_t''] (\<lambda>t. List.map_filter ar_password
       (filter (\<lambda>r. ar_uuid r = uuid_str d a_uuid) (account_t t))))) (\<lambda>data.
     (case data of
        [] \<Rightarrow> pret (Inr False)
      | raw # rest \<Rightarrow>
          if length data \<ge> 2 then pret (Inl TooManyResults)
          else (case de_pw d raw of
              None \<Rightarrow> pret (Inr False)
            | Some pw \<Rightarrow>
                pbind (on_hsm (pw_verify d pw cred)) (\<lambda>r.
                pret (case r of None \<Rightarrow> Inl Cryptography | Some b \<Rightarrow> Inr b))))))"

section \<open>Groups\<close>

definition get_group_data_name :: "string \<Rightarrow> (dbconn, CacheError + (bytes \<times> int) list) prog" where
  "get_group_data_name grp_id =
     pbindE (sql_prepare [''group_t'']) (\<lambda>_.
     sql_select [''group_t''] (\<lambda>t. map (\<lambda>r. (gr_token r, gr_expiry r))
       (filter (\<lambda>r. gr_uuid r = grp_id \<or> gr_name r = grp_id \<or> gr_spn r = grp_id) (group_t t))))"

definition get_group_data_gid :: "u32 \<Rightarrow> (dbconn, CacheError + (bytes \<times> int) list) prog" where
  "get_group_data_gid gid =
     pbindE (sql_prepare [''group_t'']) (\<lambda>_.
     sql_select [''group_t''] (\<lambda>t. map (\<lambda>r. (gr_token r, gr_expiry r))
       (filter (\<lambda>r. gr_gidnumber r = gid) (group_t t))))"

definition get_group :: "'h deps \<Rightarrow> Id \<Rightarrow> (dbconn, CacheError + (GroupToken \<times> nat) option) prog" where
  "get_group d grp_id =
     pbindE (case grp_id of
          IdName n \<Rightarrow> get_group_data_name n
        | IdGid g \<Rightarrow> get_group_data_gid g) (\<lambda>data.
     pret (one_token (de_group d) data))"

text \<open>The join of accounts with memberships, one result row per pair.\<close>

definition member_tokens :: "string \<Rightarrow> tables \<Rightarrow> bytes list" where
  "member_tokens g_uuid t = concat (map (\<lambda>r. map (\<lambda>m. ar_token r)
     (filter (\<lambda>m. ar_uuid r = snd m \<and> fst m = g_uuid) (memberof_t t))) (account_t t))"

fun decode_all :: "(bytes \<Rightarrow> 'k option) \<Rightarrow> bytes list \<Rightarrow> CacheError + 'k list" where
  "decode_all de [] = Inr []"
| "decode_all de (b # bs) =
     (case de b of
        None \<Rightarrow> Inl SerdeJson
      | Some x \<Rightarrow> (case decode_all de bs of Inl e \<Rightarrow> Inl e | Inr xs \<Rightarrow> Inr (x # xs)))"

definition get_group_members :: "'h deps \<Rightarrow> Uuid \<Rightarrow> (dbconn, CacheError + UserToken list) prog" where
  "get_group_members d g_uuid =
     pbindE (sql_prepare [''account_t'', ''memberof_t'']) (\<lambda>_.
     pbindE (sql_select [''account_t'', ''memberof_t''] (member_tokens (uuid_str d g_uuid))) (\<lambda>data.
     pret (decode_all (de_user d) data)))"

definition get_groups :: "'h deps \<Rightarrow> (dbconn, CacheError + GroupToken list) prog" where
  "get_groups d =
     pbindE (sql_prepare [''group_t'']) (\<lambda>_.
     pbindE (sql_select [''group_t''] (\<lambda>t. map gr_token (group_t t))) (\<lambda>data.
     pret (Inr (List.map_filter (de_group d) data))))"

text \<open>\<open>INSERT OR REPLACE\<close> deletes every row that conflicts on a unique column.\<close>

definition replace_group_row :: "group_row \<Rightarrow> group_row list \<Rightarrow> group_row list" where
  "replace_group_row g rs =
     filter (\<lambda>r. \<not> (gr_uuid r = gr_uuid g \<or> gr_name r = gr_name g \<or> gr_spn r = gr_spn g
       \<or> gr_gidnumber r = gr_gidnumber g)) rs @ [g]"

definition update_group :: "'h deps \<Rightarrow> GroupToken \<Rightarrow> nat \<Rightarrow> (dbconn, CacheError + unit) prog" where
  "update_group d grp expire =
     (case ser_group d grp of
        None \<Rightarrow> pret (Inl SerdeJson)
      | Some data \<Rightarrow>
     (case i64_of_u64 expire of
        None \<Rightarrow> pret (Inl Parse)
      | Some ex \<Rightarrow>
     pbindE (sql_prepare [''group_t'']) (\<lambda>_.
     sql_exec [''group_t''] (\<lambda>t. t\<lparr>group_t := replace_group_row
       \<lparr>gr_uuid = uuid_str d (gt_uuid grp), gr_name = gt_name grp, gr_spn = gt_spn grp,
        gr_gidnumber = gt_gidnumber grp, gr_token = data, gr_expiry = ex\<rparr> (group_t t)\<rparr>))))"

definition delete_group :: "'h deps \<Rightarrow> Uuid \<Rightarrow> (dbconn, CacheError + unit) prog" where
  "delete_group d g_uuid =
     (let group_uuid = uuid_str d g_uuid in
     pbindE (sql_exec [''memberof_t'']
       (\<lambda>t. t\<lparr>memberof_t := filter (\<lambda>m. fst m \<noteq> group_uuid) (memberof_t t)\<rparr>)) (\<lambda>_.
     sql_exec [''group_t'']
       (\<lambda>t. t\<lparr>group_t := filter (\<lambda>r. gr_uuid r \<noteq> group_uuid) (group_t t)\<rparr>)))"

section \<open>Invariant: the unique columns\<close>

definition group_unique :: "group_row list \<Rightarrow> bool" where
  "group_unique rs \<longleftrightarrow> distinct (map gr_uuid rs) \<and> distinct (map gr_name rs)
     \<and> distinct (map gr_spn rs) \<and> distinct (map gr_gidnumber rs)"

definition tables_wf :: "tables \<Rightarrow> bool" where
  "tables_wf t \<longleftrightarrow> account_unique (account_t t) \<and> group_unique (group_t t)
     \<and> distinct (map fst (db_version_t t))
     \<and> distinct (map fst (hsm_int_t t)) \<and> distinct (map fst (hsm_data_t t))"

definition conn_wf :: "dbconn \<Rightarrow> bool" where
  "conn_wf c \<longleftrightarrow> tables_wf (disk c) \<and> (case txn c of None \<Rightarrow> True | Some t \<Rightarrow> tables_wf t)"

text \<open>
  What every statement inside a transaction respects: the invariant, the committed
  tables, the guard and the engine's settings.
\<close>

definition in_txn :: "dbconn \<Rightarrow> dbconn \<Rightarrow> bool" where
  "in_txn c c' \<longleftrightarrow> (conn_wf c \<longrightarrow> conn_wf c') \<and> guard c' = guard c
     \<and> sql_fault c' = sql_fault c \<and> foreign_keys c' = foreign_keys c
     \<and> (txn c \<noteq> None \<longrightarrow> txn c' \<noteq> None \<and> disk c' = disk c)"

interpretation stmt: kept in_txn
  by unfold_locales (auto simp: in_txn_def)

lemma cur_wf: "conn_wf c \<Longrightarrow> tables_wf (cur c)"
  by (auto simp: conn_wf_def cur_def split: option.splits)

lemma stmt_no_simps [simp]:
  "cur (c\<lparr>stmt_no := n\<rparr>) = cur c" "conn_wf (c\<lparr>stmt_no := n\<rparr>) = conn_wf c"
  by (auto simp: cur_def conn_wf_def split: option.splits)

lemma put_cur_simps [simp]:
  "guard (put_cur t c) = guard c" "sql_fault (put_cur t c) = sql_fault c"
  "foreign_keys (put_cur t c) = foreign_keys c" "stmt_no (put_cur t c) = stmt_no c"
  "cur (put_cur t c) = t" "txn c \<noteq> None \<Longrightarrow> disk (put_cur t c) = disk c"
  "txn (put_cur t c) = None \<longleftrightarrow> txn c = None"
  by (auto simp: put_cur_def cur_def split: option.splits)

lemma put_cur_wf: "conn_wf c \<Longrightarrow> tables_wf t \<Longrightarrow> conn_wf (put_cur t c)"
  by (auto simp: conn_wf_def put_cur_def split: option.splits)

lemma sql_keeps:
  assumes "\<And>fk t x t'. tables_wf t \<Longrightarrow> f fk t = Some (x, t') \<Longrightarrow> tables_wf t'"
  shows "keeps in_txn (sql ts f)"
proof (rule keepsI)
  fix c a c'
  assume run: "sql ts f c = Return (a, c')"
  let ?n = "c\<lparr>stmt_no := Suc (stmt_no c)\<rparr>"
  show "in_txn c c'"
  proof (cases "c' = ?n")
    case True
    then show ?thesis by (auto simp: in_txn_def)
  next
    case False
    with run obtain x t where f: "f (foreign_keys c) (cur c) = Some (x, t)" and c': "c' = put_cur t ?n"
      by (auto simp: sql_def Let_def split: if_splits option.splits)
    have "conn_wf c \<Longrightarrow> conn_wf c'"
      unfolding c' using assms [OF cur_wf f] by (auto intro: put_cur_wf)
    then show ?thesis by (auto simp: in_txn_def c')
  qed
qed (auto simp: sql_def Let_def split: option.splits)

lemma sql_exec_keeps: "(\<And>t. tables_wf t \<Longrightarrow> tables_wf (f t)) \<Longrightarrow> keeps in_txn (sql_exec ts f)"
  unfolding sql_exec_def by (rule sql_keeps) auto

lemma sql_select_keeps: "keeps in_txn (sql_select ts q)"
  unfolding sql_select_def by (rule sql_keeps) auto

lemma sql_prepare_keeps: "keeps in_txn (sql_prepare ts)"
  unfolding sql_prepare_def by (rule sql_exec_keeps)

lemmas stmt_flow = stmt.flow sql_select_keeps sql_prepare_keeps

lemma distinct_map_filter': "distinct (map f xs) \<Longrightarrow> distinct (map f (filter P xs))"
  by (simp add: distinct_map_filter)

lemma kv_replace_distinct: "distinct (map fst xs) \<Longrightarrow> distinct (map fst (kv_replace k v xs))"
  by (auto simp: kv_replace_def distinct_map_filter)

lemma kv_delete_distinct: "distinct (map fst xs) \<Longrightarrow> distinct (map fst (kv_delete k xs))"
  by (simp add: kv_delete_def distinct_map_filter)

lemma account_unique_filter: "account_unique rs \<Longrightarrow> account_unique (filter P rs)"
  by (simp add: account_unique_def distinct_map_filter)

lemma group_unique_filter: "group_unique rs \<Longrightarrow> group_unique (filter P rs)"
  by (simp add: group_unique_def distinct_map_filter)

lemma replace_group_row_unique: "group_unique rs \<Longrightarrow> group_unique (replace_group_row g rs)"
  by (auto simp: group_unique_def replace_group_row_def distinct_map_filter)

lemma account_unique_map:
  assumes "\<And>r. ar_uuid (f r) = ar_uuid r" "\<And>r. ar_name (f r) = ar_name r"
    "\<And>r. ar_spn (f r) = ar_spn r" "\<And>r. ar_gidnumber (f r) = ar_gidnumber r"
  shows "account_unique (map f rs) = account_unique rs"
  by (simp add: account_unique_def o_def assms)

lemma group_unique_expire [simp]:
  "group_unique (map (\<lambda>r. r\<lparr>gr_expiry := e\<rparr>) rs) = group_unique rs"
  by (simp add: group_unique_def o_def)

lemma account_unique_expire [simp]:
  "account_unique (map (\<lambda>r. r\<lparr>ar_expiry := e\<rparr>) rs) = account_unique rs"
  by (rule account_unique_map) simp_all

lemma unique_Nil [simp]: "account_unique []" "group_unique []"
  by (simp_all add: account_unique_def group_unique_def)

lemmas wf_simps = tables_wf_def kv_replace_distinct kv_delete_distinct account_unique_filter
  group_unique_filter replace_group_row_unique distinct_map_filter'

lemma sql_delete_accounts_keeps: "keeps in_txn (sql_delete_accounts P)"
  unfolding sql_delete_accounts_def
  by (rule sql_keeps) (auto simp: delete_accounts_def wf_simps)

lemma store_accounts_wf:
  "store_accounts x rs t = Some (y, t') \<Longrightarrow> tables_wf t \<Longrightarrow> tables_wf t'"
  by (auto simp: store_accounts_def tables_wf_def split: if_splits)

lemma invalidate_keeps: "keeps in_txn invalidate"
  unfolding invalidate_def by (intro stmt_flow sql_exec_keeps) (auto simp: wf_simps)

lemma clear_keeps: "keeps in_txn clear"
  unfolding clear_def by (intro stmt_flow sql_exec_keeps sql_delete_accounts_keeps) (auto simp: wf_simps)

lemma clear_hello_keys_keeps: "keeps in_txn clear_hello_keys"
  unfolding clear_hello_keys_def by (intro stmt_flow sql_exec_keeps) (auto simp: wf_simps)

lemma clear_hsm_keeps: "keeps in_txn clear_hsm"
  unfolding clear_hsm_def by (intro stmt_flow sql_exec_keeps clear_keeps) (auto simp: wf_simps)

lemma create_table_keeps: "keeps in_txn (create_table n)"
  unfolding create_table_def by (intro sql_exec_keeps) (auto simp: wf_simps)

lemma get_db_version_keeps: "keeps in_txn (get_db_version k)"
  unfolding get_db_version_def by (intro stmt_flow)

lemma set_db_version_keeps: "keeps in_txn (set_db_version k v)"
  unfolding set_db_version_def by (intro sql_exec_keeps) (auto simp: wf_simps)

lemma migrate_keeps: "keeps in_txn migrate"
  unfolding migrate_def
  by (intro stmt_flow create_table_keeps get_db_version_keeps set_db_version_keeps clear_hsm_keeps)

lemma get_tagged_hsm_key_keeps: "keeps in_txn (get_tagged_hsm_key de tag)"
  unfolding get_tagged_hsm_key_def by (intro stmt_flow)

lemma insert_tagged_hsm_key_keeps: "keeps in_txn (insert_tagged_hsm_key ser tag key)"
  unfolding insert_tagged_hsm_key_def by (intro stmt_flow sql_exec_keeps) (auto simp: wf_simps)

lemma delete_tagged_hsm_key_keeps: "keeps in_txn (delete_tagged_hsm_key tag)"
  unfolding delete_tagged_hsm_key_def by (intro sql_exec_keeps) (auto simp: wf_simps)

lemma get_hsm_int_key_keeps: "keeps in_txn (get_hsm_int_key d k)"
  unfolding get_hsm_int_key_def by (intro stmt_flow)

lemma insert_hsm_int_key_keeps: "keeps in_txn (insert_hsm_int_key d k key)"
  unfolding insert_hsm_int_key_def by (intro stmt_flow sql_exec_keeps) (auto simp: wf_simps)

lemma get_account_keeps: "keeps in_txn (get_account d i)"
  unfolding get_account_def get_account_data_name_def get_account_data_gid_def
  by (cases i; simp; intro stmt_flow)

lemma get_accounts_keeps: "keeps in_txn (get_accounts d)"
  unfolding get_accounts_def by (intro stmt_flow)

lemma update_account_keeps: "keeps in_txn (update_account d account expire)"
  unfolding update_account_def
  by (intro stmt_flow sql_exec_keeps sql_keeps sql_delete_accounts_keeps)
    (auto simp: update_account_rows_def insert_account_row_def insert_membership_def tables_wf_def
      dest: store_accounts_wf split: if_splits)

lemma delete_account_keeps: "keeps in_txn (delete_account d u)"
  unfolding delete_account_def
  by (intro stmt_flow sql_exec_keeps sql_delete_accounts_keeps) (auto simp: tables_wf_def)

lemma get_group_keeps: "keeps in_txn (get_group d i)"
  unfolding get_group_def get_group_data_name_def get_group_data_gid_def
  by (cases i; simp; intro stmt_flow)

lemma get_groups_keeps: "keeps in_txn (get_groups d)"
  unfolding get_groups_def by (intro stmt_flow)

lemma get_group_members_keeps: "keeps in_txn (get_group_members d u)"
  unfolding get_group_members_def by (intro stmt_flow)

lemma update_group_keeps: "keeps in_txn (update_group d g e)"
  unfolding update_group_def by (intro stmt_flow sql_exec_keeps) (auto simp: wf_simps)

lemma delete_group_keeps: "keeps in_txn (delete_group d u)"
  unfolding delete_group_def by (intro stmt_flow sql_exec_keeps) (auto simp: wf_simps)

definition in_txn_hsm :: "dbconn \<times> 'h \<Rightarrow> dbconn \<times> 'h \<Rightarrow> bool" where
  "in_txn_hsm s t = in_txn (fst s) (fst t)"

interpretation stmt_hsm: kept in_txn_hsm
  by unfold_locales (auto simp: in_txn_hsm_def in_txn_def)

lemma on_db_keeps: "keeps in_txn m \<Longrightarrow> keeps in_txn_hsm (on_db m)"
  unfolding on_db_def by (rule keeps_pzoom) (simp_all add: in_txn_hsm_def)

lemma on_hsm_keeps: "keeps in_txn_hsm (on_hsm f)"
  by (auto simp: keeps_def on_hsm_def in_txn_hsm_def stmt.R_refl)

lemma update_account_password_keeps: "keeps in_txn_hsm (update_account_password d u cred)"
  unfolding update_account_password_def
  by (intro stmt_hsm.flow on_hsm_keeps on_db_keeps sql_exec_keeps)
    (auto simp: tables_wf_def account_unique_map)

lemma check_account_password_keeps: "keeps in_txn_hsm (check_account_password d u cred)"
  unfolding check_account_password_def
  by (intro stmt_hsm.flow on_hsm_keeps on_db_keeps sql_select_keeps sql_prepare_keeps)

lemmas cache_keeps = invalidate_keeps clear_keeps clear_hello_keys_keeps clear_hsm_keeps migrate_keeps
  get_tagged_hsm_key_keeps insert_tagged_hsm_key_keeps delete_tagged_hsm_key_keeps
  get_hsm_int_key_keeps insert_hsm_int_key_keeps get_account_keeps get_accounts_keeps
  update_account_keeps delete_account_keeps get_group_keeps get_groups_keeps
  get_group_members_keeps update_group_keeps delete_group_keeps

section \<open>What the statements compute\<close>

lemma sql_Inr:
  "sql ts f c = Return (Inr a, c') \<longleftrightarrow>
     \<not> sql_fault c (stmt_no c) \<and> set ts \<subseteq> set (schema (cur c)) \<and>
     (\<exists>t. f (foreign_keys c) (cur c) = Some (a, t) \<and> c' = put_cur t (c\<lparr>stmt_no := Suc (stmt_no c)\<rparr>))"
  by (auto simp: sql_def Let_def split: option.splits)

lemma sql_Inl: "sql ts f c = Return (Inl e, c') \<Longrightarrow> e = Sqlite \<and> cur c' = cur c"
  by (auto simp: sql_def Let_def split: if_splits option.splits)

lemma sql_exec_Inr: "sql_exec ts f c = Return (Inr a, c') \<Longrightarrow> cur c' = f (cur c)"
  by (auto simp: sql_exec_def sql_Inr)

lemma sql_select_Inr: "sql_select ts q c = Return (Inr a, c') \<Longrightarrow> a = q (cur c) \<and> cur c' = cur c"
  by (auto simp: sql_select_def sql_Inr)

lemma sql_prepare_Inr: "sql_prepare ts c = Return (Inr a, c') \<Longrightarrow> cur c' = cur c"
  by (auto simp: sql_prepare_def dest: sql_exec_Inr)

lemma sql_select_Inl: "sql_select ts q c = Return (Inl e, c') \<Longrightarrow> e = Sqlite"
  by (auto simp: sql_select_def dest: sql_Inl)

lemma sql_prepare_Inl: "sql_prepare ts c = Return (Inl e, c') \<Longrightarrow> e = Sqlite"
  by (auto simp: sql_prepare_def sql_exec_def dest: sql_Inl)

lemma sql_delete_accounts_Inr:
  "sql_delete_accounts P c = Return (Inr a, c') \<Longrightarrow>
     cur c' = delete_accounts P (foreign_keys c) (cur c) \<and> foreign_keys c' = foreign_keys c"
  by (auto simp: sql_delete_accounts_def sql_Inr)

lemma sql_foreign_keys: "sql ts f c = Return (a, c') \<Longrightarrow> foreign_keys c' = foreign_keys c"
  by (auto simp: sql_def Let_def split: if_splits option.splits)

lemma memberships_Inr:
  "ptry_for_each (\<lambda>g. sql ts (insert_membership u (f g))) gs c = Return (Inr a, c') \<Longrightarrow>
     cur c' = (cur c)\<lparr>memberof_t := memberof_t (cur c) @ map (\<lambda>g. (f g, u)) gs\<rparr>"
  by (induction gs arbitrary: c)
    (auto simp: pbindE_Return sql_Inr insert_membership_def split: if_splits)

text \<open>The accounts after an update, as one function of the accounts before it.\<close>

definition account_upsert :: "string \<Rightarrow> UserToken \<Rightarrow> bytes \<Rightarrow> int \<Rightarrow> account_row list \<Rightarrow> account_row list" where
  "account_upsert u account data ex rs =
     (let rs' = filter (\<lambda>r. \<not> account_conflicts u account r) rs in
      if \<exists>r \<in> set rs'. ar_uuid r = u
      then map (\<lambda>r. if ar_uuid r = u then account_set account data ex r else r) rs'
      else rs' @ [\<lparr>ar_uuid = u, ar_name = ut_name account, ar_spn = ut_spn account,
             ar_gidnumber = ut_gidnumber account, ar_password = None, ar_token = data, ar_expiry = ex\<rparr>])"

lemma distinct_map_replace:
  assumes "distinct (map k rs)" and "distinct (map n rs)"
    and "\<And>r. r \<in> set rs \<Longrightarrow> k r \<noteq> u \<Longrightarrow> n r \<noteq> x"
  shows "distinct (map (\<lambda>r. if k r = u then x else n r) rs)"
  using assms by (induction rs) (auto simp: image_iff)

lemma account_set_simps [simp]:
  "ar_uuid (account_set a b e r) = ar_uuid r" "ar_name (account_set a b e r) = ut_name a"
  "ar_spn (account_set a b e r) = ut_spn a" "ar_gidnumber (account_set a b e r) = ut_gidnumber a"
  "ar_token (account_set a b e r) = b" "ar_expiry (account_set a b e r) = e"
  "ar_password (account_set a b e r) = ar_password r"
  by (simp_all add: account_set_def)

lemma map_account_set:
  "map ar_uuid (map (\<lambda>r. if ar_uuid r = u then account_set a b e r else r) rs) = map ar_uuid rs"
  "map ar_name (map (\<lambda>r. if ar_uuid r = u then account_set a b e r else r) rs) =
     map (\<lambda>r. if ar_uuid r = u then ut_name a else ar_name r) rs"
  "map ar_spn (map (\<lambda>r. if ar_uuid r = u then account_set a b e r else r) rs) =
     map (\<lambda>r. if ar_uuid r = u then ut_spn a else ar_spn r) rs"
  "map ar_gidnumber (map (\<lambda>r. if ar_uuid r = u then account_set a b e r else r) rs) =
     map (\<lambda>r. if ar_uuid r = u then ut_gidnumber a else ar_gidnumber r) rs"
  by auto

lemma account_unique_set:
  assumes "account_unique rs" and "\<And>r. r \<in> set rs \<Longrightarrow> \<not> account_conflicts u a r"
  shows "account_unique (map (\<lambda>r. if ar_uuid r = u then account_set a b e r else r) rs)"
  using assms unfolding account_unique_def map_account_set
  by (auto simp: account_conflicts_def intro!: distinct_map_replace)

lemma account_upsert_unique:
  assumes "account_unique rs"
  shows "account_unique (account_upsert u a b e rs)"
proof (cases "\<exists>r \<in> set (filter (\<lambda>r. \<not> account_conflicts u a r) rs). ar_uuid r = u")
  case True
  with assms show ?thesis
    by (auto simp: account_upsert_def Let_def intro!: account_unique_set account_unique_filter)
next
  case False
  with account_unique_filter [OF assms, of "\<lambda>r. \<not> account_conflicts u a r"] show ?thesis
    by (auto simp: account_upsert_def Let_def account_unique_def account_conflicts_def)
qed

lemma update_rows_upsert:
  assumes "update_account_rows u a b e fk (delete_accounts (account_conflicts u a) fk t) = Some (n, t')"
    and "n \<noteq> 0"
  shows "t' = (delete_accounts (account_conflicts u a) fk t)\<lparr>account_t := account_upsert u a b e (account_t t)\<rparr>"
  using assms
  by (auto simp: update_account_rows_def store_accounts_def account_upsert_def delete_accounts_def
      Let_def filter_empty_conv split: if_splits)

lemma insert_row_upsert:
  assumes "update_account_rows u a b e fk (delete_accounts (account_conflicts u a) fk t) = Some (0, t1)"
    and "insert_account_row u a b e fk t1 = Some (x, t')"
  shows "t' = (delete_accounts (account_conflicts u a) fk t)\<lparr>account_t := account_upsert u a b e (account_t t)\<rparr>"
proof -
  let ?t0 = "delete_accounts (account_conflicts u a) fk t"
  from assms(1) have none: "\<forall>r \<in> set (account_t ?t0). ar_uuid r \<noteq> u"
    by (auto simp: update_account_rows_def store_accounts_def filter_empty_conv split: if_splits)
  then have "map (\<lambda>r. if ar_uuid r = u then account_set a b e r else r) (account_t ?t0) = account_t ?t0"
    by (auto intro: map_idI)
  with assms(1) have t1: "t1 = ?t0"
    by (simp add: update_account_rows_def store_accounts_def split: if_splits)
  from none have "u \<notin> set (map ar_uuid (account_t ?t0))" by auto
  with assms(2) have "t' = ?t0\<lparr>account_t := account_t ?t0 @ [\<lparr>ar_uuid = u, ar_name = ut_name a,
          ar_spn = ut_spn a, ar_gidnumber = ut_gidnumber a, ar_password = None,
          ar_token = b, ar_expiry = e\<rparr>]\<rparr>"
    unfolding t1 by (simp add: insert_account_row_def store_accounts_def split: if_splits)
  with none show ?thesis
    by (auto simp: account_upsert_def delete_accounts_def Let_def)
qed

definition account_update_tables :: "string \<Rightarrow> UserToken \<Rightarrow> bytes \<Rightarrow> int \<Rightarrow> string list \<Rightarrow> bool \<Rightarrow> tables \<Rightarrow> tables" where
  "account_update_tables u a b e gs fk t =
     (let t0 = delete_accounts (account_conflicts u a) fk t in
      t0\<lparr>account_t := account_upsert u a b e (account_t t),
         memberof_t := filter (\<lambda>m. snd m \<noteq> u) (memberof_t t0) @ map (\<lambda>g. (g, u)) gs\<rparr>)"

lemma upsert_Inr:
  assumes c1: "sql_delete_accounts (account_conflicts u a) c = Return (Inr (), c1)"
    and c2: "sql [''account_t''] (update_account_rows u a data ex) c1 = Return (Inr n, c2)"
    and c3: "(if n = 0 then pbindE (sql_prepare [''account_t'']) (\<lambda>_.
          sql [''account_t''] (insert_account_row u a data ex))
        else pret (Inr ())) c2 = Return (Inr y, c3)"
  shows "cur c3 = (delete_accounts (account_conflicts u a) (foreign_keys c) (cur c))
    \<lparr>account_t := account_upsert u a data ex (account_t (cur c))\<rparr>"
proof -
  from c2 sql_delete_accounts_Inr [OF c1] have t2: "update_account_rows u a data ex (foreign_keys c)
      (delete_accounts (account_conflicts u a) (foreign_keys c) (cur c)) = Some (n, cur c2)"
    "foreign_keys c2 = foreign_keys c"
    by (auto simp: sql_Inr)
  show ?thesis
  proof (cases "n = 0")
    case True
    with c3 obtain c2' where p: "sql_prepare [''account_t''] c2 = Return (Inr (), c2')"
      and i: "sql [''account_t''] (insert_account_row u a data ex) c2' = Return (Inr y, c3)"
      by (auto simp: pbindE_Return)
    from p have "foreign_keys c2' = foreign_keys c2"
      unfolding sql_prepare_def sql_exec_def by (rule sql_foreign_keys)
    with i sql_prepare_Inr [OF p] t2(2)
    have "insert_account_row u a data ex (foreign_keys c) (cur c2) = Some (y, cur c3)"
      by (auto simp: sql_Inr)
    from insert_row_upsert [OF t2(1) [unfolded True] this] show ?thesis .
  next
    case False
    with c3 have "c3 = c2" by simp
    with update_rows_upsert [OF t2(1) False] show ?thesis by simp
  qed
qed

lemma update_account_Inr:
  assumes run: "update_account d a e c = Return (Inr x, c')"
  obtains data ex where "ser_user d a = Some data" and "i64_of_u64 e = Some ex"
    and "cur c' = account_update_tables (uuid_str d (ut_uuid a)) a data ex
           (map (\<lambda>g. uuid_str d (gt_uuid g)) (ut_groups a)) (foreign_keys c) (cur c)"
proof -
  let ?u = "uuid_str d (ut_uuid a)"
  from run obtain data ex where de: "ser_user d a = Some data" "i64_of_u64 e = Some ex"
    by (auto simp: update_account_def split: option.splits)
  from run de obtain c1 n c2 y c3 c4 c5 c6 where
      ups: "sql_delete_accounts (account_conflicts ?u a) c = Return (Inr (), c1)"
      "sql [''account_t''] (update_account_rows ?u a data ex) c1 = Return (Inr n, c2)"
      "(if n = 0 then pbindE (sql_prepare [''account_t'']) (\<lambda>_.
          sql [''account_t''] (insert_account_row ?u a data ex))
        else pret (Inr ())) c2 = Return (Inr y, c3)"
    and c4: "sql_prepare [''memberof_t''] c3 = Return (Inr (), c4)"
    and c5: "sql_exec [''memberof_t''] (\<lambda>t. t\<lparr>memberof_t := filter (\<lambda>m. snd m \<noteq> ?u) (memberof_t t)\<rparr>) c4
        = Return (Inr (), c5)"
    and c6: "sql_prepare [''memberof_t''] c5 = Return (Inr (), c6)"
    and c7: "ptry_for_each (\<lambda>g. sql [''memberof_t''] (insert_membership ?u (uuid_str d (gt_uuid g))))
        (ut_groups a) c6 = Return (Inr x, c')"
    by (auto simp: update_account_def pbindE_Return Let_def)
  have "cur c' = account_update_tables ?u a data ex
      (map (\<lambda>g. uuid_str d (gt_uuid g)) (ut_groups a)) (foreign_keys c) (cur c)"
    using upsert_Inr [OF ups] sql_prepare_Inr [OF c4] sql_exec_Inr [OF c5] sql_prepare_Inr [OF c6]
      memberships_Inr [OF c7]
    by (simp add: account_update_tables_def Let_def o_def)
  with de that show ?thesis by blast
qed

text \<open>An engine that refuses nothing, on a database with all its tables.\<close>

definition db_tables :: "string set" where
  "db_tables = {''db_version_t'', ''account_t'', ''group_t'', ''memberof_t'', ''hsm_int_t'', ''hsm_data_t''}"

definition sql_ready :: "dbconn \<Rightarrow> bool" where
  "sql_ready c \<longleftrightarrow> (\<forall>n. \<not> sql_fault c n) \<and> db_tables \<subseteq> set (schema (cur c))"

lemma sql_succeeds:
  assumes "set ts \<subseteq> db_tables" and "\<And>c. P c \<Longrightarrow> sql_ready c"
    and "\<And>c. P c \<Longrightarrow> \<exists>a t. f (foreign_keys c) (cur c) = Some (a, t) \<and> schema t = schema (cur c) \<and>
      (\<forall>c'. cur c' = t \<and> sql_ready c' \<and> foreign_keys c' = foreign_keys c \<longrightarrow> Q a c')"
  shows "succeeds P (sql ts f) Q"
  unfolding succeeds_def
proof (intro allI impI)
  fix c
  assume "P c"
  with assms(2,3) obtain a t where ready: "sql_ready c" and f: "f (foreign_keys c) (cur c) = Some (a, t)"
    "schema t = schema (cur c)" and Q: "\<forall>c'. cur c' = t \<and> sql_ready c' \<and> foreign_keys c' = foreign_keys c \<longrightarrow> Q a c'"
    by metis
  let ?c' = "put_cur t (c\<lparr>stmt_no := Suc (stmt_no c)\<rparr>)"
  from ready f assms(1) have "sql ts f c = Return (Inr a, ?c')" "sql_ready ?c'"
    by (auto simp: sql_Inr sql_ready_def)
  with Q show "\<exists>a t. sql ts f c = Return (Inr a, t) \<and> Q a t" by auto
qed

lemma sql_exec_succeeds:
  assumes "set ts \<subseteq> db_tables" and "\<And>c. P c \<Longrightarrow> sql_ready c"
    and "\<And>c. P c \<Longrightarrow> schema (f (cur c)) = schema (cur c)"
    and "\<And>c c'. P c \<Longrightarrow> cur c' = f (cur c) \<Longrightarrow> sql_ready c' \<Longrightarrow> foreign_keys c' = foreign_keys c \<Longrightarrow> Q () c'"
  shows "succeeds P (sql_exec ts f) Q"
  unfolding sql_exec_def using assms by (intro sql_succeeds) auto

lemma sql_prepare_succeeds:
  assumes "set ts \<subseteq> db_tables" and "\<And>c. P c \<Longrightarrow> sql_ready c"
    and "\<And>c c'. P c \<Longrightarrow> cur c' = cur c \<Longrightarrow> sql_ready c' \<Longrightarrow> foreign_keys c' = foreign_keys c \<Longrightarrow> Q () c'"
  shows "succeeds P (sql_prepare ts) Q"
  unfolding sql_prepare_def using assms by (intro sql_exec_succeeds) auto

lemma db_tables_simps [simp]: "''account_t'' \<in> db_tables" "''memberof_t'' \<in> db_tables"
  "''group_t'' \<in> db_tables" "''hsm_int_t'' \<in> db_tables" "''hsm_data_t'' \<in> db_tables"
  "''db_version_t'' \<in> db_tables"
  by (simp_all add: db_tables_def)

text \<open>
  Purging the conflicting accounts first means that neither the update nor the insert can
  violate a unique column.
\<close>

lemma update_account_rows_some:
  assumes "account_unique (account_t t)"
  shows "\<exists>n t'. update_account_rows u a b e fk (delete_accounts (account_conflicts u a) fk t) = Some (n, t')
    \<and> schema t' = schema t \<and> (n \<noteq> 0 \<longrightarrow> u \<in> set (map ar_uuid (account_t t')))"
proof -
  define rs where "rs = filter (\<lambda>r. \<not> account_conflicts u a r) (account_t t)"
  define us where "us = map (\<lambda>r. if ar_uuid r = u then account_set a b e r else r) rs"
  have "account_unique us"
    unfolding us_def rs_def using assms by (intro account_unique_set account_unique_filter) auto
  then have "update_account_rows u a b e fk (delete_accounts (account_conflicts u a) fk t) =
      Some (length (filter (\<lambda>r. ar_uuid r = u) rs),
        (delete_accounts (account_conflicts u a) fk t)\<lparr>account_t := us\<rparr>)"
    by (simp add: update_account_rows_def store_accounts_def delete_accounts_def us_def rs_def)
  moreover have "set (map ar_uuid us) = set (map ar_uuid rs)"
    unfolding us_def map_account_set ..
  ultimately show ?thesis by (auto simp: delete_accounts_def filter_empty_conv)
qed

lemma insert_account_row_some:
  assumes "account_unique (account_t t)"
    and "update_account_rows u a b e fk (delete_accounts (account_conflicts u a) fk t) = Some (0, t1)"
  shows "\<exists>t'. insert_account_row u a b e fk t1 = Some ((), t') \<and> schema t' = schema t1
    \<and> u \<in> set (map ar_uuid (account_t t'))"
proof -
  let ?t0 = "delete_accounts (account_conflicts u a) fk t"
  have none: "\<forall>r \<in> set (account_t ?t0). ar_uuid r \<noteq> u"
    using assms(2) by (auto simp: update_account_rows_def store_accounts_def filter_empty_conv split: if_splits)
  then have "map (\<lambda>r. if ar_uuid r = u then account_set a b e r else r) (account_t ?t0) = account_t ?t0"
    by (auto intro: map_idI)
  with assms(2) have t1: "t1 = ?t0"
    by (simp add: update_account_rows_def store_accounts_def split: if_splits)
  with none have "account_upsert u a b e (account_t t) = account_t t1 @ [\<lparr>ar_uuid = u, ar_name = ut_name a,
      ar_spn = ut_spn a, ar_gidnumber = ut_gidnumber a, ar_password = None, ar_token = b, ar_expiry = e\<rparr>]"
    by (auto simp: account_upsert_def delete_accounts_def Let_def)
  with account_upsert_unique [OF assms(1), of u a b e] none t1 show ?thesis
    by (auto simp: insert_account_row_def store_accounts_def)
qed

text \<open>What is known between the statements of an update.\<close>

definition at_tables :: "bool \<Rightarrow> tables \<Rightarrow> dbconn \<Rightarrow> bool" where
  "at_tables fk t c \<longleftrightarrow> sql_ready c \<and> foreign_keys c = fk \<and> cur c = t"

definition at_account :: "string \<Rightarrow> dbconn \<Rightarrow> bool" where
  "at_account u c \<longleftrightarrow> sql_ready c \<and> u \<in> set (map ar_uuid (account_t (cur c)))"

lemma upsert_succeeds:
  assumes uniq: "account_unique (account_t t)" and rest: "succeeds (at_account u) k Q"
  shows "succeeds (at_tables fk (delete_accounts (account_conflicts u a) fk t))
    (pbindE (sql [''account_t''] (update_account_rows u a b e)) (\<lambda>updated.
     pbindE (if updated = 0 then pbindE (sql_prepare [''account_t'']) (\<lambda>_.
          sql [''account_t''] (insert_account_row u a b e))
       else pret (Inr ())) (\<lambda>_. k))) Q"
proof -
  let ?t0 = "delete_accounts (account_conflicts u a) fk t"
  from update_account_rows_some [OF uniq] obtain n t2 where
    t2: "update_account_rows u a b e fk ?t0 = Some (n, t2)" "schema t2 = schema t"
    "n \<noteq> 0 \<longrightarrow> u \<in> set (map ar_uuid (account_t t2))"
    by blast
  have upd: "succeeds (at_tables fk ?t0) (sql [''account_t''] (update_account_rows u a b e))
      (\<lambda>m c. m = n \<and> at_tables fk t2 c)"
    using t2 by (intro sql_succeeds) (auto simp: at_tables_def delete_accounts_def)
  have prep: "succeeds (at_tables fk t2) (sql_prepare [''account_t'']) (\<lambda>_. at_tables fk t2)"
    by (intro sql_prepare_succeeds) (auto simp: at_tables_def)
  have ins: "succeeds (at_tables fk t2) (sql [''account_t''] (insert_account_row u a b e))
      (\<lambda>_. at_account u)" if "n = 0"
    using insert_account_row_some [OF uniq t2(1) [unfolded that]]
    by (intro sql_succeeds) (auto simp: at_tables_def at_account_def)
  have skip: "succeeds (at_tables fk t2) (pret (Inr () :: CacheError + unit)) (\<lambda>_. at_account u)" if "n \<noteq> 0"
    using t2(3) that by (intro succeeds_pret) (auto simp: at_tables_def at_account_def)
  have "succeeds (at_tables fk t2) (if n = 0 then pbindE (sql_prepare [''account_t'']) (\<lambda>_.
      sql [''account_t''] (insert_account_row u a b e)) else pret (Inr ())) (\<lambda>_. at_account u)"
    using prep ins skip by (auto intro: succeeds_pbindE)
  then show ?thesis
    using rest by (intro succeeds_pbindE [OF upd]) (auto intro: succeeds_pbindE)
qed

lemma update_account_succeeds:
  assumes uniq: "account_unique (account_t t)" and data: "ser_user d a = Some data" and e: "e < 2 ^ 63"
  shows "succeeds (at_tables fk t) (update_account d a e) (\<lambda>_. at_account (uuid_str d (ut_uuid a)))"
proof -
  let ?u = "uuid_str d (ut_uuid a)"
  have del: "succeeds (at_tables fk t) (sql_delete_accounts (account_conflicts ?u a))
      (\<lambda>_. at_tables fk (delete_accounts (account_conflicts ?u a) fk t))"
    unfolding sql_delete_accounts_def
    by (intro sql_succeeds) (auto simp: at_tables_def delete_accounts_def)
  have prep: "succeeds (at_account ?u) (sql_prepare [''memberof_t'']) (\<lambda>_. at_account ?u)"
    by (intro sql_prepare_succeeds) (auto simp: at_account_def)
  have wipe: "succeeds (at_account ?u) (sql_exec [''memberof_t'']
      (\<lambda>t. t\<lparr>memberof_t := filter (\<lambda>m. snd m \<noteq> ?u) (memberof_t t)\<rparr>)) (\<lambda>_. at_account ?u)"
    by (intro sql_exec_succeeds) (auto simp: at_account_def)
  have mem: "succeeds (at_account ?u) (ptry_for_each (\<lambda>g. sql [''memberof_t'']
      (insert_membership ?u (uuid_str d (gt_uuid g)))) (ut_groups a)) (\<lambda>_. at_account ?u)"
    by (intro succeeds_ptry_for_each sql_succeeds) (auto simp: at_account_def insert_membership_def)
  show ?thesis
    using data e unfolding update_account_def
    by (simp add: i64_of_u64_def Let_def)
      (intro succeeds_pbindE [OF del] upsert_succeeds [OF uniq] succeeds_pbindE [OF prep]
        succeeds_pbindE [OF wipe] mem)
qed

section \<open>Stores with unique columns\<close>

text \<open>
  The contract that the account and the group table share, for each of their unique
  columns: storing a token puts one row with its key and payload into the table, and keeps
  the columns unique. The client of the contract is a lookup by that column.
\<close>

locale row_store =
  fixes uniq :: "'r list \<Rightarrow> bool"
    and col :: "'r \<Rightarrow> 'k"
    and payload :: "'r \<Rightarrow> bytes \<times> int"
    and store :: "'x \<Rightarrow> 'r list \<Rightarrow> 'r list"
    and key_of :: "'x \<Rightarrow> 'k"
    and pay_of :: "'x \<Rightarrow> bytes \<times> int"
  assumes uniq_col: "uniq rs \<Longrightarrow> distinct (map col rs)"
    and store_uniq: "uniq rs \<Longrightarrow> uniq (store x rs)"
    and store_row: "\<exists>r \<in> set (store x rs). col r = key_of x \<and> payload r = pay_of x"
begin

lemma select_one:
  assumes "distinct (map col rs)" and "r \<in> set rs"
  shows "filter (\<lambda>y. col y = col r) rs = [r]"
  using assms by (induction rs) (auto simp: filter_empty_conv image_iff)

lemma select_stored:
  assumes "uniq rs"
  shows "map payload (filter (\<lambda>r. col r = key_of x) (store x rs)) = [pay_of x]"
proof -
  from store_row [of x rs] obtain r where r: "r \<in> set (store x rs)" "col r = key_of x" "payload r = pay_of x"
    by blast
  from select_one [OF uniq_col [OF store_uniq [OF assms]] r(1)] r show ?thesis by simp
qed

lemma lookup_stored:
  assumes "uniq rs" and "pay_of x = (b, int e)" and "de b = Some v"
  shows "one_token de (map payload (filter (\<lambda>r. col r = key_of x) (store x rs))) = Inr (Some (v, e))"
  using assms by (simp add: select_stored one_token_def u64_of_i64_def)

end

type_synonym account_put = "string \<times> UserToken \<times> bytes \<times> int"

definition put_account :: "account_put \<Rightarrow> account_row list \<Rightarrow> account_row list" where
  "put_account x rs = (case x of (u, a, b, e) \<Rightarrow> account_upsert u a b e rs)"

lemma account_upsert_row:
  "\<exists>r \<in> set (account_upsert u a b e rs). ar_uuid r = u \<and> ar_name r = ut_name a \<and> ar_spn r = ut_spn a
     \<and> ar_gidnumber r = ut_gidnumber a \<and> ar_token r = b \<and> ar_expiry r = e"
proof (cases "\<exists>r \<in> set (filter (\<lambda>r. \<not> account_conflicts u a r) rs). ar_uuid r = u")
  case True
  then obtain r where r: "r \<in> set (filter (\<lambda>r. \<not> account_conflicts u a r) rs)" "ar_uuid r = u" by blast
  then have "account_set a b e r \<in> set (account_upsert u a b e rs)"
    using True by (force simp: account_upsert_def Let_def)
  with r(2) show ?thesis by (intro bexI [of _ "account_set a b e r"]) simp_all
next
  case False
  then show ?thesis by (auto simp: account_upsert_def Let_def)
qed

interpretation account_by_gid: row_store account_unique ar_gidnumber "\<lambda>r. (ar_token r, ar_expiry r)"
  put_account "\<lambda>(u, a, b, e). ut_gidnumber a" "\<lambda>(u, a, b, e). (b, e)"
proof (unfold_locales, goal_cases)
  case (1 rs)
  then show ?case by (simp add: account_unique_def)
next
  case (2 rs x)
  then show ?case by (cases x) (simp add: put_account_def account_upsert_unique)
next
  case (3 x rs)
  obtain u a b e where x: "x = (u, a, b, e)" by (cases x)
  show ?case using account_upsert_row [of u a b e rs] by (auto simp: x put_account_def)
qed

interpretation group_by_gid: row_store group_unique gr_gidnumber "\<lambda>r. (gr_token r, gr_expiry r)"
  replace_group_row gr_gidnumber "\<lambda>r. (gr_token r, gr_expiry r)"
proof (unfold_locales, goal_cases)
  case (1 rs)
  then show ?case by (simp add: group_unique_def)
next
  case (2 rs x)
  then show ?case by (rule replace_group_row_unique)
next
  case (3 x rs)
  show ?case by (simp add: replace_group_row_def)
qed

section \<open>A sample database\<close>

definition sample_group :: GroupToken where
  "sample_group = \<lparr>gt_name = ''staff'', gt_spn = ''staff@example.com'', gt_uuid = 7, gt_gidnumber = 5000\<rparr>"

definition sample_user :: UserToken where
  "sample_user = \<lparr>ut_name = ''alice'', ut_spn = ''alice@example.com'', ut_uuid = 1,
     ut_real_gidnumber = Some 1000, ut_gidnumber = 1000, ut_displayname = ''Alice'', ut_shell = Some ''/bin/bash'',
     ut_groups = [sample_group], ut_tenant_id = None, ut_valid = True\<rparr>"

definition sample_deps :: "unit deps" where
  "sample_deps = \<lparr>
     ser_user = (\<lambda>t. if t = sample_user then Some [1]
       else if t = sample_user\<lparr>ut_spn := ''ALICE@EXAMPLE.COM'', ut_name := ''ALICE'', ut_gidnumber := 2000, ut_uuid := 2\<rparr>
       then Some [2] else None),
     de_user = (\<lambda>b. if b = [1] then Some sample_user
       else if b = [2] then Some (sample_user\<lparr>ut_spn := ''ALICE@EXAMPLE.COM'', ut_name := ''ALICE'', ut_gidnumber := 2000, ut_uuid := 2\<rparr>)
       else None),
     ser_group = (\<lambda>t. if t = sample_group then Some [3] else None),
     de_group = (\<lambda>b. if b = [3] then Some sample_group else None),
     uuid_str = (\<lambda>u. show_nat (unat u)),
     ser_key = (\<lambda>k. Some (map of_char k)), de_key = (\<lambda>b. Some (map (\<lambda>w. char_of (unat w)) b)),
     pw_new = (\<lambda>c h. (Some c, h)), ser_pw = (\<lambda>k. Some (map of_char k)),
     de_pw = (\<lambda>b. Some (map (\<lambda>w. char_of (unat w)) b)), pw_verify = (\<lambda>p c h. (Some (p = c), h))\<rparr>"

definition sample_tables :: tables where
  "sample_tables = empty_tables\<lparr>schema := [''db_version_t'', ''account_t'', ''group_t'', ''memberof_t'',
     ''hsm_int_t'', ''hsm_data_t'']\<rparr>"

definition sample_conn :: dbconn where
  "sample_conn = \<lparr>disk = sample_tables, txn = Some sample_tables, guard = True, sql_fault = (\<lambda>_. False),
     stmt_no = 1, foreign_keys = True\<rparr>"

lemma sample_simps [simp]:
  "disk sample_conn = sample_tables" "txn sample_conn = Some sample_tables" "guard sample_conn"
  "\<not> sql_fault sample_conn n" "foreign_keys sample_conn" "cur sample_conn = sample_tables"
  "account_t sample_tables = []" "group_t sample_tables = []" "memberof_t sample_tables = []"
  "hsm_data_t sample_tables = []" "hsm_int_t sample_tables = []" "db_version_t sample_tables = []"
  by (simp_all add: sample_conn_def cur_def sample_tables_def empty_tables_def)

lemma sample_ready [simp]: "conn_wf sample_conn" "sql_ready sample_conn"
  by (simp_all add: conn_wf_def tables_wf_def sql_ready_def db_tables_def)
    (simp_all add: sample_tables_def)

lemma sample_codec [simp]:
  "ser_user sample_deps sample_user = Some [1]" "de_user sample_deps [1] = Some sample_user"
  "ser_group sample_deps sample_group = Some [3]" "de_group sample_deps [3] = Some sample_group"
  by (simp_all add: sample_deps_def)

section \<open>Properties of the cache\<close>

text \<open>What the code relies on of \<open>serde_json\<close>: a serialised token parses back to itself.\<close>

definition serde_roundtrip :: "'h deps \<Rightarrow> bool" where
  "serde_roundtrip d \<longleftrightarrow> (\<forall>t b. ser_user d t = Some b \<longrightarrow> de_user d b = Some t)
     \<and> (\<forall>t b. ser_group d t = Some b \<longrightarrow> de_group d b = Some t)"

lemma get_account_gid_cases:
  assumes "get_account d (IdGid g) c = Return (r, c')"
  shows "r = Inl Sqlite \<or> r = one_token (de_user d)
    (map (\<lambda>r. (ar_token r, ar_expiry r)) (filter (\<lambda>r. ar_gidnumber r = g) (account_t (cur c))))"
  using assms
  by (auto simp: get_account_def get_account_data_gid_def pbindE_Return
      dest!: sql_select_Inr sql_prepare_Inr dest: sql_select_Inl sql_prepare_Inl)

text \<open>
  C4. After an account has been stored, looking it up by its uid finds exactly the stored
  token with the stored expiry, whatever the cache held before; only the engine refusing
  the query can prevent it.
\<close>

theorem update_account_lookup:
  assumes wf: "conn_wf c" and json: "serde_roundtrip d"
    and upd: "update_account d a e c = Return (Inr x, c1)"
    and get: "get_account d (IdGid (ut_gidnumber a)) c1 = Return (r, c2)"
  shows "r = Inr (Some (a, e)) \<or> r = Inl Sqlite"
proof -
  let ?u = "uuid_str d (ut_uuid a)"
  from upd obtain data ex where ser: "ser_user d a = Some data" and ex: "i64_of_u64 e = Some ex"
    and t: "account_t (cur c1) = account_upsert ?u a data ex (account_t (cur c))"
    by (rule update_account_Inr) (auto simp: account_update_tables_def Let_def)
  from wf have "account_unique (account_t (cur c))"
    using cur_wf by (auto simp: tables_wf_def)
  with account_by_gid.lookup_stored [of _ "(?u, a, data, ex)" data e "de_user d" a] json ser ex
  have "one_token (de_user d) (map (\<lambda>r. (ar_token r, ar_expiry r))
      (filter (\<lambda>r. ar_gidnumber r = ut_gidnumber a) (account_t (cur c1)))) = Inr (Some (a, e))"
    by (auto simp: t put_account_def serde_roundtrip_def i64_of_u64_def split: if_splits)
  with get_account_gid_cases [OF get] show ?thesis by auto
qed

lemma put_cur_cur [simp]: "put_cur (cur c) (c\<lparr>stmt_no := n\<rparr>) = c\<lparr>stmt_no := n\<rparr>"
  by (cases c) (auto simp: put_cur_def cur_def split: option.splits)

lemma sql_select_ready:
  assumes "sql_ready c" and "set ts \<subseteq> db_tables"
  shows "sql_select ts q c = Return (Inr (q (cur c)), c\<lparr>stmt_no := Suc (stmt_no c)\<rparr>)"
  using assms by (auto simp: sql_select_def sql_Inr sql_ready_def)

lemma sql_prepare_ready:
  assumes "sql_ready c" and "set ts \<subseteq> db_tables"
  shows "sql_prepare ts c = Return (Inr (), c\<lparr>stmt_no := Suc (stmt_no c)\<rparr>)"
  using assms by (auto simp: sql_prepare_def sql_exec_def sql_Inr sql_ready_def)

lemma cur_stmt_no [simp]: "cur (c\<lparr>stmt_no := n\<rparr>) = cur c"
  by (simp add: cur_def split: option.splits)

lemma sql_ready_stmt_no [simp]: "sql_ready (c\<lparr>stmt_no := n\<rparr>) = sql_ready c"
  by (simp add: sql_ready_def)

lemma get_account_ready:
  assumes "sql_ready c"
  shows "\<exists>r. get_account d i c = Return (r, c\<lparr>stmt_no := stmt_no c + 2\<rparr>) \<and> r \<noteq> Inl Sqlite"
  using assms
  by (cases i) (auto simp: get_account_def get_account_data_gid_def get_account_data_name_def pbindE_def pbind_def
      pret_def sql_select_ready sql_prepare_ready one_token_def split: list.splits option.splits)

lemma serde_roundtrip_sample: "serde_roundtrip sample_deps"
  by (auto simp: serde_roundtrip_def sample_deps_def sample_user_def split: if_splits)

lemma update_account_total:
  assumes "conn_wf c" and "sql_ready c" and "ser_user d a = Some data" and "e < 2 ^ 63"
  shows "\<exists>c'. update_account d a e c = Return (Inr (), c') \<and> sql_ready c'"
proof -
  from assms(1) have "account_unique (account_t (cur c))"
    using cur_wf by (auto simp: tables_wf_def)
  from succeedsD [OF update_account_succeeds [OF this assms(3,4)], of "foreign_keys c" c] assms(2)
  show ?thesis by (auto simp: at_tables_def at_account_def)
qed

theorem update_account_lookup_witness:
  "\<exists>c1 c2. update_account sample_deps sample_user 100 sample_conn = Return (Inr (), c1)
     \<and> get_account sample_deps (IdGid 1000) c1 = Return (Inr (Some (sample_user, 100)), c2)"
proof -
  from update_account_total [of sample_conn sample_deps sample_user "[1]" 100]
  obtain c1 where c1: "update_account sample_deps sample_user 100 sample_conn = Return (Inr (), c1)"
    "sql_ready c1" by auto
  then obtain r c2 where r: "get_account sample_deps (IdGid 1000) c1 = Return (r, c2)" "r \<noteq> Inl Sqlite"
    using get_account_ready by blast
  with update_account_lookup [OF _ serde_roundtrip_sample c1(1), of r c2] c1 show ?thesis
    by (auto simp: sample_user_def)
qed

end
