(* ===== verification/Cache_Props.thy ===== *)
theory Cache_Props
  imports Cache_Db
begin

text \<open>
  What the cache promises its clients (\<open>db.rs\<close>): storing an account is an update of a
  finite map keyed by the UUID, a cached password survives every refresh of its account, a
  transaction that is not committed leaves the database as it was, migrations keep the data
  of a current database. Two behaviours that the code does not intend are proved as well:
  names that differ only in case, and a commit that the engine refuses.
\<close>

section \<open>Accounts as a map\<close>

definition account_map :: "tables \<Rightarrow> string \<Rightarrow> account_row option" where
  "account_map t = map_of (map (\<lambda>r. (ar_uuid r, r)) (account_t t))"

definition account_entry :: "string \<Rightarrow> UserToken \<Rightarrow> bytes \<Rightarrow> nat \<Rightarrow> account_row option \<Rightarrow> account_row" where
  "account_entry u a data e old = \<lparr>ar_uuid = u, ar_name = ut_name a, ar_spn = ut_spn a,
     ar_gidnumber = ut_gidnumber a,
     ar_password = (case old of None \<Rightarrow> None | Some r \<Rightarrow> ar_password r),
     ar_token = data, ar_expiry = int e\<rparr>"

text \<open>
  The specification of \<open>update_account\<close>: accounts under another UUID that hold the name,
  the SPN or the uid of the new one go, and the entry of the UUID is replaced, except for
  its cached password.
\<close>

definition account_map_update :: "string \<Rightarrow> UserToken \<Rightarrow> bytes \<Rightarrow> nat
    \<Rightarrow> (string \<Rightarrow> account_row option) \<Rightarrow> string \<Rightarrow> account_row option" where
  "account_map_update u a data e m = (\<lambda>k.
     if k = u then Some (account_entry u a data e (m u))
     else (case m k of
         None \<Rightarrow> None
       | Some r \<Rightarrow> if account_conflicts u a r then None else Some r))"

lemma map_of_rows_filter:
  assumes "distinct (map f rs)"
  shows "map_of (map (\<lambda>r. (f r, r)) (filter P rs)) k =
    (case map_of (map (\<lambda>r. (f r, r)) rs) k of None \<Rightarrow> None | Some r \<Rightarrow> if P r then Some r else None)"
  using assms
proof (induction rs)
  case (Cons r rs)
  then have "map_of (map (\<lambda>r. (f r, r)) rs) (f r) = None"
    by (auto simp: map_of_eq_None_iff)
  with Cons show ?case by auto
qed simp

lemma map_of_rows_SomeD: "map_of (map (\<lambda>r. (f r, r)) rs) k = Some r \<Longrightarrow> f r = k \<and> r \<in> set rs"
  by (auto dest: map_of_SomeD)

lemma map_of_rows_update:
  assumes "\<And>r. f (g r) = f r"
  shows "map_of (map (\<lambda>r. (f r, r)) (map (\<lambda>r. if f r = u then g r else r) rs)) k =
    (if k = u then map_option g (map_of (map (\<lambda>r. (f r, r)) rs) u) else map_of (map (\<lambda>r. (f r, r)) rs) k)"
  using assms by (induction rs) auto

lemma account_upsert_map:
  assumes "account_unique (account_t t)"
  shows "map_of (map (\<lambda>r. (ar_uuid r, r)) (account_upsert u a data (int e) (account_t t))) =
    account_map_update u a data e (account_map t)"
proof
  fix k
  define rs where "rs = filter (\<lambda>r. \<not> account_conflicts u a r) (account_t t)"
  have dist: "distinct (map ar_uuid (account_t t))" using assms by (simp add: account_unique_def)
  have old: "map_of (map (\<lambda>r. (ar_uuid r, r)) rs) j = (case account_map t j of None \<Rightarrow> None
      | Some r \<Rightarrow> if account_conflicts u a r then None else Some r)" for j
    unfolding rs_def map_of_rows_filter [OF dist] account_map_def by (simp split: option.splits)
  have own: "map_of (map (\<lambda>r. (ar_uuid r, r)) rs) u = account_map t u"
    unfolding old by (auto simp: account_map_def account_conflicts_def dest!: map_of_rows_SomeD split: option.splits)
  show "map_of (map (\<lambda>r. (ar_uuid r, r)) (account_upsert u a data (int e) (account_t t))) k =
      account_map_update u a data e (account_map t) k"
  proof (cases "account_map t u")
    case None
    then have "\<forall>r \<in> set rs. ar_uuid r \<noteq> u"
      unfolding own [symmetric] by (force simp: map_of_eq_None_iff)
    with None show ?thesis using old [of k]
      by (auto simp: account_upsert_def Let_def rs_def [symmetric] account_map_update_def
          account_entry_def map_add_def split: option.splits)
  next
    case (Some r)
    then have u: "\<exists>r \<in> set rs. ar_uuid r = u"
      unfolding own [symmetric] by (auto dest: map_of_rows_SomeD)
    have "account_upsert u a data (int e) (account_t t) =
        map (\<lambda>r. if ar_uuid r = u then account_set a data (int e) r else r) rs"
      using u by (simp add: account_upsert_def Let_def rs_def [symmetric])
    moreover have "ar_uuid r = u"
      using Some by (auto simp: account_map_def dest: map_of_rows_SomeD)
    ultimately show ?thesis
      using Some own old [of k]
      by (simp only: map_of_rows_update account_set_simps)
        (simp add: account_map_update_def account_entry_def account_set_def)
  qed
qed

lemma update_account_map:
  assumes wf: "conn_wf c" and run: "update_account d a e c = Return (Inr x, c')"
  shows "\<exists>data. ser_user d a = Some data \<and>
    account_map (cur c') = account_map_update (uuid_str d (ut_uuid a)) a data e (account_map (cur c))"
proof -
  let ?u = "uuid_str d (ut_uuid a)"
  from run obtain data ex where ser: "ser_user d a = Some data" and ex: "i64_of_u64 e = Some ex"
    and t: "account_t (cur c') = account_upsert ?u a data ex (account_t (cur c))"
    by (rule update_account_Inr) (auto simp: account_update_tables_def Let_def)
  from ex have "ex = int e" by (simp add: i64_of_u64_def split: if_splits)
  moreover have "account_unique (account_t (cur c))"
    using cur_wf [OF wf] by (simp add: tables_wf_def)
  ultimately show ?thesis using ser account_upsert_map [of "cur c" ?u a data e]
    by (simp add: account_map_def t)
qed

text \<open>
  C5. Storing an account refines the update of a map keyed by the UUID: the entries that
  clash with the new account disappear, the account's own entry is replaced and keeps its
  cached password, and every other entry is left alone.
\<close>

theorem update_account_refines:
  assumes "conn_wf c" and "update_account d a e c = Return (Inr x, c')"
  shows "\<exists>data. ser_user d a = Some data \<and>
    account_map (cur c') = account_map_update (uuid_str d (ut_uuid a)) a data e (account_map (cur c))"
  by (rule update_account_map [OF assms])

theorem update_account_refines_witness:
  "\<exists>c'. update_account sample_deps sample_user 100 sample_conn = Return (Inr (), c')
     \<and> account_map (cur c') ''1'' = Some (account_entry ''1'' sample_user [1] 100 None)"
proof -
  from update_account_total [of sample_conn sample_deps sample_user "[1]" 100]
  obtain c' where run: "update_account sample_deps sample_user 100 sample_conn = Return (Inr (), c')"
    by auto
  have u: "uuid_str sample_deps (ut_uuid sample_user) = ''1''"
    by code_simp
  from update_account_refines [OF _ run] have "account_map (cur c') =
      account_map_update ''1'' sample_user [1] 100 (account_map (cur sample_conn))"
    by (simp add: u)
  with run show ?thesis by (simp add: account_map_update_def account_map_def)
qed

section \<open>Cached passwords\<close>

text \<open>
  What the code relies on of the password hash: its serialised form parses back, and a hash
  made from a password verifies that password.
\<close>

definition pw_laws :: "'h deps \<Rightarrow> bool" where
  "pw_laws d \<longleftrightarrow> (\<forall>p b. ser_pw d p = Some b \<longrightarrow> de_pw d b = Some p) \<and>
     (\<forall>cred h p h1 h2. pw_new d cred h = (Some p, h1) \<longrightarrow> fst (pw_verify d p cred h2) = Some True)"

lemma pw_lawsD:
  "pw_laws d \<Longrightarrow> ser_pw d p = Some b \<Longrightarrow> de_pw d b = Some p"
  "pw_laws d \<Longrightarrow> pw_new d cred h = (Some p, h1) \<Longrightarrow> fst (pw_verify d p cred h2) = Some True"
  unfolding pw_laws_def by blast+

definition passwords :: "string \<Rightarrow> tables \<Rightarrow> bytes list" where
  "passwords u t = List.map_filter ar_password (filter (\<lambda>r. ar_uuid r = u) (account_t t))"

lemma filter_uuid:
  assumes "distinct (map ar_uuid rs)"
  shows "filter (\<lambda>r. ar_uuid r = u) rs = (case map_of (map (\<lambda>r. (ar_uuid r, r)) rs) u of
    None \<Rightarrow> [] | Some r \<Rightarrow> [r])"
  using assms
proof (induction rs)
  case (Cons r rs)
  then have "filter (\<lambda>y. ar_uuid y = ar_uuid r) rs = []"
    by (auto simp: filter_empty_conv image_iff)
  with Cons show ?case by (cases "ar_uuid r = u") auto
qed simp

lemma passwords_map:
  assumes "tables_wf t"
  shows "passwords u t = (case account_map t u of None \<Rightarrow> [] | Some r \<Rightarrow>
    (case ar_password r of None \<Rightarrow> [] | Some b \<Rightarrow> [b]))"
  using assms
  by (simp add: passwords_def tables_wf_def account_unique_def filter_uuid account_map_def
      List.map_filter_def split: option.splits)

lemma update_account_password_Inr:
  assumes wf: "conn_wf (fst s)" and run: "update_account_password d u cred s = Return (Inr x, s')"
    and row: "account_map (cur (fst s)) (uuid_str d u) \<noteq> None"
  obtains p b h where "pw_new d cred (snd s) = (Some p, h)" and "ser_pw d p = Some b"
    and "passwords (uuid_str d u) (cur (fst s')) = [b]"
    and "account_map (cur (fst s')) (uuid_str d u) \<noteq> None"
proof -
  let ?u = "uuid_str d u"
  let ?f = "\<lambda>b r. if ar_uuid r = ?u then r\<lparr>ar_password := Some b\<rparr> else r"
  from run obtain p b h where pw: "pw_new d cred (snd s) = (Some p, h)" "ser_pw d p = Some b"
    and t: "cur (fst s') = (cur (fst s))\<lparr>account_t := map (?f b) (account_t (cur (fst s)))\<rparr>"
    by (cases "pw_new d cred (snd s)")
      (auto simp: update_account_password_def on_hsm_def on_db_def prog_Return dest!: sql_exec_Inr
        split: option.splits)
  have "keeps in_txn_hsm (update_account_password d u cred)"
    by (rule update_account_password_keeps)
  with run wf have "conn_wf (fst s')"
    by (auto simp: in_txn_hsm_def in_txn_def dest: keepsD)
  then have "tables_wf (cur (fst s'))" by (rule cur_wf)
  moreover have "account_map (cur (fst s')) ?u =
      map_option (\<lambda>r. r\<lparr>ar_password := Some b\<rparr>) (account_map (cur (fst s)) ?u)"
    unfolding t account_map_def by (simp add: map_of_rows_update del: map_map)
  ultimately show thesis using pw row that by (auto simp: passwords_map)
qed

lemma on_db_Return: "on_db m s = Return (a, t) \<longleftrightarrow> (\<exists>c. m (fst s) = Return (a, c) \<and> t = (c, snd s))"
  by (auto simp: on_db_def pzoom_Return)

lemma check_account_password_Return:
  assumes "check_account_password d u cred s = Return (r, s')" and "passwords (uuid_str d u) (cur (fst s)) = [b]"
    and "de_pw d b = Some p" and "\<And>h. fst (pw_verify d p cred h) = Some True"
  shows "r = Inr True \<or> r = Inl Sqlite"
proof (rule ccontr)
  assume no: "\<not> ?thesis"
  let ?q = "passwords (uuid_str d u)"
  let ?k = "\<lambda>data. case data of [] \<Rightarrow> pret (Inr False) | raw # rest \<Rightarrow>
      if length data \<ge> 2 then pret (Inl TooManyResults)
      else (case de_pw d raw of None \<Rightarrow> pret (Inr False)
        | Some pw \<Rightarrow> pbind (on_hsm (pw_verify d pw cred)) (\<lambda>r.
            pret (case r of None \<Rightarrow> Inl Cryptography | Some b \<Rightarrow> Inr b)))"
  have def: "check_account_password d u cred = pbindE (on_db (sql_prepare [''account_t''])) (\<lambda>_.
      pbindE (on_db (sql_select [''account_t''] ?q)) ?k)"
    unfolding check_account_password_def passwords_def ..
  from assms(1) no obtain c1 c2 data where
      "sql_prepare [''account_t''] (fst s) = Return (Inr (), c1)"
      "sql_select [''account_t''] ?q c1 = Return (Inr data, c2)"
    and k: "?k data (c2, snd s) = Return (r, s')"
    unfolding def pbindE_Return on_db_Return by (auto dest: sql_select_Inl sql_prepare_Inl)
  then have "data = [b]"
    using assms(2) by (auto dest!: sql_select_Inr sql_prepare_Inr)
  with k no assms(3,4) show False
    by (auto simp: on_hsm_def pbind_Return)
qed

text \<open>
  C15. A cached password survives a refresh of its account: after the password of a cached
  account was set and the account was then stored again with a new token, checking the same
  password accepts it, unless the engine refuses the query.
\<close>

theorem cached_password_survives_update:
  assumes wf: "conn_wf (fst s)" and laws: "pw_laws d"
    and row: "account_map (cur (fst s)) (uuid_str d (ut_uuid a)) \<noteq> None"
    and setpw: "update_account_password d (ut_uuid a) cred s = Return (Inr x, s1)"
    and upd: "update_account d a e (fst s1) = Return (Inr y, c2)"
    and chk: "check_account_password d (ut_uuid a) cred (c2, h) = Return (r, s3)"
  shows "r = Inr True \<or> r = Inl Sqlite"
proof -
  let ?u = "uuid_str d (ut_uuid a)"
  obtain p b h' where
    pw: "pw_new d cred (snd s) = (Some p, h')" "ser_pw d p = Some b"
    and pws: "passwords ?u (cur (fst s1)) = [b]" and row1: "account_map (cur (fst s1)) ?u \<noteq> None"
    by (rule update_account_password_Inr [OF wf setpw row])
  have wf1: "conn_wf (fst s1)"
    using keepsD [OF update_account_password_keeps setpw] wf by (auto simp: in_txn_hsm_def in_txn_def)
  from keepsD [OF update_account_keeps upd] wf1 have wf2: "conn_wf c2" by (auto simp: in_txn_def)
  from update_account_map [OF wf1 upd] obtain data where
    m: "account_map (cur c2) = account_map_update ?u a data e (account_map (cur (fst s1)))"
    by blast
  from row1 obtain r1 where r1: "account_map (cur (fst s1)) ?u = Some r1" by blast
  with pws have "ar_password r1 = Some b"
    by (simp add: passwords_map [OF cur_wf [OF wf1]] split: option.splits)
  with r1 have "passwords ?u (cur c2) = [b]"
    by (simp add: passwords_map [OF cur_wf [OF wf2]] m account_map_update_def account_entry_def)
  then have "passwords ?u (cur (fst (c2, h))) = [b]" by simp
  from check_account_password_Return [OF chk this pw_lawsD(1) [OF laws pw(2)] pw_lawsD(2) [OF laws pw(1)]]
  show ?thesis .
qed

lemma update_account_password_ready:
  assumes "sql_ready (fst s)" and "pw_new d cred (snd s) = (Some p, h)" and "ser_pw d p = Some b"
  shows "\<exists>s'. update_account_password d u cred s = Return (Inr (), s') \<and> sql_ready (fst s')"
proof -
  let ?f = "\<lambda>t. t\<lparr>account_t := map (\<lambda>r. if ar_uuid r = uuid_str d u then r\<lparr>ar_password := Some b\<rparr> else r)
      (account_t t)\<rparr>"
  have "succeeds sql_ready (sql_exec [''account_t''] ?f) (\<lambda>_. sql_ready)"
    by (intro sql_exec_succeeds) auto
  from succeedsD [OF this assms(1)] assms(2,3) show ?thesis
    by (auto simp: update_account_password_def pbind_Return on_hsm_def on_db_Return)
qed

lemma check_account_password_ready:
  assumes "sql_ready c"
  shows "\<exists>r s'. check_account_password d u cred (c, h) = Return (r, s') \<and> r \<noteq> Inl Sqlite"
  using assms
  by (auto simp: check_account_password_def pbindE_def pbind_def on_db_def pzoom_def on_hsm_def pret_def
      sql_prepare_ready sql_select_ready split: list.splits option.splits)

definition sample_cached :: dbconn where
  "sample_cached = put_cur (sample_tables\<lparr>account_t := [account_entry ''1'' sample_user [1] 100 None]\<rparr>) sample_conn"

lemma sample_cached_simps:
  "cur sample_cached = sample_tables\<lparr>account_t := [account_entry ''1'' sample_user [1] 100 None]\<rparr>"
  "conn_wf sample_cached" "sql_ready sample_cached"
  by (auto simp: sample_cached_def put_cur_def cur_def conn_wf_def tables_wf_def account_unique_def
      sql_ready_def db_tables_def) (auto simp: sample_tables_def)

lemma sample_uuid: "uuid_str sample_deps (ut_uuid sample_user) = ''1''"
  by code_simp

lemma char_of_unat [simp]: "char_of (unat (of_char c :: u8)) = c"
proof -
  have "(of_char c :: u8) = of_nat (of_char c)" by (rule of_nat_of_char [symmetric])
  moreover have "(of_char c :: nat) \<in> {0..<256}" unfolding range_nat_of_char [symmetric] by (rule rangeI)
  ultimately have "unat (of_char c :: u8) = of_char c"
    by (simp only: unat_of_nat) (simp add: take_bit_eq_mod)
  then show ?thesis by simp
qed

lemma pw_laws_sample: "pw_laws sample_deps"
  by (auto simp: pw_laws_def sample_deps_def o_def)

theorem cached_password_survives_update_witness:
  "\<exists>s1 c2 s3. update_account_password sample_deps 1 ''secret'' (sample_cached, ()) = Return (Inr (), s1)
     \<and> update_account sample_deps sample_user 200 (fst s1) = Return (Inr (), c2)
     \<and> check_account_password sample_deps 1 ''secret'' (c2, ()) = Return (Inr True, s3)"
proof -
  have pw: "pw_new sample_deps ''secret'' (snd (sample_cached, ())) = (Some ''secret'', ())"
    and b: "ser_pw sample_deps ''secret'' = Some (map of_char ''secret'')"
    by (simp_all add: sample_deps_def)
  have "sql_ready (fst (sample_cached, ()))" by (simp add: sample_cached_simps)
  from update_account_password_ready [OF this pw b, of 1] obtain s1 where
    s1: "update_account_password sample_deps 1 ''secret'' (sample_cached, ()) = Return (Inr (), s1)"
    "sql_ready (fst s1)"
    by blast
  from keepsD [OF update_account_password_keeps s1(1)] have "conn_wf (fst s1)"
    by (simp add: in_txn_hsm_def in_txn_def sample_cached_simps)
  with s1(2) obtain c2 where c2: "update_account sample_deps sample_user 200 (fst s1) = Return (Inr (), c2)"
    "sql_ready c2"
    using update_account_total [of "fst s1" sample_deps sample_user "[1]" 200] by auto
  from check_account_password_ready [OF c2(2)] obtain r s3 where
    r: "check_account_password sample_deps 1 ''secret'' (c2, ()) = Return (r, s3)" "r \<noteq> Inl Sqlite"
    by metis
  have u: "ut_uuid sample_user = 1" by (simp add: sample_user_def)
  have row: "account_map (cur (fst (sample_cached, ()))) (uuid_str sample_deps (ut_uuid sample_user)) \<noteq> None"
    by (simp add: sample_cached_simps sample_uuid account_map_def account_entry_def)
  have "conn_wf (fst (sample_cached, ()))" by (simp add: sample_cached_simps)
  from cached_password_survives_update [OF this pw_laws_sample row, unfolded u, OF s1(1) c2(1) r(1)]
    s1(1) c2(1) r show ?thesis by blast
qed

section \<open>Transactions\<close>

text \<open>The operations a holder of a \<open>DbTxn\<close> can run, and sequences of them.\<close>

datatype db_op =
    Op_migrate
  | Op_invalidate
  | Op_clear
  | Op_clear_hello_keys
  | Op_clear_hsm
  | Op_get_hsm_machine_key
  | Op_insert_hsm_machine_key opaque
  | Op_get_hsm_hmac_key
  | Op_insert_hsm_hmac_key opaque
  | Op_get_tagged_hsm_key string
  | Op_insert_tagged_hsm_key string opaque
  | Op_delete_tagged_hsm_key string
  | Op_get_account Id
  | Op_get_accounts
  | Op_update_account UserToken nat
  | Op_delete_account Uuid
  | Op_update_account_password Uuid string
  | Op_check_account_password Uuid string
  | Op_get_group Id
  | Op_get_group_members Uuid
  | Op_get_groups
  | Op_update_group GroupToken nat
  | Op_delete_group Uuid

definition ignore_result :: "('s, 'a) prog \<Rightarrow> ('s, unit) prog" where
  "ignore_result m = pbind m (\<lambda>_. pret ())"

fun run_op :: "'h deps \<Rightarrow> db_op \<Rightarrow> (dbconn \<times> 'h, unit) prog" where
  "run_op d Op_migrate = ignore_result (on_db migrate)"
| "run_op d Op_invalidate = ignore_result (on_db invalidate)"
| "run_op d Op_clear = ignore_result (on_db clear)"
| "run_op d Op_clear_hello_keys = ignore_result (on_db clear_hello_keys)"
| "run_op d Op_clear_hsm = ignore_result (on_db clear_hsm)"
| "run_op d Op_get_hsm_machine_key = ignore_result (on_db (get_hsm_machine_key d))"
| "run_op d (Op_insert_hsm_machine_key k) = ignore_result (on_db (insert_hsm_machine_key d k))"
| "run_op d Op_get_hsm_hmac_key = ignore_result (on_db (get_hsm_hmac_key d))"
| "run_op d (Op_insert_hsm_hmac_key k) = ignore_result (on_db (insert_hsm_hmac_key d k))"
| "run_op d (Op_get_tagged_hsm_key t) = ignore_result (on_db (get_tagged_hsm_key (de_key d) t))"
| "run_op d (Op_insert_tagged_hsm_key t k) = ignore_result (on_db (insert_tagged_hsm_key (ser_key d) t k))"
| "run_op d (Op_delete_tagged_hsm_key t) = ignore_result (on_db (delete_tagged_hsm_key t))"
| "run_op d (Op_get_account i) = ignore_result (on_db (get_account d i))"
| "run_op d Op_get_accounts = ignore_result (on_db (get_accounts d))"
| "run_op d (Op_update_account a e) = ignore_result (on_db (update_account d a e))"
| "run_op d (Op_delete_account u) = ignore_result (on_db (delete_account d u))"
| "run_op d (Op_update_account_password u p) = ignore_result (update_account_password d u p)"
| "run_op d (Op_check_account_password u p) = ignore_result (check_account_password d u p)"
| "run_op d (Op_get_group i) = ignore_result (on_db (get_group d i))"
| "run_op d (Op_get_group_members u) = ignore_result (on_db (get_group_members d u))"
| "run_op d Op_get_groups = ignore_result (on_db (get_groups d))"
| "run_op d (Op_update_group g e) = ignore_result (on_db (update_group d g e))"
| "run_op d (Op_delete_group u) = ignore_result (on_db (delete_group d u))"

fun run_ops :: "'h deps \<Rightarrow> db_op list \<Rightarrow> (dbconn \<times> 'h, unit) prog" where
  "run_ops d [] = pret ()"
| "run_ops d (x # xs) = pbind (run_op d x) (\<lambda>_. run_ops d xs)"

text \<open>A whole transaction: the result says whether it was committed.\<close>

definition db_session :: "'h deps \<Rightarrow> db_op list \<Rightarrow> bool \<Rightarrow> (dbconn \<times> 'h, bool) prog" where
  "db_session d ops fin =
     pbind (on_db db_write) (\<lambda>_.
     pbind (run_ops d ops) (\<lambda>_.
     if fin then pbind (on_db commit) (\<lambda>r. pret (case r of Inl _ \<Rightarrow> False | Inr _ \<Rightarrow> True))
     else pbind (on_db drop_txn) (\<lambda>_. pret False)))"

lemma run_op_keeps: "keeps in_txn_hsm (run_op d x)"
  by (cases x; simp add: ignore_result_def get_hsm_machine_key_def insert_hsm_machine_key_def
      get_hsm_hmac_key_def insert_hsm_hmac_key_def;
    intro stmt_hsm.flow on_db_keeps cache_keeps update_account_password_keeps check_account_password_keeps)

lemma run_ops_keeps: "keeps in_txn_hsm (run_ops d xs)"
  by (induction xs) (auto intro: stmt_hsm.flow run_op_keeps)

lemma db_write_Return: "db_write c = Return (x, c') \<longleftrightarrow> \<not> guard c \<and> txn c = None \<and> \<not> sql_fault c (stmt_no c)
    \<and> c' = c\<lparr>guard := True, txn := Some (disk c), stmt_no := Suc (stmt_no c)\<rparr>"
  by (auto simp: db_write_def)

lemma commit_Return: "commit c = Return (r, c') \<Longrightarrow> conn_wf c \<Longrightarrow> conn_wf c' \<and> \<not> guard c' \<and>
    (case r of Inl _ \<Rightarrow> disk c' = disk c \<and> txn c' = txn c | Inr _ \<Rightarrow> txn c = Some (disk c') \<and> txn c' = None)"
  by (auto simp: commit_def conn_wf_def Let_def split: option.splits if_splits)

lemma drop_txn_Return: "drop_txn c = Return (x, c') \<Longrightarrow> conn_wf c \<Longrightarrow>
    conn_wf c' \<and> \<not> guard c' \<and> disk c' = disk c \<and> txn c' = None"
  by (auto simp: drop_txn_def conn_wf_def split: if_splits)

text \<open>
  C9. Transactions are atomic and keep the invariant of the tables: whatever operations a
  transaction runs, and whichever of them fail, the unique columns stay unique, the guard is
  given back, and the database on disk changes only where the commit succeeded; then it is what
  the operations of the transaction made of it.
\<close>

theorem session_atomic:
  assumes wf: "conn_wf (fst s)" and run: "db_session d ops fin s = Return (committed, s')"
  shows "conn_wf (fst s') \<and> \<not> guard (fst s') \<and> (committed \<longrightarrow> fin \<and> txn (fst s') = None
      \<and> (\<exists>c1 s2. db_write (fst s) = Return ((), c1) \<and> run_ops d ops (c1, snd s) = Return ((), s2)
        \<and> disk (fst s') = cur (fst s2)))
    \<and> (\<not> committed \<longrightarrow> disk (fst s') = disk (fst s))"
proof -
  from run obtain c1 s2 where w: "db_write (fst s) = Return ((), c1)"
    and ops: "run_ops d ops (c1, snd s) = Return ((), s2)"
    and fin: "(if fin then pbind (on_db commit) (\<lambda>r. pret (case r of Inl _ \<Rightarrow> False | Inr _ \<Rightarrow> True))
      else pbind (on_db drop_txn) (\<lambda>_. pret False)) s2 = Return (committed, s')"
    unfolding db_session_def pbind_Return on_db_Return by (auto split del: if_split)
  have "conn_wf c1" "disk c1 = disk (fst s)" "txn c1 \<noteq> None"
    using wf w by (auto simp: db_write_Return conn_wf_def)
  with keepsD [OF run_ops_keeps ops] have s2: "conn_wf (fst s2)" "disk (fst s2) = disk (fst s)"
    by (auto simp: in_txn_hsm_def in_txn_def)
  show ?thesis
  proof (cases fin)
    case True
    with fin obtain r c where "commit (fst s2) = Return (r, c)" "s' = (c, snd s2)"
      "committed = (case r of Inl _ \<Rightarrow> False | Inr _ \<Rightarrow> True)"
      by (simp add: pbind_Return on_db_Return) blast
    moreover from this commit_Return [of "fst s2" r c] s2 have "disk c = cur (fst s2)" if "committed"
      using that by (cases r) (auto simp: cur_def)
    ultimately show ?thesis using commit_Return [of "fst s2" r c] s2 True w ops by (cases r; cases s2) auto
  next
    case False
    with fin obtain x c where "drop_txn (fst s2) = Return (x, c)" "s' = (c, snd s2)" "\<not> committed"
      by (simp add: pbind_Return on_db_Return) blast
    with drop_txn_Return [of "fst s2" x c] s2 show ?thesis by simp
  qed
qed

theorem session_atomic_witness:
  "\<exists>s'. db_session sample_deps [Op_clear] False (sample_conn\<lparr>guard := False, txn := None\<rparr>, ()) =
     Return (False, s') \<and> conn_wf (fst s') \<and> disk (fst s') = sample_tables"
proof -
  have "\<exists>s'. db_session sample_deps [Op_clear] False (sample_conn\<lparr>guard := False, txn := None\<rparr>, ()) =
      Return (False, s')"
    by (simp add: db_session_def ignore_result_def on_db_def prog_defs db_write_def drop_txn_def clear_def
        sql_exec_def sql_delete_accounts_def delete_accounts_def sql_def Let_def sample_conn_def cur_def
        put_cur_def sample_tables_def empty_tables_def)
  then obtain s' where run: "db_session sample_deps [Op_clear] False
      (sample_conn\<lparr>guard := False, txn := None\<rparr>, ()) = Return (False, s')" by blast
  have "conn_wf (fst (sample_conn\<lparr>guard := False, txn := None\<rparr>, ()))"
    using sample_ready(1) by (simp add: conn_wf_def)
  from session_atomic [OF this run] run show ?thesis by auto
qed

text \<open>
  C16. A commit that the engine refuses leaves the transaction open although the guard is
  given back, because the transaction counts as committed before the statement runs and is
  then never rolled back. The next transaction of the daemon panics.
\<close>

theorem refused_commit_poisons_connection:
  assumes "txn c \<noteq> None" and "commit c = Return (Inl e, c')"
  shows "\<not> guard c' \<and> txn c' = txn c \<and> db_write c' = Panic"
  using assms by (auto simp: commit_def db_write_def Let_def split: option.splits if_splits)

theorem refused_commit_poisons_connection_witness:
  "\<exists>c'. commit (sample_conn\<lparr>sql_fault := (\<lambda>n. n = 1)\<rparr>) = Return (Inl Sqlite, c') \<and> db_write c' = Panic"
proof -
  have "\<exists>c'. commit (sample_conn\<lparr>sql_fault := (\<lambda>n. n = 1)\<rparr>) = Return (Inl Sqlite, c')"
    by (simp add: commit_def sample_conn_def)
  then obtain c' where c': "commit (sample_conn\<lparr>sql_fault := (\<lambda>n. n = 1)\<rparr>) = Return (Inl Sqlite, c')" by blast
  with refused_commit_poisons_connection [OF _ c'] show ?thesis by simp
qed

section \<open>Names that differ in case\<close>

lemma two_elements: "x \<in> set xs \<Longrightarrow> y \<in> set xs \<Longrightarrow> x \<noteq> y \<Longrightarrow> 2 \<le> length xs"
  by (cases xs rule: list.exhaust; cases "tl xs" rule: list.exhaust) auto

lemma get_account_name_cases:
  assumes "get_account d (IdName n) c = Return (r, c')"
  shows "r = Inl Sqlite \<or> r = one_token (de_user d) (map (\<lambda>r. (ar_token r, ar_expiry r))
    (filter (\<lambda>r. ar_uuid r = n \<or> eq_nocase (ar_name r) n \<or> eq_nocase (ar_spn r) n) (account_t (cur c))))"
  using assms
  by (auto simp: get_account_def get_account_data_name_def pbindE_Return
      dest!: sql_select_Inr sql_prepare_Inr dest: sql_select_Inl sql_prepare_Inl)

text \<open>
  The unique columns tell names apart by case, the lookup by name does not. Two accounts
  whose SPNs differ only in the case of letters are both stored, and from then on a lookup by
  that SPN fails with \<open>TooManyResults\<close> (or the engine refuses the query).
\<close>

theorem case_variants_make_lookup_ambiguous:
  assumes wf: "conn_wf c"
    and u1: "update_account d a1 e1 c = Return (Inr x, c1)"
    and u2: "update_account d a2 e2 c1 = Return (Inr y, c2)"
    and uuid: "uuid_str d (ut_uuid a1) \<noteq> uuid_str d (ut_uuid a2)"
    and diff: "ut_name a1 \<noteq> ut_name a2" "ut_spn a1 \<noteq> ut_spn a2" "ut_gidnumber a1 \<noteq> ut_gidnumber a2"
    and nocase: "eq_nocase (ut_spn a1) (ut_spn a2)"
    and get: "get_account d (IdName (ut_spn a2)) c2 = Return (r, c3)"
  shows "r = Inl TooManyResults \<or> r = Inl Sqlite"
proof -
  let ?q = "\<lambda>r. ar_uuid r = ut_spn a2 \<or> eq_nocase (ar_name r) (ut_spn a2) \<or> eq_nocase (ar_spn r) (ut_spn a2)"
  from keepsD [OF update_account_keeps u1] wf have wf1: "conn_wf c1" by (simp add: in_txn_def)
  from update_account_map [OF wf u1] obtain b1 where
    m1: "account_map (cur c1) = account_map_update (uuid_str d (ut_uuid a1)) a1 b1 e1 (account_map (cur c))"
    by blast
  from update_account_map [OF wf1 u2] obtain b2 where
    m2: "account_map (cur c2) = account_map_update (uuid_str d (ut_uuid a2)) a2 b2 e2 (account_map (cur c1))"
    by blast
  let ?r1 = "account_entry (uuid_str d (ut_uuid a1)) a1 b1 e1 (account_map (cur c) (uuid_str d (ut_uuid a1)))"
  let ?r2 = "account_entry (uuid_str d (ut_uuid a2)) a2 b2 e2 (account_map (cur c1) (uuid_str d (ut_uuid a2)))"
  have "account_map (cur c2) (uuid_str d (ut_uuid a2)) = Some ?r2"
    by (simp add: m2 account_map_update_def)
  moreover have "account_map (cur c2) (uuid_str d (ut_uuid a1)) = Some ?r1"
    using uuid diff by (simp add: m2 m1 account_map_update_def account_conflicts_def account_entry_def)
  ultimately have "?r1 \<in> set (filter ?q (account_t (cur c2)))" "?r2 \<in> set (filter ?q (account_t (cur c2)))"
    using nocase by (auto simp: account_map_def account_entry_def dest!: map_of_rows_SomeD)
  moreover have "?r1 \<noteq> ?r2" using uuid by (simp add: account_entry_def)
  ultimately have "2 \<le> length (filter ?q (account_t (cur c2)))" by (rule two_elements)
  with get_account_name_cases [OF get] show ?thesis by (auto simp: one_token_def)
qed

definition sample_user2 :: UserToken where
  "sample_user2 = sample_user\<lparr>ut_spn := ''ALICE@EXAMPLE.COM'', ut_name := ''ALICE'', ut_gidnumber := 2000, ut_uuid := 2\<rparr>"

lemma sample_case_facts:
  "uuid_str sample_deps (ut_uuid sample_user) \<noteq> uuid_str sample_deps (ut_uuid sample_user2)"
  "ut_name sample_user \<noteq> ut_name sample_user2" "ut_spn sample_user \<noteq> ut_spn sample_user2"
  "ut_gidnumber sample_user \<noteq> ut_gidnumber sample_user2"
  "eq_nocase (ut_spn sample_user) (ut_spn sample_user2)" "ser_user sample_deps sample_user2 = Some [2]"
  by code_simp+

theorem case_variants_make_lookup_ambiguous_witness:
  "\<exists>c1 c2 c3. update_account sample_deps sample_user 100 sample_conn = Return (Inr (), c1)
     \<and> update_account sample_deps sample_user2 100 c1 = Return (Inr (), c2)
     \<and> get_account sample_deps (IdName ''ALICE@EXAMPLE.COM'') c2 = Return (Inl TooManyResults, c3)"
proof -
  from update_account_total [of sample_conn sample_deps sample_user "[1]" 100]
  obtain c1 where c1: "update_account sample_deps sample_user 100 sample_conn = Return (Inr (), c1)" "sql_ready c1"
    by auto
  from keepsD [OF update_account_keeps c1(1)] have "conn_wf c1" by (simp add: in_txn_def)
  from update_account_total [OF this c1(2) sample_case_facts(6), of 100]
  obtain c2 where c2: "update_account sample_deps sample_user2 100 c1 = Return (Inr (), c2)" "sql_ready c2"
    by auto
  from get_account_ready [OF c2(2)] obtain r where
    r: "get_account sample_deps (IdName (ut_spn sample_user2)) c2 = Return (r, c2\<lparr>stmt_no := stmt_no c2 + 2\<rparr>)"
      "r \<noteq> Inl Sqlite" by metis
  from case_variants_make_lookup_ambiguous [OF sample_ready(1) c1(1) c2(1) sample_case_facts(1-5) r(1)] r c1 c2
  show ?thesis by (auto simp: sample_user2_def)
qed

section \<open>Migration\<close>

lemma sql_exec_ok:
  assumes "\<not> sql_fault c (stmt_no c)" and "set ts \<subseteq> set (schema (cur c))"
  shows "sql_exec ts f c = Return (Inr (), put_cur (f (cur c)) (c\<lparr>stmt_no := Suc (stmt_no c)\<rparr>))"
  using assms by (simp add: sql_exec_def sql_Inr)

lemma sql_select_ok:
  assumes "\<not> sql_fault c (stmt_no c)" and "set ts \<subseteq> set (schema (cur c))"
  shows "sql_select ts q c = Return (Inr (q (cur c)), c\<lparr>stmt_no := Suc (stmt_no c)\<rparr>)"
  using assms by (simp add: sql_select_def sql_Inr)

lemma sql_select_fault:
  "sql_fault c (stmt_no c) \<Longrightarrow> sql_select ts q c = Return (Inl Sqlite, c\<lparr>stmt_no := Suc (stmt_no c)\<rparr>)"
  by (simp add: sql_select_def sql_def Let_def)

lemma create_table_ok:
  assumes "\<not> sql_fault c (stmt_no c)" and "n \<in> set (schema (cur c))"
  shows "create_table n c = Return (Inr (), c\<lparr>stmt_no := Suc (stmt_no c)\<rparr>)"
  using assms by (simp add: create_table_def sql_exec_ok)

lemma sql_delete_accounts_ok:
  assumes "\<not> sql_fault c (stmt_no c)" and "''account_t'' \<in> set (schema (cur c))"
  shows "sql_delete_accounts P c = Return (Inr (), put_cur (delete_accounts P (foreign_keys c) (cur c))
    (c\<lparr>stmt_no := Suc (stmt_no c)\<rparr>))"
  using assms by (simp add: sql_delete_accounts_def sql_Inr)

definition same_data :: "tables \<Rightarrow> tables \<Rightarrow> bool" where
  "same_data t u \<longleftrightarrow> account_t u = account_t t \<and> group_t u = group_t t \<and> memberof_t u = memberof_t t
     \<and> hsm_int_t u = hsm_int_t t \<and> hsm_data_t u = hsm_data_t t"

lemma migrate_start:
  assumes "\<not> sql_fault c (stmt_no c)" "\<not> sql_fault c (Suc (stmt_no c))" "db_tables \<subseteq> set (schema (cur c))"
  shows "migrate c = (let c2 = c\<lparr>stmt_no := stmt_no c + 2\<rparr> in
    pbind (get_db_version DBV_MAIN) (\<lambda>db_version.
     pbindE
       (if db_version < 1 then
          pbindE (create_table ''account_t'') (\<lambda>_.
          pbindE (create_table ''group_t'') (\<lambda>_.
          pbindE (create_table ''memberof_t'') (\<lambda>_.
          pbindE (create_table ''hsm_int_t'') (\<lambda>_.
          pbindE (create_table ''hsm_data_t'') (\<lambda>_.
          clear_hsm)))))
        else pret (Inr ())) (\<lambda>_.
     pbindE (set_db_version DBV_MAIN 1) (\<lambda>_.
     pret (Inr ())))) c2)"
proof -
  have "sql_prepare [] c = Return (Inr (), c\<lparr>stmt_no := Suc (stmt_no c)\<rparr>)"
    using assms by (simp add: sql_prepare_def sql_exec_ok)
  moreover have "create_table ''db_version_t'' (c\<lparr>stmt_no := Suc (stmt_no c)\<rparr>) =
      Return (Inr (), c\<lparr>stmt_no := stmt_no c + 2\<rparr>)"
    using assms by (subst create_table_ok) (auto simp: db_tables_def)
  ultimately show ?thesis
    unfolding migrate_def by (simp add: pbindE_def pbind_def Let_def)
qed

text \<open>
  Starting on a database of the current version changes none of its data: the migration
  succeeds and every account, group, membership and key is kept.
\<close>

theorem migrate_keeps_current_data:
  assumes ready: "sql_ready c" and v: "map_of (db_version_t (cur c)) DBV_MAIN = Some v" "1 \<le> v"
  shows "\<exists>c'. migrate c = Return (Inr (), c') \<and> same_data (cur c) (cur c')"
proof -
  from ready have fine: "\<And>n. \<not> sql_fault c n" and sch: "db_tables \<subseteq> set (schema (cur c))"
    by (auto simp: sql_ready_def)
  then have "''db_version_t'' \<in> set (schema (cur c))" by (auto simp: db_tables_def)
  with v fine show ?thesis
    by (simp add: migrate_start [OF fine fine sch] Let_def get_db_version_def sql_select_ok set_db_version_def
        sql_exec_ok pbindE_def pbind_def pret_def same_data_def)
qed

theorem migrate_keeps_current_data_witness:
  "\<exists>c'. migrate (put_cur (sample_tables\<lparr>db_version_t := [(''main'', 1)], hsm_data_t := [(''k'', [5])]\<rparr>) sample_conn)
       = Return (Inr (), c') \<and> hsm_data_t (cur c') = [(''k'', [5])]"
proof -
  let ?c = "put_cur (sample_tables\<lparr>db_version_t := [(''main'', 1)], hsm_data_t := [(''k'', [5])]\<rparr>) sample_conn"
  have "sql_ready ?c" by (simp add: sql_ready_def db_tables_def) (simp add: sample_tables_def)
  from migrate_keeps_current_data [OF this, of 1] show ?thesis by (auto simp: DBV_MAIN_def same_data_def)
qed

text \<open>
  C17. A failure to read the version counts as version 0. If the engine refuses only that one
  query, starting on a database of the current version erases every account, group and
  membership and every key of the HSM, and reports success.
\<close>

theorem migrate_version_fault_erases:
  assumes faults: "\<And>n. sql_fault c n \<longleftrightarrow> n = stmt_no c + 2" and sch: "db_tables \<subseteq> set (schema (cur c))"
  shows "\<exists>c'. migrate c = Return (Inr (), c') \<and> same_data empty_tables (cur c')"
proof -
  have "t \<in> set (schema (cur c))" if "t \<in> db_tables" for t using sch that by auto
  note t = this
  show ?thesis
    using faults t [of "''account_t''"] t [of "''group_t''"] t [of "''memberof_t''"] t [of "''hsm_int_t''"]
      t [of "''hsm_data_t''"] t [of "''db_version_t''"]
    by (simp add: migrate_start [OF _ _ sch] Let_def get_db_version_def sql_select_fault create_table_ok
        clear_hsm_def clear_def sql_delete_accounts_ok delete_accounts_def sql_exec_ok set_db_version_def
        pbindE_def pbind_def pret_def same_data_def empty_tables_def)
qed

theorem migrate_version_fault_erases_witness:
  "\<exists>c'. migrate (put_cur (sample_tables\<lparr>db_version_t := [(''main'', 1)], hsm_data_t := [(''k'', [5])]\<rparr>)
      (sample_conn\<lparr>sql_fault := (\<lambda>n. n = 3)\<rparr>)) = Return (Inr (), c') \<and> hsm_data_t (cur c') = []"
proof -
  let ?c = "put_cur (sample_tables\<lparr>db_version_t := [(''main'', 1)], hsm_data_t := [(''k'', [5])]\<rparr>)
      (sample_conn\<lparr>sql_fault := (\<lambda>n. n = 3)\<rparr>)"
  have "sql_fault ?c n \<longleftrightarrow> n = stmt_no ?c + 2" for n by (auto simp: sample_conn_def)
  moreover have "db_tables \<subseteq> set (schema (cur ?c))"
    by (simp add: db_tables_def) (simp add: sample_tables_def)
  ultimately show ?thesis
    using migrate_version_fault_erases [of ?c] by (auto simp: same_data_def empty_tables_def)
qed

section \<open>Hello keys\<close>

lemma like_match_literal: "CHR ''%'' \<notin> set p \<Longrightarrow> like_match p p"
  by (induction p) auto

lemma like_match_suffix:
  assumes "CHR ''%'' \<notin> set p" and "p \<noteq> []"
  shows "like_match (CHR ''%'' # p) (s @ p)"
proof (induction s)
  case Nil
  with assms like_match_literal [of p] show ?case by (cases p) auto
qed simp

lemma map_of_filter_key: "map_of (filter (\<lambda>x. P (fst x)) xs) k = (if P k then map_of xs k else None)"
  by (induction xs) auto

text \<open>
  Clearing the Hello keys removes the key, the decoupled key and the sealed PRT of
  every user, whatever the user's name, keeps every key that is none of these, and touches no
  other table.
\<close>

theorem clear_hello_keys_removes_tags:
  assumes run: "clear_hello_keys c = Return (Inr x, c')"
  shows "map_of (hsm_data_t (cur c')) (upn @ ''/hello'') = None
    \<and> map_of (hsm_data_t (cur c')) (upn @ ''/hello_decoupled'') = None
    \<and> map_of (hsm_data_t (cur c')) (upn @ ''/hello_prt'') = None
    \<and> (\<not> is_hello_key k \<longrightarrow> map_of (hsm_data_t (cur c')) k = map_of (hsm_data_t (cur c)) k)
    \<and> cur c' = (cur c)\<lparr>hsm_data_t := hsm_data_t (cur c')\<rparr>"
proof -
  from run have "cur c' = (cur c)\<lparr>hsm_data_t := filter (\<lambda>x. \<not> is_hello_key (fst x)) (hsm_data_t (cur c))\<rparr>"
    by (auto simp: clear_hello_keys_def pbindE_Return dest: sql_exec_Inr)
  moreover have "is_hello_key (upn @ ''/hello'')" "is_hello_key (upn @ ''/hello_decoupled'')"
    "is_hello_key (upn @ ''/hello_prt'')"
    unfolding is_hello_key_def
    using like_match_suffix [of "''/hello''" upn] like_match_suffix [of "''/hello_decoupled''" upn]
      like_match_suffix [of "''/hello_prt''" upn] by simp_all
  ultimately show ?thesis by (simp add: map_of_filter_key [where P = "\<lambda>k. \<not> is_hello_key k"])
qed

theorem clear_hello_keys_removes_tags_witness:
  "\<exists>c'. clear_hello_keys (put_cur (sample_tables\<lparr>hsm_data_t := [(''alice/hello'', [5]), (''alice/key'', [6])]\<rparr>)
      sample_conn) = Return (Inr (), c') \<and> map_of (hsm_data_t (cur c')) (''alice'' @ ''/hello'') = None
     \<and> map_of (hsm_data_t (cur c')) ''alice/key'' = Some [6]"
proof -
  let ?c = "put_cur (sample_tables\<lparr>hsm_data_t := [(''alice/hello'', [5]), (''alice/key'', [6])]\<rparr>) sample_conn"
  have "set [''hsm_data_t''] \<subseteq> set (schema (cur ?c))" by simp (simp add: sample_tables_def)
  then have "\<exists>c'. clear_hello_keys ?c = Return (Inr (), c')"
    by (simp add: clear_hello_keys_def pbindE_Return sql_exec_ok)
  then obtain c' where run: "clear_hello_keys ?c = Return (Inr (), c')" by blast
  moreover have "\<not> is_hello_key ''alice/key''" by code_simp
  ultimately show ?thesis
    using clear_hello_keys_removes_tags [OF run, of "''alice''" "''alice/key''"] by auto
qed

end
