(* ===== verification/Murmur_Hash.thy ===== *)
theory Murmur_Hash
  imports Himmelblau_Prelude
begin

text \<open>
  The 32-bit MurmurHash3 of \<open>idmap/src/murmurhash3.c\<close>, from which the uids of users and
  their subordinate id ranges are drawn. The loop reads the key by index, as the C code does;
  a second definition consumes the key four bytes at a time, and the two are equal.
\<close>

unbundle bit_operations_syntax

section \<open>The code\<close>

definition rotl :: "u32 \<Rightarrow> nat \<Rightarrow> u32" where
  "rotl x r = push_bit r x OR drop_bit (32 - r) x"

text \<open>A little-endian read of the four bytes of block \<open>i\<close>.\<close>

definition getblock :: "u8 list \<Rightarrow> nat \<Rightarrow> u32" where
  "getblock p i = ucast (p ! (i * 4)) OR push_bit 8 (ucast (p ! (i * 4 + 1)))
     OR push_bit 16 (ucast (p ! (i * 4 + 2))) OR push_bit 24 (ucast (p ! (i * 4 + 3)))"

definition fmix :: "u32 \<Rightarrow> u32" where
  "fmix h0 =
     (let h1 = h0 XOR drop_bit 16 h0;
          h2 = h1 * 0x85ebca6b;
          h3 = h2 XOR drop_bit 13 h2;
          h4 = h3 * 0xc2b2ae35
      in h4 XOR drop_bit 16 h4)"

definition mix_k1 :: "u32 \<Rightarrow> u32" where
  "mix_k1 k1 = rotl (k1 * 0xcc9e2d51) 15 * 0x1b873593"

definition mix_h1 :: "u32 \<Rightarrow> u32 \<Rightarrow> u32" where
  "mix_h1 h1 k1 = rotl (h1 XOR mix_k1 k1) 13 * 5 + 0xe6546b64"

function murmur_body :: "u8 list \<Rightarrow> nat \<Rightarrow> nat \<Rightarrow> u32 \<Rightarrow> u32" where
  "murmur_body blocks nblocks i h1 =
     (if i < nblocks then murmur_body blocks nblocks (Suc i) (mix_h1 h1 (getblock blocks i)) else h1)"
  by pat_completeness auto
termination by (relation "measure (\<lambda>(_, n, i, _). n - i)") auto

declare murmur_body.simps [simp del]

definition murmur_tail :: "u8 list \<Rightarrow> nat \<Rightarrow> nat \<Rightarrow> u32 \<Rightarrow> u32" where
  "murmur_tail key t r h1 =
     (let k3 = (if r = 3 then push_bit 16 (ucast (key ! (t + 2))) else 0);
          k2 = (if 2 \<le> r then k3 XOR push_bit 8 (ucast (key ! (t + 1))) else k3)
      in if 1 \<le> r then h1 XOR mix_k1 (k2 XOR ucast (key ! t)) else h1)"

definition murmurhash3 :: "u8 list \<Rightarrow> nat \<Rightarrow> u32 \<Rightarrow> u32" where
  "murmurhash3 key len seed =
     (let nblocks = len div 4;
          h1 = murmur_body key nblocks 0 seed
      in fmix (murmur_tail key (nblocks * 4) (len mod 4) h1 XOR of_nat len))"

text \<open>The bytes of a string.\<close>

definition bytes_of :: "string \<Rightarrow> u8 list" where
  "bytes_of = map of_char"

section \<open>The reference\<close>

definition le32 :: "u8 \<Rightarrow> u8 \<Rightarrow> u8 \<Rightarrow> u8 \<Rightarrow> u32" where
  "le32 a b c d = ucast a OR push_bit 8 (ucast b) OR push_bit 16 (ucast c) OR push_bit 24 (ucast d)"

fun absorb :: "u32 \<Rightarrow> u8 list \<Rightarrow> u32" where
  "absorb h (a # b # c # d # rest) = absorb (mix_h1 h (le32 a b c d)) rest"
| "absorb h [a, b, c] = h XOR mix_k1 (push_bit 16 (ucast c) XOR push_bit 8 (ucast b) XOR ucast a)"
| "absorb h [a, b] = h XOR mix_k1 (push_bit 8 (ucast b) XOR ucast a)"
| "absorb h [a] = h XOR mix_k1 (ucast a)"
| "absorb h [] = h"

definition murmur_ref :: "u32 \<Rightarrow> u8 list \<Rightarrow> u32" where
  "murmur_ref seed key = fmix (absorb seed key XOR of_nat (length key))"

lemma getblock_Suc: "getblock (a # b # c # d # rest) (Suc i) = getblock rest i"
  by (simp add: getblock_def add.commute)

lemma getblock_0: "getblock (a # b # c # d # rest) 0 = le32 a b c d"
  by (simp add: getblock_def le32_def numeral_2_eq_2 numeral_3_eq_3)

lemma murmur_body_shift:
  "murmur_body (a # b # c # d # rest) (Suc n) (Suc i) h = murmur_body rest n i h"
proof (induction rest n i h rule: murmur_body.induct)
  case (1 rest n i h)
  then show ?case
    by (subst murmur_body.simps, subst (2) murmur_body.simps) (simp add: getblock_Suc)
qed

lemma murmur_tail_shift:
  "murmur_tail (a # b # c # d # rest) (4 + t) r h = murmur_tail rest t r h"
  by (simp add: murmur_tail_def nth_Cons_numeral numeral_eq_Suc)

lemma murmur_absorb:
  "murmur_tail key (length key div 4 * 4) (length key mod 4) (murmur_body key (length key div 4) 0 h) = absorb h key"
proof (induction h key rule: absorb.induct)
  case (1 h a b c d rest)
  let ?key = "a # b # c # d # rest"
  have len: "length ?key div 4 = Suc (length rest div 4)" "length ?key mod 4 = length rest mod 4" by simp_all
  have "murmur_body ?key (length ?key div 4) 0 h = murmur_body rest (length rest div 4) 0 (mix_h1 h (le32 a b c d))"
    unfolding len by (subst murmur_body.simps) (simp add: getblock_0 murmur_body_shift)
  with 1 show ?case
    unfolding len using murmur_tail_shift [of a b c d rest "length rest div 4 * 4"] by (simp add: add.commute)
qed (simp_all add: murmur_tail_def murmur_body.simps Let_def xor.assoc)

lemma murmurhash3_eq: "murmurhash3 key (length key) seed = murmur_ref seed key"
  by (simp add: murmurhash3_def murmur_ref_def murmur_absorb Let_def)

text \<open>
  C21. The loop that reads the key by index, with its separate treatment of the last bytes,
  computes the reference hash.
\<close>

theorem murmurhash3_ref: "murmurhash3 key (length key) seed = murmur_ref seed key"
  by (rule murmurhash3_eq)

end
