(* ===== verification/Sss_Idmap.thy ===== *)
theory Sss_Idmap
  imports Murmur_Hash "HOL-Library.Signed_Division"
begin

text \<open>
  The id-mapping library of \<open>idmap/src/sss_idmap.c\<close>: domains own ranges of uids, SIDs and
  generic ids are mapped into them and back. The context is the state; a failed allocation is an
  error value chosen by an oracle. A program panics where the C code would divide by zero or
  follow a null pointer, and is blocked where a loop would not end. Strings are C strings: they hold no
  NUL character. The case conversions and the normalisation of libunistring are parameters.
\<close>

section \<open>Data\<close>

datatype idmap_error_code =
    IDMAP_SUCCESS | IDMAP_NOT_IMPLEMENTED | IDMAP_ERROR | IDMAP_OUT_OF_MEMORY | IDMAP_NO_DOMAIN
  | IDMAP_CONTEXT_INVALID | IDMAP_SID_INVALID | IDMAP_SID_UNKNOWN | IDMAP_NO_RANGE | IDMAP_BUILTIN_SID
  | IDMAP_OUT_OF_SLICES | IDMAP_COLLISION | IDMAP_EXTERNAL | IDMAP_NAME_UNKNOWN | IDMAP_NO_REVERSE
  | IDMAP_UTF8_ERROR | IDMAP_ERR_LAST

fun idmap_error_string :: "idmap_error_code \<Rightarrow> string" where
  "idmap_error_string IDMAP_SUCCESS = ''IDMAP operation successful''"
| "idmap_error_string IDMAP_NOT_IMPLEMENTED = ''IDMAP Function is not yet implemented''"
| "idmap_error_string IDMAP_ERROR = ''IDMAP general error''"
| "idmap_error_string IDMAP_OUT_OF_MEMORY = ''IDMAP operation ran out of memory''"
| "idmap_error_string IDMAP_NO_DOMAIN = ''IDMAP domain not found''"
| "idmap_error_string IDMAP_CONTEXT_INVALID = ''IDMAP context is invalid''"
| "idmap_error_string IDMAP_SID_INVALID = ''IDMAP SID is invalid''"
| "idmap_error_string IDMAP_SID_UNKNOWN = ''IDMAP SID not found''"
| "idmap_error_string IDMAP_NO_RANGE = ''IDMAP range not found''"
| "idmap_error_string IDMAP_BUILTIN_SID = ''IDMAP SID from BUILTIN domain''"
| "idmap_error_string IDMAP_OUT_OF_SLICES = ''IDMAP not more free slices''"
| "idmap_error_string IDMAP_COLLISION = ''IDMAP new range collides with existing one''"
| "idmap_error_string IDMAP_EXTERNAL = ''IDMAP ID managed externally''"
| "idmap_error_string IDMAP_NAME_UNKNOWN = ''IDMAP domain with the given name not found''"
| "idmap_error_string IDMAP_NO_REVERSE = ''IDMAP cannot revert id to original source''"
| "idmap_error_string IDMAP_UTF8_ERROR = ''IDMAP failed to modify UTF8 string''"
| "idmap_error_string IDMAP_ERR_LAST = ''IDMAP unknown error code''"

record idmap_range_params =
  min_id :: u32
  max_id :: u32
  range_id :: "string option"
  first_rid :: u32

type_synonym sss_idmap_range = "u32 \<times> u32"
type_synonym offset_func = "u32 \<Rightarrow> string \<Rightarrow> idmap_error_code + int"

text \<open>A function pointer and its private data are one function.\<close>

record idmap_domain_info =
  di_name :: string
  di_sid :: "string option"
  range_params :: idmap_range_params
  external_mapping :: bool
  helpers :: "idmap_range_params list"
  auto_add_ranges :: bool
  helpers_owner :: bool
  offset_func :: "offset_func option"
  rev_offset_func :: "(u32 \<Rightarrow> idmap_error_code + string) option"
  store_cb :: "(string \<Rightarrow> string option \<Rightarrow> idmap_range_params \<Rightarrow> idmap_error_code) option"

record sss_idmap_ctx =
  autorid_mode :: bool
  idmap_lower :: u32
  idmap_upper :: u32
  rangesize :: u32
  extra_slice_init :: int
  domains :: "idmap_domain_info list"
  alloc_fails :: "nat \<Rightarrow> bool"
  allocs :: nat

type_synonym 'a idmap_prog = "(sss_idmap_ctx, idmap_error_code + 'a) prog"

definition c_alloc :: "unit idmap_prog" where
  "c_alloc = (\<lambda>c. Return (if alloc_fails c (allocs c) then Inl IDMAP_OUT_OF_MEMORY else Inr (),
     c\<lparr>allocs := Suc (allocs c)\<rparr>))"

definition alloc_if :: "bool \<Rightarrow> unit idmap_prog" where
  "alloc_if b = (if b then c_alloc else pret (Inr ()))"

definition sss_idmap_init :: "(nat \<Rightarrow> bool) \<Rightarrow> idmap_error_code + sss_idmap_ctx" where
  "sss_idmap_init fails = (if fails 0 then Inl IDMAP_OUT_OF_MEMORY
     else Inr \<lparr>autorid_mode = False, idmap_lower = 200000, idmap_upper = 2000200000, rangesize = 200000,
       extra_slice_init = 10, domains = [], alloc_fails = fails, allocs = 1\<rparr>)"

section \<open>Numbers in strings\<close>

text \<open>
  \<open>strtoull\<close> with base ten, its result read as a \<open>long long\<close>: the flag tells whether
  \<open>errno\<close> is set, the last component is the string at the end pointer.
\<close>

fun take_digits :: "nat \<Rightarrow> string \<Rightarrow> nat \<times> string" where
  "take_digits acc [] = (acc, [])"
| "take_digits acc (c # cs) = (case to_digit c of None \<Rightarrow> (acc, c # cs) | Some d \<Rightarrow> take_digits (10 * acc + d) cs)"

definition to_longlong :: "nat \<Rightarrow> int" where
  "to_longlong n = sint (word_of_nat n :: 64 word)"

definition strtoull :: "string \<Rightarrow> bool \<times> int \<times> string" where
  "strtoull s =
     (let s1 = dropWhile is_space s;
          neg = (case s1 of c # _ \<Rightarrow> c = CHR ''-'' | [] \<Rightarrow> False);
          s2 = (case s1 of c # cs \<Rightarrow> if c = CHR ''-'' \<or> c = CHR ''+'' then cs else s1 | [] \<Rightarrow> []);
          (n, rest) = take_digits 0 s2
      in if rest = s2 then (False, 0, s)
         else if 2 ^ 64 \<le> n then (True, to_longlong (2 ^ 64 - 1), rest)
         else (False, (if neg then to_longlong (2 ^ 64 - n) else to_longlong n), rest))"

definition UINT32_MAX :: int where
  "UINT32_MAX = 4294967295"

definition DOM_SID_PREFIX :: string where
  "DOM_SID_PREFIX = ''S-1-5-21-''"

text \<open>The loop of \<open>is_domain_sid\<close> with \<open>c\<close> parts read so far; it reads three at most.\<close>

fun sid_parts :: "nat \<Rightarrow> string \<Rightarrow> bool" where
  "sid_parts left p =
     (case strtoull p of (errno, a, endptr) \<Rightarrow>
        if errno \<or> a > UINT32_MAX then False
        else (case endptr of
            [] \<Rightarrow> left = 1
          | c # p' \<Rightarrow>
              if c \<noteq> CHR ''-'' then False
              else if 1 < left then sid_parts (left - 1) p' else False))"

declare sid_parts.simps [simp del]

definition is_domain_sid :: "string option \<Rightarrow> bool" where
  "is_domain_sid sid = (case sid of None \<Rightarrow> False
     | Some s \<Rightarrow> starts_with DOM_SID_PREFIX s \<and> sid_parts 3 (drop (length DOM_SID_PREFIX) s))"

section \<open>Ranges\<close>

definition ranges_eq :: "idmap_range_params \<Rightarrow> idmap_range_params \<Rightarrow> bool" where
  "ranges_eq a b \<longleftrightarrow> first_rid a = first_rid b \<and> min_id a = min_id b \<and> max_id a = max_id b"

definition construct_range :: "idmap_range_params \<Rightarrow> string \<Rightarrow> idmap_range_params idmap_prog" where
  "construct_range src i = pbindE c_alloc (\<lambda>_. pret (Inr (src\<lparr>range_id := Some i\<rparr>)))"

definition id_is_in_range :: "u32 \<Rightarrow> idmap_range_params \<Rightarrow> u32 option" where
  "id_is_in_range i rp = (if i = 0 then None
     else if min_id rp \<le> i \<and> i \<le> max_id rp then Some (first_rid rp + (i - min_id rp)) else None)"

definition get_helper_by_id :: "idmap_range_params list \<Rightarrow> string \<Rightarrow> idmap_range_params option" where
  "get_helper_by_id hs i = find (\<lambda>h. range_id h = Some i) hs"

definition check_overlap :: "idmap_range_params \<Rightarrow> u32 \<Rightarrow> u32 \<Rightarrow> bool" where
  "check_overlap rg lo hi \<longleftrightarrow> (min_id rg \<le> lo \<and> hi \<le> max_id rg)
     \<or> (lo \<le> min_id rg \<and> min_id rg \<le> hi) \<or> (lo \<le> max_id rg \<and> max_id rg \<le> hi)"

definition slice_min :: "sss_idmap_ctx \<Rightarrow> u32 \<Rightarrow> u32" where
  "slice_min c n = rangesize c * n + idmap_lower c"

definition slice_max :: "sss_idmap_ctx \<Rightarrow> u32 \<Rightarrow> u32" where
  "slice_max c n = slice_min c n + rangesize c - 1"

definition slice_taken :: "sss_idmap_ctx \<Rightarrow> u32 \<Rightarrow> bool" where
  "slice_taken c n \<longleftrightarrow> (\<exists>d \<in> set (domains c). check_overlap (range_params d) (slice_min c n) (slice_max c n))"

definition next_slice :: "u32 \<Rightarrow> u32 \<Rightarrow> u32" where
  "next_slice max_slices n = (if max_slices \<le> n + 1 then 0 else n + 1)"

text \<open>
  The search for a free slice, \<open>None\<close> where it does not end. Its answer is \<open>Some None\<close> once it
  is back at the slice it started with.
\<close>

partial_function (option) find_slice :: "sss_idmap_ctx \<Rightarrow> u32 \<Rightarrow> u32 \<Rightarrow> u32 \<Rightarrow> u32 option option" where
  "find_slice c max_slices orig n =
     (if \<not> slice_taken c n then Some (Some n)
      else if next_slice max_slices n = orig then Some None
      else find_slice c max_slices orig (next_slice max_slices n))"

definition max_slices :: "sss_idmap_ctx \<Rightarrow> u32" where
  "max_slices c = (idmap_upper c - idmap_lower c) div rangesize c"

definition pick_slice :: "string \<Rightarrow> (sss_idmap_range \<times> u32) idmap_prog" where
  "pick_slice rid = (\<lambda>c.
     if \<not> autorid_mode c \<and> max_slices c = 0 then Panic
     else
       (let orig = (if autorid_mode c then 0
          else murmurhash3 (bytes_of rid) (length rid) 0xdeadbeef mod max_slices c)
        in (case find_slice c (max_slices c) orig orig of
            None \<Rightarrow> Blocked
          | Some None \<Rightarrow> Return (Inl IDMAP_OUT_OF_SLICES, c)
          | Some (Some n) \<Rightarrow> Return (Inr ((slice_min c n, slice_max c n), n), c))))"

definition sss_idmap_calculate_range :: "string \<Rightarrow> u32 option \<Rightarrow> (sss_idmap_range \<times> u32) idmap_prog" where
  "sss_idmap_calculate_range rid slice_num = (\<lambda>c.
     if rangesize c = 0 then Panic
     else (case slice_num of
         Some n \<Rightarrow>
           if n \<noteq> 4294967295 then
             (if slice_taken c n then Return (Inl IDMAP_COLLISION, c)
              else Return (Inr ((slice_min c n, slice_max c n), n), c))
           else pick_slice rid c
       | None \<Rightarrow> pick_slice rid c))"

section \<open>Adding domains\<close>

text \<open>The range identifiers are arguments of the C function that it does not use.\<close>

definition sss_idmap_check_collision_ex :: "string \<Rightarrow> string option \<Rightarrow> sss_idmap_range \<Rightarrow> u32 \<Rightarrow> bool
    \<Rightarrow> string \<Rightarrow> string option \<Rightarrow> sss_idmap_range \<Rightarrow> u32 \<Rightarrow> bool \<Rightarrow> idmap_error_code" where
  "sss_idmap_check_collision_ex o_name o_sid o_range o_first_rid o_external
     n_name n_sid n_range n_first_rid n_external =
     (let names_equal = eq_nocase n_name o_name;
          sids_equal = (case (n_sid, o_sid) of (None, None) \<Rightarrow> True | (Some n, Some ol) \<Rightarrow> eq_nocase n ol | _ \<Rightarrow> False)
      in if (\<not> n_external \<and> \<not> o_external) \<and>
            ((fst o_range \<le> fst n_range \<and> fst n_range \<le> snd o_range)
             \<or> (fst o_range \<le> snd n_range \<and> snd n_range \<le> snd o_range)) then IDMAP_COLLISION
         else if (names_equal \<and> \<not> sids_equal) \<or> (\<not> names_equal \<and> sids_equal) then IDMAP_COLLISION
         else if names_equal \<and> sids_equal \<and> n_external \<noteq> o_external then IDMAP_COLLISION
         else if names_equal \<and> sids_equal \<and> \<not> n_external \<and> o_first_rid \<le> n_first_rid
             \<and> n_first_rid \<le> o_first_rid + (snd o_range - fst o_range) then IDMAP_COLLISION
         else IDMAP_SUCCESS)"

definition dom_range :: "idmap_domain_info \<Rightarrow> sss_idmap_range" where
  "dom_range d = (min_id (range_params d), max_id (range_params d))"

fun sss_idmap_check_collision :: "idmap_domain_info list \<Rightarrow> string \<Rightarrow> string option \<Rightarrow> sss_idmap_range
    \<Rightarrow> u32 \<Rightarrow> bool \<Rightarrow> idmap_error_code" where
  "sss_idmap_check_collision [] n_name n_sid n_range n_first_rid n_external = IDMAP_SUCCESS"
| "sss_idmap_check_collision (d # ds) n_name n_sid n_range n_first_rid n_external =
     (let err = sss_idmap_check_collision_ex (di_name d) (di_sid d) (dom_range d) (first_rid (range_params d))
        (external_mapping d) n_name n_sid n_range n_first_rid n_external
      in if err \<noteq> IDMAP_SUCCESS then err
         else sss_idmap_check_collision ds n_name n_sid n_range n_first_rid n_external)"

definition dom_check_collision :: "idmap_domain_info list \<Rightarrow> idmap_domain_info \<Rightarrow> idmap_error_code" where
  "dom_check_collision dom_list d = sss_idmap_check_collision dom_list (di_name d) (di_sid d) (dom_range d)
     (first_rid (range_params d)) (external_mapping d)"

text \<open>The common end of the functions that add a domain: it goes to the head of the list.\<close>

definition link_domain :: "idmap_domain_info \<Rightarrow> unit idmap_prog" where
  "link_domain d = (\<lambda>c.
     (let err = dom_check_collision (domains c) d
      in if err \<noteq> IDMAP_SUCCESS then Return (Inl err, c) else Return (Inr (), c\<lparr>domains := d # domains c\<rparr>)))"

definition new_domain :: "string \<Rightarrow> string option \<Rightarrow> sss_idmap_range \<Rightarrow> string option \<Rightarrow> u32 \<Rightarrow> bool \<Rightarrow> idmap_domain_info" where
  "new_domain name sid rg rid first external =
     \<lparr>di_name = name, di_sid = sid,
      range_params = \<lparr>min_id = fst rg, max_id = snd rg, range_id = rid, first_rid = first\<rparr>,
      external_mapping = external, helpers = [], auto_add_ranges = False, helpers_owner = False,
      offset_func = None, rev_offset_func = None, store_cb = None\<rparr>"

definition sss_idmap_add_gen_domain_ex :: "string option \<Rightarrow> string option \<Rightarrow> sss_idmap_range option
    \<Rightarrow> string option \<Rightarrow> offset_func option \<Rightarrow> (u32 \<Rightarrow> idmap_error_code + string) option \<Rightarrow> u32 \<Rightarrow> bool
    \<Rightarrow> unit idmap_prog" where
  "sss_idmap_add_gen_domain_ex domain_name domain_id rg rid off rev_off shift external =
     (case (domain_name, domain_id) of
        (Some name, Some ident) \<Rightarrow>
          (case rg of
             None \<Rightarrow> pret (Inl IDMAP_NO_RANGE)
           | Some r \<Rightarrow>
               pbindE c_alloc (\<lambda>_.
               pbindE c_alloc (\<lambda>_.
               pbindE c_alloc (\<lambda>_.
               pbindE (alloc_if (rid \<noteq> None)) (\<lambda>_.
               link_domain ((new_domain name (Some ident) r rid shift external)
                 \<lparr>offset_func := off, rev_offset_func := rev_off\<rparr>))))))
      | _ \<Rightarrow> pret (Inl IDMAP_NO_DOMAIN))"

definition sss_idmap_add_domain_ex :: "string option \<Rightarrow> string option \<Rightarrow> sss_idmap_range option
    \<Rightarrow> string option \<Rightarrow> u32 \<Rightarrow> bool \<Rightarrow> unit idmap_prog" where
  "sss_idmap_add_domain_ex domain_name domain_sid rg rid first external =
     (case domain_name of
        None \<Rightarrow> pret (Inl IDMAP_NO_DOMAIN)
      | Some name \<Rightarrow>
          (case rg of
             None \<Rightarrow> pret (Inl IDMAP_NO_RANGE)
           | Some r \<Rightarrow>
               if (\<not> external \<and> \<not> is_domain_sid domain_sid)
                 \<or> (external \<and> domain_sid \<noteq> None \<and> \<not> is_domain_sid domain_sid) then pret (Inl IDMAP_SID_INVALID)
               else
                 pbindE c_alloc (\<lambda>_.
                 pbindE c_alloc (\<lambda>_.
                 pbindE (alloc_if (domain_sid \<noteq> None)) (\<lambda>_.
                 pbindE (alloc_if (rid \<noteq> None)) (\<lambda>_.
                 link_domain (new_domain name domain_sid r rid first external)))))))"

definition sss_idmap_add_domain :: "string option \<Rightarrow> string option \<Rightarrow> sss_idmap_range option \<Rightarrow> unit idmap_prog" where
  "sss_idmap_add_domain name sid rg = sss_idmap_add_domain_ex name sid rg None 0 False"

definition generate_sec_slice_name :: "string \<Rightarrow> u32 \<Rightarrow> string idmap_prog" where
  "generate_sec_slice_name sid rid = pbindE c_alloc (\<lambda>_. pret (Inr (sid @ ''-'' @ show_nat (unat rid))))"

definition generate_slice :: "string \<Rightarrow> u32 \<Rightarrow> idmap_range_params idmap_prog" where
  "generate_slice slice_name first =
     pbindE c_alloc (\<lambda>_.
     pbindE (sss_idmap_calculate_range slice_name None) (\<lambda>(r, _).
     pret (Inr \<lparr>min_id = fst r, max_id = snd r, range_id = Some slice_name, first_rid = first\<rparr>)))"

fun get_helpers :: "nat \<Rightarrow> string \<Rightarrow> u32 \<Rightarrow> idmap_range_params list idmap_prog" where
  "get_helpers 0 sid first = pret (Inr [])"
| "get_helpers (Suc n) sid first =
     pbindE (generate_sec_slice_name sid first) (\<lambda>name.
     pbindE (generate_slice name first) (\<lambda>slice.
     (\<lambda>c. pbindE (get_helpers n sid (first + rangesize c)) (\<lambda>rest. pret (Inr (slice # rest))) c)))"

definition at_head :: "(idmap_domain_info \<Rightarrow> idmap_domain_info) \<Rightarrow> (sss_idmap_ctx, unit) prog" where
  "at_head f = (\<lambda>c. (case domains c of [] \<Rightarrow> Panic | d # ds \<Rightarrow> Return ((), c\<lparr>domains := f d # ds\<rparr>)))"

definition sss_idmap_add_auto_domain_ex :: "string option \<Rightarrow> string option \<Rightarrow> sss_idmap_range
    \<Rightarrow> string option \<Rightarrow> u32 \<Rightarrow> bool \<Rightarrow> (string \<Rightarrow> string option \<Rightarrow> idmap_range_params \<Rightarrow> idmap_error_code) option
    \<Rightarrow> unit idmap_prog" where
  "sss_idmap_add_auto_domain_ex name sid rg rid first external cb =
     pbindE (sss_idmap_add_domain_ex name sid (Some rg) rid first external) (\<lambda>_.
     if external then pbind (at_head (\<lambda>d. d\<lparr>auto_add_ranges := False\<rparr>)) (\<lambda>_. pret (Inr ()))
     else (\<lambda>c.
       if snd rg - fst rg + 1 \<noteq> rangesize c then Return (Inl IDMAP_ERROR, c)
       else if extra_slice_init c = 0 then
         pbind (at_head (\<lambda>d. d\<lparr>auto_add_ranges := False\<rparr>)) (\<lambda>_. pret (Inr ())) c
       else
         pbind (get_helpers (nat (extra_slice_init c)) (case sid of Some s \<Rightarrow> s | None \<Rightarrow> []) (first + rangesize c)) (\<lambda>r.
         (case r of
            Inr hs \<Rightarrow>
              pbind (at_head (\<lambda>d. d\<lparr>helpers := hs, auto_add_ranges := True, helpers_owner := True, store_cb := cb\<rparr>)) (\<lambda>_.
              pret (Inr ()))
          | Inl e \<Rightarrow>
              pbind (at_head (\<lambda>d. d\<lparr>auto_add_ranges := False, store_cb := cb\<rparr>)) (\<lambda>_.
              pret (if e = IDMAP_OUT_OF_SLICES then Inr () else Inl e)))) c))"

section \<open>Mapping\<close>

definition sss_idmap_sid_is_builtin :: "string \<Rightarrow> bool" where
  "sss_idmap_sid_is_builtin sid = starts_with ''S-1-5-32-'' sid"

definition parse_rid :: "string \<Rightarrow> nat \<Rightarrow> int option" where
  "parse_rid sid dom_prefix_len =
     (case strtoull (drop (dom_prefix_len + 1) sid) of (errno, rid, endptr) \<Rightarrow>
        if errno \<or> rid > UINT32_MAX \<or> endptr \<noteq> [] then None else Some rid)"

definition is_from_dom :: "string option \<Rightarrow> string \<Rightarrow> bool" where
  "is_from_dom domain_id i \<longleftrightarrow> domain_id = Some i"

definition is_sid_from_dom :: "string option \<Rightarrow> string \<Rightarrow> bool" where
  "is_sid_from_dom dom_sid sid = (case dom_sid of None \<Rightarrow> False
     | Some s \<Rightarrow> length s < length sid \<and> sid ! length s = CHR ''-'' \<and> take (length s) sid = s)"

definition compute_id :: "idmap_range_params \<Rightarrow> int \<Rightarrow> u32 option" where
  "compute_id rp rid =
     (if uint (first_rid rp) \<le> rid \<and> rid - uint (first_rid rp) < uint (4294967295 - min_id rp) then
        (let i = min_id rp + of_int (rid - uint (first_rid rp)) in if i \<le> max_id rp then Some i else None)
      else None)"

definition get_range :: "idmap_range_params list \<Rightarrow> string \<Rightarrow> int \<Rightarrow> idmap_range_params idmap_prog" where
  "get_range hs dom_sid rid = (\<lambda>c.
     if rangesize c = 0 then Panic
     else
       (let first = (of_int (rid sdiv uint (rangesize c) * uint (rangesize c)) :: u32)
        in pbindE (generate_sec_slice_name dom_sid first) (\<lambda>name.
           (case get_helper_by_id hs name of
              Some h \<Rightarrow> construct_range h name
            | None \<Rightarrow> generate_slice name first)) c))"

fun share_helpers :: "idmap_domain_info \<Rightarrow> idmap_range_params \<Rightarrow> idmap_domain_info list
    \<Rightarrow> (idmap_domain_info \<times> idmap_domain_info list) option" where
  "share_helpers parent rg [] = None"
| "share_helpers parent rg (d # ds) =
     (if ranges_eq (range_params d) rg then
        (let d' = d\<lparr>helpers := helpers parent, auto_add_ranges := auto_add_ranges parent, store_cb := store_cb parent\<rparr>
         in Some (d', d' # ds))
      else map_option (\<lambda>(x, ds'). (x, d # ds')) (share_helpers parent rg ds))"

definition spawn_dom :: "idmap_domain_info \<Rightarrow> idmap_range_params \<Rightarrow> unit idmap_prog" where
  "spawn_dom parent rg =
     pbindE (sss_idmap_add_domain_ex (Some (di_name parent)) (di_sid parent) (Some (min_id rg, max_id rg))
       (range_id rg) (first_rid rg) False) (\<lambda>_ c.
     (case share_helpers parent rg (domains c) of
        None \<Rightarrow> Return (Inl IDMAP_ERROR, c)
      | Some (d, ds) \<Rightarrow>
          (let err = (case store_cb d of None \<Rightarrow> IDMAP_SUCCESS | Some cb \<Rightarrow> cb (di_name d) (di_sid d) (range_params d))
           in Return (if err \<noteq> IDMAP_SUCCESS then Inl err else Inr (), c\<lparr>domains := ds\<rparr>))))"

definition add_dom_for_sid :: "idmap_domain_info \<Rightarrow> string \<Rightarrow> u32 idmap_prog" where
  "add_dom_for_sid matched sid =
     (case di_sid matched of
        None \<Rightarrow> ppanic
      | Some dom_sid \<Rightarrow>
          (case parse_rid sid (length dom_sid) of
             None \<Rightarrow> pret (Inl IDMAP_SID_INVALID)
           | Some rid \<Rightarrow>
               pbindE (get_range (helpers matched) dom_sid rid) (\<lambda>rg.
               pbindE (spawn_dom matched rg) (\<lambda>_.
               pret (case compute_id rg rid of None \<Rightarrow> Inl IDMAP_ERROR | Some i \<Rightarrow> Inr i)))))"

section \<open>Offset functions\<close>

definition sss_idmap_offset_identity :: offset_func where
  "sss_idmap_offset_identity range_size input =
     (case strtoull input of (errno, out, endptr) \<Rightarrow>
        if errno \<or> uint range_size \<le> out \<or> endptr \<noteq> [] \<or> endptr = input then Inl IDMAP_ERROR else Inr out)"

definition sss_idmap_rev_offset_identity :: "u32 \<Rightarrow> string idmap_prog" where
  "sss_idmap_rev_offset_identity i = pbindE c_alloc (\<lambda>_. pret (Inr (show_nat (unat i))))"

text \<open>Normalisation form NFKC and case folding of libunistring; \<open>None\<close> for text that is not UTF-8.\<close>

record unistring =
  u8_normalize :: "string \<Rightarrow> string option"
  u8_casefold :: "string \<Rightarrow> string option"

record offset_murmurhash3_data =
  omd_seed :: u32
  omd_normalize :: bool
  omd_casefold :: bool

definition offset_murmurhash3_data_default :: offset_murmurhash3_data where
  "offset_murmurhash3_data_default = \<lparr>omd_seed = 0xdeadbeef, omd_normalize = True, omd_casefold = False\<rparr>"

definition normalize_casefold :: "unistring \<Rightarrow> string \<Rightarrow> bool \<Rightarrow> bool \<Rightarrow> string option" where
  "normalize_casefold u input norm casefold =
     (if casefold then u8_casefold u input else if norm then u8_normalize u input else None)"

definition sss_idmap_offset_murmurhash3 :: "unistring \<Rightarrow> offset_murmurhash3_data option \<Rightarrow> offset_func" where
  "sss_idmap_offset_murmurhash3 u pvt range_size input =
     (let d = (case pvt of Some x \<Rightarrow> x | None \<Rightarrow> offset_murmurhash3_data_default);
          val = (if omd_normalize d \<or> omd_casefold d then normalize_casefold u input (omd_normalize d) (omd_casefold d)
             else Some input)
      in (case val of
           None \<Rightarrow> Inl IDMAP_UTF8_ERROR
         | Some v \<Rightarrow>
             if range_size = 0 then Inl IDMAP_NO_RANGE
             else Inr (uint (murmurhash3 (bytes_of v) (length v) (omd_seed d)) mod uint range_size)))"

text \<open>The walk over the domains; \<open>matched\<close> tells whether one of the id was seen.\<close>

fun gen_walk :: "offset_func \<Rightarrow> string \<Rightarrow> string \<Rightarrow> bool \<Rightarrow> idmap_domain_info list \<Rightarrow> idmap_error_code + u32" where
  "gen_walk off domain_id input matched [] = Inl (if matched then IDMAP_NO_RANGE else IDMAP_NO_DOMAIN)"
| "gen_walk off domain_id input matched (d # ds) =
     (if is_from_dom (di_sid d) domain_id then
        (if external_mapping d then Inl IDMAP_EXTERNAL
         else
           (let range_size = 1 + (max_id (range_params d) - min_id (range_params d))
            in (case off range_size input of
                  Inl e \<Rightarrow> Inl e
                | Inr offset \<Rightarrow>
                    if uint range_size \<le> offset then Inl IDMAP_ERROR
                    else (case compute_id (range_params d) offset of
                        Some i \<Rightarrow> Inr i
                      | None \<Rightarrow> gen_walk off domain_id input True ds))))
      else gen_walk off domain_id input matched ds)"

definition sss_idmap_gen_to_unix :: "unistring \<Rightarrow> string \<Rightarrow> string \<Rightarrow> u32 idmap_prog" where
  "sss_idmap_gen_to_unix u domain_id input = (\<lambda>c.
     (case domains c of
        [] \<Rightarrow> Panic
      | d # ds \<Rightarrow>
          (let off = (case offset_func d of Some f \<Rightarrow> f | None \<Rightarrow> sss_idmap_offset_murmurhash3 u None)
           in Return (gen_walk off domain_id input False (d # ds), c))))"

fun unix_gen_walk :: "u32 \<Rightarrow> idmap_domain_info list \<Rightarrow> idmap_error_code + string" where
  "unix_gen_walk i [] = Inl IDMAP_NO_DOMAIN"
| "unix_gen_walk i (d # ds) =
     (case id_is_in_range i (range_params d) of
        Some offset \<Rightarrow>
          if external_mapping d \<or> di_sid d = None then Inl IDMAP_EXTERNAL
          else (case rev_offset_func d of None \<Rightarrow> Inl IDMAP_NO_REVERSE | Some f \<Rightarrow> f offset)
      | None \<Rightarrow> unix_gen_walk i ds)"

definition sss_idmap_unix_to_gen :: "u32 \<Rightarrow> string idmap_prog" where
  "sss_idmap_unix_to_gen i = (\<lambda>c. Return (unix_gen_walk i (domains c), c))"

section \<open>SIDs\<close>

text \<open>The walk returns the answer, or the last domain the SID belongs to.\<close>

fun sid_walk :: "string \<Rightarrow> idmap_domain_info option \<Rightarrow> idmap_domain_info list
    \<Rightarrow> (idmap_error_code + u32) + idmap_domain_info option" where
  "sid_walk sid matched [] = Inr matched"
| "sid_walk sid matched (d # ds) =
     (if is_sid_from_dom (di_sid d) sid then
        (if external_mapping d then Inl (Inl IDMAP_EXTERNAL)
         else (case parse_rid sid (length (the (di_sid d))) of
             None \<Rightarrow> Inl (Inl IDMAP_SID_INVALID)
           | Some rid \<Rightarrow>
               (case compute_id (range_params d) rid of
                  Some i \<Rightarrow> Inl (Inr i)
                | None \<Rightarrow> sid_walk sid (Some d) ds)))
      else sid_walk sid matched ds)"

definition sss_idmap_sid_to_unix :: "string option \<Rightarrow> u32 idmap_prog" where
  "sss_idmap_sid_to_unix sid =
     (case sid of
        None \<Rightarrow> pret (Inl IDMAP_ERROR)
      | Some s \<Rightarrow>
          if sss_idmap_sid_is_builtin s then pret (Inl IDMAP_BUILTIN_SID)
          else (\<lambda>c. (case sid_walk s None (domains c) of
              Inl r \<Rightarrow> Return (r, c)
            | Inr None \<Rightarrow> Return (Inl IDMAP_NO_DOMAIN, c)
            | Inr (Some d) \<Rightarrow>
                if auto_add_ranges d then add_dom_for_sid d s c else Return (Inl IDMAP_NO_RANGE, c))))"

fun check_sid_walk :: "string \<Rightarrow> u32 \<Rightarrow> bool \<Rightarrow> idmap_domain_info list \<Rightarrow> idmap_error_code" where
  "check_sid_walk sid i no_range [] = (if no_range then IDMAP_NO_RANGE else IDMAP_SID_UNKNOWN)"
| "check_sid_walk sid i no_range (d # ds) =
     (if is_sid_from_dom (di_sid d) sid then
        (if min_id (range_params d) \<le> i \<and> i \<le> max_id (range_params d) then IDMAP_SUCCESS
         else check_sid_walk sid i True ds)
      else check_sid_walk sid i no_range ds)"

definition sss_idmap_check_sid_unix :: "string option \<Rightarrow> u32 \<Rightarrow> sss_idmap_ctx \<Rightarrow> idmap_error_code" where
  "sss_idmap_check_sid_unix sid i c =
     (case sid of
        None \<Rightarrow> IDMAP_ERROR
      | Some s \<Rightarrow>
          if domains c = [] then IDMAP_NO_DOMAIN
          else if sss_idmap_sid_is_builtin s then IDMAP_BUILTIN_SID
          else check_sid_walk s i False (domains c))"

definition SID_STR_MAX_LEN :: nat where
  "SID_STR_MAX_LEN = 1024"

definition generate_sid :: "string \<Rightarrow> u32 \<Rightarrow> string idmap_prog" where
  "generate_sid dom_sid rid =
     (let s = dom_sid @ ''-'' @ show_nat (unat rid)
      in if SID_STR_MAX_LEN < length s then pret (Inl IDMAP_ERROR)
         else pbindE c_alloc (\<lambda>_. pret (Inr s)))"

text \<open>The first range that holds an id: the domain that owns it and the rid it stands for.\<close>

fun find_primary :: "u32 \<Rightarrow> idmap_domain_info list \<Rightarrow> (idmap_domain_info \<times> u32) option" where
  "find_primary i [] = None"
| "find_primary i (d # ds) =
     (case id_is_in_range i (range_params d) of Some rid \<Rightarrow> Some (d, rid) | None \<Rightarrow> find_primary i ds)"

fun find_helper :: "u32 \<Rightarrow> idmap_range_params list \<Rightarrow> (idmap_range_params \<times> u32) option" where
  "find_helper i [] = None"
| "find_helper i (h # hs) = (case id_is_in_range i h of Some rid \<Rightarrow> Some (h, rid) | None \<Rightarrow> find_helper i hs)"

fun find_secondary :: "u32 \<Rightarrow> idmap_domain_info list \<Rightarrow> (idmap_domain_info \<times> idmap_range_params \<times> u32) option" where
  "find_secondary i [] = None"
| "find_secondary i (d # ds) =
     (case (if helpers_owner d then find_helper i (helpers d) else None) of
        Some (h, rid) \<Rightarrow> Some (d, h, rid)
      | None \<Rightarrow> find_secondary i ds)"

definition sss_idmap_unix_to_sid :: "u32 \<Rightarrow> string idmap_prog" where
  "sss_idmap_unix_to_sid i = (\<lambda>c.
     (case find_primary i (domains c) of
        Some (d, rid) \<Rightarrow>
          (if external_mapping d then Return (Inl IDMAP_EXTERNAL, c)
           else (case di_sid d of None \<Rightarrow> Return (Inl IDMAP_EXTERNAL, c) | Some s \<Rightarrow> generate_sid s rid c))
      | None \<Rightarrow>
          (case find_secondary i (domains c) of
             None \<Rightarrow> Return (Inl IDMAP_NO_DOMAIN, c)
           | Some (d, h, rid) \<Rightarrow>
               (if external_mapping d then Return (Inl IDMAP_EXTERNAL, c)
                else (case di_sid d of
                    None \<Rightarrow> Return (Inl IDMAP_EXTERNAL, c)
                  | Some s \<Rightarrow> pbindE (spawn_dom d h) (\<lambda>_. generate_sid s rid) c)))))"

fun algorithmic_walk :: "string \<Rightarrow> idmap_domain_info list \<Rightarrow> idmap_error_code + bool" where
  "algorithmic_walk sid [] = Inl IDMAP_SID_UNKNOWN"
| "algorithmic_walk sid (d # ds) =
     (if is_sid_from_dom (di_sid d) sid \<or> di_sid d = Some sid then Inr (\<not> external_mapping d)
      else algorithmic_walk sid ds)"

definition sss_idmap_domain_has_algorithmic_mapping :: "string option \<Rightarrow> sss_idmap_ctx \<Rightarrow> idmap_error_code + bool" where
  "sss_idmap_domain_has_algorithmic_mapping sid c =
     (case sid of
        None \<Rightarrow> Inl IDMAP_SID_INVALID
      | Some s \<Rightarrow> if domains c = [] then Inl IDMAP_NO_DOMAIN else algorithmic_walk s (domains c))"

fun algorithmic_by_name :: "string \<Rightarrow> idmap_domain_info list \<Rightarrow> idmap_error_code + bool" where
  "algorithmic_by_name name [] = Inl IDMAP_NAME_UNKNOWN"
| "algorithmic_by_name name (d # ds) =
     (if di_name d = name then Inr (\<not> external_mapping d) else algorithmic_by_name name ds)"

definition sss_idmap_domain_by_name_has_algorithmic_mapping :: "string option \<Rightarrow> sss_idmap_ctx
    \<Rightarrow> idmap_error_code + bool" where
  "sss_idmap_domain_by_name_has_algorithmic_mapping name c =
     (case name of
        None \<Rightarrow> Inl IDMAP_ERROR
      | Some n \<Rightarrow> if domains c = [] then Inl IDMAP_NO_DOMAIN else algorithmic_by_name n (domains c))"

section \<open>Options\<close>

definition sss_idmap_ctx_set_autorid :: "bool \<Rightarrow> sss_idmap_ctx \<Rightarrow> sss_idmap_ctx" where
  "sss_idmap_ctx_set_autorid b c = c\<lparr>autorid_mode := b\<rparr>"

definition sss_idmap_ctx_set_lower :: "u32 \<Rightarrow> sss_idmap_ctx \<Rightarrow> sss_idmap_ctx" where
  "sss_idmap_ctx_set_lower x c = c\<lparr>idmap_lower := x\<rparr>"

definition sss_idmap_ctx_set_upper :: "u32 \<Rightarrow> sss_idmap_ctx \<Rightarrow> sss_idmap_ctx" where
  "sss_idmap_ctx_set_upper x c = c\<lparr>idmap_upper := x\<rparr>"

definition sss_idmap_ctx_set_rangesize :: "u32 \<Rightarrow> sss_idmap_ctx \<Rightarrow> sss_idmap_ctx" where
  "sss_idmap_ctx_set_rangesize x c = c\<lparr>rangesize := x\<rparr>"

definition sss_idmap_ctx_set_extra_slice_init :: "int \<Rightarrow> sss_idmap_ctx \<Rightarrow> sss_idmap_ctx" where
  "sss_idmap_ctx_set_extra_slice_init x c = c\<lparr>extra_slice_init := x\<rparr>"

end
