(* ===== verification/Idmap.thy ===== *)
theory Idmap
  imports Sss_Idmap Idp_Interface
begin

text \<open>
  The Rust side of the id mapping, \<open>idmap/src/lib.rs\<close>: the SIDs of directory objects, the
  wrapper around the C library, and the subordinate id ranges. Below the model are the facts on slices,
  uids and SIDs.
\<close>

section \<open>SIDs of directory objects\<close>

record AadSid =
  sid_rev_num :: u8
  num_auths :: "8 word"
  id_auth :: u64
  sub_auths :: "u32 list"

fun fill_auths :: "nat \<Rightarrow> string list \<Rightarrow> u32 list \<Rightarrow> idmap_error_code + nat \<times> u32 list" where
  "fill_auths i [] auths = Inr (i, auths)"
| "fill_auths i (s # ss) auths =
     (if length auths \<le> i then Inl IDMAP_SID_INVALID
      else (case parse_uint 32 s of
          None \<Rightarrow> Inl IDMAP_SID_INVALID
        | Some n \<Rightarrow> fill_auths (Suc i) ss (auths[i := word_of_nat n])))"

definition from_sid_str :: "string \<Rightarrow> idmap_error_code + AadSid" where
  "from_sid_str sid_str =
     (let parts = split_char CHR ''-'' (trim sid_str)
      in if length parts < 4 \<or> \<not> starts_with ''S-'' sid_str then Inl IDMAP_SID_INVALID
         else (case (parse_uint 8 (parts ! 1), parse_uint 64 (parts ! 2)) of
             (Some rev_num, Some auth) \<Rightarrow>
               (case fill_auths 0 (drop 3 parts) (replicate 15 0) of
                  Inl e \<Rightarrow> Inl e
                | Inr (count, auths) \<Rightarrow>
                    Inr \<lparr>sid_rev_num = word_of_nat rev_num, num_auths = word_of_nat count,
                      id_auth = word_of_nat auth, sub_auths = auths\<rparr>)
           | _ \<Rightarrow> Inl IDMAP_SID_INVALID))"

text \<open>\<open>Uuid::as_bytes\<close>: the sixteen bytes, the most significant one first.\<close>

definition uuid_bytes :: "Uuid \<Rightarrow> u8 list" where
  "uuid_bytes u = map (\<lambda>i. ucast (drop_bit (8 * (15 - i)) u)) [0..<16]"

definition from_be_bytes :: "u8 list \<Rightarrow> u32" where
  "from_be_bytes b = le32 (b ! 3) (b ! 2) (b ! 1) (b ! 0)"

definition from_le_bytes :: "u8 list \<Rightarrow> u32" where
  "from_le_bytes b = le32 (b ! 0) (b ! 1) (b ! 2) (b ! 3)"

definition from_object_id :: "Uuid \<Rightarrow> AadSid" where
  "from_object_id object_id =
     (let b = uuid_bytes object_id
      in \<lparr>sid_rev_num = 1, num_auths = 5, id_auth = 12,
          sub_auths = [1, from_be_bytes (take 4 b), from_be_bytes [b ! 6, b ! 7, b ! 4, b ! 5],
            from_le_bytes (take 4 (drop 8 b)), from_le_bytes (drop 12 b)] @ replicate 10 0\<rparr>)"

text \<open>\<open>None\<close> stands for the panic of an index out of range.\<close>

definition aad_rid :: "AadSid \<Rightarrow> (idmap_error_code + u32) option" where
  "aad_rid sid =
     (if num_auths sid <s 0 then Some (Inl IDMAP_SID_INVALID)
      else if num_auths sid = 0 \<or> length (sub_auths sid) < unat (num_auths sid) then None
      else Some (Inr (sub_auths sid ! (unat (num_auths sid) - 1))))"

section \<open>The map of a tenant\<close>

definition DEFAULT_IDMAP_RANGE :: "u32 \<times> u32" where
  "DEFAULT_IDMAP_RANGE = (200000, 2000200000)"

definition DEFAULT_SUBID_RANGE :: "u32 \<times> u32" where
  "DEFAULT_SUBID_RANGE = (2100000000, 4200000000)"

definition SUBID_COUNT :: u32 where
  "SUBID_COUNT = 65536"

text \<open>The lock around the context is poisoned once a thread panicked while holding it.\<close>

record Idmap =
  im_ctx :: sss_idmap_ctx
  im_poisoned :: bool
  ranges :: "string \<Rightarrow> (u32 \<times> u32) option"

definition idmap_new :: "(nat \<Rightarrow> bool) \<Rightarrow> idmap_error_code + Idmap" where
  "idmap_new fails = (case sss_idmap_init fails of
      Inl e \<Rightarrow> Inl e
    | Inr c \<Rightarrow> Inr \<lparr>im_ctx = c, im_poisoned = False, ranges = (\<lambda>_. None)\<rparr>)"

definition has_nul :: "string \<Rightarrow> bool" where
  "has_nul s \<longleftrightarrow> CHR 0x00 \<in> set s"

definition at_ctx :: "(sss_idmap_ctx, 'a) prog \<Rightarrow> (Idmap, 'a) prog" where
  "at_ctx m = pzoom im_ctx (\<lambda>c s. s\<lparr>im_ctx := c\<rparr>) m"

definition add_gen_domain :: "string \<Rightarrow> string \<Rightarrow> u32 \<times> u32 \<Rightarrow> (Idmap, idmap_error_code + unit) prog" where
  "add_gen_domain domain_name tenant_id rg = (\<lambda>s.
     if ranges s tenant_id \<noteq> None then Return (Inl IDMAP_COLLISION, s)
     else if im_poisoned s then Return (Inl IDMAP_ERROR, s)
     else if has_nul domain_name \<or> has_nul tenant_id then Return (Inl IDMAP_OUT_OF_MEMORY, s)
     else at_ctx (sss_idmap_add_gen_domain_ex (Some domain_name) (Some tenant_id) (Some rg) None None None 0 False)
       (s\<lparr>ranges := (ranges s)(tenant_id \<mapsto> rg)\<rparr>))"

definition gen_to_unix :: "unistring \<Rightarrow> string \<Rightarrow> string \<Rightarrow> (Idmap, idmap_error_code + u32) prog" where
  "gen_to_unix u tenant_id input = (\<lambda>s.
     if ranges s tenant_id = None then Return (Inl IDMAP_NO_DOMAIN, s)
     else if im_poisoned s then Return (Inl IDMAP_ERROR, s)
     else if has_nul tenant_id \<or> has_nul (to_lowercase input) then Return (Inl IDMAP_OUT_OF_MEMORY, s)
     else at_ctx (sss_idmap_gen_to_unix u tenant_id (to_lowercase input)) s)"

definition object_id_to_unix_id :: "Idmap \<Rightarrow> string \<Rightarrow> AadSid \<Rightarrow> (idmap_error_code + u32) option" where
  "object_id_to_unix_id s tenant_id sid =
     (case aad_rid sid of
        None \<Rightarrow> None
      | Some (Inl e) \<Rightarrow> Some (Inl e)
      | Some (Inr rid) \<Rightarrow>
          (case ranges s tenant_id of
             None \<Rightarrow> Some (Inl IDMAP_NO_RANGE)
           | Some (lo, hi) \<Rightarrow>
               (let uid_count = sub_saturating hi lo
                in Some (if uid_count = 0 then Inl IDMAP_NO_RANGE else Inr (rid mod uid_count + lo)))))"

definition gen_subid_start :: "string \<Rightarrow> u32 \<times> u32 \<Rightarrow> u32" where
  "gen_subid_start username subid_range =
     (let (min_id, max_id) = subid_range;
          range_size = sub_saturating max_id min_id;
          num_slots = range_size div SUBID_COUNT
      in if num_slots = 0 then min_id
         else
           (let input = to_lowercase username;
                hash = murmurhash3 (bytes_of input) (length input) 0xdeadbeef;
                slot = hash mod num_slots
            in min_id + slot * SUBID_COUNT))"

section \<open>Subordinate ids\<close>

lemma u32_bound: "unat (w :: u32) < 4294967296"
  using unsigned_less [of w, where 'a = nat] by simp

text \<open>The slice of a user: its first id and the one behind its last, as numbers that do not wrap.\<close>

lemma subid_slot:
  fixes lo hi :: u32
  assumes "65536 \<le> unat hi - unat lo"
  shows "\<exists>k < (unat hi - unat lo) div 65536. unat (gen_subid_start name (lo, hi)) = unat lo + k * 65536"
proof -
  let ?size = "sub_saturating hi lo" and ?hash = "murmurhash3 (bytes_of (to_lowercase name)) (length name) 0xdeadbeef"
  let ?slots = "?size div 65536"
  have size: "unat ?size = unat hi - unat lo"
    using assms by (auto simp: sub_saturating_def unat_sub word_less_nat_alt word_le_nat_alt)
  then have slots: "unat ?slots = (unat hi - unat lo) div 65536" by (simp add: unat_div)
  with assms have pos: "0 < unat ?slots" by (simp add: div_greater_zero_iff)
  let ?k = "unat (?hash mod ?slots)"
  have k: "?k < unat ?slots" using pos by (simp add: unat_mod)
  have "?k * 65536 \<le> unat hi - unat lo - 65536"
  proof -
    from k slots have "Suc ?k \<le> (unat hi - unat lo) div 65536" by simp
    then have "Suc ?k * 65536 \<le> (unat hi - unat lo) div 65536 * 65536" by (rule mult_le_mono1)
    also have "\<dots> \<le> unat hi - unat lo" by simp
    finally show ?thesis by simp
  qed
  with assms have fits: "unat lo + ?k * 65536 < 2 ^ 32" using u32_bound [of hi] by simp
  have "unat (?hash mod ?slots * 65536) = ?k * 65536" using fits by (simp add: unat_word_ariths)
  with fits have "unat (lo + ?hash mod ?slots * 65536) = unat lo + ?k * 65536" by (simp add: unat_word_ariths)
  moreover from pos have "?slots \<noteq> 0" by auto
  ultimately show ?thesis using k slots
    by (intro exI [of _ ?k]) (simp add: gen_subid_start_def SUBID_COUNT_def Let_def to_lowercase_def)
qed

text \<open>
  C19. In a range with room for one slice at least, the subordinate ids of a user are a whole slice
  of the range: it starts at a multiple of 65536 behind the lower end and ends within the range,
  without any overflow. Two users have the same slice or slices that do not overlap, and the case of
  a name does not matter.
\<close>

theorem subid_slices:
  fixes lo hi :: u32
  assumes "65536 \<le> unat hi - unat lo"
  shows "unat lo \<le> unat (gen_subid_start name (lo, hi))
    \<and> unat (gen_subid_start name (lo, hi)) + 65536 \<le> unat hi
    \<and> 65536 dvd unat (gen_subid_start name (lo, hi)) - unat lo
    \<and> (gen_subid_start name (lo, hi) = gen_subid_start name' (lo, hi)
      \<or> unat (gen_subid_start name (lo, hi)) + 65536 \<le> unat (gen_subid_start name' (lo, hi))
      \<or> unat (gen_subid_start name' (lo, hi)) + 65536 \<le> unat (gen_subid_start name (lo, hi)))
    \<and> gen_subid_start (to_lowercase name) (lo, hi) = gen_subid_start name (lo, hi)"
proof -
  from subid_slot [OF assms] obtain k where k: "k < (unat hi - unat lo) div 65536"
    "unat (gen_subid_start name (lo, hi)) = unat lo + k * 65536" by blast
  from subid_slot [OF assms] obtain k' where k': "unat (gen_subid_start name' (lo, hi)) = unat lo + k' * 65536" by blast
  have "Suc k * 65536 \<le> (unat hi - unat lo) div 65536 * 65536" using k(1) by (intro mult_le_mono1) simp
  also have "\<dots> \<le> unat hi - unat lo" by simp
  finally have "unat lo + k * 65536 + 65536 \<le> unat hi" using assms by simp
  moreover have "k = k' \<or> k * 65536 + 65536 \<le> k' * 65536 \<or> k' * 65536 + 65536 \<le> k * 65536" by arith
  moreover have "k = k' \<Longrightarrow> gen_subid_start name (lo, hi) = gen_subid_start name' (lo, hi)"
    using k k' by (simp add: word_unat_eq_iff)
  ultimately show ?thesis using k k' by (auto simp: gen_subid_start_def Let_def)
qed

theorem subid_slices_witness:
  "unat (gen_subid_start ''Tux'' DEFAULT_SUBID_RANGE) + 65536 \<le> unat (snd DEFAULT_SUBID_RANGE)
     \<and> gen_subid_start (to_lowercase ''Tux'') DEFAULT_SUBID_RANGE = gen_subid_start ''Tux'' DEFAULT_SUBID_RANGE"
proof -
  have "65536 \<le> unat (4200000000 :: u32) - unat (2100000000 :: u32)" by simp
  from subid_slices [OF this, of "''Tux''"] show ?thesis by (simp add: DEFAULT_SUBID_RANGE_def)
qed

section \<open>Uids\<close>

lemma compute_id_bounds: "compute_id rp rid = Some i \<Longrightarrow> i \<le> max_id rp"
  by (auto simp: compute_id_def Let_def split: if_splits)

lemma compute_id_offset:
  fixes rp :: idmap_range_params
  assumes "first_rid rp = 0" and le: "min_id rp \<le> max_id rp" and top: "max_id rp < 4294967295"
    and off: "0 \<le> n" "n \<le> uint (max_id rp - min_id rp)"
  shows "compute_id rp n = Some (min_id rp + of_int n) \<and> min_id rp \<le> min_id rp + of_int n
    \<and> min_id rp + of_int n \<le> max_id rp"
proof -
  have diff: "uint (max_id rp - min_id rp) = uint (max_id rp) - uint (min_id rp)"
    using le by (simp add: uint_minus_simple_alt)
  have lt: "uint (max_id rp) < 4294967295"
    using top by (simp add: word_less_def)
  have sum: "uint (min_id rp + of_int n :: u32) = uint (min_id rp) + n"
  proof -
    have "0 \<le> uint (min_id rp)" by simp
    then have "n < 4294967296" "uint (min_id rp) + n < 4294967296" using off diff lt by linarith+
    moreover from this off(1) have "uint (of_int n :: u32) = n" by (simp add: uint_word_of_int)
    ultimately show ?thesis using off by (simp add: uint_plus_if_size word_size)
  qed
  have "uint (4294967295 - min_id rp) = 4294967295 - uint (min_id rp)"
    using le top by (subst uint_minus_simple_alt [THEN iffD1]) simp_all
  with assms(1) off diff lt have g: "uint (first_rid rp) \<le> n \<and> n - uint (first_rid rp) < uint (4294967295 - min_id rp)" by simp
  have in_range: "min_id rp \<le> min_id rp + of_int n" "min_id rp + of_int n \<le> max_id rp"
    unfolding word_le_def sum using off diff by simp_all
  with g assms(1) show ?thesis by (simp add: compute_id_def)
qed

text \<open>What the generic mapping computes in a range: the hash, reduced to its size.\<close>

definition hashed_uid :: "u32 \<times> u32 \<Rightarrow> string \<Rightarrow> u32" where
  "hashed_uid rg s = fst rg + murmur_ref 0xdeadbeef (bytes_of s) mod (1 + (snd rg - fst rg))"

lemma gen_walk_found:
  assumes d: "find (\<lambda>d. is_from_dom (di_sid d) t) ds = Some d" and "\<not> external_mapping d" "first_rid (range_params d) = 0"
    and le: "min_id (range_params d) \<le> max_id (range_params d)" and top: "max_id (range_params d) < 4294967295"
    and v: "u8_normalize u s = Some v"
  shows "gen_walk (sss_idmap_offset_murmurhash3 u None) t s m ds = Inr (hashed_uid (dom_range d) v)
    \<and> fst (dom_range d) \<le> hashed_uid (dom_range d) v \<and> hashed_uid (dom_range d) v \<le> snd (dom_range d)"
  using d
proof (induction ds arbitrary: m)
  case (Cons d' ds)
  let ?rp = "range_params d" and ?h = "murmur_ref 0xdeadbeef (bytes_of v)"
  let ?size = "1 + (max_id ?rp - min_id ?rp)"
  have size: "uint ?size = 1 + uint (max_id ?rp - min_id ?rp)"
  proof -
    have "uint (max_id ?rp - min_id ?rp) < 4294967295"
    proof -
      have "uint (max_id ?rp - min_id ?rp) = uint (max_id ?rp) - uint (min_id ?rp)" "uint (max_id ?rp) < 4294967295"
        using le top by (simp_all add: uint_minus_simple_alt word_less_def)
      with uint_ge_0 [of "min_id ?rp"] show ?thesis by linarith
    qed
    then show ?thesis by (simp add: uint_plus_if_size word_size)
  qed
  then have "?size \<noteq> 0" by (metis add_nonneg_eq_0_iff uint_ge_0 uint_0_iff zero_le_one zero_neq_one)
  let ?n = "uint ?h mod uint ?size"
  have n: "0 \<le> ?n" "?n \<le> uint (max_id ?rp - min_id ?rp)" "?n < uint ?size"
  proof -
    have pos: "0 < uint ?size" using \<open>?size \<noteq> 0\<close> by (simp add: word_neq_0_conv [symmetric] uint_0_iff order_less_le)
    from pos_mod_sign [OF pos] show "0 \<le> ?n" by simp
    from pos_mod_bound [OF pos] show "?n < uint ?size" by simp
    with size show "?n \<le> uint (max_id ?rp - min_id ?rp)" by linarith
  qed
  have h: "murmurhash3 (bytes_of v) (length v) 0xdeadbeef = ?h"
    using murmurhash3_eq [of "bytes_of v"] by (simp add: bytes_of_def)
  note c = compute_id_offset [OF assms(3) le top n(1,2)]
  have "of_int ?n = ?h mod ?size" by (simp add: word_mod_def)
  with c have c': "compute_id ?rp ?n = Some (hashed_uid (dom_range d) v)" "min_id ?rp \<le> hashed_uid (dom_range d) v"
    "hashed_uid (dom_range d) v \<le> max_id ?rp" by (simp_all add: hashed_uid_def dom_range_def)
  show ?case
  proof (cases "is_from_dom (di_sid d') t")
    case True
    with Cons.prems have "d' = d" by simp
    with True assms n c' h v \<open>?size \<noteq> 0\<close> show ?thesis
      by (simp add: sss_idmap_offset_murmurhash3_def offset_murmurhash3_data_default_def normalize_casefold_def
          dom_range_def Let_def)
  next
    case False
    with Cons show ?thesis by simp
  qed
qed simp

lemma add_gen_domain_Inr:
  assumes "add_gen_domain name t rg s = Return (Inr (), s')"
  shows "ranges s' = (ranges s)(t \<mapsto> rg) \<and> im_poisoned s' = im_poisoned s \<and> \<not> im_poisoned s \<and> \<not> has_nul t
    \<and> ranges s t = None
    \<and> domains (im_ctx s') = new_domain name (Some t) rg None 0 False # domains (im_ctx s)"
  using assms
  by (cases "ranges s t") (auto simp: add_gen_domain_def at_ctx_def pzoom_Return sss_idmap_add_gen_domain_ex_def pbindE_Return c_alloc_def
      alloc_if_def link_domain_def Let_def new_domain_def split: if_splits)

definition all_hashed :: "Idmap \<Rightarrow> bool" where
  "all_hashed s \<longleftrightarrow> (\<forall>d \<in> set (domains (im_ctx s)). offset_func d = None)"

lemma gen_to_unix_found:
  assumes d: "find (\<lambda>d. is_from_dom (di_sid d) t) (domains (im_ctx s)) = Some d" and "all_hashed s"
    and "ranges s t \<noteq> None" "\<not> im_poisoned s" "\<not> has_nul t" "\<not> has_nul (to_lowercase x)"
    and "\<not> external_mapping d" "first_rid (range_params d) = 0" "min_id (range_params d) \<le> max_id (range_params d)"
      "max_id (range_params d) < 4294967295"
    and v: "u8_normalize u (to_lowercase x) = Some v"
  shows "gen_to_unix u t x s = Return (Inr (hashed_uid (dom_range d) v), s)
    \<and> fst (dom_range d) \<le> hashed_uid (dom_range d) v \<and> hashed_uid (dom_range d) v \<le> snd (dom_range d)"
proof -
  from d obtain d0 ds where ds: "domains (im_ctx s) = d0 # ds" by (cases "domains (im_ctx s)") auto
  with assms(2) have "offset_func d0 = None" by (simp add: all_hashed_def)
  with gen_walk_found [OF d assms(7-10) v, of False] ds assms show ?thesis
    by (simp add: gen_to_unix_def at_ctx_def pzoom_def sss_idmap_gen_to_unix_def)
qed

text \<open>
  C18. Once a tenant has a range, the uid of each of its users is determined by the hash of the
  lowercase name alone, and lies within the range. Adding the range of another tenant does not
  change it: the uid is still the same.
\<close>

theorem uid_determined_by_name:
  assumes hashed: "all_hashed s" and add: "add_gen_domain name t (lo, hi) s = Return (Inr (), s1)"
    and other: "add_gen_domain name' t' rg' s1 = Return (Inr (), s2)"
    and range: "lo \<le> hi" "hi < 4294967295" and x: "\<not> has_nul (to_lowercase x)"
    and v: "u8_normalize u (to_lowercase x) = Some v"
  shows "gen_to_unix u t x s1 = Return (Inr (hashed_uid (lo, hi) v), s1)
    \<and> gen_to_unix u t x s2 = Return (Inr (hashed_uid (lo, hi) v), s2)
    \<and> lo \<le> hashed_uid (lo, hi) v \<and> hashed_uid (lo, hi) v \<le> hi"
proof -
  let ?d = "new_domain name (Some t) (lo, hi) None 0 False" and ?d' = "new_domain name' (Some t') rg' None 0 False"
  note a = add_gen_domain_Inr [OF add] and o = add_gen_domain_Inr [OF other]
  have neq: "t' \<noteq> t" using a o by auto
  have d: "dom_range ?d = (lo, hi)" "\<not> external_mapping ?d" "first_rid (range_params ?d) = 0"
    "min_id (range_params ?d) \<le> max_id (range_params ?d)" "max_id (range_params ?d) < 4294967295"
    using range by (simp_all add: new_domain_def dom_range_def)
  have find: "find (\<lambda>d. is_from_dom (di_sid d) t) (domains (im_ctx s1)) = Some ?d"
    "find (\<lambda>d. is_from_dom (di_sid d) t) (domains (im_ctx s2)) = Some ?d"
    using a o neq by (simp_all add: is_from_dom_def new_domain_def)
  have "all_hashed s1" "all_hashed s2" using hashed a o by (simp_all add: all_hashed_def new_domain_def)
  with gen_to_unix_found [OF find(1) _ _ _ _ x d(2-5) v] gen_to_unix_found [OF find(2) _ _ _ _ x d(2-5) v]
    a o neq d(1) show ?thesis by simp
qed

definition sample_ctx :: sss_idmap_ctx where
  "sample_ctx = \<lparr>autorid_mode = False, idmap_lower = 200000, idmap_upper = 2000200000, rangesize = 200000,
     extra_slice_init = 10, domains = [], alloc_fails = (\<lambda>_. False), allocs = 1\<rparr>"

definition sample_idmap :: Idmap where
  "sample_idmap = \<lparr>im_ctx = sample_ctx, im_poisoned = False, ranges = (\<lambda>_. None)\<rparr>"

definition ascii_unistring :: unistring where
  "ascii_unistring = \<lparr>u8_normalize = Some, u8_casefold = (\<lambda>s. Some (to_lowercase s))\<rparr>"

lemma sample_new: "idmap_new (\<lambda>_. False) = Inr sample_idmap"
  by (simp add: idmap_new_def sss_idmap_init_def sample_idmap_def sample_ctx_def)

lemma has_nul_letters: "\<not> has_nul ''contoso.onmicrosoft.com''" "\<not> has_nul ''d7af6c1b''" "\<not> has_nul ''other''"
  "\<not> has_nul (to_lowercase ''Tux@contoso.onmicrosoft.com'')"
  by code_simp+

text \<open>The first two uids of the unit tests of the repository.\<close>

lemma hashed_uid_tests:
  "hashed_uid (200000, 2000200000) (to_lowercase ''Tux@contoso.onmicrosoft.com'') = 1912749799"
  "hashed_uid (200000, 2000200000) ''admin@contoso.onmicrosoft.com'' = 297515919"
  by code_simp+

theorem uid_determined_by_name_witness:
  "\<exists>s1 s2. add_gen_domain ''contoso.onmicrosoft.com'' ''d7af6c1b'' DEFAULT_IDMAP_RANGE sample_idmap = Return (Inr (), s1)
     \<and> add_gen_domain ''other'' ''other'' (2000200001, 2000300000) s1 = Return (Inr (), s2)
     \<and> gen_to_unix ascii_unistring ''d7af6c1b'' ''Tux@contoso.onmicrosoft.com'' s2 = Return (Inr 1912749799, s2)"
proof -
  have "\<exists>s1. add_gen_domain ''contoso.onmicrosoft.com'' ''d7af6c1b'' (200000, 2000200000) sample_idmap = Return (Inr (), s1)
     \<and> (\<exists>s2. add_gen_domain ''other'' ''other'' (2000200001, 2000300000) s1 = Return (Inr (), s2))"
    by (simp add: add_gen_domain_def sample_idmap_def sample_ctx_def has_nul_letters at_ctx_def pzoom_def
        sss_idmap_add_gen_domain_ex_def pbindE_def pbind_def pret_def c_alloc_def alloc_if_def link_domain_def
        new_domain_def dom_check_collision_def sss_idmap_check_collision_ex_def dom_range_def eq_nocase_def
        to_lowercase_def)
  then obtain s1 s2 where
    s1: "add_gen_domain ''contoso.onmicrosoft.com'' ''d7af6c1b'' (200000, 2000200000) sample_idmap = Return (Inr (), s1)"
    and s2: "add_gen_domain ''other'' ''other'' (2000200001, 2000300000) s1 = Return (Inr (), s2)" by blast
  have "all_hashed sample_idmap" by (simp add: all_hashed_def sample_idmap_def sample_ctx_def)
  from uid_determined_by_name [OF this s1 s2 _ _ has_nul_letters(4), of ascii_unistring] s1 s2 hashed_uid_tests(1)
  show ?thesis by (simp add: ascii_unistring_def DEFAULT_IDMAP_RANGE_def)
qed

text \<open>
  The range of a tenant is recorded before the library accepts it. If the library refuses
  the domain, because its range collides with that of another tenant, the range stays recorded:
  the uids of the refused tenant's objects are computed in the colliding range all the same, and
  a second attempt with any other range is refused.
\<close>

theorem refused_range_stays:
  assumes "ranges s t = None" "\<not> im_poisoned s" "\<not> has_nul name" "\<not> has_nul t"
    and "add_gen_domain name t (lo, hi) s = Return (Inl e, s')" and "lo < hi" and "aad_rid sid = Some (Inr rid)"
  shows "object_id_to_unix_id s' t sid = Some (Inr (rid mod (hi - lo) + lo))
    \<and> add_gen_domain name' t rg' s' = Return (Inl IDMAP_COLLISION, s')"
proof -
  have "ranges s' = (ranges s)(t \<mapsto> (lo, hi))"
    using assms(1-5) by (auto simp: add_gen_domain_def at_ctx_def pzoom_Return)
  with assms(6,7) show ?thesis
    by (auto simp: object_id_to_unix_id_def add_gen_domain_def sub_saturating_def)
qed

definition sample_tenant :: Idmap where
  "sample_tenant = sample_idmap\<lparr>im_ctx := sample_ctx\<lparr>domains :=
     [new_domain ''contoso.onmicrosoft.com'' (Some ''d7af6c1b'') (200000, 2000200000) None 0 False]\<rparr>,
     ranges := [''d7af6c1b'' \<mapsto> (200000, 2000200000)]\<rparr>"

theorem refused_range_stays_witness:
  "\<exists>s'. add_gen_domain ''other'' ''other'' (300000, 400000) sample_tenant = Return (Inl IDMAP_COLLISION, s')
     \<and> object_id_to_unix_id s' ''other'' (from_object_id 1) = Some (Inr (0x01000000 mod 100000 + 300000))"
proof -
  have "\<exists>s'. add_gen_domain ''other'' ''other'' (300000, 400000) sample_tenant = Return (Inl IDMAP_COLLISION, s')"
    by (simp add: add_gen_domain_def sample_tenant_def sample_idmap_def sample_ctx_def has_nul_letters at_ctx_def pzoom_def
        sss_idmap_add_gen_domain_ex_def pbindE_def pbind_def pret_def c_alloc_def alloc_if_def link_domain_def
        new_domain_def dom_check_collision_def sss_idmap_check_collision_ex_def dom_range_def)
  then obtain s' where s': "add_gen_domain ''other'' ''other'' (300000, 400000) sample_tenant = Return (Inl IDMAP_COLLISION, s')"
    by blast
  have "aad_rid (from_object_id 1) = Some (Inr 0x01000000)" by code_simp
  from refused_range_stays [OF _ _ _ _ s' _ this] s' show ?thesis
    by (simp add: sample_tenant_def sample_idmap_def has_nul_letters)
qed

text \<open>
  C22. The check for collisions looks only whether an end of the new range lies in an old one.
  A range that encloses the range of another domain is accepted: the new domain stands before the old one in the list, with the range that was
  asked for, and every id of the old range is in the range of both domains.
\<close>

theorem enclosing_range_accepted:
  assumes c: "domains c = [d]" and "\<not> external_mapping d" and "lo < min_id (range_params d)"
    and "min_id (range_params d) \<le> max_id (range_params d)" and "max_id (range_params d) < hi"
    and "\<not> eq_nocase name (di_name d)" and "di_sid d = Some ds" and "\<not> eq_nocase t ds" and "\<And>n. \<not> alloc_fails c n"
  shows "\<exists>c' d'. sss_idmap_add_gen_domain_ex (Some name) (Some t) (Some (lo, hi)) None None None 0 False c = Return (Inr (), c')
    \<and> domains c' = [d', d] \<and> di_name d' = name \<and> di_sid d' = Some t \<and> dom_range d' = (lo, hi)
    \<and> (\<forall>i. min_id (range_params d) \<le> i \<and> i \<le> max_id (range_params d) \<longrightarrow>
         id_is_in_range i (range_params d) \<noteq> None \<and> id_is_in_range i (range_params d') \<noteq> None)"
proof -
  let ?d = "new_domain name (Some t) (lo, hi) None 0 False"
  have "dom_check_collision [d] ?d = IDMAP_SUCCESS"
    using assms by (auto simp: dom_check_collision_def sss_idmap_check_collision_ex_def new_domain_def dom_range_def)
  with c assms(9) have "sss_idmap_add_gen_domain_ex (Some name) (Some t) (Some (lo, hi)) None None None 0 False c
      = Return (Inr (), c\<lparr>allocs := Suc (Suc (Suc (allocs c))), domains := [?d, d]\<rparr>)"
    by (simp add: sss_idmap_add_gen_domain_ex_def pbindE_def pbind_def pret_def c_alloc_def alloc_if_def link_domain_def
        new_domain_def)
  moreover have "id_is_in_range i (range_params d) \<noteq> None \<and> id_is_in_range i (range_params ?d) \<noteq> None"
    if i: "min_id (range_params d) \<le> i" "i \<le> max_id (range_params d)" for i
  proof -
    have "lo < i" "i < hi" using i assms(3,5) by simp_all
    then have "i \<noteq> 0" by auto
    with i \<open>lo < i\<close> \<open>i < hi\<close> show ?thesis by (simp add: id_is_in_range_def new_domain_def less_imp_le)
  qed
  moreover have "di_name ?d = name" "di_sid ?d = Some t" "dom_range ?d = (lo, hi)" by (simp_all add: new_domain_def dom_range_def)
  ultimately show ?thesis by (intro exI [of _ "c\<lparr>allocs := Suc (Suc (Suc (allocs c))), domains := [?d, d]\<rparr>"] exI [of _ ?d]) simp
qed

theorem enclosing_range_accepted_witness:
  "\<exists>c' d' d. sss_idmap_add_gen_domain_ex (Some ''other'') (Some ''other'') (Some (1000, 3000000000)) None None None 0 False
      (im_ctx sample_tenant) = Return (Inr (), c') \<and> domains c' = [d', d] \<and> dom_range d' = (1000, 3000000000)
    \<and> id_is_in_range 300000 (range_params d) \<noteq> None \<and> id_is_in_range 300000 (range_params d') \<noteq> None"
proof -
  let ?d = "new_domain ''contoso.onmicrosoft.com'' (Some ''d7af6c1b'') (200000, 2000200000) None 0 False"
  have "domains (im_ctx sample_tenant) = [?d]" by (simp add: sample_tenant_def)
  from enclosing_range_accepted [OF this, of 1000 3000000000 "''other''" "''d7af6c1b''" "''other''"] obtain c' d' where
    "sss_idmap_add_gen_domain_ex (Some ''other'') (Some ''other'') (Some (1000, 3000000000)) None None None 0 False
      (im_ctx sample_tenant) = Return (Inr (), c')" "domains c' = [d', ?d]" "dom_range d' = (1000, 3000000000)"
    "\<forall>i. min_id (range_params ?d) \<le> i \<and> i \<le> max_id (range_params ?d) \<longrightarrow>
       id_is_in_range i (range_params ?d) \<noteq> None \<and> id_is_in_range i (range_params d') \<noteq> None"
    by (auto simp: new_domain_def eq_nocase_def to_lowercase_def sample_tenant_def sample_ctx_def)
  moreover have "min_id (range_params ?d) \<le> 300000 \<and> 300000 \<le> max_id (range_params ?d)" by (simp add: new_domain_def)
  ultimately show ?thesis by blast
qed

section \<open>The search for a free slice\<close>

lemma next_slice_unat:
  assumes "n < m"
  shows "unat (next_slice m n) = Suc (unat n) mod unat m"
proof -
  from assms have lt: "Suc (unat n) \<le> unat m" by (simp add: word_less_nat_alt)
  then have "unat (n + 1) = Suc (unat n)" using u32_bound [of m] by (simp add: unat_word_ariths)
  with lt show ?thesis by (auto simp: next_slice_def word_le_nat_alt mod_Suc)
qed

text \<open>After \<open>k\<close> steps all the slices passed are taken, and the search is at the \<open>k\<close>-th one.\<close>

lemma find_slice_from:
  assumes "orig < m" and "k < unat m" and "unat n = (unat orig + k) mod unat m"
    and "\<And>j. j < k \<Longrightarrow> slice_taken c (word_of_nat ((unat orig + j) mod unat m))"
  shows "(\<exists>i < m. find_slice c m orig n = Some (Some i) \<and> \<not> slice_taken c i)
    \<or> find_slice c m orig n = Some None \<and> (\<forall>j < unat m. slice_taken c (word_of_nat ((unat orig + j) mod unat m)))"
  using assms(2-)
proof (induction "unat m - k" arbitrary: k n)
  case (Suc x)
  have pos: "0 < unat m" and n: "n < m" using assms(1) Suc.prems by (auto simp: word_less_nat_alt)
  show ?case
  proof (cases "slice_taken c n")
    case False
    then have "find_slice c m orig n = Some (Some n)" by (subst find_slice.simps) simp
    with n False show ?thesis by auto
  next
    case True
    have n': "unat (next_slice m n) = (unat orig + Suc k) mod unat m"
      using next_slice_unat [OF n] Suc.prems(2) by (simp add: mod_Suc_eq)
    have taken: "slice_taken c (word_of_nat ((unat orig + j) mod unat m))" if "j < Suc k" for j
      using that Suc.prems True by (cases "j = k") (auto simp: less_Suc_eq Suc.prems(2) [symmetric])
    show ?thesis
    proof (cases "next_slice m n = orig")
      case round: True
      with n' have "(unat orig + Suc k) mod unat m = unat orig mod unat m" using assms(1)
        by (simp add: word_less_nat_alt)
      then have "unat m dvd Suc k" by (metis add.right_neutral mod_eq_dvd_iff_nat le_add1 diff_add_inverse)
      with Suc.prems(1) have "Suc k = unat m" by (meson Suc_leI dvd_imp_le le_antisym zero_less_Suc)
      moreover have "find_slice c m orig n = Some None" using round True by (subst find_slice.simps) simp
      ultimately show ?thesis using taken by auto
    next
      case on: False
      have "Suc k \<noteq> unat m"
      proof
        assume "Suc k = unat m"
        with n' assms(1) have "unat (next_slice m n) = unat orig" by (simp add: word_less_nat_alt)
        with on show False by (simp add: word_unat_eq_iff)
      qed
      with Suc.prems(1) have k: "Suc k < unat m" by simp
      have "find_slice c m orig n = find_slice c m orig (next_slice m n)" using on True by (subst find_slice.simps) simp
      with Suc.hyps(1) [OF _ k n' taken] Suc.hyps(2) show ?thesis by auto
    qed
  qed
qed simp

lemma find_slice_total:
  assumes "orig < m"
  shows "(\<exists>i < m. find_slice c m orig orig = Some (Some i) \<and> \<not> slice_taken c i)
    \<or> find_slice c m orig orig = Some None \<and> (\<forall>i < m. slice_taken c i)"
proof -
  have "unat orig = (unat orig + 0) mod unat m" and m: "0 < unat m" using assms by (auto simp: word_less_nat_alt)
  note start = find_slice_from [OF assms m this(1), of c]
  have "slice_taken c i" if all: "\<forall>j < unat m. slice_taken c (word_of_nat ((unat orig + j) mod unat m))" and "i < m" for i
  proof -
    let ?j = "(unat m - unat orig + unat i) mod unat m"
    have "(unat orig + ?j) mod unat m = unat i"
    proof -
      have "(unat orig + ?j) mod unat m = (unat orig + (unat m - unat orig + unat i)) mod unat m" by (simp add: mod_add_right_eq)
      also have "unat orig + (unat m - unat orig + unat i) = unat m + unat i" using assms by (simp add: word_less_nat_alt)
      finally show ?thesis using \<open>i < m\<close> by (simp add: word_less_nat_alt)
    qed
    with all [rule_format, of ?j] m show ?thesis by simp
  qed
  with start show ?thesis by auto
qed

text \<open>
  C20. Asking for a slice always comes to an end. With at least one slice, the answer is a slice
  of the range of ids that no domain overlaps, or that there is none, and this only when every slice is
  taken.
\<close>

theorem slice_search_ends:
  assumes "rangesize c \<noteq> 0" and "max_slices c \<noteq> 0"
  shows "\<exists>r. sss_idmap_calculate_range rid None c = Return (r, c) \<and> (case r of
      Inr ((lo, hi), n) \<Rightarrow> n < max_slices c \<and> lo = slice_min c n \<and> hi = slice_max c n
        \<and> (\<forall>d \<in> set (domains c). \<not> check_overlap (range_params d) lo hi)
    | Inl e \<Rightarrow> e = IDMAP_OUT_OF_SLICES \<and> (\<forall>n < max_slices c. slice_taken c n))"
proof -
  let ?o = "if autorid_mode c then 0 else murmurhash3 (bytes_of rid) (length rid) 0xdeadbeef mod max_slices c"
  have "?o < max_slices c" using assms(2) by (auto simp: word_mod_less_divisor word_neq_0_conv)
  from find_slice_total [OF this, of c] assms show ?thesis
    by (auto simp: sss_idmap_calculate_range_def pick_slice_def Let_def slice_taken_def)
qed

theorem slice_search_ends_witness:
  "\<exists>r. sss_idmap_calculate_range ''S-1-5-21-1-2-3'' None sample_ctx = Return (r, sample_ctx)"
proof -
  have "rangesize sample_ctx \<noteq> 0" "max_slices sample_ctx \<noteq> 0" by (simp_all add: sample_ctx_def max_slices_def)
  from slice_search_ends [OF this] show ?thesis by blast
qed

end
