(* ===== verification/Idmap_Sids.thy ===== *)
theory Idmap_Sids
  imports Idmap
begin

text \<open>
  SIDs as text: reading what was written gives the SID back, for the SIDs of directory objects
  of \<open>idmap/src/lib.rs\<close> and for the domain SIDs of \<open>idmap/src/sss_idmap.c\<close>.
\<close>

section \<open>Decimal text\<close>

lemma show_nat_digits: "c \<in> set (show_nat n) \<Longrightarrow> \<exists>d < 10. c = digit_char d"
proof (induction n rule: show_nat.induct)
  case (1 n)
  have "\<exists>d < 10. digit_char (n mod 10) = digit_char d" by (rule exI [of _ "n mod 10"]) simp
  with 1 show ?case by (cases "n < 10") (auto simp: show_nat.simps [of n])
qed

lemma digit_char_facts:
  assumes "d < 10"
  shows "digit_char d \<noteq> CHR ''-''" "digit_char d \<noteq> CHR ''+''" "\<not> is_space (digit_char d)"
proof -
  have "(of_char (digit_char d) :: nat) = 48 + d" using assms by (rule of_char_digit_char)
  then show "digit_char d \<noteq> CHR ''-''" "digit_char d \<noteq> CHR ''+''" "\<not> is_space (digit_char d)"
    by (auto simp: is_space_def)
qed

lemma show_nat_chars: "CHR ''-'' \<notin> set (show_nat n)" "c \<in> set (show_nat n) \<Longrightarrow> \<not> is_space c"
  using show_nat_digits digit_char_facts by metis+

lemma trim_id:
  assumes "s \<noteq> []" and "\<not> is_space (hd s)" and "\<not> is_space (last s)"
  shows "trim s = s"
proof -
  from assms obtain c cs where "s = c # cs" by (cases s) auto
  with assms(2) have "trim_start s = s" by (simp add: trim_start_def)
  moreover from assms obtain xs x where "s = xs @ [x]" by (metis append_butlast_last_id)
  with assms(3) have "trim_end s = s" by (simp add: trim_end_def)
  ultimately show ?thesis by (simp add: trim_def)
qed

section \<open>The SIDs of directory objects\<close>

definition aad_wf :: "AadSid \<Rightarrow> bool" where
  "aad_wf sid \<longleftrightarrow> length (sub_auths sid) = 15 \<and> 1 \<le> unat (num_auths sid) \<and> unat (num_auths sid) \<le> 15
     \<and> (\<forall>i. unat (num_auths sid) \<le> i \<longrightarrow> i < 15 \<longrightarrow> sub_auths sid ! i = 0)"

definition auths_text :: "u32 list \<Rightarrow> string" where
  "auths_text as = concat (map (\<lambda>a. CHR ''-'' # show_nat (unat a)) as)"

text \<open>The usual notation of a SID.\<close>

definition sid_text :: "AadSid \<Rightarrow> string" where
  "sid_text sid = ''S-'' @ show_nat (unat (sid_rev_num sid)) @ ''-'' @ show_nat (unat (id_auth sid))
     @ auths_text (take (unat (num_auths sid)) (sub_auths sid))"

lemma split_auths:
  "CHR ''-'' \<notin> set a \<Longrightarrow> split_char CHR ''-'' (a @ auths_text as) = a # map (\<lambda>x. show_nat (unat x)) as"
proof (induction as arbitrary: a)
  case Nil
  then show ?case by (simp add: auths_text_def split_char_id)
next
  case (Cons x as)
  have "a @ auths_text (x # as) = a @ CHR ''-'' # (show_nat (unat x) @ auths_text as)" by (simp add: auths_text_def)
  with Cons show ?case by (simp add: split_char_append show_nat_chars)
qed

lemma split_sid_text:
  "split_char CHR ''-'' (sid_text sid) = ''S'' # show_nat (unat (sid_rev_num sid)) # show_nat (unat (id_auth sid))
     # map (\<lambda>x. show_nat (unat x)) (take (unat (num_auths sid)) (sub_auths sid))"
proof -
  let ?r = "show_nat (unat (sid_rev_num sid))" and ?a = "show_nat (unat (id_auth sid))"
    and ?as = "take (unat (num_auths sid)) (sub_auths sid)"
  have "sid_text sid = ''S'' @ CHR ''-'' # (?r @ CHR ''-'' # (?a @ auths_text ?as))" by (simp add: sid_text_def)
  then have "split_char CHR ''-'' (sid_text sid) = ''S'' # ?r # split_char CHR ''-'' (?a @ auths_text ?as)"
    using split_char_append [of "CHR ''-''" "''S''"] show_nat_chars by (simp add: split_char_append)
  with split_auths [OF show_nat_chars(1)] show ?thesis by simp
qed

lemma trim_sid_text: "trim (sid_text sid) = sid_text sid"
proof (rule trim_id)
  have "last (x @ show_nat n @ auths_text as) \<in> {c. \<not> is_space c}" for x n as
  proof (induction as rule: rev_induct)
    case Nil
    then show ?case using show_nat_chars(2) [of "last (show_nat n)" n] by (simp add: auths_text_def)
  next
    case (snoc y as)
    then show ?case using show_nat_chars(2) [of "last (show_nat (unat y))" "unat y"] by (simp add: auths_text_def)
  qed
  from this [of "''S-'' @ show_nat (unat (sid_rev_num sid)) @ ''-''"] show "\<not> is_space (last (sid_text sid))"
    by (simp add: sid_text_def)
qed (simp_all add: sid_text_def is_space_def)

lemma fill_auths_text:
  assumes "i + length as \<le> length auths"
  shows "fill_auths i (map (\<lambda>x. show_nat (unat x)) as) auths
    = Inr (i + length as, take i auths @ as @ drop (i + length as) auths)"
  using assms
proof (induction as arbitrary: i auths)
  case (Cons a as)
  have "unat a < 2 ^ 32" using u32_bound [of a] by simp
  then have p: "parse_uint 32 (show_nat (unat a)) = Some (unat a)" by (rule parse_show_nat)
  from Cons.prems have "i < length auths" by simp
  with Cons.IH [of "Suc i" "auths[i := a]"] Cons.prems p show ?case
    by (simp add: take_Suc_conv_app_nth)
qed simp

lemma fill_auths_wf:
  "fill_auths i ss auths = Inr (n, auths') \<Longrightarrow> (\<forall>j. i \<le> j \<longrightarrow> j < length auths \<longrightarrow> auths ! j = 0) \<Longrightarrow>
     n = i + length ss \<and> length auths' = length auths \<and> (ss \<noteq> [] \<longrightarrow> n \<le> length auths)
     \<and> (\<forall>j. n \<le> j \<longrightarrow> j < length auths \<longrightarrow> auths' ! j = 0)"
proof (induction i ss auths rule: fill_auths.induct)
  case (2 i s ss auths)
  then obtain m where "i < length auths" "parse_uint 32 s = Some m"
    "fill_auths (Suc i) ss (auths[i := word_of_nat m]) = Inr (n, auths')"
    by (auto split: if_splits option.splits)
  with 2 show ?case by (cases ss) auto
qed auto

lemma small_not_negative:
  assumes "unat (w :: 8 word) \<le> 15"
  shows "\<not> w <s 0"
proof -
  have "uint w \<le> 15" using assms unfolding unat_eq_nat_uint nat_le_iff by simp
  with uint_ge_0 [of w] have "signed_take_bit 7 (uint w) = uint w"
    by (intro signed_take_bit_int_eq_self; simp; linarith)
  then have "sint w = uint w" by (simp add: sint_uint)
  then show ?thesis by (simp add: word_sless_alt)
qed

lemma from_sid_str_wf:
  assumes "from_sid_str s = Inr sid"
  shows "aad_wf sid"
proof -
  let ?parts = "split_char CHR ''-'' (trim s)"
  from assms have len: "4 \<le> length ?parts" by (auto simp: from_sid_str_def Let_def split: if_splits)
  from assms obtain n auths where fill: "fill_auths 0 (drop 3 ?parts) (replicate 15 0) = Inr (n, auths)"
    and sid: "num_auths sid = word_of_nat n" "sub_auths sid = auths"
    by (auto simp: from_sid_str_def Let_def split: if_splits option.splits sum.splits)
  from fill_auths_wf [OF fill] len have n: "1 \<le> n" "n \<le> 15" "length auths = 15" "\<forall>j. n \<le> j \<longrightarrow> j < 15 \<longrightarrow> auths ! j = 0"
    by auto
  then have "unat (word_of_nat n :: 8 word) = n" by (simp add: unat_of_nat)
  with n sid show ?thesis by (simp add: aad_wf_def)
qed

text \<open>
  A SID read from its usual text is the SID that was written, and every SID that is read or
  made from an object id has between one and fifteen parts: taking its relative id cannot run past
  the array.
\<close>

theorem sid_text_roundtrip:
  shows "(aad_wf sid \<longrightarrow> from_sid_str (sid_text sid) = Inr sid)
    \<and> (from_sid_str s = Inr sid' \<longrightarrow> aad_wf sid') \<and> aad_wf (from_object_id u)
    \<and> (aad_wf sid \<longrightarrow> aad_rid sid = Some (Inr (sub_auths sid ! (unat (num_auths sid) - 1))))"
proof (intro conjI impI)
  assume wf: "aad_wf sid"
  let ?n = "unat (num_auths sid)" and ?as = "take (unat (num_auths sid)) (sub_auths sid)"
  have fill: "fill_auths 0 (map (\<lambda>x. show_nat (unat x)) ?as) (replicate 15 0) = Inr (?n, sub_auths sid)"
  proof -
    have "?as @ drop ?n (replicate 15 0) = sub_auths sid"
      using wf by (intro nth_equalityI) (auto simp: aad_wf_def nth_append)
    with fill_auths_text [of 0 ?as "replicate 15 0"] wf show ?thesis by (simp add: aad_wf_def)
  qed
  have "unat (sid_rev_num sid) < 2 ^ 8" "unat (id_auth sid) < 2 ^ 64"
    using unsigned_less [of "sid_rev_num sid", where 'a = nat] unsigned_less [of "id_auth sid", where 'a = nat] by simp_all
  then have p: "parse_uint 8 (show_nat (unat (sid_rev_num sid))) = Some (unat (sid_rev_num sid))"
    "parse_uint 64 (show_nat (unat (id_auth sid))) = Some (unat (id_auth sid))"
    by (simp_all only: parse_show_nat)
  have "starts_with ''S-'' (sid_text sid)" by (simp add: sid_text_def starts_with_def)
  with wf fill p show "from_sid_str (sid_text sid) = Inr sid"
    by (simp add: from_sid_str_def trim_sid_text split_sid_text aad_wf_def numeral_2_eq_2 numeral_3_eq_3 Let_def)
next
  assume "from_sid_str s = Inr sid'"
  then show "aad_wf sid'" by (rule from_sid_str_wf)
next
  show "aad_wf (from_object_id u)"
    by (auto simp: aad_wf_def from_object_id_def Let_def nth_append)
next
  assume "aad_wf sid"
  then show "aad_rid sid = Some (Inr (sub_auths sid ! (unat (num_auths sid) - 1)))"
    by (auto simp: aad_rid_def aad_wf_def small_not_negative)
qed

text \<open>The SID and the object id of the repository's unit test.\<close>

lemma test_object_id:
  "from_object_id 0xe8b5ca15cb554b869113a616d7f84214 = \<lparr>sid_rev_num = 1, num_auths = 5, id_auth = 12,
     sub_auths = [1, 3904227861, 1267125077, 379982737, 339933399] @ replicate 10 0\<rparr>"
proof -
  have "uuid_bytes 0xe8b5ca15cb554b869113a616d7f84214 =
      [0xe8, 0xb5, 0xca, 0x15, 0xcb, 0x55, 0x4b, 0x86, 0x91, 0x13, 0xa6, 0x16, 0xd7, 0xf8, 0x42, 0x14]"
    by (simp add: uuid_bytes_def upt_rec)
  then show ?thesis
    by (simp only: from_object_id_def Let_def) (simp add: from_be_bytes_def from_le_bytes_def le32_def)
qed

theorem sid_text_roundtrip_witness:
  "from_sid_str ''S-1-12-1-3904227861-1267125077-379982737-339933399''
     = Inr (from_object_id 0xe8b5ca15cb554b869113a616d7f84214)"
proof -
  let ?sid = "from_object_id 0xe8b5ca15cb554b869113a616d7f84214"
  from sid_text_roundtrip [of ?sid "[]" ?sid "0xe8b5ca15cb554b869113a616d7f84214"]
  have "from_sid_str (sid_text ?sid) = Inr ?sid" by blast
  also have "sid_text ?sid = ''S-1-12-1-3904227861-1267125077-379982737-339933399''"
    by (simp add: test_object_id sid_text_def auths_text_def show_nat.simps digit_char_def) code_simp
  finally show ?thesis .
qed

section \<open>Domain SIDs\<close>

definition sids_apart :: "idmap_domain_info list \<Rightarrow> bool" where
  "sids_apart ds \<longleftrightarrow> (\<forall>d \<in> set ds. \<forall>d' \<in> set ds. d = d' \<or>
     (case (di_sid d, di_sid d') of (Some a, Some b) \<Rightarrow> a \<noteq> b \<and> take (Suc (length b)) a \<noteq> b @ ''-'' | _ \<Rightarrow> True))"

lemma take_digits_show: "take_digits acc (show_nat n) = (case parse_digits acc (show_nat n) of Some k \<Rightarrow> (k, []) | None \<Rightarrow> (0, []))"
proof -
  have "take_digits acc s = (case parse_digits acc s of Some k \<Rightarrow> (k, []) | None \<Rightarrow> (0, []))"
    if "\<forall>c \<in> set s. to_digit c \<noteq> None" for s
    using that by (induction s arbitrary: acc) (auto split: option.splits)
  moreover have "\<forall>c \<in> set (show_nat n). to_digit c \<noteq> None" using show_nat_digits by fastforce
  ultimately show ?thesis by blast
qed

lemma strtoull_show: "n < 2 ^ 63 \<Longrightarrow> strtoull (show_nat n) = (False, int n, [])"
proof -
  assume n: "n < 2 ^ 63"
  obtain c cs where s: "show_nat n = c # cs" by (cases "show_nat n") auto
  then have c: "\<not> is_space c" "c \<noteq> CHR ''-''" "c \<noteq> CHR ''+''"
    using show_nat_chars [where n = n] show_nat_not_plus [OF s] by auto
  have "take_digits 0 (show_nat n) = (n, [])" by (simp add: take_digits_show parse_digits_show_nat)
  moreover have "to_longlong n = int n"
    using n by (simp add: to_longlong_def signed_of_nat signed_take_bit_int_eq_self)
  ultimately show ?thesis using c n s by (simp add: strtoull_def)
qed

lemma own_sid: "is_sid_from_dom (Some a) (a @ ''-'' @ x)"
  by (simp add: is_sid_from_dom_def)

lemma other_sid:
  assumes "CHR ''-'' \<notin> set x" and "a \<noteq> b" and "take (Suc (length b)) a \<noteq> b @ ''-''"
  shows "\<not> is_sid_from_dom (Some b) (a @ ''-'' @ x)"
proof
  assume "is_sid_from_dom (Some b) (a @ ''-'' @ x)"
  then have l: "length b \<le> length a + length x" and n: "(a @ ''-'' @ x) ! length b = CHR ''-''"
    and t: "take (length b) (a @ ''-'' @ x) = b" by (auto simp: is_sid_from_dom_def)
  consider "length b < length a" | "length b = length a" | "length a < length b" by linarith
  then show False
  proof cases
    case 1
    with n t have "take (Suc (length b)) a = b @ ''-''" by (simp add: take_Suc_conv_app_nth nth_append)
    with assms(3) show False ..
  next
    case 2
    with t assms(2) show False by simp
  next
    case 3
    with l n have "x ! (length b - Suc (length a)) = CHR ''-''" "length b - Suc (length a) < length x"
      by (auto simp: nth_append nth_Cons')
    with assms(1) show False by (metis nth_mem)
  qed
qed

lemma compute_id_back:
  assumes "id_is_in_range i rp = Some rid" and "i < 4294967295" and "unat (first_rid rp) + unat (i - min_id rp) < 2 ^ 32"
  shows "compute_id rp (uint rid) = Some i"
proof -
  from assms(1) have i: "min_id rp \<le> i" "i \<le> max_id rp" and rid: "rid = first_rid rp + (i - min_id rp)"
    by (auto simp: id_is_in_range_def split: if_splits)
  from assms(3) have "int (unat (first_rid rp) + unat (i - min_id rp)) < int (2 ^ 32)" by (simp only: of_nat_less_iff)
  then have "uint (first_rid rp) + uint (i - min_id rp) < 4294967296" by simp
  then have r: "uint rid = uint (first_rid rp) + uint (i - min_id rp)"
    by (simp add: rid uint_plus_if_size word_size)
  have d: "uint (i - min_id rp) = uint i - uint (min_id rp)" using i by (simp add: uint_minus_simple_alt)
  have "min_id rp \<le> 4294967295" using i assms(2) by simp
  then have "uint (4294967295 - min_id rp) = 4294967295 - uint (min_id rp)"
    by (subst uint_minus_simple_alt [THEN iffD1]) simp_all
  moreover have "uint i < 4294967295" using assms(2) by (simp add: word_less_def)
  moreover have "0 \<le> uint (i - min_id rp)" by simp
  ultimately have "uint (first_rid rp) \<le> uint rid \<and> uint rid - uint (first_rid rp) < uint (4294967295 - min_id rp)"
    using r d by simp
  with r i show ?thesis by (simp add: compute_id_def)
qed

lemma find_primary_Some: "find_primary i ds = Some (d, rid) \<Longrightarrow> d \<in> set ds \<and> id_is_in_range i (range_params d) = Some rid"
  by (induction ds) (auto split: option.splits)

lemma sid_walk_own:
  assumes "d \<in> set ds" and "\<forall>d' \<in> set ds. is_sid_from_dom (di_sid d') s \<longleftrightarrow> d' = d" and "\<not> external_mapping d"
    and "parse_rid s (length (the (di_sid d))) = Some rid" and "compute_id (range_params d) rid = Some i"
  shows "sid_walk s m ds = Inl (Inr i)"
  using assms by (induction ds arbitrary: m) auto

lemma domain_sid_not_builtin: "is_domain_sid (Some a) \<Longrightarrow> \<not> sss_idmap_sid_is_builtin (a @ x)"
proof -
  assume "is_domain_sid (Some a)"
  then have "take (length DOM_SID_PREFIX) a = DOM_SID_PREFIX" by (simp add: is_domain_sid_def starts_with_def)
  with append_take_drop_id [of "length DOM_SID_PREFIX" a] obtain y where "DOM_SID_PREFIX @ y = a" by metis
  then have "a = ''S-1-5-21-'' @ y" unfolding DOM_SID_PREFIX_def by (rule sym)
  then show ?thesis by (simp add: sss_idmap_sid_is_builtin_def starts_with_def)
qed

text \<open>
  The SID of an id leads back to the id: for domains whose SIDs are apart, mapping the SID that
  was made for an id returns the id. It holds for every id but the greatest one, and as long as the
  relative ids of the range do not wrap around.
\<close>

theorem unix_sid_roundtrip:
  assumes apart: "sids_apart (domains c)" and own: "find_primary i (domains c) = Some (d, rid)"
    and sid: "is_domain_sid (di_sid d)" and i: "i < 4294967295"
    and wrap: "unat (first_rid (range_params d)) + unat (i - min_id (range_params d)) < 2 ^ 32"
    and run: "sss_idmap_unix_to_sid i c = Return (Inr s, c')"
  shows "sss_idmap_sid_to_unix (Some s) c' = Return (Inr i, c')"
proof -
  from sid obtain a where a: "di_sid d = Some a" by (cases "di_sid d") (auto simp: is_domain_sid_def)
  from run own a have ext: "\<not> external_mapping d" and s: "s = a @ ''-'' @ show_nat (unat rid)" and c': "domains c' = domains c"
    by (auto simp: sss_idmap_unix_to_sid_def generate_sid_def pbindE_Return c_alloc_def Let_def split: if_splits)
  from find_primary_Some [OF own] have d: "d \<in> set (domains c)" and rid: "id_is_in_range i (range_params d) = Some rid" by auto
  have only: "\<forall>d' \<in> set (domains c). is_sid_from_dom (di_sid d') s \<longleftrightarrow> d' = d"
  proof
    fix d' assume d': "d' \<in> set (domains c)"
    show "is_sid_from_dom (di_sid d') s \<longleftrightarrow> d' = d"
    proof (cases "d' = d")
      case True
      then show ?thesis using a own_sid s by simp
    next
      case False
      show ?thesis
      proof (cases "di_sid d'")
        case None
        with False show ?thesis by (simp add: is_sid_from_dom_def)
      next
        case (Some b)
        from apart d d' have "d = d' \<or> (case (di_sid d, di_sid d') of
            (Some a, Some b) \<Rightarrow> a \<noteq> b \<and> take (Suc (length b)) a \<noteq> b @ ''-'' | _ \<Rightarrow> True)"
          unfolding sids_apart_def by blast
        with a Some False have "a \<noteq> b" "take (Suc (length b)) a \<noteq> b @ ''-''" by simp_all
        with other_sid [OF show_nat_chars(1)] Some False s show ?thesis by simp
      qed
    qed
  qed
  have "unat rid < 2 ^ 63" using u32_bound [of rid] by simp
  then have "strtoull (show_nat (unat rid)) = (False, int (unat rid), [])" by (rule strtoull_show)
  moreover have "int (unat rid) < int 4294967296" using u32_bound [of rid] by (simp only: of_nat_less_iff)
  then have "uint rid \<le> UINT32_MAX" by (simp add: UINT32_MAX_def)
  ultimately have "parse_rid s (length a) = Some (uint rid)" by (simp add: parse_rid_def s)
  from sid_walk_own [OF d only ext _ compute_id_back [OF rid i wrap]] this a
  have "sid_walk s None (domains c) = Inl (Inr i)" by simp
  moreover have "\<not> sss_idmap_sid_is_builtin s" using sid a s domain_sid_not_builtin by simp
  ultimately show ?thesis using c' by (simp add: sss_idmap_sid_to_unix_def)
qed

definition sample_ad :: idmap_domain_info where
  "sample_ad = new_domain ''ad.example'' (Some ''S-1-5-21-1-2-3'') (200000, 399999) None 0 False"

theorem unix_sid_roundtrip_witness:
  "\<exists>c'. sss_idmap_unix_to_sid 200500 (sample_ctx\<lparr>domains := [sample_ad]\<rparr>) = Return (Inr ''S-1-5-21-1-2-3-500'', c')
     \<and> sss_idmap_sid_to_unix (Some ''S-1-5-21-1-2-3-500'') c' = Return (Inr 200500, c')"
proof -
  let ?c = "sample_ctx\<lparr>domains := [sample_ad]\<rparr>"
  have own: "find_primary 200500 (domains ?c) = Some (sample_ad, 500)"
    by (simp add: sample_ad_def new_domain_def id_is_in_range_def)
  have "show_nat 500 = ''500''" by code_simp
  then have "\<exists>c'. sss_idmap_unix_to_sid 200500 ?c = Return (Inr ''S-1-5-21-1-2-3-500'', c')"
    using own by (simp add: sss_idmap_unix_to_sid_def sample_ad_def new_domain_def generate_sid_def SID_STR_MAX_LEN_def
        pbindE_def pbind_def pret_def c_alloc_def sample_ctx_def)
  then obtain c' where run: "sss_idmap_unix_to_sid 200500 ?c = Return (Inr ''S-1-5-21-1-2-3-500'', c')" by blast
  have "sids_apart (domains ?c)" by (simp add: sids_apart_def)
  moreover have "is_domain_sid (di_sid sample_ad)"
    by (simp add: sample_ad_def new_domain_def is_domain_sid_def DOM_SID_PREFIX_def starts_with_def sid_parts.simps
        strtoull_def is_space_def to_digit_def to_longlong_def UINT32_MAX_def)
  ultimately show ?thesis using unix_sid_roundtrip [OF _ own _ _ _ run] run by (simp add: sample_ad_def new_domain_def)
qed

end
