(* ===== verification/Resolver.thy ===== *)
theory Resolver
  imports Cache_Db
begin

text \<open>
  The resolver behind every NSS and PAM request (\<open>resolver.rs\<close>): it answers from the
  cache, refreshes stale entries through the identity provider, and drives an
  authentication from its first request to its verdict.
  \<^item> \<open>rstate\<close> is the mutable state: the cache, the HSM, the provider's state, the set of
    local names (\<open>nxset\<close>), the negative cache (\<open>nxcache\<close>), the clock and the files that
    the code looks at. \<open>rs_held\<close> lists the locks the running task holds; asking for a lock
    it already holds blocks for ever. \<open>rs_trace\<close> records what it acquired and released, the
    latest event first.
  \<^item> \<open>resolver\<close> is the immutable part: the configuration and the generic provider
    \<open>I: IdProvider\<close>, a record of the trait's methods. A method sees the provider's state
    and, as its signature says, the key store, the HSM, or both.
  \<^item> The LRU cache of the \<open>lru\<close> crate and the key operations of the HSM are parameters.
\<close>

section \<open>State and parameters\<close>

datatype lock = LDb | LHsm | LNxset | LNxcache

datatype lock_event = Acquire lock | Release lock

record ('p, 'h, 'l) rstate =
  rs_db :: dbconn
  rs_hsm :: 'h
  rs_client :: 'p
  rs_nxset :: "Id set"
  rs_nxcache :: 'l
  rs_held :: "lock list"
  rs_trace :: "lock_event list"
  rs_clock :: "nat \<Rightarrow> systime"
  rs_tick :: nat
  rs_files :: "string set"
  rs_remove_fails :: "string \<Rightarrow> bool"

record 'l lru =
  lru_new :: 'l
  lru_put :: "Id \<Rightarrow> systime \<Rightarrow> 'l \<Rightarrow> 'l"
  lru_get :: "Id \<Rightarrow> 'l \<Rightarrow> systime option \<times> 'l"
  lru_clear :: "'l \<Rightarrow> 'l"

record 'h hsm_crate =
  hmac_s256_create :: "opaque \<Rightarrow> 'h \<Rightarrow> opaque option \<times> 'h"
  hmac_s256_load :: "opaque \<Rightarrow> opaque \<Rightarrow> 'h \<Rightarrow> opaque option \<times> 'h"

type_synonym TgtResult = "KerberosCredentials option \<times> KerberosCredentials option \<times> string option \<times> string option"

record ('p, 'h) IdProvider =
  idp_configure_hsm_keys :: "opaque \<Rightarrow> (dbconn \<times> 'h \<times> 'p, IdpError + unit) prog"
  idp_check_online :: "systime \<Rightarrow> ('h \<times> 'p, bool) prog"
  idp_unix_user_get :: "Id \<Rightarrow> UserToken option \<Rightarrow> opaque \<Rightarrow> (dbconn \<times> 'h \<times> 'p, IdpError + UserTokenState) prog"
  idp_unix_user_access :: "Id \<Rightarrow> string list \<Rightarrow> UserToken option \<Rightarrow> string option \<Rightarrow> string option
    \<Rightarrow> string option \<Rightarrow> opaque \<Rightarrow> (dbconn \<times> 'h \<times> 'p, IdpError + UnixUserToken) prog"
  idp_unix_user_tgts :: "Id \<Rightarrow> UserToken option \<Rightarrow> opaque \<Rightarrow> (dbconn \<times> 'h \<times> 'p, TgtResult) prog"
  idp_unix_user_prt_cookie :: "Id \<Rightarrow> UserToken option \<Rightarrow> string option \<Rightarrow> opaque
    \<Rightarrow> (dbconn \<times> 'h \<times> 'p, IdpError + string) prog"
  idp_change_auth_token :: "string \<Rightarrow> UnixUserToken \<Rightarrow> string \<Rightarrow> opaque
    \<Rightarrow> (dbconn \<times> 'h \<times> 'p, IdpError + bool) prog"
  idp_unix_user_online_auth_init :: "string \<Rightarrow> UserToken option \<Rightarrow> string \<Rightarrow> bool \<Rightarrow> bool \<Rightarrow> opaque
    \<Rightarrow> (dbconn \<times> 'h \<times> 'p, IdpError + AuthRequest \<times> AuthCredHandler) prog"
  idp_unix_user_online_auth_step :: "string \<Rightarrow> UserToken \<Rightarrow> string \<Rightarrow> bool \<Rightarrow> AuthCredHandler \<Rightarrow> PamAuthRequest
    \<Rightarrow> opaque \<Rightarrow> (dbconn \<times> 'h \<times> 'p, (IdpError + AuthResult \<times> AuthCacheAction) \<times> AuthCredHandler) prog"
  idp_unix_user_offline_auth_init :: "string \<Rightarrow> UserToken option \<Rightarrow> bool
    \<Rightarrow> (dbconn \<times> 'p, IdpError + AuthRequest \<times> AuthCredHandler) prog"
  idp_unix_user_offline_auth_step :: "string \<Rightarrow> UserToken \<Rightarrow> AuthCredHandler \<Rightarrow> PamAuthRequest \<Rightarrow> opaque \<Rightarrow> bool
    \<Rightarrow> (dbconn \<times> 'h \<times> 'p, (IdpError + AuthResult) \<times> AuthCredHandler) prog"
  idp_unix_group_get :: "Id \<Rightarrow> ('h \<times> 'p, IdpError + GroupToken) prog"
  idp_get_cachestate :: "string option \<Rightarrow> (dbconn \<times> 'p, CacheState) prog"
  idp_offline_break_glass :: "u64 option \<Rightarrow> ('p, IdpError + unit) prog"
  idp_export_broker_prts :: "('p, unit + bytes) prog"
  idp_import_broker_prts :: "bytes \<Rightarrow> ('p, unit + unit) prog"

record ('p, 'h, 'l) resolver =
  r_deps :: "'h deps"
  r_lru :: "'l lru"
  r_client :: "('p, 'h) IdProvider"
  r_machine_key :: opaque
  r_pam_allow_groups :: "string set"
  r_timeout_seconds :: nat
  r_default_shell :: string
  r_home_prefix :: string
  r_home_attr :: HomeAttr
  r_home_alias :: "HomeAttr option"
  r_uid_attr_map :: UidAttr
  r_gid_attr_map :: UidAttr
  r_allow_id_overrides :: "Id set"

datatype AuthSession =
    InProgress (as_account_id: string) (as_service: string) (as_id: Id) (as_token: "UserToken option")
      (as_online_at_init: bool) (as_cred_handler: AuthCredHandler) (as_no_hello_pin: bool) (as_force_reauth: bool)
  | Session_Success string
  | Session_Denied

definition NXCACHE_SIZE :: nat where
  "NXCACHE_SIZE = 128"

definition SERVER_CONFIG_PATH :: string where
  "SERVER_CONFIG_PATH = ''/var/cache/himmelblaud/himmelblau.conf''"

section \<open>Locks, transactions, clock\<close>

definition r_lock :: "lock \<Rightarrow> (('p, 'h, 'l) rstate, unit) prog" where
  "r_lock k = (\<lambda>s.
     if k \<in> set (rs_held s) then Blocked
     else Return ((), s\<lparr>rs_held := k # rs_held s, rs_trace := Acquire k # rs_trace s\<rparr>))"

definition r_unlock :: "lock \<Rightarrow> (('p, 'h, 'l) rstate, unit) prog" where
  "r_unlock k = pmodify (\<lambda>s. s\<lparr>rs_held := removeAll k (rs_held s), rs_trace := Release k # rs_trace s\<rparr>)"

definition at_db :: "(dbconn, 'a) prog \<Rightarrow> (('p, 'h, 'l) rstate, 'a) prog" where
  "at_db m = pzoom rs_db (\<lambda>c s. s\<lparr>rs_db := c\<rparr>) m"

definition at_db_hsm :: "(dbconn \<times> 'h, 'a) prog \<Rightarrow> (('p, 'h, 'l) rstate, 'a) prog" where
  "at_db_hsm m = pzoom (\<lambda>s. (rs_db s, rs_hsm s)) (\<lambda>(c, h) s. s\<lparr>rs_db := c, rs_hsm := h\<rparr>) m"

definition at_client :: "('p, 'a) prog \<Rightarrow> (('p, 'h, 'l) rstate, 'a) prog" where
  "at_client m = pzoom rs_client (\<lambda>p s. s\<lparr>rs_client := p\<rparr>) m"

definition at_hsm_client :: "('h \<times> 'p, 'a) prog \<Rightarrow> (('p, 'h, 'l) rstate, 'a) prog" where
  "at_hsm_client m = pzoom (\<lambda>s. (rs_hsm s, rs_client s)) (\<lambda>(h, p) s. s\<lparr>rs_hsm := h, rs_client := p\<rparr>) m"

definition at_db_client :: "(dbconn \<times> 'p, 'a) prog \<Rightarrow> (('p, 'h, 'l) rstate, 'a) prog" where
  "at_db_client m = pzoom (\<lambda>s. (rs_db s, rs_client s)) (\<lambda>(c, p) s. s\<lparr>rs_db := c, rs_client := p\<rparr>) m"

definition at_all :: "(dbconn \<times> 'h \<times> 'p, 'a) prog \<Rightarrow> (('p, 'h, 'l) rstate, 'a) prog" where
  "at_all m = pzoom (\<lambda>s. (rs_db s, rs_hsm s, rs_client s))
     (\<lambda>(c, h, p) s. s\<lparr>rs_db := c, rs_hsm := h, rs_client := p\<rparr>) m"

definition r_begin :: "(('p, 'h, 'l) rstate, unit) prog" where
  "r_begin = pbind (r_lock LDb) (\<lambda>_. at_db db_write)"

definition r_commit :: "(('p, 'h, 'l) rstate, CacheError + unit) prog" where
  "r_commit = pbind (at_db commit) (\<lambda>r. pbind (r_unlock LDb) (\<lambda>_. pret r))"

definition r_drop :: "(('p, 'h, 'l) rstate, unit) prog" where
  "r_drop = pbind (at_db drop_txn) (\<lambda>_. r_unlock LDb)"

text \<open>A transaction that ends with its \<open>DbTxn\<close> going out of scope.\<close>

definition db_read :: "(('p, 'h, 'l) rstate, 'a) prog \<Rightarrow> (('p, 'h, 'l) rstate, 'a) prog" where
  "db_read m = pbind r_begin (\<lambda>_. pbind m (\<lambda>r. pbind r_drop (\<lambda>_. pret r)))"

text \<open>
  \<open>op.and_then(|x| dbtxn.commit().map(|_| x)).map_err(|_| ())\<close>: where \<open>op\<close> fails, the
  closure that owns the transaction is dropped with it.
\<close>

definition end_txn :: "CacheError + 'a \<Rightarrow> (('p, 'h, 'l) rstate, unit + 'a) prog" where
  "end_txn r =
     (case r of
        Inl _ \<Rightarrow> pbind r_drop (\<lambda>_. pret (Inl ()))
      | Inr x \<Rightarrow> pbind r_commit (\<lambda>c. pret (case c of Inl _ \<Rightarrow> Inl () | Inr _ \<Rightarrow> Inr x)))"

definition db_change :: "(('p, 'h, 'l) rstate, CacheError + 'a) prog \<Rightarrow> (('p, 'h, 'l) rstate, unit + 'a) prog" where
  "db_change m = pbind r_begin (\<lambda>_. pbind m end_txn)"

definition system_now :: "(('p, 'h, 'l) rstate, systime) prog" where
  "system_now = (\<lambda>s. Return (rs_clock s (rs_tick s), s\<lparr>rs_tick := Suc (rs_tick s)\<rparr>))"

definition time_plus :: "systime \<Rightarrow> nat \<Rightarrow> (('p, 'h, 'l) rstate, systime) prog" where
  "time_plus t n = (case time_add_secs t n of None \<Rightarrow> ppanic | Some e \<Rightarrow> pret e)"

section \<open>Start-up\<close>

text \<open>
  \<open>Resolver::new\<close>. The configuration is passed as a \<open>resolver\<close> with the sets already
  collected from the vectors; the result carries the loaded HMAC key.
\<close>

definition resolver_new :: "'h hsm_crate \<Rightarrow> ('p, 'h, 'l) resolver \<Rightarrow> (('p, 'h, 'l) rstate, unit + opaque) prog" where
  "resolver_new hc self =
     pbind (r_lock LHsm) (\<lambda>_.
     pbind r_begin (\<lambda>_.
     pbind
       (pbind (at_db (get_hsm_hmac_key (r_deps self))) (\<lambda>k.
        (case k of
           Inl _ \<Rightarrow> pret (Inl ())
         | Inr (Some hmk) \<Rightarrow> pret (Inr hmk)
         | Inr None \<Rightarrow>
             pbind (at_db_hsm (on_hsm (hmac_s256_create hc (r_machine_key self)))) (\<lambda>c.
             (case c of
                None \<Rightarrow> pret (Inl ())
              | Some hmk \<Rightarrow> pbind (at_db (insert_hsm_hmac_key (r_deps self) hmk)) (\<lambda>i.
                  pret (case i of Inl _ \<Rightarrow> Inl () | Inr _ \<Rightarrow> Inr hmk)))))))
       (\<lambda>key.
     (case key of
        Inl _ \<Rightarrow> pbind r_drop (\<lambda>_. pbind (r_unlock LHsm) (\<lambda>_. pret (Inl ())))
      | Inr hmk \<Rightarrow>
          pbind (at_db_hsm (on_hsm (hmac_s256_load hc (r_machine_key self) hmk))) (\<lambda>l.
          (case l of
             None \<Rightarrow> pbind r_drop (\<lambda>_. pbind (r_unlock LHsm) (\<lambda>_. pret (Inl ())))
           | Some hmac_key \<Rightarrow>
               pbind (at_all (idp_configure_hsm_keys (r_client self) (r_machine_key self))) (\<lambda>result.
               pbind (r_unlock LHsm) (\<lambda>_.
               (case result of
                  Inl _ \<Rightarrow> pbind r_drop (\<lambda>_. pret (Inl ()))
                | Inr _ \<Rightarrow>
                    pbind r_commit (\<lambda>c.
                    (case c of
                       Inl _ \<Rightarrow> pret (Inl ())
                     | Inr _ \<Rightarrow>
                         pbind (pmodify (\<lambda>s. s\<lparr>rs_nxset := {}, rs_nxcache := lru_new (r_lru self)\<rparr>)) (\<lambda>_.
                         pret (Inr hmac_key)))))))))))))"

definition export_broker_prts :: "('p, 'h, 'l) resolver \<Rightarrow> (('p, 'h, 'l) rstate, unit + bytes) prog" where
  "export_broker_prts self = at_client (idp_export_broker_prts (r_client self))"

definition import_broker_prts :: "('p, 'h, 'l) resolver \<Rightarrow> bytes \<Rightarrow> (('p, 'h, 'l) rstate, unit + unit) prog" where
  "import_broker_prts self data = at_client (idp_import_broker_prts (r_client self) data)"

section \<open>The caches\<close>

definition get_cachestate :: "('p, 'h, 'l) resolver \<Rightarrow> string option \<Rightarrow> (('p, 'h, 'l) rstate, CacheState) prog" where
  "get_cachestate self account_id =
     pbind r_begin (\<lambda>_.
     pbind (at_db_client (idp_get_cachestate (r_client self) account_id)) (\<lambda>res.
     pbind r_commit (\<lambda>_.
     pret res)))"

text \<open>\<open>Path::exists\<close> and \<open>fs::remove_file\<close>.\<close>

definition path_exists :: "string \<Rightarrow> (('p, 'h, 'l) rstate, bool) prog" where
  "path_exists f = pgets (\<lambda>s. f \<in> rs_files s)"

definition remove_file :: "string \<Rightarrow> (('p, 'h, 'l) rstate, unit + unit) prog" where
  "remove_file f = (\<lambda>s.
     if f \<notin> rs_files s \<or> rs_remove_fails s f then Return (Inl (), s)
     else Return (Inr (), s\<lparr>rs_files := rs_files s - {f}\<rparr>))"

definition clear_cache :: "('p, 'h, 'l) resolver \<Rightarrow> (('p, 'h, 'l) rstate, unit + unit) prog" where
  "clear_cache self =
     pbind (r_lock LNxcache) (\<lambda>_.
     pbind (pmodify (\<lambda>s. s\<lparr>rs_nxcache := lru_clear (r_lru self) (rs_nxcache s)\<rparr>)) (\<lambda>_.
     pbind
       (pbindE (db_change (at_db (pbindE clear (\<lambda>_. clear_hello_keys)))) (\<lambda>_.
        pbind (path_exists SERVER_CONFIG_PATH) (\<lambda>e.
        if e then remove_file SERVER_CONFIG_PATH else pret (Inr ())))) (\<lambda>r.
     pbind (r_unlock LNxcache) (\<lambda>_.
     pret r))))"

definition resolver_invalidate :: "('p, 'h, 'l) resolver \<Rightarrow> (('p, 'h, 'l) rstate, unit + unit) prog" where
  "resolver_invalidate self =
     pbind (r_lock LNxcache) (\<lambda>_.
     pbind (pmodify (\<lambda>s. s\<lparr>rs_nxcache := lru_clear (r_lru self) (rs_nxcache s)\<rparr>)) (\<lambda>_.
     pbind (db_change (at_db invalidate)) (\<lambda>r.
     pbind (r_unlock LNxcache) (\<lambda>_.
     pret r))))"

definition get_cached_usertokens :: "('p, 'h, 'l) resolver \<Rightarrow> (('p, 'h, 'l) rstate, unit + UserToken list) prog" where
  "get_cached_usertokens self = db_read (map_err (\<lambda>_. ()) (at_db (get_accounts (r_deps self))))"

definition get_cached_grouptokens :: "('p, 'h, 'l) resolver \<Rightarrow> (('p, 'h, 'l) rstate, unit + GroupToken list) prog" where
  "get_cached_grouptokens self = db_read (map_err (\<lambda>_. ()) (at_db (get_groups (r_deps self))))"

definition set_nxcache :: "('p, 'h, 'l) resolver \<Rightarrow> Id \<Rightarrow> (('p, 'h, 'l) rstate, unit) prog" where
  "set_nxcache self i =
     pbind (r_lock LNxcache) (\<lambda>_.
     pbind system_now (\<lambda>now.
     pbind (time_plus now (r_timeout_seconds self)) (\<lambda>ex_time.
     pbind (pmodify (\<lambda>s. s\<lparr>rs_nxcache := lru_put (r_lru self) i ex_time (rs_nxcache s)\<rparr>)) (\<lambda>_.
     r_unlock LNxcache))))"

definition check_nxcache :: "('p, 'h, 'l) resolver \<Rightarrow> Id \<Rightarrow> (('p, 'h, 'l) rstate, systime option) prog" where
  "check_nxcache self i =
     pbind (r_lock LNxcache) (\<lambda>_.
     pbind (\<lambda>s. Return (fst (lru_get (r_lru self) i (rs_nxcache s)),
                        s\<lparr>rs_nxcache := snd (lru_get (r_lru self) i (rs_nxcache s))\<rparr>)) (\<lambda>r.
     pbind (r_unlock LNxcache) (\<lambda>_.
     pret r)))"

fun nxset_of :: "('p, 'h, 'l) resolver \<Rightarrow> (string \<times> u32) list \<Rightarrow> Id set \<Rightarrow> Id set" where
  "nxset_of self [] ns = ns"
| "nxset_of self ((name, gid) # xs) ns =
     (if IdGid gid \<in> r_allow_id_overrides self \<or> IdName name \<in> r_allow_id_overrides self
      then nxset_of self xs ns
      else nxset_of self xs (insert (IdGid gid) (insert (IdName name) ns)))"

definition reload_nxset :: "('p, 'h, 'l) resolver \<Rightarrow> (string \<times> u32) list \<Rightarrow> (('p, 'h, 'l) rstate, unit) prog" where
  "reload_nxset self xs =
     pbind (r_lock LNxset) (\<lambda>_.
     pbind (pmodify (\<lambda>s. s\<lparr>rs_nxset := nxset_of self xs {}\<rparr>)) (\<lambda>_.
     r_unlock LNxset))"

definition check_nxset :: "string option \<Rightarrow> u32 option \<Rightarrow> (('p, 'h, 'l) rstate, bool) prog" where
  "check_nxset name idnumber =
     pbind (r_lock LNxset) (\<lambda>_.
     pbind (pgets (\<lambda>s. (case name of Some n \<Rightarrow> IdName n \<in> rs_nxset s | None \<Rightarrow> False)
                     \<or> (case idnumber of Some g \<Rightarrow> IdGid g \<in> rs_nxset s | None \<Rightarrow> False))) (\<lambda>r.
     pbind (r_unlock LNxset) (\<lambda>_.
     pret r)))"

text \<open>
  What \<open>get_cached_usertoken\<close> and \<open>get_cached_grouptoken\<close> do with the cached row: is it
  expired, or else is its absence still cached? The transaction stays open meanwhile.
\<close>

definition cached_or_nx :: "('p, 'h, 'l) resolver \<Rightarrow> Id \<Rightarrow> ('t \<times> nat) option
    \<Rightarrow> (('p, 'h, 'l) rstate, unit + bool \<times> 't option) prog" where
  "cached_or_nx self i r =
     (case r of
        Some (ut, ex) \<Rightarrow>
          pbind (time_plus 0 ex) (\<lambda>ex_time.
          pbind system_now (\<lambda>now.
          pret (Inr (now \<ge> ex_time, Some ut))))
      | None \<Rightarrow>
          pbind (check_nxcache self i) (\<lambda>nx.
          (case nx of
             Some ex_time \<Rightarrow> pbind system_now (\<lambda>now. pret (Inr (now \<ge> ex_time, None)))
           | None \<Rightarrow> pret (Inr (True, None)))))"

definition get_cached_usertoken :: "('p, 'h, 'l) resolver \<Rightarrow> Id
    \<Rightarrow> (('p, 'h, 'l) rstate, unit + bool \<times> UserToken option) prog" where
  "get_cached_usertoken self account_id =
     db_read (pbindE (map_err (\<lambda>_. ()) (at_db (get_account (r_deps self) account_id)))
       (cached_or_nx self account_id))"

definition get_cached_grouptoken :: "('p, 'h, 'l) resolver \<Rightarrow> Id
    \<Rightarrow> (('p, 'h, 'l) rstate, unit + bool \<times> GroupToken option) prog" where
  "get_cached_grouptoken self grp_id =
     db_read (pbindE (map_err (\<lambda>_. ()) (at_db (get_group (r_deps self) grp_id)))
       (cached_or_nx self grp_id))"

text \<open>The expiry of an entry stored now, in seconds since the epoch.\<close>

definition expiry_offset :: "('p, 'h, 'l) resolver \<Rightarrow> (('p, 'h, 'l) rstate, unit + nat) prog" where
  "expiry_offset self =
     pbind system_now (\<lambda>now.
     pbind (time_plus now (r_timeout_seconds self)) (\<lambda>ex_time.
     pret (case secs_since_epoch ex_time of None \<Rightarrow> Inl () | Some n \<Rightarrow> Inr n)))"

definition group_in_nxset :: "Id set \<Rightarrow> GroupToken \<Rightarrow> bool" where
  "group_in_nxset ns g \<longleftrightarrow> IdGid (gt_gidnumber g) \<in> ns \<or> IdName (gt_name g) \<in> ns"

text \<open>\<open>set_cache_usertoken\<close> changes the token it is given; the changed token is returned.\<close>

definition set_cache_usertoken :: "('p, 'h, 'l) resolver \<Rightarrow> UserToken
    \<Rightarrow> (('p, 'h, 'l) rstate, unit + UserToken) prog" where
  "set_cache_usertoken self token =
     pbindE (expiry_offset self) (\<lambda>offset.
     pbind (case ut_shell token of None \<Rightarrow> pret False | Some shell \<Rightarrow> path_exists shell) (\<lambda>requested_shell_exists.
     (let token1 = (if requested_shell_exists then token else token\<lparr>ut_shell := Some (r_default_shell self)\<rparr>) in
     pbind (r_lock LNxset) (\<lambda>_.
     pbind (pgets rs_nxset) (\<lambda>ns.
     pbind (r_unlock LNxset) (\<lambda>_.
     (let token2 = token1\<lparr>ut_groups := filter (\<lambda>g. \<not> group_in_nxset ns g) (ut_groups token1)\<rparr> in
     pbindE
       (db_change (at_db
         (pbindE (ptry_for_each (\<lambda>g. update_group (r_deps self) g offset) (ut_groups token2)) (\<lambda>_.
          update_account (r_deps self) token2 offset)))) (\<lambda>_.
     pret (Inr token2)))))))))"

definition set_cache_grouptoken :: "('p, 'h, 'l) resolver \<Rightarrow> GroupToken
    \<Rightarrow> (('p, 'h, 'l) rstate, unit + unit) prog" where
  "set_cache_grouptoken self token =
     pbindE (expiry_offset self) (\<lambda>offset.
     db_change (at_db (update_group (r_deps self) token offset)))"

definition delete_cache_usertoken :: "('p, 'h, 'l) resolver \<Rightarrow> Uuid \<Rightarrow> (('p, 'h, 'l) rstate, unit + unit) prog" where
  "delete_cache_usertoken self a_uuid = db_change (at_db (delete_account (r_deps self) a_uuid))"

definition delete_cache_grouptoken :: "('p, 'h, 'l) resolver \<Rightarrow> Uuid \<Rightarrow> (('p, 'h, 'l) rstate, unit + unit) prog" where
  "delete_cache_grouptoken self g_uuid = db_change (at_db (delete_group (r_deps self) g_uuid))"

text \<open>Here the database is locked before the HSM.\<close>

definition with_hsm_txn :: "(('p, 'h, 'l) rstate, CacheError + 'a) prog \<Rightarrow> (('p, 'h, 'l) rstate, unit + 'a) prog" where
  "with_hsm_txn m =
     pbind r_begin (\<lambda>_.
     pbind (r_lock LHsm) (\<lambda>_.
     pbind m (\<lambda>r.
     pbind (end_txn r) (\<lambda>res.
     pbind (r_unlock LHsm) (\<lambda>_.
     pret res)))))"

definition set_cache_userpassword :: "('p, 'h, 'l) resolver \<Rightarrow> Uuid \<Rightarrow> string
    \<Rightarrow> (('p, 'h, 'l) rstate, unit + unit) prog" where
  "set_cache_userpassword self a_uuid cred =
     with_hsm_txn (at_db_hsm (update_account_password (r_deps self) a_uuid cred))"

definition check_cache_userpassword :: "('p, 'h, 'l) resolver \<Rightarrow> Uuid \<Rightarrow> string
    \<Rightarrow> (('p, 'h, 'l) rstate, unit + bool) prog" where
  "check_cache_userpassword self a_uuid cred =
     with_hsm_txn (at_db_hsm (check_account_password (r_deps self) a_uuid cred))"

section \<open>Refreshing tokens\<close>

text \<open>
  A call of the provider with the HSM and an open transaction. The HSM is unlocked first,
  then the transaction is committed.
\<close>

definition hsm_db_call :: "(('p, 'h, 'l) rstate, 'a) prog \<Rightarrow> (('p, 'h, 'l) rstate, 'a \<times> (CacheError + unit)) prog" where
  "hsm_db_call m =
     pbind (r_lock LHsm) (\<lambda>_.
     pbind r_begin (\<lambda>_.
     pbind m (\<lambda>r.
     pbind (r_unlock LHsm) (\<lambda>_.
     pbind r_commit (\<lambda>c.
     pret (r, c))))))"

definition refresh_usertoken :: "('p, 'h, 'l) resolver \<Rightarrow> Id \<Rightarrow> UserToken option
    \<Rightarrow> (('p, 'h, 'l) rstate, unit + UserToken option) prog" where
  "refresh_usertoken self account_id token =
     pbind (hsm_db_call (at_all (idp_unix_user_get (r_client self) account_id token (r_machine_key self)))) (\<lambda>(res, c).
     (case c of
        Inl _ \<Rightarrow> pret (Inl ())
      | Inr _ \<Rightarrow>
     (case res of
        Inr (UserUpdate n_tok) \<Rightarrow>
          pbindE (set_cache_usertoken self n_tok) (\<lambda>n_tok'.
          pret (Inr (Some n_tok')))
      | Inr UserNotFound \<Rightarrow>
          pbindE (case token of None \<Rightarrow> pret (Inr ()) | Some tok \<Rightarrow> delete_cache_usertoken self (ut_uuid tok)) (\<lambda>_.
          pbind (set_nxcache self account_id) (\<lambda>_.
          pret (Inr None)))
      | Inr UseCached \<Rightarrow> pret (Inr token)
      | Inl _ \<Rightarrow> pret (Inr token))))"

definition refresh_grouptoken :: "('p, 'h, 'l) resolver \<Rightarrow> Id \<Rightarrow> GroupToken option
    \<Rightarrow> (('p, 'h, 'l) rstate, unit + GroupToken option) prog" where
  "refresh_grouptoken self grp_id token =
     pbind (r_lock LHsm) (\<lambda>_.
     pbind (at_hsm_client (idp_unix_group_get (r_client self) grp_id)) (\<lambda>res.
     pbind (r_unlock LHsm) (\<lambda>_.
     (case res of
        Inr n_tok \<Rightarrow>
          pbind (check_nxset (Some (gt_name n_tok)) (Some (gt_gidnumber n_tok))) (\<lambda>nx.
          if nx then
            pbindE (delete_cache_grouptoken self (gt_uuid n_tok)) (\<lambda>_. pret (Inr None))
          else
            pbindE (set_cache_grouptoken self n_tok) (\<lambda>_. pret (Inr (Some n_tok))))
      | Inl _ \<Rightarrow> pret (Inr token)))))"

definition test_connection :: "('p, 'h, 'l) resolver \<Rightarrow> (('p, 'h, 'l) rstate, bool) prog" where
  "test_connection self =
     pbind (get_cachestate self None) (\<lambda>state.
     (case state of
        Offline \<Rightarrow> pret False
      | OfflineNextCheck _ \<Rightarrow>
          pbind (r_lock LHsm) (\<lambda>_.
          pbind system_now (\<lambda>now.
          pbind (at_hsm_client (idp_check_online (r_client self) now)) (\<lambda>res.
          pbind (r_unlock LHsm) (\<lambda>_.
          pret res))))
      | Online \<Rightarrow> pret True))"

section \<open>Looking up users and groups\<close>

definition id_name :: "Id \<Rightarrow> string option" where
  "id_name i = (case i of IdName n \<Rightarrow> Some n | IdGid _ \<Rightarrow> None)"

definition id_gid :: "Id \<Rightarrow> u32 option" where
  "id_gid i = (case i of IdName _ \<Rightarrow> None | IdGid g \<Rightarrow> Some g)"

definition get_usertoken :: "('p, 'h, 'l) resolver \<Rightarrow> Id
    \<Rightarrow> (('p, 'h, 'l) rstate, unit + UserToken option) prog" where
  "get_usertoken self account_id =
     pbind (check_nxset (id_name account_id) (id_gid account_id)) (\<lambda>nx.
     if nx then pret (Inr None)
     else
       pbindE (get_cached_usertoken self account_id) (\<lambda>(expired, item).
       pbind (case account_id of
            IdName name \<Rightarrow> get_cachestate self (Some name)
          | IdGid _ \<Rightarrow> (case item of
                Some token \<Rightarrow> get_cachestate self (Some (ut_spn token))
              | None \<Rightarrow> get_cachestate self None)) (\<lambda>state.
       (case state of
          Offline \<Rightarrow> pret (Inr item)
        | OfflineNextCheck time \<Rightarrow>
            if \<not> expired then pret (Inr item)
            else
              pbind system_now (\<lambda>now.
              pbind (if now \<ge> time then test_connection self else pret False) (\<lambda>online.
              if online then refresh_usertoken self account_id item else pret (Inr item)))
        | Online \<Rightarrow>
            if \<not> expired then pret (Inr item)
            else refresh_usertoken self account_id item))))"

text \<open>Groups are only ever answered from the cache: the state is fixed to \<open>Offline\<close>.\<close>

definition get_grouptoken :: "('p, 'h, 'l) resolver \<Rightarrow> Id
    \<Rightarrow> (('p, 'h, 'l) rstate, unit + GroupToken option) prog" where
  "get_grouptoken self grp_id =
     pbindE (get_cached_grouptoken self grp_id) (\<lambda>(expired, item).
     (let state = Offline in
     (case state of
        Offline \<Rightarrow> pret (Inr item)
      | OfflineNextCheck time \<Rightarrow>
          if \<not> expired then pret (Inr item)
          else
            pbind system_now (\<lambda>now.
            pbind (if now \<ge> time then test_connection self else pret False) (\<lambda>online.
            if online then refresh_grouptoken self grp_id item else pret (Inr item)))
      | Online \<Rightarrow>
          if \<not> expired then pret (Inr item)
          else refresh_grouptoken self grp_id item)))"

text \<open>
  The three requests that fetch something for a user share their shape: local users get
  nothing, then the user's token is looked up, then the provider is asked.
\<close>

definition provider_request :: "('p, 'h, 'l) resolver \<Rightarrow> Id
    \<Rightarrow> (UserToken \<Rightarrow> (('p, 'h, 'l) rstate, 'a) prog) \<Rightarrow> (UserToken \<Rightarrow> 'a \<Rightarrow> 'b option)
    \<Rightarrow> (('p, 'h, 'l) rstate, 'b option) prog" where
  "provider_request self account_id call k =
     pbind (check_nxset (id_name account_id) (id_gid account_id)) (\<lambda>nx.
     if nx then pret None
     else
       pbind (get_usertoken self account_id) (\<lambda>t.
       (case t of
          Inr (Some token) \<Rightarrow>
            pbind (hsm_db_call (call token)) (\<lambda>(res, c).
            pret (case c of Inl _ \<Rightarrow> None | Inr _ \<Rightarrow> k token res))
        | _ \<Rightarrow> pret None)))"

definition get_user_accesstoken :: "('p, 'h, 'l) resolver \<Rightarrow> Id \<Rightarrow> string list \<Rightarrow> string option
    \<Rightarrow> string option \<Rightarrow> string option \<Rightarrow> (('p, 'h, 'l) rstate, UnixUserToken option) prog" where
  "get_user_accesstoken self account_id scopes client_id redirect_uri req_cnf =
     provider_request self account_id
       (\<lambda>token. at_all (idp_unix_user_access (r_client self) account_id scopes (Some token) client_id
          redirect_uri req_cnf (r_machine_key self)))
       (\<lambda>_ res. case res of Inr t \<Rightarrow> Some t | Inl _ \<Rightarrow> None)"

definition get_user_tgts :: "('p, 'h, 'l) resolver \<Rightarrow> Id
    \<Rightarrow> (('p, 'h, 'l) rstate, (u32 \<times> u32 \<times> TgtResult) option) prog" where
  "get_user_tgts self account_id =
     provider_request self account_id
       (\<lambda>token. at_all (idp_unix_user_tgts (r_client self) account_id (Some token) (r_machine_key self)))
       (\<lambda>token res. Some (ut_gidnumber token,
          (case ut_real_gidnumber token of Some g \<Rightarrow> g | None \<Rightarrow> ut_gidnumber token), res))"

definition get_user_prt_cookie :: "('p, 'h, 'l) resolver \<Rightarrow> Id \<Rightarrow> string option
    \<Rightarrow> (('p, 'h, 'l) rstate, string option) prog" where
  "get_user_prt_cookie self account_id sso_nonce =
     provider_request self account_id
       (\<lambda>token. at_all (idp_unix_user_prt_cookie (r_client self) account_id (Some token) sso_nonce
          (r_machine_key self)))
       (\<lambda>_ res. case res of Inr c \<Rightarrow> Some c | Inl _ \<Rightarrow> None)"

definition change_auth_token :: "('p, 'h, 'l) resolver \<Rightarrow> string \<Rightarrow> UnixUserToken \<Rightarrow> string
    \<Rightarrow> (('p, 'h, 'l) rstate, unit + bool) prog" where
  "change_auth_token self account_id token new_tok =
     pbind (check_nxset (Some account_id) None) (\<lambda>nx.
     if nx then pret (Inr False)
     else
       pbind (hsm_db_call (at_all (idp_change_auth_token (r_client self) account_id token new_tok
         (r_machine_key self)))) (\<lambda>(res, c).
       pret (case c of Inl _ \<Rightarrow> Inl ()
         | Inr _ \<Rightarrow> (case res of Inl _ \<Rightarrow> Inl () | Inr b \<Rightarrow> Inr b))))"

definition offline_break_glass :: "('p, 'h, 'l) resolver \<Rightarrow> u64 option \<Rightarrow> (('p, 'h, 'l) rstate, unit + unit) prog" where
  "offline_break_glass self ttl = map_err (\<lambda>_. ()) (at_client (idp_offline_break_glass (r_client self) ttl))"

section \<open>NSS answers\<close>

definition token_home_attr :: "('p, 'h, 'l) resolver \<Rightarrow> HomeAttr \<Rightarrow> UserToken \<Rightarrow> string" where
  "token_home_attr self a token =
     (case a of
        HA_Uuid \<Rightarrow> uuid_str (r_deps self) (ut_uuid token)
      | HA_Spn \<Rightarrow> ut_spn token
      | HA_Name \<Rightarrow> ut_name token
      | HA_Cn \<Rightarrow> hd (split_char CHR ''@'' (ut_spn token)))"

definition token_homedirectory_alias :: "('p, 'h, 'l) resolver \<Rightarrow> UserToken \<Rightarrow> string option" where
  "token_homedirectory_alias self token = map_option (\<lambda>t. token_home_attr self t token) (r_home_alias self)"

definition token_homedirectory_attr :: "('p, 'h, 'l) resolver \<Rightarrow> UserToken \<Rightarrow> string" where
  "token_homedirectory_attr self token = token_home_attr self (r_home_attr self) token"

definition token_homedirectory :: "('p, 'h, 'l) resolver \<Rightarrow> UserToken \<Rightarrow> string" where
  "token_homedirectory self token =
     (case token_homedirectory_alias self token of
        Some a \<Rightarrow> a
      | None \<Rightarrow> token_homedirectory_attr self token)"

definition token_abs_homedirectory :: "('p, 'h, 'l) resolver \<Rightarrow> UserToken \<Rightarrow> string" where
  "token_abs_homedirectory self token = r_home_prefix self @ token_homedirectory self token"

definition token_uidattr :: "('p, 'h, 'l) resolver \<Rightarrow> UserToken \<Rightarrow> string" where
  "token_uidattr self token = (case r_uid_attr_map self of UA_Spn \<Rightarrow> ut_spn token | UA_Name \<Rightarrow> ut_name token)"

definition token_gidattr :: "('p, 'h, 'l) resolver \<Rightarrow> GroupToken \<Rightarrow> string" where
  "token_gidattr self token = (case r_gid_attr_map self of UA_Spn \<Rightarrow> gt_spn token | UA_Name \<Rightarrow> gt_name token)"

definition token_gid :: "UserToken \<Rightarrow> u32" where
  "token_gid tok = (case ut_real_gidnumber tok of Some g \<Rightarrow> g | None \<Rightarrow> ut_gidnumber tok)"

definition nss_user_of :: "('p, 'h, 'l) resolver \<Rightarrow> UserToken \<Rightarrow> NssUser" where
  "nss_user_of self tok = \<lparr>nu_name = token_uidattr self tok, nu_uid = ut_gidnumber tok, nu_gid = token_gid tok,
     nu_gecos = ut_displayname tok, nu_homedir = token_abs_homedirectory self tok,
     nu_shell = (case ut_shell tok of Some sh \<Rightarrow> sh | None \<Rightarrow> r_default_shell self)\<rparr>"

definition get_nssaccounts :: "('p, 'h, 'l) resolver \<Rightarrow> (('p, 'h, 'l) rstate, unit + NssUser list) prog" where
  "get_nssaccounts self = pbindE (get_cached_usertokens self) (\<lambda>l. pret (Inr (map (nss_user_of self) l)))"

definition get_nssaccount :: "('p, 'h, 'l) resolver \<Rightarrow> Id \<Rightarrow> (('p, 'h, 'l) rstate, unit + NssUser option) prog" where
  "get_nssaccount self account_id =
     pbindE (get_usertoken self account_id) (\<lambda>token. pret (Inr (map_option (nss_user_of self) token)))"

definition get_nssaccount_name :: "('p, 'h, 'l) resolver \<Rightarrow> string \<Rightarrow> (('p, 'h, 'l) rstate, unit + NssUser option) prog" where
  "get_nssaccount_name self account_id = get_nssaccount self (IdName account_id)"

definition get_nssaccount_gid :: "('p, 'h, 'l) resolver \<Rightarrow> u32 \<Rightarrow> (('p, 'h, 'l) rstate, unit + NssUser option) prog" where
  "get_nssaccount_gid self gid = get_nssaccount self (IdGid gid)"

definition get_groupmembers :: "('p, 'h, 'l) resolver \<Rightarrow> Uuid \<Rightarrow> (('p, 'h, 'l) rstate, string list) prog" where
  "get_groupmembers self g_uuid =
     db_read (pbind (at_db (get_group_members (r_deps self) g_uuid)) (\<lambda>r.
       pret (case r of Inl _ \<Rightarrow> [] | Inr l \<Rightarrow> map (token_uidattr self) l)))"

definition nss_group_of :: "('p, 'h, 'l) resolver \<Rightarrow> GroupToken \<Rightarrow> string list \<Rightarrow> NssGroup" where
  "nss_group_of self tok members = \<lparr>ng_name = token_gidattr self tok, ng_gid = gt_gidnumber tok, ng_members = members\<rparr>"

fun collect_nssgroups :: "('p, 'h, 'l) resolver \<Rightarrow> GroupToken list \<Rightarrow> NssGroup list
    \<Rightarrow> (('p, 'h, 'l) rstate, NssGroup list) prog" where
  "collect_nssgroups self [] r = pret r"
| "collect_nssgroups self (tok # l) r =
     pbind (get_groupmembers self (gt_uuid tok)) (\<lambda>members.
     collect_nssgroups self l (r @ [nss_group_of self tok members]))"

definition get_nssgroups :: "('p, 'h, 'l) resolver \<Rightarrow> (('p, 'h, 'l) rstate, unit + NssGroup list) prog" where
  "get_nssgroups self =
     pbindE (get_cached_grouptokens self) (\<lambda>l.
     pbind (collect_nssgroups self l []) (\<lambda>r. pret (Inr r)))"

definition get_nssgroup :: "('p, 'h, 'l) resolver \<Rightarrow> Id \<Rightarrow> (('p, 'h, 'l) rstate, unit + NssGroup option) prog" where
  "get_nssgroup self grp_id =
     pbindE (get_grouptoken self grp_id) (\<lambda>token.
     (case token of
        None \<Rightarrow> pret (Inr None)
      | Some tok \<Rightarrow>
          pbind (get_groupmembers self (gt_uuid tok)) (\<lambda>members.
          pret (Inr (Some (nss_group_of self tok members))))))"

definition get_nssgroup_name :: "('p, 'h, 'l) resolver \<Rightarrow> string \<Rightarrow> (('p, 'h, 'l) rstate, unit + NssGroup option) prog" where
  "get_nssgroup_name self grp_id = get_nssgroup self (IdName grp_id)"

definition get_nssgroup_gid :: "('p, 'h, 'l) resolver \<Rightarrow> u32 \<Rightarrow> (('p, 'h, 'l) rstate, unit + NssGroup option) prog" where
  "get_nssgroup_gid self gid = get_nssgroup self (IdGid gid)"

definition get_initgroups :: "('p, 'h, 'l) resolver \<Rightarrow> string \<Rightarrow> (('p, 'h, 'l) rstate, unit + u32 list option) prog" where
  "get_initgroups self account_id =
     pbindE (get_usertoken self (IdName account_id)) (\<lambda>token.
     pret (Inr (map_option (\<lambda>tok. map gt_gidnumber (ut_groups tok)) token)))"

section \<open>Authorisation\<close>

definition allowed_by_groups :: "('p, 'h, 'l) resolver \<Rightarrow> string \<Rightarrow> UserToken \<Rightarrow> bool" where
  "allowed_by_groups self account_id tok =
     (let user_set = set (map (\<lambda>g. uuid_str (r_deps self) (gt_uuid g)) (ut_groups tok) @ [account_id])
      in user_set \<inter> r_pam_allow_groups self \<noteq> {} \<and> ut_valid tok)"

definition pam_account_allowed :: "('p, 'h, 'l) resolver \<Rightarrow> string
    \<Rightarrow> (('p, 'h, 'l) rstate, unit + bool option) prog" where
  "pam_account_allowed self account_id =
     pbindE (get_usertoken self (IdName account_id)) (\<lambda>token.
     if r_pam_allow_groups self = {} then pret (Inr (Some True))
     else pret (Inr (map_option (allowed_by_groups self account_id) token)))"

definition pam_account_beginsession :: "('p, 'h, 'l) resolver \<Rightarrow> string
    \<Rightarrow> (('p, 'h, 'l) rstate, unit + HomeDirectoryInfo option) prog" where
  "pam_account_beginsession self account_id =
     pbindE (get_usertoken self (IdName account_id)) (\<lambda>token.
     pret (Inr (map_option (\<lambda>tok. \<lparr>hd_uid = ut_gidnumber tok, hd_gid = token_gid tok,
       hd_name = token_homedirectory_attr self tok,
       hd_aliases = (case token_homedirectory_alias self tok of Some a \<Rightarrow> [a] | None \<Rightarrow> [])\<rparr>) token)))"

section \<open>Authentication\<close>

definition reauth_msg :: string where
  "reauth_msg = ''Re-authentication requires network connectivity.''"

definition not_found_msg :: "string \<Rightarrow> string \<Rightarrow> string" where
  "not_found_msg what locus = ''NotFound: '' @ what @ '' in '' @ locus"

text \<open>
  The online half of \<open>pam_account_authenticate_init\<close>. The HSM and the transaction stay
  locked until the end of the block, also while \<open>get_cachestate\<close> asks for a transaction of
  its own; the transaction is not committed.
\<close>

definition auth_init_online :: "('p, 'h, 'l) resolver \<Rightarrow> string \<Rightarrow> string \<Rightarrow> bool \<Rightarrow> bool \<Rightarrow> UserToken option
    \<Rightarrow> (('p, 'h, 'l) rstate, IdpError + AuthRequest \<times> AuthCredHandler) prog" where
  "auth_init_online self account_id service no_hello_pin force_reauth token =
     pbind (r_lock LHsm) (\<lambda>_.
     pbind r_begin (\<lambda>_.
     pbind (at_all (idp_unix_user_online_auth_init (r_client self) account_id token service no_hello_pin
       force_reauth (r_machine_key self))) (\<lambda>res.
     pbind
       (case res of
          Inr r \<Rightarrow> pret (Inr r)
        | Inl e \<Rightarrow>
            if force_reauth then pret (Inl e)
            else
              pbind (get_cachestate self (Some account_id)) (\<lambda>state.
              (case state of
                 Online \<Rightarrow> pret (Inl e)
               | _ \<Rightarrow> at_db_client (idp_unix_user_offline_auth_init (r_client self) account_id token
                   no_hello_pin)))) (\<lambda>maybe_err.
     pbind r_drop (\<lambda>_.
     pbind (r_unlock LHsm) (\<lambda>_.
     pret maybe_err))))))"

definition auth_init_offline :: "('p, 'h, 'l) resolver \<Rightarrow> string \<Rightarrow> bool \<Rightarrow> UserToken option
    \<Rightarrow> (('p, 'h, 'l) rstate, IdpError + AuthRequest \<times> AuthCredHandler) prog" where
  "auth_init_offline self account_id no_hello_pin token =
     db_read (at_db_client (idp_unix_user_offline_auth_init (r_client self) account_id token no_hello_pin))"

definition pam_account_authenticate_init :: "('p, 'h, 'l) resolver \<Rightarrow> string \<Rightarrow> string \<Rightarrow> bool \<Rightarrow> bool
    \<Rightarrow> (('p, 'h, 'l) rstate, unit + AuthSession \<times> PamAuthResponse) prog" where
  "pam_account_authenticate_init self account_id service no_hello_pin force_reauth =
     pbind (check_nxset (Some account_id) None) (\<lambda>nx.
     if nx then pret (Inr (Session_Denied, PR_Unknown))
     else
       (let id = IdName account_id in
       pbindE (get_cached_usertoken self id) (\<lambda>(_, cached).
       pbindE (case cached of Some t \<Rightarrow> pret (Inr (Some t)) | None \<Rightarrow> refresh_usertoken self id None) (\<lambda>token.
       pbind (get_cachestate self (Some account_id)) (\<lambda>state.
       pbind (case state of Online \<Rightarrow> pret True | _ \<Rightarrow> test_connection self) (\<lambda>online_at_init.
       if \<not> online_at_init \<and> force_reauth then pret (Inr (Session_Denied, PR_InitDenied reauth_msg))
       else
         pbind
           (if online_at_init then auth_init_online self account_id service no_hello_pin force_reauth token
            else auth_init_offline self account_id no_hello_pin token) (\<lambda>maybe_err.
         pret (case maybe_err of
             Inr (next_req, cred_handler) \<Rightarrow>
               Inr (InProgress account_id service id token online_at_init cred_handler no_hello_pin force_reauth,
                 into_PamAuthResponse next_req)
           | Inl (NotFound what locus) \<Rightarrow> Inr (Session_Denied, PR_Denied (not_found_msg what locus))
           | Inl _ \<Rightarrow> Inl ()))))))))"

text \<open>
  The first half of a step yields either the answer of an early return (\<open>Inl\<close>) or the
  provider's verdict (\<open>Inr\<close>), with the session whose handler the provider updated.
\<close>

type_synonym StepVerdict = "(unit + PamAuthResponse) + (IdpError + AuthResult)"

definition set_handler :: "AuthCredHandler \<Rightarrow> AuthSession \<Rightarrow> AuthSession" where
  "set_handler h s = (case s of
      InProgress a sv i t onl _ n f \<Rightarrow> InProgress a sv i t onl h n f
    | _ \<Rightarrow> s)"

definition auth_cache_action :: "('p, 'h, 'l) resolver \<Rightarrow> UserToken \<Rightarrow> AuthSession
    \<Rightarrow> IdpError + AuthResult \<times> AuthCacheAction \<Rightarrow> (('p, 'h, 'l) rstate, StepVerdict \<times> AuthSession) prog" where
  "auth_cache_action self token session res =
     (case res of
        Inr (r, NoCacheAction) \<Rightarrow> pret (Inr (Inr r), session)
      | Inr (Auth_Success tok, PasswordHashUpdate cred) \<Rightarrow>
          pbind (set_cache_userpassword self (ut_uuid tok) cred) (\<lambda>w.
          pret (case w of Inl _ \<Rightarrow> Inl (Inl ()) | Inr _ \<Rightarrow> Inr (Inr (Auth_Success tok)), session))
      | Inr (Auth_Next next, PasswordHashUpdate cred) \<Rightarrow>
          pbind (set_cache_userpassword self (ut_uuid token) cred) (\<lambda>w.
          pret (case w of Inl _ \<Rightarrow> Inl (Inl ()) | Inr _ \<Rightarrow> Inr (Inr (Auth_Next next)), session))
      | Inr (_, PasswordHashUpdate _) \<Rightarrow> pret (Inr (Inl BadRequest), session)
      | Inl e \<Rightarrow> pret (Inr (Inl e), session))"

definition auth_step_online :: "('p, 'h, 'l) resolver \<Rightarrow> AuthSession \<Rightarrow> UserToken \<Rightarrow> PamAuthRequest
    \<Rightarrow> (('p, 'h, 'l) rstate, StepVerdict \<times> AuthSession) prog" where
  "auth_step_online self session token req =
     pbind (hsm_db_call (at_all (idp_unix_user_online_auth_step (r_client self) (as_account_id session) token
       (as_service session) (as_no_hello_pin session) (as_cred_handler session) req (r_machine_key self))))
       (\<lambda>(res, c).
     (let session' = set_handler (snd res) session in
     (case c of
        Inl _ \<Rightarrow> pret (Inl (Inl ()), session')
      | Inr _ \<Rightarrow> auth_cache_action self token session' (fst res))))"

definition auth_step_pin :: "('p, 'h, 'l) resolver \<Rightarrow> AuthSession \<Rightarrow> UserToken \<Rightarrow> PamAuthRequest
    \<Rightarrow> (('p, 'h, 'l) rstate, StepVerdict \<times> AuthSession) prog" where
  "auth_step_pin self session token req =
     pbind (hsm_db_call (at_all (idp_unix_user_offline_auth_step (r_client self) (as_account_id session) token
       (as_cred_handler session) req (r_machine_key self) (as_online_at_init session))))
       (\<lambda>(res, c).
     pret (case c of Inl _ \<Rightarrow> Inl (Inl ()) | Inr _ \<Rightarrow> Inr (fst res), set_handler (snd res) session))"

definition auth_step_offline :: "('p, 'h, 'l) resolver \<Rightarrow> AuthSession \<Rightarrow> UserToken \<Rightarrow> PamAuthRequest
    \<Rightarrow> (('p, 'h, 'l) rstate, StepVerdict \<times> AuthSession) prog" where
  "auth_step_offline self session token req =
     (if as_force_reauth session then pret (Inl (Inr (PR_Denied reauth_msg)), session)
      else
     (case req of
        PQ_Password cred \<Rightarrow>
          pbind (check_cache_userpassword self (ut_uuid token) cred) (\<lambda>r.
          pret (case r of
              Inr True \<Rightarrow> Inr (Inr (Auth_Success token))
            | Inr False \<Rightarrow> Inr (Inr (Auth_Denied ''Offline auth failed''))
            | Inl _ \<Rightarrow> Inl (Inl ()), session))
      | _ \<Rightarrow>
     (case as_cred_handler session of
        CH_MFA _ _ _ _ \<Rightarrow> pret (Inl (Inl ()), session)
      | CH_SetupPin _ \<Rightarrow> pret (Inl (Inl ()), session)
      | CH_ChangePassword _ \<Rightarrow> pret (Inl (Inl ()), session)
      | _ \<Rightarrow>
     (case req of
        PQ_Pin _ \<Rightarrow> auth_step_pin self session token req
      | PQ_HelloTOTP _ \<Rightarrow> auth_step_pin self session token req
      | _ \<Rightarrow> pret (Inl (Inl ()), session)))))"

definition auth_step_verdict :: "('p, 'h, 'l) resolver \<Rightarrow> AuthSession \<Rightarrow> CacheState \<Rightarrow> PamAuthRequest
    \<Rightarrow> (('p, 'h, 'l) rstate, StepVerdict \<times> AuthSession) prog" where
  "auth_step_verdict self session state req =
     (case session of
        InProgress _ _ _ (Some token) online_at_init _ _ _ \<Rightarrow>
          if online_at_init \<and> state = Online then auth_step_online self session token req
          else auth_step_offline self session token req
      | InProgress _ _ _ None _ _ _ _ \<Rightarrow> pret (Inr (Inl (NotFound ''token'' ''AuthSession'')), session)
      | _ \<Rightarrow> pret (Inr (Inl BadRequest), session))"

text \<open>The second half releases the token, or refuses to.\<close>

definition auth_step_conclude :: "('p, 'h, 'l) resolver \<Rightarrow> StepVerdict \<Rightarrow> AuthSession
    \<Rightarrow> (('p, 'h, 'l) rstate, (unit + PamAuthResponse) \<times> AuthSession) prog" where
  "auth_step_conclude self verdict session =
     (case verdict of
        Inl early \<Rightarrow> pret (early, session)
      | Inr (Inr (Auth_Success token)) \<Rightarrow>
          pbind (check_nxset (Some (ut_name token)) (Some (ut_gidnumber token))) (\<lambda>nx.
          if nx then
            pbind (delete_cache_usertoken self (ut_uuid token)) (\<lambda>d.
            pret (case d of Inl _ \<Rightarrow> (Inl (), session) | Inr _ \<Rightarrow> (Inr PR_Unknown, Session_Denied)))
          else
            pbind (set_cache_usertoken self token) (\<lambda>t.
            pret (case t of
                Inl _ \<Rightarrow> (Inl (), session)
              | Inr tok \<Rightarrow> (Inr PR_Success, Session_Success (ut_spn tok)))))
      | Inr (Inr (Auth_Denied msg)) \<Rightarrow> pret (Inr (PR_Denied msg), Session_Denied)
      | Inr (Inr (Auth_Next r)) \<Rightarrow> pret (Inr (into_PamAuthResponse r), session)
      | Inr (Inl (NotFound what locus)) \<Rightarrow> pret (Inr (PR_Denied (not_found_msg what locus)), session)
      | Inr (Inl _) \<Rightarrow> pret (Inl (), session))"

definition pam_account_authenticate_step :: "('p, 'h, 'l) resolver \<Rightarrow> AuthSession \<Rightarrow> PamAuthRequest
    \<Rightarrow> (('p, 'h, 'l) rstate, (unit + PamAuthResponse) \<times> AuthSession) prog" where
  "pam_account_authenticate_step self session req =
     pbind (get_cachestate self (case session of InProgress a _ _ _ _ _ _ _ \<Rightarrow> Some a | _ \<Rightarrow> None)) (\<lambda>state.
     pbind (auth_step_verdict self session state req) (\<lambda>(verdict, session').
     auth_step_conclude self verdict session'))"

definition pam_try_unseal :: "('p, 'h, 'l) resolver \<Rightarrow> string \<Rightarrow> string
    \<Rightarrow> (('p, 'h, 'l) rstate, unit + bool) prog" where
  "pam_try_unseal self account_id cred =
     pbindE (pam_account_authenticate_init self account_id ''try_unseal'' False False) (\<lambda>(auth_session, init_resp).
     (case init_resp of
        PR_Pin \<Rightarrow>
          pbind (pam_account_authenticate_step self auth_session (PQ_Pin cred)) (\<lambda>(step_resp, _).
          pret (case step_resp of
              Inl _ \<Rightarrow> Inl ()
            | Inr PR_Success \<Rightarrow> Inr True
            | Inr _ \<Rightarrow> Inr False))
      | PR_Success \<Rightarrow> pret (Inr True)
      | _ \<Rightarrow> pret (Inr False)))"

end
