(* ===== verification/Idp_Common.thy ===== *)
theory Idp_Common
  imports Resolver
begin

text \<open>
  What the identity providers share, \<open>common/src/idprovider/common.rs\<close>: the cache of refresh
  tokens, the counter of wrong PINs, the tags of the Hello keys, and the offline authentication
  with a Hello PIN and a TOTP code. The crates for TPMs, tokens, JSON and TOTP codes are
  parameters. The provider's own state is a record; the key store is the modelled database.
\<close>

section \<open>State and parameters\<close>

record TotpEnrollmentRecord =
  secret_b32 :: string
  totp_digits :: nat
  totp_skew :: u8
  totp_step :: u64
  totp_issuer :: string
  totp_account_name :: string

text \<open>
  The provider's state; \<open>slept\<close> adds up the seconds that failed attempts were made to wait.
  Hash maps are association lists.
\<close>

record hb_state =
  hb_prts :: "(string \<times> SealedData \<times> systime) list"
  hb_refresh_tokens :: "(string \<times> string \<times> systime) list"
  hb_bad_pins :: "(string \<times> u32) list"
  hb_cachestate :: CacheState
  hb_clock :: "nat \<Rightarrow> systime"
  hb_tick :: nat
  slept :: nat

record hb_config =
  cfg_hello_pin_retry_count :: u32
  cfg_enable_sfa_fallback :: bool
  cfg_offline_breakglass_enabled :: bool
  cfg_offline_breakglass_ttl :: u64
  cfg_enable_hello_totp :: bool

record 'h hello_crates =
  pin_value_new :: "string \<Rightarrow> opaque option"
  ms_hello_key_load :: "opaque \<Rightarrow> opaque \<Rightarrow> opaque \<Rightarrow> 'h \<Rightarrow> opaque option \<times> 'h"
  ms_hello_key_create :: "opaque \<Rightarrow> opaque \<Rightarrow> 'h \<Rightarrow> opaque option \<times> 'h"
  unseal_data :: "opaque \<Rightarrow> SealedData \<Rightarrow> 'h \<Rightarrow> bytes option \<times> 'h"
  seal_data :: "opaque \<Rightarrow> bytes \<Rightarrow> 'h \<Rightarrow> SealedData option \<times> 'h"
  unseal_user_prt :: "SealedData \<Rightarrow> opaque \<Rightarrow> string \<Rightarrow> opaque \<Rightarrow> 'h \<Rightarrow> SealedData option \<times> 'h"
  seal_user_prt :: "SealedData \<Rightarrow> opaque \<Rightarrow> string \<Rightarrow> opaque \<Rightarrow> 'h \<Rightarrow> SealedData option \<times> 'h"
  is_prt_expired :: "SealedData \<Rightarrow> opaque \<Rightarrow> 'h \<Rightarrow> bool option \<times> 'h"
  ser_sealed :: "opaque \<Rightarrow> bytes option"
  de_sealed :: "bytes \<Rightarrow> opaque option"
  ser_totp :: "TotpEnrollmentRecord \<Rightarrow> string option"
  de_totp :: "string \<Rightarrow> TotpEnrollmentRecord option"
  totp_new :: "TotpEnrollmentRecord \<Rightarrow> opaque option"
  totp_generate :: "string \<Rightarrow> string \<Rightarrow> 'h \<Rightarrow> string option \<times> 'h"
  totp_check_current :: "opaque \<Rightarrow> string \<Rightarrow> systime \<Rightarrow> bool option"
  provision_hello_for_business_key :: "UnixUserToken \<Rightarrow> opaque \<Rightarrow> string \<Rightarrow> 'h \<Rightarrow> opaque option \<times> 'h"
  token_spn :: "UnixUserToken \<Rightarrow> string option"
  hostname :: string
  urlencode :: "string \<Rightarrow> string"
  ser_prts :: "(string \<times> SealedData \<times> nat) list \<Rightarrow> bytes option"
  de_prts :: "bytes \<Rightarrow> (string \<times> SealedData \<times> nat) list option"

type_synonym ('h, 'a) hb_prog = "(dbconn \<times> 'h \<times> hb_state, 'a) prog"

definition on_store :: "(dbconn, 'a) prog \<Rightarrow> ('h, 'a) hb_prog" where
  "on_store m = pzoom fst (\<lambda>c s. (c, snd s)) m"

definition on_tpm :: "('h \<Rightarrow> 'a \<times> 'h) \<Rightarrow> ('h, 'a) hb_prog" where
  "on_tpm f = (\<lambda>(c, h, p). (case f h of (a, h') \<Rightarrow> Return (a, c, h', p)))"

definition on_hb :: "(hb_state, 'a) prog \<Rightarrow> ('h, 'a) hb_prog" where
  "on_hb m = pzoom (\<lambda>s. snd (snd s)) (\<lambda>p s. (fst s, fst (snd s), p)) m"

definition hb_now :: "(hb_state, systime) prog" where
  "hb_now = (\<lambda>p. Return (hb_clock p (hb_tick p), p\<lparr>hb_tick := Suc (hb_tick p)\<rparr>))"

definition or_err :: "'e \<Rightarrow> 'a option \<Rightarrow> 'e + 'a" where
  "or_err e x = (case x of None \<Rightarrow> Inl e | Some a \<Rightarrow> Inr a)"

section \<open>Text\<close>

definition flip_displayname_comma :: "string \<Rightarrow> string" where
  "flip_displayname_comma name =
     (if CHR '','' \<in> set name then
        (let left = takeWhile (\<lambda>c. c \<noteq> CHR '','') name; right = drop (Suc (length left)) name
         in trim right @ '' '' @ trim left)
      else name)"

section \<open>The cache of refresh tokens\<close>

datatype RefreshCacheEntry = Prt SealedData | RefreshToken string

definition PRT_LIFETIME :: nat where
  "PRT_LIFETIME = 86400"

definition PRT_REFRESH_AGE :: nat where
  "PRT_REFRESH_AGE = 4 * 3600"

text \<open>One loop of \<open>purge\<close>: the keys to remove; the clock is read at every entry.\<close>

fun remove_list :: "(string \<times> 'a \<times> systime) list \<Rightarrow> (hb_state, string list) prog" where
  "remove_list [] = pret []"
| "remove_list ((a, _, iat) # es) =
     (case time_add_secs iat PRT_LIFETIME of
        None \<Rightarrow> ppanic
      | Some t \<Rightarrow>
          pbind hb_now (\<lambda>now.
          pbind (remove_list es) (\<lambda>rm.
          pret (if t < now then a # rm else rm))))"

definition remove_entries :: "string list \<Rightarrow> (string \<times> 'a) list \<Rightarrow> (string \<times> 'a) list" where
  "remove_entries rm m = filter (\<lambda>e. fst e \<notin> set rm) m"

definition purge :: "(hb_state, unit) prog" where
  "purge =
     pbind (pbind (pgets hb_prts) remove_list) (\<lambda>rm.
     pbind (pmodify (\<lambda>p. p\<lparr>hb_prts := remove_entries rm (hb_prts p)\<rparr>)) (\<lambda>_.
     pbind (pbind (pgets hb_refresh_tokens) remove_list) (\<lambda>rm'.
     pmodify (\<lambda>p. p\<lparr>hb_refresh_tokens := remove_entries rm' (hb_refresh_tokens p)\<rparr>))))"

definition refresh_token :: "string \<Rightarrow> (hb_state, IdpError + RefreshCacheEntry) prog" where
  "refresh_token account_id =
     pbind purge (\<lambda>_.
     pgets (\<lambda>p. (case map_of (hb_prts p) (to_lowercase account_id) of
         Some (prt, _) \<Rightarrow> Inr (Prt prt)
       | None \<Rightarrow> (case map_of (hb_refresh_tokens p) (to_lowercase account_id) of
           Some (tok, _) \<Rightarrow> Inr (RefreshToken tok)
         | None \<Rightarrow> Inl (NotFound ''account_id'' ''refresh_cache'')))))"

definition prt_age :: "string \<Rightarrow> (hb_state, int option) prog" where
  "prt_age account_id = (\<lambda>p.
     (case map_of (hb_prts p) (to_lowercase account_id) of
        None \<Rightarrow> Return (None, p)
      | Some (_, iat) \<Rightarrow> pbind hb_now (\<lambda>now. pret (if iat \<le> now then Some (now - iat) else None)) p))"

definition refresh_add :: "string \<Rightarrow> RefreshCacheEntry \<Rightarrow> (hb_state, unit) prog" where
  "refresh_add account_id entry =
     pbind hb_now (\<lambda>now.
     pmodify (\<lambda>p. (case entry of
         Prt prt \<Rightarrow> p\<lparr>hb_prts := kv_replace (to_lowercase account_id) (prt, now) (hb_prts p)\<rparr>
       | RefreshToken tok \<Rightarrow>
           p\<lparr>hb_refresh_tokens := kv_replace (to_lowercase account_id) (tok, now) (hb_refresh_tokens p)\<rparr>)))"

definition epoch_secs :: "systime \<Rightarrow> nat" where
  "epoch_secs t = (case secs_since_epoch t of Some n \<Rightarrow> n | None \<Rightarrow> 0)"

definition hb_export_broker_prts :: "'h hello_crates \<Rightarrow> (hb_state, unit + bytes) prog" where
  "hb_export_broker_prts k = pgets (\<lambda>p. or_err () (ser_prts k
     (map (\<lambda>(a, prt, iat). (a, prt, epoch_secs iat)) (hb_prts p))))"

fun import_entries :: "(string \<times> SealedData \<times> nat) list \<Rightarrow> (hb_state, unit) prog" where
  "import_entries [] = pret ()"
| "import_entries ((a, prt, secs) # es) =
     (case time_add_secs 0 secs of
        None \<Rightarrow> ppanic
      | Some iat \<Rightarrow>
          pbind (pmodify (\<lambda>p. p\<lparr>hb_prts := kv_replace (to_lowercase a) (prt, iat) (hb_prts p)\<rparr>)) (\<lambda>_.
          import_entries es))"

definition hb_import_broker_prts :: "'h hello_crates \<Rightarrow> bytes \<Rightarrow> (hb_state, unit + unit) prog" where
  "hb_import_broker_prts k b = (case de_prts k b of
      None \<Rightarrow> pret (Inl ())
    | Some es \<Rightarrow> pbind (import_entries es) (\<lambda>_. pret (Inr ())))"

section \<open>Wrong PINs\<close>

definition bad_pin_count :: "string \<Rightarrow> (hb_state, u32) prog" where
  "bad_pin_count account_id = pgets (\<lambda>p. case map_of (hb_bad_pins p) account_id of None \<Rightarrow> 0 | Some n \<Rightarrow> n)"

definition increment_bad_pin_count :: "string \<Rightarrow> (hb_state, unit) prog" where
  "increment_bad_pin_count account_id =
     pbind (bad_pin_count account_id) (\<lambda>n.
     pmodify (\<lambda>p. p\<lparr>hb_bad_pins := kv_replace account_id (n + 1) (hb_bad_pins p), slept := slept p + unat (n + 1) * 2\<rparr>))"

definition reset_bad_pin_count :: "string \<Rightarrow> (hb_state, unit) prog" where
  "reset_bad_pin_count account_id = pmodify (\<lambda>p. p\<lparr>hb_bad_pins := kv_replace account_id 0 (hb_bad_pins p)\<rparr>)"

definition fetch_hello_key_tag :: "string \<Rightarrow> bool \<Rightarrow> string" where
  "fetch_hello_key_tag account_id amr_ngcmfa =
     (if amr_ngcmfa then to_lowercase account_id @ ''/hello'' else to_lowercase account_id @ ''/hello_decoupled'')"

definition fetch_hello_prt_key_tag :: "string \<Rightarrow> string" where
  "fetch_hello_prt_key_tag account_id = to_lowercase account_id @ ''/hello_prt''"

definition fetch_hello_refresh_token_key_tag :: "string \<Rightarrow> string" where
  "fetch_hello_refresh_token_key_tag account_id = to_lowercase account_id @ ''/hello_refresh_token''"

definition fetch_hello_totp_key_tag :: "string \<Rightarrow> string" where
  "fetch_hello_totp_key_tag account_id = to_lowercase account_id @ ''/hello_totp''"

definition one_more_msg :: string where
  "one_more_msg = ''Failed to authenticate with Hello PIN. One more failed attempt will require multi-factor authentication and resetting your Linux Hello PIN.''"

definition too_many_msg :: string where
  "too_many_msg = ''Too many incorrect PIN attempts. You will need to enroll a new Linux Hello PIN.''"

definition delete_key :: "string \<Rightarrow> ('h, IdpError + unit) hb_prog" where
  "delete_key tag = map_err (\<lambda>_. TpmError) (on_store (delete_tagged_hsm_key tag))"

text \<open>\<open>Some\<close> message for the caller to return with, \<open>None\<close> to go on.\<close>

definition handle_hello_bad_pin_count :: "hb_config \<Rightarrow> string \<Rightarrow> ('h, IdpError + string option) hb_prog" where
  "handle_hello_bad_pin_count cfg account_id =
     pbind (on_hb (increment_bad_pin_count account_id)) (\<lambda>_.
     pbind (on_hb (bad_pin_count account_id)) (\<lambda>n.
     if n = cfg_hello_pin_retry_count cfg then pret (Inr (Some one_more_msg))
     else if n > cfg_hello_pin_retry_count cfg then
       pbindE (ptry_for_each delete_key
         [fetch_hello_key_tag account_id True, fetch_hello_key_tag account_id False,
          fetch_hello_prt_key_tag account_id, fetch_hello_refresh_token_key_tag account_id]) (\<lambda>_.
       pret (Inr (Some too_many_msg)))
     else pret (Inr None)))"

datatype KeyType = KT_Hello | KT_Decoupled

definition get_key :: "'h hello_crates \<Rightarrow> string \<Rightarrow> ('h, CacheError + opaque option) hb_prog" where
  "get_key k tag = on_store (get_tagged_hsm_key (de_sealed k) tag)"

definition put_key :: "'h hello_crates \<Rightarrow> string \<Rightarrow> opaque \<Rightarrow> ('h, IdpError + unit) hb_prog" where
  "put_key k tag key = map_err (\<lambda>_. TpmError) (on_store (insert_tagged_hsm_key (ser_sealed k) tag key))"

definition fetch_hello_key :: "'h hello_crates \<Rightarrow> string \<Rightarrow> (dbconn, IdpError + opaque \<times> KeyType) prog" where
  "fetch_hello_key k account_id =
     pbind (get_tagged_hsm_key (de_sealed k) (fetch_hello_key_tag account_id True)) (\<lambda>r.
     (case r of
        Inr (Some hello_key) \<Rightarrow> pret (Inr (hello_key, KT_Hello))
      | _ \<Rightarrow>
          pbind (get_tagged_hsm_key (de_sealed k) (fetch_hello_key_tag account_id False)) (\<lambda>r2.
          pret (case r2 of
              Inr (Some hello_key) \<Rightarrow> Inr (hello_key, KT_Decoupled)
            | _ \<Rightarrow> Inl BadRequest))))"

section \<open>Offline authentication\<close>

definition offline_auth_init :: "'h hello_crates \<Rightarrow> hb_config \<Rightarrow> bool \<Rightarrow> string \<Rightarrow> bool
    \<Rightarrow> (dbconn \<times> hb_state, IdpError + AuthRequest \<times> AuthCredHandler) prog" where
  "offline_auth_init k cfg password_auth account_id no_hello_pin =
     pbind (pzoom fst (\<lambda>c s. (c, snd s)) (fetch_hello_key k account_id)) (\<lambda>hello_key.
     pbind (pzoom snd (\<lambda>p s. (fst s, p)) (bad_pin_count account_id)) (\<lambda>n.
     pret (Inr
       (if (\<not> isl hello_key) \<and> n \<le> cfg_hello_pin_retry_count cfg \<and> \<not> no_hello_pin then (AR_Pin, CH_None)
        else if password_auth \<and> (cfg_enable_sfa_fallback cfg \<or> cfg_offline_breakglass_enabled cfg)
          then (AR_Password, CH_None)
        else (AR_InitDenied ''Network outage detected.'', CH_None)))))"

definition check_hello_totp_setup :: "'h hello_crates \<Rightarrow> string \<Rightarrow> ('h, bool) hb_prog" where
  "check_hello_totp_setup k account_id =
     pbind (get_key k (fetch_hello_totp_key_tag account_id)) (\<lambda>r.
     pret (case r of Inr (Some _) \<Rightarrow> True | _ \<Rightarrow> False))"

text \<open>What a failed attempt answers: the counter's message, or the given one.\<close>

definition deny_pin :: "hb_config \<Rightarrow> string \<Rightarrow> string \<Rightarrow> ('h, IdpError + AuthResult) hb_prog" where
  "deny_pin cfg account_id msg =
     pbindE (handle_hello_bad_pin_count cfg account_id) (\<lambda>m.
     pret (Inr (Auth_Denied (case m of Some x \<Rightarrow> x | None \<Rightarrow> msg))))"

definition totp_failed_msg :: string where
  "totp_failed_msg = ''Failed to authenticate with Hello TOTP code.''"

text \<open>The secret being enrolled, or else the stored one.\<close>

definition sealed_totp_secret_of :: "'h hello_crates \<Rightarrow> string \<Rightarrow> SealedData option \<Rightarrow> ('h, IdpError + SealedData) hb_prog" where
  "sealed_totp_secret_of k account_id pending =
     (case pending of
        Some sealed \<Rightarrow> pret (Inr sealed)
      | None \<Rightarrow>
          pbind (get_key k (fetch_hello_totp_key_tag account_id)) (\<lambda>r.
          pret (case r of Inr (Some stored) \<Rightarrow> Inr stored | _ \<Rightarrow> Inl BadRequest)))"

definition hello_pin_totp_auth :: "'h hello_crates \<Rightarrow> hb_config \<Rightarrow> string \<Rightarrow> UserToken \<Rightarrow> string \<Rightarrow> string \<Rightarrow> opaque
    \<Rightarrow> SealedData option \<Rightarrow> ('h, IdpError + AuthResult) hb_prog" where
  "hello_pin_totp_auth k cfg account_id token cred hello_pin machine_key pending =
     pbindE (sealed_totp_secret_of k account_id pending) (\<lambda>sealed_totp_secret.
     pbindE (on_store (fetch_hello_key k account_id)) (\<lambda>(hello_key, _).
     pbindE (pret (or_err TpmError (pin_value_new k hello_pin))) (\<lambda>pin.
     pbind (on_tpm (ms_hello_key_load k machine_key hello_key pin)) (\<lambda>loaded.
     (case loaded of
        None \<Rightarrow> deny_pin cfg account_id totp_failed_msg
      | Some storage_key \<Rightarrow>
          pbind (on_tpm (unseal_data k storage_key sealed_totp_secret)) (\<lambda>data.
          pbindE (pret (or_err TpmError
            (Option.bind data (\<lambda>b. Option.bind (from_utf8 b) (\<lambda>s. Option.bind (de_totp k s) (totp_new k)))))) (\<lambda>totp.
          pbind (on_hb hb_now) (\<lambda>now.
          pbindE (pret (or_err TpmError (totp_check_current k totp cred now))) (\<lambda>ok.
          if ok then
            pbindE (if pending \<noteq> None then put_key k (fetch_hello_totp_key_tag account_id) sealed_totp_secret
              else pret (Inr ())) (\<lambda>_.
            pbind (on_hb (reset_bad_pin_count account_id)) (\<lambda>_.
            pret (Inr (Auth_Success token))))
          else deny_pin cfg account_id totp_failed_msg)))))))))"

text \<open>
  \<open>load_cached_prt\<close>: \<open>Some\<close> answer for the caller to return with. Providers without
  PRTs skip it.
\<close>

definition load_cached_prt :: "'h hello_crates \<Rightarrow> bool \<Rightarrow> string \<Rightarrow> opaque \<Rightarrow> string \<Rightarrow> opaque
    \<Rightarrow> ('h, IdpError + AuthResult option) hb_prog" where
  "load_cached_prt k has_prts account_id hello_key cred machine_key =
     (if \<not> has_prts then pret (Inr None)
      else
        pbind (get_key k (fetch_hello_prt_key_tag account_id)) (\<lambda>r.
        (case r of
           Inr (Some hello_prt) \<Rightarrow>
             pbind (on_tpm (unseal_user_prt k hello_prt hello_key cred machine_key)) (\<lambda>p.
             pbindE (pret (or_err TpmError p)) (\<lambda>prt.
             pbind (on_tpm (is_prt_expired k prt machine_key)) (\<lambda>e.
             pbindE (pret (or_err TpmError e)) (\<lambda>expired.
             if expired then
               pret (Inr (Some (Auth_Denied ''Offline auth has expired. Please connect to the network to continue.'')))
             else
               pbind (on_hb (refresh_add account_id (Prt prt))) (\<lambda>_.
               pret (Inr None))))))
         | _ \<Rightarrow> pret (Inr None))))"

definition load_cached_refresh_token :: "'h hello_crates \<Rightarrow> string \<Rightarrow> opaque \<Rightarrow> ('h, IdpError + unit) hb_prog" where
  "load_cached_refresh_token k account_id storage_key =
     pbind (get_key k (fetch_hello_refresh_token_key_tag account_id)) (\<lambda>r.
     (case r of
        Inr (Some sealed) \<Rightarrow>
          pbind (on_tpm (unseal_data k storage_key sealed)) (\<lambda>data.
          pbindE (pret (or_err TpmError (Option.bind data from_utf8))) (\<lambda>tok.
          pbind (on_hb (refresh_add account_id (RefreshToken tok))) (\<lambda>_.
          pret (Inr ()))))
      | _ \<Rightarrow> pret (Inr ())))"

definition offline_pin_step :: "'h hello_crates \<Rightarrow> hb_config \<Rightarrow> bool \<Rightarrow> string \<Rightarrow> UserToken \<Rightarrow> string \<Rightarrow> opaque
    \<Rightarrow> ('h, IdpError + AuthResult) hb_prog" where
  "offline_pin_step k cfg has_prts account_id token cred machine_key =
     pbindE (on_store (fetch_hello_key k account_id)) (\<lambda>(hello_key, _).
     pbindE (pret (or_err TpmError (pin_value_new k cred))) (\<lambda>pin.
     pbind (on_tpm (ms_hello_key_load k machine_key hello_key pin)) (\<lambda>loaded.
     (case loaded of
        None \<Rightarrow> deny_pin cfg account_id ''Failed to authenticate with Hello PIN.''
      | Some storage_key \<Rightarrow>
          pbindE (load_cached_prt k has_prts account_id hello_key cred machine_key) (\<lambda>early.
          (case early of
             Some res \<Rightarrow> pret (Inr res)
           | None \<Rightarrow>
               pbindE (load_cached_refresh_token k account_id storage_key) (\<lambda>_.
               pbind (check_hello_totp_setup k account_id) (\<lambda>setup.
               if setup \<and> cfg_enable_hello_totp cfg then
                 pret (Inr (Auth_Next (AR_HelloTOTP ''Please enter your Hello TOTP code from your Authenticator: '')))
               else
                 pbind (on_hb (reset_bad_pin_count account_id)) (\<lambda>_.
                 pret (Inr (Auth_Success token)))))))))))"

text \<open>The step leaves the session's handler as it is.\<close>

definition offline_auth_step :: "'h hello_crates \<Rightarrow> hb_config \<Rightarrow> bool \<Rightarrow> string \<Rightarrow> UserToken \<Rightarrow> AuthCredHandler
    \<Rightarrow> PamAuthRequest \<Rightarrow> opaque \<Rightarrow> bool \<Rightarrow> ('h, (IdpError + AuthResult) \<times> AuthCredHandler) hb_prog" where
  "offline_auth_step k cfg has_prts account_id token cred_handler req machine_key online_at_init =
     pbind
       (case req of
          PQ_Pin cred \<Rightarrow> offline_pin_step k cfg has_prts account_id token cred machine_key
        | PQ_HelloTOTP cred \<Rightarrow>
            (case cred_handler of
               CH_HelloTOTP hello_pin pending \<Rightarrow>
                 hello_pin_totp_auth k cfg account_id token cred hello_pin machine_key pending
             | _ \<Rightarrow> pret (Inl BadRequest))
        | _ \<Rightarrow> pret (Inl BadRequest)) (\<lambda>r.
     pret (r, cred_handler))"

section \<open>Going offline and online\<close>

definition hb_offline_break_glass :: "hb_config \<Rightarrow> u64 option \<Rightarrow> (hb_state, IdpError + unit) prog" where
  "hb_offline_break_glass cfg ttl =
     (if cfg_offline_breakglass_enabled cfg then
        pbind hb_now (\<lambda>now.
        (case time_add_secs now (unat (case ttl of Some t \<Rightarrow> t | None \<Rightarrow> cfg_offline_breakglass_ttl cfg)) of
           None \<Rightarrow> ppanic
         | Some t \<Rightarrow> pbind (pmodify (\<lambda>p. p\<lparr>hb_cachestate := OfflineNextCheck t\<rparr>)) (\<lambda>_. pret (Inr ()))))
      else pret (Inr ()))"

text \<open>\<open>attempt_online\<close> is the provider's own probe.\<close>

definition hb_check_online :: "(systime \<Rightarrow> ('h, bool) hb_prog) \<Rightarrow> systime \<Rightarrow> ('h, bool) hb_prog" where
  "hb_check_online attempt_online now =
     pbind (on_hb (pgets hb_cachestate)) (\<lambda>st.
     (case st of
        Online \<Rightarrow> pret True
      | OfflineNextCheck at_time \<Rightarrow> if at_time \<le> now then attempt_online now else pret False
      | Offline \<Rightarrow> pret False))"

section \<open>Setting the PIN\<close>

definition create_decoupled_hello_key :: "'h hello_crates \<Rightarrow> opaque \<Rightarrow> string \<Rightarrow> ('h, IdpError + opaque) hb_prog" where
  "create_decoupled_hello_key k machine_key cred =
     pbindE (pret (or_err TpmError (pin_value_new k cred))) (\<lambda>pin.
     pbind (on_tpm (ms_hello_key_create k machine_key pin)) (\<lambda>key.
     pret (or_err TpmError key)))"

definition provision_or_create_hello_key :: "'h hello_crates \<Rightarrow> UnixUserToken \<Rightarrow> bool \<Rightarrow> opaque \<Rightarrow> string
    \<Rightarrow> ('h, IdpError + opaque) hb_prog" where
  "provision_or_create_hello_key k token amr_ngcmfa machine_key cred =
     (if amr_ngcmfa then
        pbind (on_tpm (provision_hello_for_business_key k token machine_key cred)) (\<lambda>key.
        pret (or_err TpmError key))
      else create_decoupled_hello_key k machine_key cred)"

text \<open>The provider's initialisation and its probe are parameters.\<close>

definition hb_change_auth_token :: "'h hello_crates \<Rightarrow> ('h, bool) hb_prog \<Rightarrow> (systime \<Rightarrow> ('h, bool) hb_prog)
    \<Rightarrow> string \<Rightarrow> UnixUserToken \<Rightarrow> string \<Rightarrow> opaque \<Rightarrow> bool \<Rightarrow> ('h, IdpError + bool) hb_prog" where
  "hb_change_auth_token k delayed_init attempt_online account_id token cred machine_key amr_ngcmfa =
     pbind delayed_init (\<lambda>ready.
     if \<not> ready then pret (Inl BadRequest)
     else
       pbind (pbind (on_hb hb_now) (hb_check_online attempt_online)) (\<lambda>online.
       if \<not> online then pret (Inl BadRequest)
       else
         (case token_spn k token of
            None \<Rightarrow> pret (Inl BadRequest)
          | Some spn \<Rightarrow>
              if to_lowercase account_id \<noteq> to_lowercase spn then pret (Inl BadRequest)
              else
                pbindE (provision_or_create_hello_key k token amr_ngcmfa machine_key cred) (\<lambda>hello_key.
                pbindE (put_key k (fetch_hello_key_tag account_id amr_ngcmfa) hello_key) (\<lambda>_.
                pret (Inr True))))))"

text \<open>Sealing a fresh PRT, or the refresh token where there is none; failures are only logged.\<close>

definition seal_prt_with_existing_hello_key :: "'h hello_crates \<Rightarrow> string \<Rightarrow> SealedData option \<Rightarrow> string \<Rightarrow> opaque
    \<Rightarrow> string \<Rightarrow> opaque \<Rightarrow> ('h, unit) hb_prog" where
  "seal_prt_with_existing_hello_key k account_id prt refresh_tok hello_key pin machine_key =
     (case prt of
        Some x \<Rightarrow>
          pbind (on_tpm (seal_user_prt k x hello_key pin machine_key)) (\<lambda>r.
          (case r of
             None \<Rightarrow> pret ()
           | Some hello_prt \<Rightarrow> pbind (put_key k (fetch_hello_prt_key_tag account_id) hello_prt) (\<lambda>_. pret ())))
      | None \<Rightarrow>
          (case pin_value_new k pin of
             None \<Rightarrow> pret ()
           | Some pin_val \<Rightarrow>
               pbind (on_tpm (ms_hello_key_load k machine_key hello_key pin_val)) (\<lambda>loaded.
               (case loaded of
                  None \<Rightarrow> pret ()
                | Some storage_key \<Rightarrow>
                    pbind (on_tpm (seal_data k storage_key (as_bytes refresh_tok))) (\<lambda>sealed.
                    (case sealed of
                       None \<Rightarrow> pret ()
                     | Some rt \<Rightarrow>
                         pbind (put_key k (fetch_hello_refresh_token_key_tag account_id) rt) (\<lambda>_. pret ())))))))"

text \<open>Fetching an access token; the two exchanges with the service are parameters.\<close>

definition hb_unix_user_access :: "('h, bool) hb_prog \<Rightarrow> (systime \<Rightarrow> ('h, bool) hb_prog)
    \<Rightarrow> (SealedData \<Rightarrow> ('h, IdpError + UnixUserToken) hb_prog) \<Rightarrow> (string \<Rightarrow> ('h, IdpError + UnixUserToken) hb_prog)
    \<Rightarrow> Id \<Rightarrow> UserToken option \<Rightarrow> ('h, IdpError + UnixUserToken) hb_prog" where
  "hb_unix_user_access delayed_init attempt_online prt_fetch token_fetch i old_token =
     pbind delayed_init (\<lambda>ready.
     if \<not> ready then pret (Inl BadRequest)
     else
       pbind (pbind (on_hb hb_now) (hb_check_online attempt_online)) (\<lambda>online.
       if \<not> online then pret (Inl BadRequest)
       else
         pbindE (on_hb (refresh_token (case old_token of Some t \<Rightarrow> ut_spn t | None \<Rightarrow> id_to_string i))) (\<lambda>entry.
         (case entry of
            Prt prt \<Rightarrow> prt_fetch prt
          | RefreshToken tok \<Rightarrow> token_fetch tok))))"

section \<open>Enrolling a TOTP secret\<close>

definition otpauth_url :: "'h hello_crates \<Rightarrow> string \<Rightarrow> string \<Rightarrow> string \<Rightarrow> string" where
  "otpauth_url k issuer account_id secret =
     ''otpauth://totp/'' @ urlencode k issuer @ '':'' @ urlencode k account_id @ ''?secret='' @ secret
       @ ''&issuer='' @ urlencode k issuer @ ''&algorithm=SHA1&digits=6&period=30''"

text \<open>A fresh secret, sealed with the storage key that the PIN opens.\<close>

definition new_totp_record :: "'h hello_crates \<Rightarrow> string \<Rightarrow> string \<Rightarrow> TotpEnrollmentRecord" where
  "new_totp_record k account_id secret =
     \<lparr>secret_b32 = secret, totp_digits = 6, totp_skew = 1, totp_step = 30,
      totp_issuer = ''Himmelblau '' @ hostname k, totp_account_name = account_id\<rparr>"

definition seal_new_totp :: "'h hello_crates \<Rightarrow> string \<Rightarrow> string \<Rightarrow> opaque
    \<Rightarrow> ('h, IdpError + SealedData \<times> string) hb_prog" where
  "seal_new_totp k account_id hello_pin machine_key =
     pbind (on_tpm (totp_generate k (''Himmelblau '' @ hostname k) account_id)) (\<lambda>g.
     pbindE (pret (or_err TpmError g)) (\<lambda>secret.
     pbindE (pret (or_err TpmError (ser_totp k (new_totp_record k account_id secret)))) (\<lambda>record_json.
     pbindE (pret (or_err TpmError (pin_value_new k hello_pin))) (\<lambda>pin.
     pbindE (on_store (fetch_hello_key k account_id)) (\<lambda>(hello_key, _).
     pbind (on_tpm (ms_hello_key_load k machine_key hello_key pin)) (\<lambda>l.
     pbindE (pret (or_err TpmError l)) (\<lambda>storage_key.
     pbind (on_tpm (seal_data k storage_key (as_bytes record_json))) (\<lambda>sd.
     pbindE (pret (or_err TpmError sd)) (\<lambda>sealed.
     pret (Inr (sealed, otpauth_url k (''Himmelblau '' @ hostname k) account_id secret)))))))))))"

text \<open>The secret is not stored: the handler carries it until a code has been checked.\<close>

definition setup_hello_totp :: "'h hello_crates \<Rightarrow> string \<Rightarrow> string \<Rightarrow> opaque \<Rightarrow> AuthCredHandler
    \<Rightarrow> ('h, (IdpError + AuthResult \<times> AuthCacheAction) \<times> AuthCredHandler) hb_prog" where
  "setup_hello_totp k account_id hello_pin machine_key cred_handler =
     pbind (seal_new_totp k account_id hello_pin machine_key) (\<lambda>r.
     pret (case r of
         Inl e \<Rightarrow> (Inl e, cred_handler)
       | Inr (sealed, msg) \<Rightarrow> (Inr (Auth_Next (AR_HelloTOTP msg), NoCacheAction), CH_HelloTOTP hello_pin (Some sealed))))"

end
