(* ===== verification/Idp_Offline.thy ===== *)
theory Idp_Offline
  imports Idp_Common
begin

text \<open>
  Properties of the providers' shared code: the key store as an interface, the evidence behind an
  offline sign-in, the lockout after wrong PINs, and the TOTP code as second factor.
\<close>

section \<open>The key store\<close>

text \<open>
  What a provider relies on of \<open>KeyStoreTxn\<close>: a map from tags to keys. \<open>ready\<close> holds of a
  store whose statements succeed; the successor states are given by functions, since reading
  counts statements too.
\<close>

locale key_store =
  fixes ready :: "'s \<Rightarrow> bool"
    and stored :: "'s \<Rightarrow> string \<Rightarrow> 'k option"
    and storable :: "'k \<Rightarrow> bool"
    and getk :: "string \<Rightarrow> ('s, 'e + 'k option) prog"
    and putk :: "string \<Rightarrow> 'k \<Rightarrow> ('s, 'e + unit) prog"
    and delk :: "string \<Rightarrow> ('s, 'e + unit) prog"
    and after_get :: "'s \<Rightarrow> 's"
    and after_put :: "string \<Rightarrow> 'k \<Rightarrow> 's \<Rightarrow> 's"
    and after_del :: "string \<Rightarrow> 's \<Rightarrow> 's"
  assumes get_run: "ready s \<Longrightarrow> getk tag s = Return (Inr (stored s tag), after_get s)"
    and put_run: "ready s \<Longrightarrow> storable key \<Longrightarrow> putk tag key s = Return (Inr (), after_put tag key s)"
    and del_run: "ready s \<Longrightarrow> delk tag s = Return (Inr (), after_del tag s)"
    and get_ready: "ready (after_get s) = ready s"
    and put_ready: "ready s \<Longrightarrow> ready (after_put tag key s)"
    and del_ready: "ready s \<Longrightarrow> ready (after_del tag s)"
    and get_keeps: "stored (after_get s) = stored s"
    and put_stored: "storable key \<Longrightarrow> stored (after_put tag key s) = (stored s)(tag \<mapsto> key)"
    and del_stored: "stored (after_del tag s) = (stored s)(tag := None)"
begin

lemmas store_run = get_run put_run del_run get_ready put_ready del_ready get_keeps put_stored del_stored

lemma get_or_else:
  assumes "ready s"
  shows "pbind (getk tag) (\<lambda>r. case r of Inl e \<Rightarrow> g | Inr None \<Rightarrow> g | Inr (Some x) \<Rightarrow> pret (f x)) s =
    (case stored s tag of Some x \<Rightarrow> Return (f x, after_get s) | None \<Rightarrow> g (after_get s))"
  using assms by (simp add: pbind_def pret_def get_run split: option.split)

lemma put_then_get:
  assumes "ready s" and "storable key"
  shows "pbindE (putk tag key) (\<lambda>_. getk tag') s =
    Return (Inr (if tag' = tag then Some key else stored s tag'), after_get (after_put tag key s))"
  using assms by (simp add: pbindE_def pbind_def store_run)

lemma del_all:
  assumes "ready s"
  shows "\<exists>s'. ptry_for_each delk tags s = Return (Inr (), s') \<and> ready s'
    \<and> stored s' = (\<lambda>t. if t \<in> set tags then None else stored s t)"
  using assms
proof (induction tags arbitrary: s)
  case (Cons t ts)
  from Cons.IH [of "after_del t s"] Cons.prems show ?case
    by (fastforce simp: pbindE_def pbind_def store_run)
qed (simp add: pret_def)

end

text \<open>The store of the cache database.\<close>

definition hsm_stored :: "'h hello_crates \<Rightarrow> dbconn \<Rightarrow> string \<Rightarrow> opaque option" where
  "hsm_stored k c tag = Option.bind (map_of (hsm_data_t (cur c)) tag) (de_sealed k)"

definition hsm_storable :: "'h hello_crates \<Rightarrow> opaque \<Rightarrow> bool" where
  "hsm_storable k key \<longleftrightarrow> (case ser_sealed k key of Some b \<Rightarrow> de_sealed k b = Some key | None \<Rightarrow> False)"

definition set_hsm_data :: "((string \<times> bytes) list \<Rightarrow> (string \<times> bytes) list) \<Rightarrow> nat \<Rightarrow> dbconn \<Rightarrow> dbconn" where
  "set_hsm_data f n c = put_cur (cur c\<lparr>hsm_data_t := f (hsm_data_t (cur c))\<rparr>) (c\<lparr>stmt_no := stmt_no c + n\<rparr>)"

lemma set_hsm_data_simps [simp]:
  "hsm_data_t (cur (set_hsm_data f n c)) = f (hsm_data_t (cur c))"
  "sql_ready (set_hsm_data f n c) = sql_ready c"
  by (simp_all add: set_hsm_data_def sql_ready_def)

lemma map_of_drop_key: "map_of (filter (\<lambda>x. fst x \<noteq> t) xs) = (map_of xs)(t := None)"
  by (induction xs) (auto simp: fun_eq_iff)

lemma map_of_kv [simp]:
  "map_of (kv_replace t v xs) = (map_of xs)(t \<mapsto> v)" "map_of (kv_delete t xs) = (map_of xs)(t := None)"
  by (auto simp: kv_replace_def kv_delete_def map_of_drop_key map_of_append fun_eq_iff map_add_def split: option.split)

lemma hsm_data_table [simp]: "''hsm_data_t'' \<in> db_tables"
  by (simp add: db_tables_def)

lemma get_tagged_run:
  "sql_ready c \<Longrightarrow> get_tagged_hsm_key (de_sealed k) tag c
    = Return (Inr (hsm_stored k c tag), set_hsm_data id 2 c)"
  by (simp add: get_tagged_hsm_key_def pbindE_def pbind_def pret_def sql_select_ready sql_prepare_ready
      hsm_stored_def set_hsm_data_def split: option.splits)

lemma delete_tagged_run:
  "sql_ready c \<Longrightarrow> delete_tagged_hsm_key tag c = Return (Inr (), set_hsm_data (kv_delete tag) 1 c)"
  by (auto simp: delete_tagged_hsm_key_def sql_exec_def sql_Inr set_hsm_data_def sql_ready_def dest: subsetD [OF _ hsm_data_table])

lemma insert_tagged_run:
  "sql_ready c \<Longrightarrow> hsm_storable k key \<Longrightarrow> insert_tagged_hsm_key (ser_sealed k) tag key c
    = Return (Inr (), set_hsm_data (kv_replace tag (the (ser_sealed k key))) 2 c)"
  by (auto simp: insert_tagged_hsm_key_def pbindE_def pbind_def sql_prepare_ready sql_exec_def sql_Inr set_hsm_data_def
      hsm_storable_def sql_ready_def dest: subsetD [OF _ hsm_data_table] split: option.splits)

interpretation hsm: key_store sql_ready "hsm_stored k" "hsm_storable k" "get_tagged_hsm_key (de_sealed k)"
  "insert_tagged_hsm_key (ser_sealed k)" delete_tagged_hsm_key "set_hsm_data id 2"
  "\<lambda>tag key. set_hsm_data (kv_replace tag (the (ser_sealed k key))) 2"
  "\<lambda>tag. set_hsm_data (kv_delete tag) 1"
  for k :: "'h hello_crates"
  by unfold_locales (auto simp: get_tagged_run delete_tagged_run insert_tagged_run hsm_stored_def hsm_storable_def
      fun_eq_iff split: option.splits)

section \<open>Running the shared code\<close>

text \<open>Programs on a part of the state, as equations.\<close>

lemma part_run:
  "on_store m (c, x) = (case m c of Return (a, c') \<Rightarrow> Return (a, c', x) | Panic \<Rightarrow> Panic | Blocked \<Rightarrow> Blocked)"
  "on_hb n (c, h, p) = (case n p of Return (a, p') \<Rightarrow> Return (a, c, h, p') | Panic \<Rightarrow> Panic | Blocked \<Rightarrow> Blocked)"
  "on_tpm f (c, h, p) = (case f h of (a, h') \<Rightarrow> Return (a, c, h', p))"
  by (simp_all add: on_store_def on_hb_def on_tpm_def pzoom_def split: outcome.split)

lemma fetch_hello_key_run:
  assumes "sql_ready c"
  shows "fetch_hello_key k a c =
    (case hsm_stored k c (fetch_hello_key_tag a True) of
       Some key \<Rightarrow> Return (Inr (key, KT_Hello), set_hsm_data id 2 c)
     | None \<Rightarrow> (case hsm_stored k c (fetch_hello_key_tag a False) of
           Some key \<Rightarrow> Return (Inr (key, KT_Decoupled), set_hsm_data id 2 (set_hsm_data id 2 c))
         | None \<Rightarrow> Return (Inl BadRequest, set_hsm_data id 2 (set_hsm_data id 2 c))))"
  using assms unfolding fetch_hello_key_def
  by (simp add: hsm.get_or_else pbind_def pret_def hsm.store_run split: option.split)

section \<open>Evidence behind an offline sign-in\<close>

text \<open>What the store holds and whether it answers; reading leaves it.\<close>

definition store_view :: "dbconn \<times> 'x \<Rightarrow> tables \<times> (nat \<Rightarrow> bool)" where
  "store_view s = (cur (fst s), sql_fault (fst s))"

lemma get_tagged_Return:
  assumes "get_tagged_hsm_key (de_sealed k) tag c = Return (r, c')"
  shows "cur c' = cur c \<and> sql_fault c' = sql_fault c \<and> (\<forall>key. r = Inr (Some key) \<longrightarrow> hsm_stored k c tag = Some key)"
  using assms
  by (auto simp: get_tagged_hsm_key_def pbindE_Return sql_prepare_def sql_exec_def sql_select_def sql_def Let_def
      hsm_stored_def split: if_splits option.splits)

lemma on_store_Return:
  "on_store m s = Return (a, t) \<longleftrightarrow> (\<exists>c'. m (fst s) = Return (a, c') \<and> t = (c', snd s))"
  by (auto simp: on_store_def pzoom_Return)

lemma get_key_Return:
  assumes "get_key k tag s = Return (r, t)"
  shows "store_view t = store_view s \<and> snd t = snd s \<and> (\<forall>key. r = Inr (Some key) \<longrightarrow> hsm_stored k (fst s) tag = Some key)"
  using assms get_tagged_Return [of k tag "fst s"] by (auto simp: get_key_def on_store_Return store_view_def)

lemma get_key_leaves: "leaves store_view (get_key k tag)"
  by (auto simp: leaves_def dest: get_key_Return)

lemma on_tpm_leaves: "leaves store_view (on_tpm f)"
  by (auto simp: leaves_def on_tpm_def store_view_def split: prod.splits)

lemma on_hb_leaves: "leaves store_view (on_hb m)"
  unfolding on_hb_def by (intro leaves_pzoom) (simp add: store_view_def)

lemmas hb_leaves = leaves_flow get_key_leaves on_tpm_leaves on_hb_leaves

lemma load_cached_prt_leaves: "leaves store_view (load_cached_prt k b a key cred mk)"
  unfolding load_cached_prt_def by (intro hb_leaves)

lemma load_cached_refresh_token_leaves: "leaves store_view (load_cached_refresh_token k a sk)"
  unfolding load_cached_refresh_token_def by (intro hb_leaves)

lemma fetch_hello_key_Return:
  assumes "fetch_hello_key k a c = Return (r, c')"
  shows "cur c' = cur c \<and> sql_fault c' = sql_fault c \<and> (\<forall>key kt. r = Inr (key, kt) \<longrightarrow>
    hsm_stored k c (fetch_hello_key_tag a (kt = KT_Hello)) = Some key)"
proof -
  obtain r1 c1 where 1: "get_tagged_hsm_key (de_sealed k) (fetch_hello_key_tag a True) c = Return (r1, c1)"
    using assms unfolding fetch_hello_key_def pbind_Return by blast
  note g1 = get_tagged_Return [OF 1]
  have stored: "hsm_stored k c1 = hsm_stored k c"
    using g1 by (simp add: hsm_stored_def fun_eq_iff)
  have second: ?thesis
    if two: "pbind (get_tagged_hsm_key (de_sealed k) (fetch_hello_key_tag a False)) (\<lambda>r2. pret (case r2 of
        Inl e \<Rightarrow> Inl BadRequest | Inr None \<Rightarrow> Inl BadRequest | Inr (Some key) \<Rightarrow> Inr (key, KT_Decoupled))) c1
      = Return (r, c')"
  proof -
    from two obtain r2 where 2: "get_tagged_hsm_key (de_sealed k) (fetch_hello_key_tag a False) c1 = Return (r2, c')"
      and r: "r = (case r2 of Inl e \<Rightarrow> Inl BadRequest | Inr None \<Rightarrow> Inl BadRequest
        | Inr (Some key) \<Rightarrow> Inr (key, KT_Decoupled))"
      unfolding pbind_Return by auto
    from get_tagged_Return [OF 2] g1 stored show ?thesis
      unfolding r by (cases r2) (auto split: option.splits)
  qed
  from assms have run: "(case r1 of Inl e \<Rightarrow> pbind (get_tagged_hsm_key (de_sealed k) (fetch_hello_key_tag a False)) (\<lambda>r2.
      pret (case r2 of Inl e \<Rightarrow> Inl BadRequest | Inr None \<Rightarrow> Inl BadRequest | Inr (Some key) \<Rightarrow> Inr (key, KT_Decoupled)))
    | Inr None \<Rightarrow> pbind (get_tagged_hsm_key (de_sealed k) (fetch_hello_key_tag a False)) (\<lambda>r2.
      pret (case r2 of Inl e \<Rightarrow> Inl BadRequest | Inr None \<Rightarrow> Inl BadRequest | Inr (Some key) \<Rightarrow> Inr (key, KT_Decoupled)))
    | Inr (Some key) \<Rightarrow> pret (Inr (key, KT_Hello))) c1 = Return (r, c')"
    unfolding fetch_hello_key_def pbind_def [of "get_tagged_hsm_key (de_sealed k) (fetch_hello_key_tag a True)"] 1
    by simp
  show ?thesis
  proof (cases r1)
    case (Inl e)
    with run show ?thesis by (intro second) simp
  next
    case (Inr x)
    show ?thesis
    proof (cases x)
      case None
      with run Inr show ?thesis by (intro second) simp
    next
      case (Some key)
      with run Inr g1 show ?thesis by auto
    qed
  qed
qed

text \<open>The PIN opens the stored Hello key at the state \<open>h\<close> of the TPM, which is \<open>h'\<close> afterwards.\<close>

definition pin_opens :: "'h hello_crates \<Rightarrow> dbconn \<Rightarrow> 'h \<Rightarrow> string \<Rightarrow> opaque \<Rightarrow> string \<Rightarrow> opaque \<Rightarrow> 'h \<Rightarrow> bool" where
  "pin_opens k c h a mk pin sk h' \<longleftrightarrow> (\<exists>b key pv. hsm_stored k c (fetch_hello_key_tag a b) = Some key
     \<and> pin_value_new k pin = Some pv \<and> ms_hello_key_load k mk key pv h = (Some sk, h'))"

text \<open>The code is current at the time \<open>now\<close> for the secret that the TPM unseals at the state \<open>h\<close>.\<close>

definition totp_accepts :: "'h hello_crates \<Rightarrow> 'h \<Rightarrow> opaque \<Rightarrow> SealedData \<Rightarrow> string \<Rightarrow> systime \<Rightarrow> bool" where
  "totp_accepts k h sk sealed code now \<longleftrightarrow> (\<exists>data txt rec totp. fst (unseal_data k sk sealed h) = Some data
     \<and> from_utf8 data = Some txt \<and> de_totp k txt = Some rec \<and> totp_new k rec = Some totp
     \<and> totp_check_current k totp code now = Some True)"

text \<open>What the clock of the provider tells next.\<close>

definition hb_time :: "hb_state \<Rightarrow> systime" where
  "hb_time p = hb_clock p (hb_tick p)"

lemma on_hb_now: "on_hb hb_now s = Return (now, t) \<Longrightarrow> now = hb_time (snd (snd s))"
  by (auto simp: on_hb_def pzoom_Return hb_now_def hb_time_def)

lemma deny_pin_not_success: "deny_pin cfg a m s \<noteq> Return (Inr (Auth_Success u), t)"
  by (auto simp: deny_pin_def pbindE_Return)

lemma hb_stored_cong: "store_view s = store_view t \<Longrightarrow> hsm_stored k (fst s) = hsm_stored k (fst t)"
  by (simp add: store_view_def hsm_stored_def fun_eq_iff)

lemma sql_ready_cong: "store_view s = store_view t \<Longrightarrow> sql_ready (fst s) = sql_ready (fst t)"
  by (simp add: store_view_def sql_ready_def)

lemma on_tpm_Return: "on_tpm f s = Return (a, t) \<longleftrightarrow> a = fst (f (fst (snd s))) \<and> t = (fst s, snd (f (fst (snd s))), snd (snd s))"
  by (cases s) (auto simp: on_tpm_def split: prod.splits)

lemma or_err_Inr [simp]: "or_err e x = Inr a \<longleftrightarrow> x = Some a" "Inr a = or_err e x \<longleftrightarrow> x = Some a"
  by (auto simp: or_err_def split: option.splits)

text \<open>The second factor is due: it is enabled, and the store answers and has a secret.\<close>

definition totp_due :: "'h hello_crates \<Rightarrow> hb_config \<Rightarrow> dbconn \<Rightarrow> string \<Rightarrow> bool" where
  "totp_due k cfg c a \<longleftrightarrow> cfg_enable_hello_totp cfg \<and> sql_ready c \<and> hsm_stored k c (fetch_hello_totp_key_tag a) \<noteq> None"

lemma reset_Return:
  "on_hb (reset_bad_pin_count a) s = Return (x, t) \<Longrightarrow> map_of (hb_bad_pins (snd (snd t))) a = Some 0"
  by (auto simp: on_hb_def pzoom_Return reset_bad_pin_count_def)

lemma check_setup_ready:
  "check_hello_totp_setup k a s = Return (b, t) \<Longrightarrow> sql_ready (fst s) \<Longrightarrow>
    b = (hsm_stored k (fst s) (fetch_hello_totp_key_tag a) \<noteq> None)"
  by (cases s) (auto simp: check_hello_totp_setup_def get_key_def pbind_Return on_store_Return hsm.get_run split: option.splits)

lemma on_store_fetch:
  assumes "on_store (fetch_hello_key k a) s = Return (Inr (key, kt), t)"
  shows "hsm_stored k (fst s) (fetch_hello_key_tag a (kt = KT_Hello)) = Some key" "store_view t = store_view s" "snd t = snd s"
  using assms fetch_hello_key_Return [of k a "fst s"] by (auto simp: on_store_Return store_view_def)

lemma load_cached_prt_not_success: "load_cached_prt k b a key pin mk s \<noteq> Return (Inr (Some (Auth_Success u)), t)"
  unfolding load_cached_prt_def by (rule notI) (elim run_elims, simp_all)

lemma ready_after:
  assumes "store_view t = store_view s"
  shows "hsm_stored k (fst t) = hsm_stored k (fst s)" "sql_ready (fst t) = sql_ready (fst s)"
  using assms hb_stored_cong sql_ready_cong by blast+

lemma pin_opensI:
  assumes fetch: "on_store (fetch_hello_key k a) s = Return (Inr (key, kt), t)" and "pin_value_new k pin = Some pv"
    and load: "on_tpm (ms_hello_key_load k mk key pv) t = Return (Some sk, u)"
  shows "pin_opens k (fst s) (fst (snd s)) a mk pin sk (fst (snd u))"
  unfolding pin_opens_def using on_store_fetch [OF fetch] assms
  by (intro exI [of _ "kt = KT_Hello"] exI [of _ key] exI [of _ pv]) (simp add: on_tpm_Return prod_eq_iff)

lemma offline_pin_step_success:
  assumes "offline_pin_step k cfg has_prts a token pin mk s = Return (Inr (Auth_Success u), t)"
  shows "u = token \<and> (\<exists>sk h. pin_opens k (fst s) (fst (snd s)) a mk pin sk h) \<and> \<not> totp_due k cfg (fst s) a
    \<and> map_of (hb_bad_pins (snd (snd t))) a = Some 0"
  using assms unfolding offline_pin_step_def
proof (elim run_elims, simp_all add: deny_pin_not_success load_cached_prt_not_success)
  fix s1 s2 s3 s4 s5 key kt pv sk enr
  assume fetch: "on_store (fetch_hello_key k a) s = Return (Inr (key, kt), s1)" and pv: "pin_value_new k pin = Some pv"
    and load: "on_tpm (ms_hello_key_load k mk key pv) s1 = Return (Some sk, s2)"
    and prt: "load_cached_prt k has_prts a key pin mk s2 = Return (Inr None, s3)"
    and tok: "load_cached_refresh_token k a sk s3 = Return (Inr (), s4)"
    and enr: "check_hello_totp_setup k a s4 = Return (enr, s5)" "enr \<longrightarrow> \<not> cfg_enable_hello_totp cfg"
    and reset: "on_hb (reset_bad_pin_count a) s5 = Return ((), t)"
  note f = on_store_fetch [OF fetch]
  have "store_view s4 = store_view s"
    using leavesD [OF load_cached_refresh_token_leaves tok] leavesD [OF load_cached_prt_leaves prt]
      leavesD [OF on_tpm_leaves load] f(2) by simp
  note at4 = ready_after [OF this]
  have "\<exists>sk. Ex (pin_opens k (fst s) (fst (snd s)) a mk pin sk)"
    using pin_opensI [OF fetch pv load] by blast
  moreover have "\<not> totp_due k cfg (fst s) a"
    unfolding totp_due_def using enr check_setup_ready [OF enr(1)] by (auto simp: at4)
  ultimately show "(\<exists>sk. Ex (pin_opens k (fst s) (fst (snd s)) a mk pin sk)) \<and> \<not> totp_due k cfg (fst s) a
      \<and> map_of (hb_bad_pins (snd (snd t))) a = Some 0"
    using reset_Return [OF reset] by blast
qed

text \<open>The sealed secret a code is checked against: the one being enrolled, or the stored one.\<close>

definition totp_secret_of :: "'h hello_crates \<Rightarrow> dbconn \<Rightarrow> string \<Rightarrow> SealedData option \<Rightarrow> SealedData option" where
  "totp_secret_of k c a pending = (case pending of Some x \<Rightarrow> Some x | None \<Rightarrow> hsm_stored k c (fetch_hello_totp_key_tag a))"

lemma sealed_totp_secret_of_Return:
  assumes "sealed_totp_secret_of k a pending s = Return (Inr sealed, t)"
  shows "totp_secret_of k (fst s) a pending = Some sealed" "store_view t = store_view s" "snd t = snd s"
  using assms unfolding sealed_totp_secret_of_def totp_secret_of_def
  by (auto elim!: run_elims dest!: get_key_Return split: sum.splits option.splits)

lemma totp_evidence:
  assumes secret: "sealed_totp_secret_of k a pending s = Return (Inr sealed, s1)"
    and fetch: "on_store (fetch_hello_key k a) s1 = Return (Inr (key, kt), s2)" and "pin_value_new k pin = Some pv"
    and load: "on_tpm (ms_hello_key_load k mk key pv) s2 = Return (Some sk, s3)"
    and unseal: "on_tpm (unseal_data k sk sealed) s3 = Return (data, s4)"
    and totp: "Option.bind data (\<lambda>b. Option.bind (from_utf8 b) (\<lambda>s. Option.bind (de_totp k s) (totp_new k))) = Some totp"
    and now: "on_hb hb_now s4 = Return (now, s5)" and check: "totp_check_current k totp code now = Some True"
  shows "\<exists>sk h. pin_opens k (fst s) (fst (snd s)) a mk pin sk h
    \<and> (\<exists>sealed. totp_secret_of k (fst s) a pending = Some sealed \<and> totp_accepts k h sk sealed code (hb_time (snd (snd s))))"
proof -
  note at1 = sealed_totp_secret_of_Return [OF secret]
  have opens: "pin_opens k (fst s) (fst (snd s)) a mk pin sk (fst (snd s3))"
    using pin_opensI [OF fetch assms(3) load] at1(3) by (simp add: pin_opens_def ready_after(1) [OF at1(2)])
  have "snd (snd s4) = snd (snd s)"
    using unseal load on_store_fetch(3) [OF fetch] at1(3) by (simp add: on_tpm_Return)
  with on_hb_now [OF now] have "now = hb_time (snd (snd s))" by simp
  then have "totp_accepts k (fst (snd s3)) sk sealed code (hb_time (snd (snd s)))"
    unfolding totp_accepts_def using unseal totp check by (auto simp: on_tpm_Return bind_eq_Some_conv)
  with opens show ?thesis using at1(1) by blast
qed

lemma hello_pin_totp_success:
  assumes "hello_pin_totp_auth k cfg a token code pin mk pending s = Return (Inr (Auth_Success u), t)"
  shows "u = token \<and> (\<exists>sk h sealed. pin_opens k (fst s) (fst (snd s)) a mk pin sk h
      \<and> totp_secret_of k (fst s) a pending = Some sealed \<and> totp_accepts k h sk sealed code (hb_time (snd (snd s))))
    \<and> map_of (hb_bad_pins (snd (snd t))) a = Some 0"
  using assms unfolding hello_pin_totp_auth_def
  by (elim run_elims) (simp_all add: deny_pin_not_success, (intro conjI totp_evidence reset_Return, assumption+)+)

section \<open>A sample provider\<close>

lemma unat_of_char: "unat (of_char c :: u8) = of_char c"
proof -
  have "(of_char c :: u8) = of_nat (of_char c)" by (simp add: of_char_def)
  then show ?thesis by (simp add: unat_of_nat)
qed

definition sample_crates :: "unit hello_crates" where
  "sample_crates = \<lparr>
     pin_value_new = (\<lambda>p. if 4 \<le> length p then Some p else None),
     ms_hello_key_load = (\<lambda>mk key pin h. (if key = pin then Some (mk @ key) else None, h)),
     ms_hello_key_create = (\<lambda>mk pin h. (Some pin, h)),
     unseal_data = (\<lambda>sk d h. (if take (length sk) d = sk then Some (as_bytes (drop (length sk) d)) else None, h)),
     seal_data = (\<lambda>sk d h. (Some (sk @ map (\<lambda>x. char_of (unat x)) d), h)),
     unseal_user_prt = (\<lambda>p key pin mk h. (Some p, h)), seal_user_prt = (\<lambda>p key pin mk h. (Some p, h)),
     is_prt_expired = (\<lambda>p mk h. (Some False, h)),
     ser_sealed = (\<lambda>x. Some (as_bytes x)), de_sealed = (\<lambda>b. Some (map (\<lambda>x. char_of (unat x)) b)),
     ser_totp = (\<lambda>r. if r = \<lparr>secret_b32 = ''JBSW'', totp_digits = 6, totp_skew = 1, totp_step = 30,
       totp_issuer = ''Himmelblau host'', totp_account_name = ''alice@example.com''\<rparr> then Some ''JBSW'' else None),
     de_totp = (\<lambda>x. Some \<lparr>secret_b32 = x, totp_digits = 6, totp_skew = 1, totp_step = 30,
       totp_issuer = ''Himmelblau host'', totp_account_name = ''alice@example.com''\<rparr>),
     totp_new = (\<lambda>r. Some (secret_b32 r)),
     totp_generate = (\<lambda>i a h. (Some ''JBSW'', h)),
     totp_check_current = (\<lambda>t code now. Some (code = t)),
     provision_hello_for_business_key = (\<lambda>t mk pin h. (if 4 \<le> length pin then Some pin else None, h)), token_spn = (\<lambda>t. Some ''alice@example.com''),
     hostname = ''host'', urlencode = (\<lambda>x. x),
     ser_prts = (\<lambda>_. Some []), de_prts = (\<lambda>_. Some [])\<rparr>"

definition sample_cfg :: hb_config where
  "sample_cfg = \<lparr>cfg_hello_pin_retry_count = 3, cfg_enable_sfa_fallback = False, cfg_offline_breakglass_enabled = False,
     cfg_offline_breakglass_ttl = 3600, cfg_enable_hello_totp = True\<rparr>"

definition sample_hb :: hb_state where
  "sample_hb = \<lparr>hb_prts = [], hb_refresh_tokens = [], hb_bad_pins = [], hb_cachestate = Offline,
     hb_clock = (\<lambda>n. int n * 1000000000), hb_tick = 5, slept = 0\<rparr>"

text \<open>A store with the given keys.\<close>

definition sample_store :: "(string \<times> string) list \<Rightarrow> dbconn" where
  "sample_store kv = set_hsm_data (\<lambda>_. map (\<lambda>(t, v). (t, as_bytes v)) kv) 0 sample_conn"

lemma sample_store_simps [simp]:
  "sql_ready (sample_store kv)"
  "hsm_stored sample_crates (sample_store kv) = map_of kv"
proof -
  show "sql_ready (sample_store kv)" by (simp add: sample_store_def)
  have back_again: "map (\<lambda>x. char_of (unat (of_char x :: u8))) v = v" for v :: string
    by (induction v) (simp_all add: unat_of_char)
  show "hsm_stored sample_crates (sample_store kv) = map_of kv"
    by (induction kv) (auto simp: fun_eq_iff hsm_stored_def sample_store_def sample_crates_def as_bytes_def comp_def back_again)
qed

lemma offline_success_evidence:
  assumes "offline_auth_step k cfg has_prts a token ch req mk online s = Return ((Inr (Auth_Success u), ch'), t)"
  shows "u = token \<and> ch' = ch \<and> map_of (hb_bad_pins (snd (snd t))) a = Some 0
    \<and> ((\<exists>pin sk h. req = PQ_Pin pin \<and> pin_opens k (fst s) (fst (snd s)) a mk pin sk h \<and> \<not> totp_due k cfg (fst s) a)
     \<or> (\<exists>code pin pending sk h sealed. req = PQ_HelloTOTP code \<and> ch = CH_HelloTOTP pin pending
          \<and> pin_opens k (fst s) (fst (snd s)) a mk pin sk h
          \<and> totp_secret_of k (fst s) a pending = Some sealed \<and> totp_accepts k h sk sealed code (hb_time (snd (snd s)))))"
  using assms unfolding offline_auth_step_def
  by (elim run_elims)
    (auto split: PamAuthRequest.splits AuthCredHandler.splits dest!: offline_pin_step_success hello_pin_totp_success)

section \<open>What offline steps guarantee\<close>

text \<open>
  C23. An offline step reports success only for the token it was given, and only if the PIN opens
  a stored Hello key of the account at this very state of the TPM: either the PIN of the request,
  when no second factor is due, or the PIN kept in the session, together with a code that at the time of the
  step is current for the secret that the PIN's storage key unseals. A success resets the count of wrong PINs, and the session's
  handler is never changed. This holds whatever statements of the store fail.
\<close>

theorem offline_success_sound:
  assumes "offline_auth_step k cfg has_prts a token ch req mk online s = Return ((Inr (Auth_Success u), ch'), t)"
  shows "u = token \<and> ch' = ch \<and> map_of (hb_bad_pins (snd (snd t))) a = Some 0
    \<and> ((\<exists>pin sk h. req = PQ_Pin pin \<and> pin_opens k (fst s) (fst (snd s)) a mk pin sk h \<and> \<not> totp_due k cfg (fst s) a)
     \<or> (\<exists>code pin pending sk h sealed. req = PQ_HelloTOTP code \<and> ch = CH_HelloTOTP pin pending
          \<and> pin_opens k (fst s) (fst (snd s)) a mk pin sk h
          \<and> totp_secret_of k (fst s) a pending = Some sealed \<and> totp_accepts k h sk sealed code (hb_time (snd (snd s)))))"
  using assms by (rule offline_success_evidence)

text \<open>The shared code runs through on a store that answers.\<close>

lemmas hb_run = pbind_def pbindE_def pret_def pgets_def pmodify_def map_err_def part_run get_key_def put_key_def delete_key_def or_err_def
  hsm.store_run fetch_hello_key_run

lemma alice_tags [simp]:
  "fetch_hello_key_tag ''alice@example.com'' True = ''alice@example.com/hello''"
  "fetch_hello_key_tag ''alice@example.com'' False = ''alice@example.com/hello_decoupled''"
  "fetch_hello_prt_key_tag ''alice@example.com'' = ''alice@example.com/hello_prt''"
  "fetch_hello_refresh_token_key_tag ''alice@example.com'' = ''alice@example.com/hello_refresh_token''"
  "fetch_hello_totp_key_tag ''alice@example.com'' = ''alice@example.com/hello_totp''"
  by code_simp+

lemma sample_crates_simps [simp]:
  "pin_value_new sample_crates p = (if 4 \<le> length p then Some p else None)"
  "ms_hello_key_load sample_crates mk key pin h = (if key = pin then Some (mk @ key) else None, h)"
  by (simp_all add: sample_crates_def)

abbreviation alice_state :: "(string \<times> string) list \<Rightarrow> dbconn \<times> unit \<times> hb_state" where
  "alice_state kv \<equiv> (sample_store kv, (), sample_hb)"

lemma sample_sign_in:
  "\<exists>t. offline_auth_step sample_crates sample_cfg True ''alice@example.com'' sample_user CH_None (PQ_Pin ''1234'') ''mk'' False
    (alice_state [(''alice@example.com/hello'', ''1234'')]) = Return ((Inr (Auth_Success sample_user), CH_None), t)"
  by (simp add: offline_auth_step_def offline_pin_step_def load_cached_prt_def load_cached_refresh_token_def
      check_hello_totp_setup_def reset_bad_pin_count_def hb_run)

theorem offline_success_sound_witness:
  "\<exists>pin sk h. pin_opens sample_crates (sample_store [(''alice@example.com/hello'', ''1234'')]) () ''alice@example.com'' ''mk'' pin sk h"
  using sample_sign_in offline_success_sound [where s = "alice_state [(''alice@example.com/hello'', ''1234'')]"
      and k = sample_crates and cfg = sample_cfg and req = "PQ_Pin ''1234''" and ch = CH_None and u = sample_user and a = "''alice@example.com''"]
  by fastforce

section \<open>The second factor\<close>

text \<open>
  The provider's steps one after the other, each with the handler the one before left. The resolver passes PINs and codes on to these steps; it
  checks passwords itself, so this is not yet a session (see \<^theory_text>\<open>Offline_Session\<close>).
\<close>

fun offline_steps :: "'h hello_crates \<Rightarrow> hb_config \<Rightarrow> bool \<Rightarrow> string \<Rightarrow> UserToken \<Rightarrow> opaque \<Rightarrow> AuthCredHandler \<Rightarrow> PamAuthRequest list
    \<Rightarrow> ('h, (IdpError + AuthResult) list) hb_prog" where
  "offline_steps k cfg hp a token mk ch [] = pret []"
| "offline_steps k cfg hp a token mk ch (req # reqs) =
     pbind (offline_auth_step k cfg hp a token ch req mk False) (\<lambda>(r, ch').
     pbind (offline_steps k cfg hp a token mk ch' reqs) (\<lambda>rs.
     pret (r # rs)))"

definition totp_view :: "'h hello_crates \<Rightarrow> string \<Rightarrow> dbconn \<times> 'x \<Rightarrow> bool \<times> opaque option" where
  "totp_view k a s = (sql_ready (fst s), hsm_stored k (fst s) (fetch_hello_totp_key_tag a))"

lemma leaves_totp_view: 
  assumes "leaves store_view m"
  shows "leaves (totp_view k a) m"
proof (unfold leaves_def, intro allI impI)
  fix s x t
  assume "m s = Return (x, t)"
  with assms have "store_view t = store_view s" by (rule leavesD)
  then show "totp_view k a t = totp_view k a s" by (simp add: totp_view_def ready_after [of t s])
qed

lemma other_tags [simp]:
  "fetch_hello_key_tag a b \<noteq> fetch_hello_totp_key_tag a" "fetch_hello_prt_key_tag a \<noteq> fetch_hello_totp_key_tag a"
  "fetch_hello_refresh_token_key_tag a \<noteq> fetch_hello_totp_key_tag a"
  by (simp_all add: fetch_hello_key_tag_def fetch_hello_prt_key_tag_def fetch_hello_refresh_token_key_tag_def
      fetch_hello_totp_key_tag_def)

lemma delete_key_leaves: "tag \<noteq> fetch_hello_totp_key_tag a \<Longrightarrow> leaves (totp_view k a) (delete_key tag)"
  unfolding delete_key_def
  by (intro leaves_map_err) (auto simp: leaves_def on_store_Return totp_view_def delete_tagged_hsm_key_def sql_exec_def
      sql_def Let_def sql_ready_def hsm_stored_def split: if_splits)

lemma deny_pin_leaves: "leaves (totp_view k a) (deny_pin cfg a msg)"
  unfolding deny_pin_def handle_hello_bad_pin_count_def ptry_for_each.simps
  by (intro leaves_flow delete_key_leaves leaves_totp_view [OF on_hb_leaves]) simp_all

lemma on_store_fetch_leaves: "leaves store_view (on_store (fetch_hello_key k a))"
  by (auto simp: leaves_def on_store_Return store_view_def dest: fetch_hello_key_Return)

lemma check_setup_leaves: "leaves store_view (check_hello_totp_setup k a)"
  unfolding check_hello_totp_setup_def by (intro hb_leaves)

lemma offline_pin_step_leaves: "leaves (totp_view k a) (offline_pin_step k cfg hp a token pin mk)"
  unfolding offline_pin_step_def
  by (intro leaves_flow deny_pin_leaves leaves_totp_view [OF on_hb_leaves] leaves_totp_view [OF on_tpm_leaves]
      leaves_totp_view [OF load_cached_prt_leaves] leaves_totp_view [OF load_cached_refresh_token_leaves]
      leaves_totp_view [OF on_store_fetch_leaves] leaves_totp_view [OF check_setup_leaves])

lemma totp_due_view: "totp_due k cfg (fst s) a \<longleftrightarrow> cfg_enable_hello_totp cfg \<and> fst (totp_view k a s) \<and> snd (totp_view k a s) \<noteq> None"
  by (simp add: totp_due_def totp_view_def)

lemma offline_step_totp_due:
  assumes step: "offline_auth_step k cfg hp a token CH_None req mk b s = Return ((r, ch), t)" and due: "totp_due k cfg (fst s) a"
  shows "ch = CH_None \<and> totp_due k cfg (fst t) a \<and> (\<forall>u. r \<noteq> Inr (Auth_Success u))"
proof -
  have "ch = CH_None \<and> totp_view k a t = totp_view k a s"
    using step unfolding offline_auth_step_def
    by (elim run_elims) (auto split: PamAuthRequest.splits dest: leavesD [OF offline_pin_step_leaves])
  moreover have "r \<noteq> Inr (Auth_Success u)" for u
    using step due by (auto dest!: offline_success_evidence)
  ultimately show ?thesis using due by (simp add: totp_due_view)
qed

definition alice_keys :: "(string \<times> string) list" where
  "alice_keys = [(''alice@example.com/hello'', ''1234''), (''alice@example.com/hello_totp'', ''mk1234JBSW'')]"

text \<open>Reading a key where only the statement with number \<open>n\<close> fails.\<close>

definition fails_only_at :: "nat \<Rightarrow> dbconn \<Rightarrow> bool" where
  "fails_only_at n c \<longleftrightarrow> (\<forall>m. sql_fault c m \<longleftrightarrow> m = n) \<and> db_tables \<subseteq> set (schema (cur c))"

lemma fails_only_at_simps [simp]: "fails_only_at n (set_hsm_data id m c) = fails_only_at n c"
  "stmt_no (set_hsm_data f m c) = stmt_no c + m" "hsm_stored k (set_hsm_data id m c) = hsm_stored k c"
  by (simp_all add: fails_only_at_def set_hsm_data_def hsm_stored_def fun_eq_iff)

lemma get_tagged_with_fault:
  assumes "fails_only_at n c"
  shows "stmt_no c + 1 < n \<Longrightarrow> get_tagged_hsm_key (de_sealed k) tag c = Return (Inr (hsm_stored k c tag), set_hsm_data id 2 c)"
    and "stmt_no c = n \<Longrightarrow> get_tagged_hsm_key (de_sealed k) tag c = Return (Inl Sqlite, c\<lparr>stmt_no := Suc n\<rparr>)"
proof -
  have tab: "''hsm_data_t'' \<in> set (schema (cur c))"
    using assms hsm_data_table unfolding fails_only_at_def by blast
  show "get_tagged_hsm_key (de_sealed k) tag c = Return (Inr (hsm_stored k c tag), set_hsm_data id 2 c)" if "stmt_no c + 1 < n"
    using assms that tab
    by (simp add: get_tagged_hsm_key_def pbindE_def pbind_def pret_def sql_prepare_def sql_exec_def sql_select_def sql_def
        Let_def fails_only_at_def hsm_stored_def set_hsm_data_def split: option.split)
  show "get_tagged_hsm_key (de_sealed k) tag c = Return (Inl Sqlite, c\<lparr>stmt_no := Suc n\<rparr>)" if "stmt_no c = n"
    using assms that
    by (simp add: get_tagged_hsm_key_def pbindE_def pbind_def pret_def sql_prepare_def sql_exec_def sql_def
        Let_def fails_only_at_def)
qed

text \<open>
  C26. A secret that cannot be read counts as no secret: if the store fails on the one statement
  that looks for the TOTP secret, the right PIN alone signs the user in, although the second factor
  is enabled and the secret is enrolled.
\<close>

theorem totp_read_error_skips_second_factor:
  assumes "fails_only_at (stmt_no c + 6) c" and "cfg_enable_hello_totp cfg"
    and "hsm_stored k c (fetch_hello_totp_key_tag a) = Some secret"
    and "hsm_stored k c (fetch_hello_key_tag a True) = Some key" and "pin_value_new k pin = Some pv"
    and "ms_hello_key_load k mk key pv h = (Some sk, h')"
    and "hsm_stored k c (fetch_hello_prt_key_tag a) = None" "hsm_stored k c (fetch_hello_refresh_token_key_tag a) = None"
  shows "\<exists>t. offline_auth_step k cfg True a token ch (PQ_Pin pin) mk online (c, h, p) = Return ((Inr (Auth_Success token), ch), t)"
  using assms
  by (simp add: offline_auth_step_def offline_pin_step_def fetch_hello_key_def load_cached_prt_def
      load_cached_refresh_token_def check_hello_totp_setup_def reset_bad_pin_count_def pbind_def pbindE_def pret_def
      pmodify_def part_run get_key_def or_err_def get_tagged_with_fault)

lemma sample_stmt_no: "stmt_no (sample_store kv) = 1"
  by (simp add: sample_store_def sample_conn_def)

theorem totp_read_error_skips_second_factor_witness:
  "\<exists>t. offline_auth_step sample_crates sample_cfg True ''alice@example.com'' sample_user CH_None (PQ_Pin ''1234'') ''mk'' False
    (sample_store alice_keys\<lparr>sql_fault := (\<lambda>n. n = 7)\<rparr>, (), sample_hb) = Return ((Inr (Auth_Success sample_user), CH_None), t)"
proof -
  let ?c = "sample_store alice_keys\<lparr>sql_fault := (\<lambda>n. n = 7)\<rparr>"
  have cur: "cur ?c = cur (sample_store alice_keys)" by (simp add: cur_def split: option.split)
  have "fails_only_at (stmt_no ?c + 6) ?c"
    using sample_store_simps(1) [of alice_keys]
    by (simp add: fails_only_at_def cur sql_ready_def sample_stmt_no)
  moreover have "hsm_stored sample_crates ?c = hsm_stored sample_crates (sample_store alice_keys)"
    unfolding hsm_stored_def cur ..
  then have "hsm_stored sample_crates ?c = map_of alice_keys" by simp
  ultimately show ?thesis
    by (intro totp_read_error_skips_second_factor [where secret = "''mk1234JBSW''" and key = "''1234''" and sk = "''mk1234''"])
      (simp_all add: sample_cfg_def alice_keys_def)
qed

section \<open>Wrong PINs\<close>

definition hello_key_of :: "'h hello_crates \<Rightarrow> dbconn \<Rightarrow> string \<Rightarrow> opaque option" where
  "hello_key_of k c a = (case hsm_stored k c (fetch_hello_key_tag a True) of
     Some key \<Rightarrow> Some key | None \<Rightarrow> hsm_stored k c (fetch_hello_key_tag a False))"

definition pin_count :: "hb_state \<Rightarrow> string \<Rightarrow> u32" where
  "pin_count p a = (case map_of (hb_bad_pins p) a of None \<Rightarrow> 0 | Some n \<Rightarrow> n)"

definition wrong_pin :: "'h hello_crates \<Rightarrow> opaque \<Rightarrow> opaque \<Rightarrow> string \<Rightarrow> bool" where
  "wrong_pin k mk key pin \<longleftrightarrow> (\<exists>pv. pin_value_new k pin = Some pv \<and> (\<forall>h. fst (ms_hello_key_load k mk key pv h) = None))"

text \<open>The state after one more wrong PIN was counted.\<close>

definition counted :: "string \<Rightarrow> hb_state \<Rightarrow> hb_state" where
  "counted a p = p\<lparr>hb_bad_pins := kv_replace a (pin_count p a + 1) (hb_bad_pins p), slept := slept p + unat (pin_count p a + 1) * 2\<rparr>"

lemma counted_simps [simp]: "pin_count (counted a p) a = pin_count p a + 1"
  "slept (counted a p) = slept p + unat (pin_count p a + 1) * 2"
  by (simp_all add: counted_def pin_count_def)

lemma fetch_hello_key_of:
  assumes "sql_ready c"
  shows "\<exists>c'. store_view (c', x) = store_view (c, x) \<and> fetch_hello_key k a c =
    (case hello_key_of k c a of None \<Rightarrow> Return (Inl BadRequest, c')
     | Some key \<Rightarrow> Return (Inr (key, if hsm_stored k c (fetch_hello_key_tag a True) = None then KT_Decoupled else KT_Hello), c'))"
  using assms unfolding fetch_hello_key_run [OF assms] hello_key_of_def
  by (auto simp: store_view_def set_hsm_data_def split: option.split)

lemma hsm_stored_delete [simp]: "hsm_stored k (set_hsm_data (kv_delete t) n c) = (hsm_stored k c)(t := None)"
  by (simp add: hsm_stored_def fun_eq_iff)

lemma delete_key_run: "sql_ready c \<Longrightarrow> delete_key tag (c, x) = Return (Inr (), set_hsm_data (kv_delete tag) 1 c, x)"
  by (simp add: delete_key_def map_err_def pbind_def pret_def part_run hsm.del_run)

lemma delete_keys_ready:
  assumes "sql_ready c"
  shows "\<exists>c'. ptry_for_each delete_key tags (c, x) = Return (Inr (), c', x) \<and> sql_ready c'
    \<and> hsm_stored k c' = (\<lambda>t. if t \<in> set tags then None else hsm_stored k c t)"
  using assms
proof (induction tags arbitrary: c)
  case (Cons t ts)
  let ?c = "set_hsm_data (kv_delete t) 1 c"
  from Cons.IH [of ?c] Cons.prems obtain c' where "ptry_for_each delete_key ts (?c, x) = Return (Inr (), c', x)" "sql_ready c'"
    "hsm_stored k c' = (\<lambda>t'. if t' \<in> set ts then None else hsm_stored k ?c t')" by auto
  with Cons.prems show ?case
    by (intro exI [of _ c']) (auto simp: delete_key_run pbindE_def pbind_def fun_eq_iff)
qed (simp add: pret_def)

lemma deny_pin_run:
  assumes ready: "sql_ready c" and locked: "cfg_hello_pin_retry_count cfg < pin_count p a + 1"
  shows "\<exists>c'. deny_pin cfg a msg (c, h, p) = Return (Inr (Auth_Denied too_many_msg), c', h, counted a p)
    \<and> sql_ready c' \<and> hello_key_of k c' a = None"
proof -
  let ?tags = "[fetch_hello_key_tag a True, fetch_hello_key_tag a False, fetch_hello_prt_key_tag a, fetch_hello_refresh_token_key_tag a]"
  from delete_keys_ready [OF ready, of ?tags "(h, counted a p)" k] obtain c' where
    "ptry_for_each delete_key ?tags (c, h, counted a p) = Return (Inr (), c', h, counted a p)" "sql_ready c'"
    "hello_key_of k c' a = None" by (auto simp: hello_key_of_def)
  with locked show ?thesis
    by (auto simp: deny_pin_def handle_hello_bad_pin_count_def increment_bad_pin_count_def bad_pin_count_def pbind_def pbindE_def
        pret_def part_run pgets_def pmodify_def pin_count_def counted_def simp del: ptry_for_each.simps)
qed

lemma deny_pin_count:
  assumes "pin_count p a + 1 \<le> cfg_hello_pin_retry_count cfg"
  shows "\<exists>m. deny_pin cfg a msg (c, h, p) = Return (Inr (Auth_Denied m), c, h, counted a p)"
  using assms
  by (auto simp: deny_pin_def handle_hello_bad_pin_count_def increment_bad_pin_count_def bad_pin_count_def pbind_def pbindE_def
      pret_def part_run pgets_def pmodify_def pin_count_def counted_def)

lemma wrong_pin_step:
  assumes ready: "sql_ready c" and key: "hello_key_of k c a = Some key" and wrong: "wrong_pin k mk key pin"
  shows "\<exists>c' h'. store_view (c', x) = store_view (c, x)
    \<and> offline_auth_step k cfg hp a token ch (PQ_Pin pin) mk b (c, h, p) =
      pbind (deny_pin cfg a ''Failed to authenticate with Hello PIN.'') (\<lambda>r. pret (r, ch)) (c', h', p)"
proof -
  from wrong obtain pv where pv: "pin_value_new k pin = Some pv" and none: "\<And>h. fst (ms_hello_key_load k mk key pv h) = None"
    by (auto simp: wrong_pin_def)
  from fetch_hello_key_of [OF ready, of x k a] key obtain c' kt where "store_view (c', x) = store_view (c, x)"
    "fetch_hello_key k a c = Return (Inr (key, kt), c')" by auto
  moreover obtain h' where "ms_hello_key_load k mk key pv h = (None, h')"
    using none [of h] by (cases "ms_hello_key_load k mk key pv h") auto
  ultimately show ?thesis
    using pv by (intro exI [of _ c'] exI [of _ h'])
      (simp add: offline_auth_step_def offline_pin_step_def pbindE_def pbind_def pret_def part_run or_err_def)
qed

text \<open>The session of a guesser: denied every time, and locked out with the last attempt.\<close>

lemma unat_not_max: "(w :: u32) \<noteq> - 1 \<Longrightarrow> unat w + 1 < 2 ^ 32"
  using word_order.not_eq_extremum [of w] by (simp add: word_less_nat_alt unsigned_minus_1_eq_mask mask_eq_exp_minus_1)

lemma guesses:
  assumes "sql_ready c" and "hello_key_of k c a = Some key" and "\<And>pin. pin \<in> set pins \<Longrightarrow> wrong_pin k mk key pin"
    and "unat (pin_count p a) + length pins = unat (cfg_hello_pin_retry_count cfg) + 1" and "pins \<noteq> []"
    and "cfg_hello_pin_retry_count cfg \<noteq> - 1"
  shows "\<exists>rs c' h' p'. offline_steps k cfg hp a token mk ch (map PQ_Pin pins) (c, h, p) = Return (rs, c', h', p')
    \<and> (\<forall>r \<in> set rs. \<exists>m. r = Inr (Auth_Denied m)) \<and> sql_ready c' \<and> hello_key_of k c' a = None
    \<and> pin_count p' a = cfg_hello_pin_retry_count cfg + 1
    \<and> slept p' + unat (pin_count p a) * (unat (pin_count p a) + 1) =
      slept p + (unat (pin_count p a) + length pins) * (unat (pin_count p a) + length pins + 1)"
  using assms
proof (induction pins arbitrary: c h p)
  case (Cons pin pins)
  let ?n = "pin_count p a" and ?retry = "cfg_hello_pin_retry_count cfg"
  from wrong_pin_step [OF Cons.prems(1,2) Cons.prems(3) [of pin], of "()" cfg hp token ch False h p] obtain c1 h1 where
      view: "store_view (c1, ()) = store_view (c, ())"
    and step: "offline_auth_step k cfg hp a token ch (PQ_Pin pin) mk False (c, h, p) =
      pbind (deny_pin cfg a ''Failed to authenticate with Hello PIN.'') (\<lambda>r. pret (r, ch)) (c1, h1, p)" by auto
  note same = ready_after [OF view, simplified]
  have suc: "unat (?n + 1) = unat ?n + 1"
    using Cons.prems(4) unat_not_max [OF Cons.prems(6)] by (simp add: unat_word_ariths)
  show ?case
  proof (cases pins)
    case Nil
    then have "?retry < ?n + 1" using suc Cons.prems(4) by (simp add: word_less_nat_alt)
    from deny_pin_run [OF _ this, of c1 "''Failed to authenticate with Hello PIN.''" h1 k] same(2) Cons.prems(1) obtain c2 where
      "deny_pin cfg a ''Failed to authenticate with Hello PIN.'' (c1, h1, p) = Return (Inr (Auth_Denied too_many_msg), c2, h1, counted a p)"
      "sql_ready c2" "hello_key_of k c2 a = None" by auto
    moreover have "?n = ?retry" using Nil Cons.prems(4) by (simp add: word_unat_eq_iff)
    ultimately show ?thesis
      using Nil step suc by (intro exI [of _ "[Inr (Auth_Denied too_many_msg)]"] exI [of _ c2] exI [of _ h1] exI [of _ "counted a p"])
        (simp add: pbind_def pret_def algebra_simps)
  next
    case (Cons pin' pins')
    then have "?n + 1 \<le> ?retry" using suc Cons.prems(4) by (simp add: word_le_nat_alt)
    from deny_pin_count [OF this, of "''Failed to authenticate with Hello PIN.''" c1 h1] obtain m where
      deny: "deny_pin cfg a ''Failed to authenticate with Hello PIN.'' (c1, h1, p) = Return (Inr (Auth_Denied m), c1, h1, counted a p)"
      by blast
    have "hello_key_of k c1 a = Some key"
      using Cons.prems(2) by (simp add: hello_key_of_def ready_after [OF view, simplified] split: option.splits)
    moreover have "sql_ready c1" "\<And>pin. pin \<in> set pins \<Longrightarrow> wrong_pin k mk key pin" "pins \<noteq> []"
      "unat (pin_count (counted a p) a) + length pins = unat ?retry + 1"
      using Cons Cons.prems same suc by auto
    ultimately obtain rs c' h' p' where
      "offline_steps k cfg hp a token mk ch (map PQ_Pin pins) (c1, h1, counted a p) = Return (rs, c', h', p')"
      "\<forall>r \<in> set rs. \<exists>m. r = Inr (Auth_Denied m)" "sql_ready c'" "hello_key_of k c' a = None"
      "pin_count p' a = ?retry + 1" "slept p' + unat (?n + 1) * (unat (?n + 1) + 1) =
        slept p + unat (?n + 1) * 2 + (unat (?n + 1) + length pins) * (unat (?n + 1) + length pins + 1)"
      using Cons.IH [of c1 "counted a p" h1] Cons.prems(6) by (metis counted_simps)
    with deny step suc show ?thesis
      by (intro exI [of _ "Inr (Auth_Denied m) # rs"] exI [of _ c'] exI [of _ h'] exI [of _ p'])
        (simp add: pbind_def pret_def algebra_simps)
  qed
qed simp

lemma no_key_no_pin:
  assumes "sql_ready c" and "hello_key_of k c a = None"
  shows "\<exists>t. offline_auth_step k cfg hp a token ch (PQ_Pin pin) mk b (c, h, p) = Return ((Inl BadRequest, ch), t)"
    and "\<exists>ar t. offline_auth_init k cfg pw a nopin (c, p) = Return (Inr (ar, CH_None), t) \<and> ar \<noteq> AR_Pin"
  using fetch_hello_key_of [OF assms(1), of h k a] assms(2)
  by (auto simp: offline_auth_step_def offline_pin_step_def offline_auth_init_def pbindE_def pbind_def pret_def part_run
      pzoom_def bad_pin_count_def pgets_def)

text \<open>
  C24. Lockout. Starting with no wrong PIN counted, as many wrong PINs as the retry count allows,
  and one more, are all denied; the last one deletes the Hello keys of both kinds. From then on
  every PIN is answered with \<open>BadRequest\<close> and a new session does not offer the PIN any more. The
  \<open>n\<close> attempts together were made to wait \<open>n * (n + 1)\<close> seconds. (A retry count of
  \<open>u32::MAX\<close> is excluded: the counter cannot exceed it.)
\<close>

theorem wrong_pins_lock_out:
  assumes "sql_ready c" and "hello_key_of k c a = Some key" and "pin_count p a = 0"
    and "\<forall>pin \<in> set pins. wrong_pin k mk key pin"
    and "length pins = unat (cfg_hello_pin_retry_count cfg) + 1" and "cfg_hello_pin_retry_count cfg \<noteq> - 1"
  shows "\<exists>rs c' h' p'. offline_steps k cfg hp a token mk ch (map PQ_Pin pins) (c, h, p) = Return (rs, c', h', p')
    \<and> (\<forall>r \<in> set rs. \<exists>m. r = Inr (Auth_Denied m)) \<and> hello_key_of k c' a = None
    \<and> slept p' = slept p + length pins * (length pins + 1)
    \<and> (\<forall>pin. \<exists>t. offline_auth_step k cfg hp a token ch (PQ_Pin pin) mk False (c', h', p') = Return ((Inl BadRequest, ch), t))
    \<and> (\<exists>ar t. offline_auth_init k cfg pw a nopin (c', p') = Return (Inr (ar, CH_None), t) \<and> ar \<noteq> AR_Pin)"
proof -
  from guesses [of c k a key pins mk p cfg hp token ch h] assms obtain rs c' h' p' where
      run: "offline_steps k cfg hp a token mk ch (map PQ_Pin pins) (c, h, p) = Return (rs, c', h', p')"
        "\<forall>r \<in> set rs. \<exists>m. r = Inr (Auth_Denied m)" "slept p' = slept p + length pins * (length pins + 1)"
    and after: "sql_ready c'" "hello_key_of k c' a = None" by force
  show ?thesis
    by (intro exI [of _ rs] exI [of _ c'] exI [of _ h'] exI [of _ p'] conjI allI run after no_key_no_pin [OF after])
qed

theorem wrong_pins_lock_out_witness:
  "\<exists>rs c' h' p'. offline_steps sample_crates sample_cfg True ''alice@example.com'' sample_user ''mk'' CH_None
      (map PQ_Pin [''0000'', ''1111'', ''2222'', ''3333'']) (alice_state alice_keys) = Return (rs, c', h', p')
    \<and> hello_key_of sample_crates c' ''alice@example.com'' = None \<and> slept p' = 20"
proof -
  have key: "hello_key_of sample_crates (sample_store alice_keys) ''alice@example.com'' = Some ''1234''"
    by (simp add: hello_key_of_def alice_keys_def)
  have count: "pin_count sample_hb ''alice@example.com'' = 0" and slept: "slept sample_hb = 0"
    by (simp_all add: pin_count_def sample_hb_def)
  have "\<forall>pin \<in> set [''0000'', ''1111'', ''2222'', ''3333'']. wrong_pin sample_crates ''mk'' ''1234'' pin"
    by (simp add: wrong_pin_def)
  from wrong_pins_lock_out [OF sample_store_simps(1) key count this, of sample_cfg True sample_user CH_None "()" True False] slept
  show ?thesis by (fastforce simp: sample_cfg_def)
qed

end
