(* ===== verification/Idp_Keys.thy ===== *)
theory Idp_Keys
  imports Idp_Offline
begin

text \<open>
  Further properties of the providers' shared code: which PIN is in force after a change, the
  enrolment of a TOTP secret, and how long refresh tokens stay in the cache, also across a
  restart of the daemon.
\<close>

section \<open>Changing the PIN\<close>

text \<open>What the code relies on of the serialisation of keys: a key written is read back.\<close>

definition sealed_roundtrip :: "'h hello_crates \<Rightarrow> bool" where
  "sealed_roundtrip k \<longleftrightarrow> (\<forall>key b. ser_sealed k key = Some b \<longrightarrow> de_sealed k b = Some key)"

lemma put_key_Return:
  assumes "put_key k tag key s = Return (Inr x, t)" and "sealed_roundtrip k"
  shows "hsm_stored k (fst t) = (hsm_stored k (fst s))(tag \<mapsto> key)" "snd t = snd s"
    "sql_ready (fst t) = sql_ready (fst s)"
  using assms
  by (auto simp: put_key_def map_err_Return on_store_Return insert_tagged_hsm_key_def pbindE_Return sql_prepare_def sql_exec_def
      sql_def Let_def hsm_stored_def sealed_roundtrip_def sql_ready_def fun_eq_iff split: option.splits if_splits)

lemma provision_leaves: "leaves store_view (provision_or_create_hello_key k token amr mk cred)"
  unfolding provision_or_create_hello_key_def create_decoupled_hello_key_def by (intro hb_leaves)

lemma check_online_leaves:
  assumes "\<And>now. leaves store_view (attempt_online now)"
  shows "leaves store_view (hb_check_online attempt_online now)"
  unfolding hb_check_online_def using assms
  by (intro leaves_pbind on_hb_leaves) (auto split: CacheState.split intro: hb_leaves)

lemma change_auth_token_steps:
  assumes "hb_change_auth_token k delayed_init attempt_online a token cred mk amr s = Return (Inr r, t)"
  obtains s1 now s2 s3 s4 new spn where "delayed_init s = Return (True, s1)"
    "on_hb hb_now s1 = Return (now, s2)" "hb_check_online attempt_online now s2 = Return (True, s3)"
    "token_spn k token = Some spn" "to_lowercase a = to_lowercase spn"
    "provision_or_create_hello_key k token amr mk cred s3 = Return (Inr new, s4)"
    "put_key k (fetch_hello_key_tag a amr) new s4 = Return (Inr (), t)" "r"
  using assms unfolding hb_change_auth_token_def
  by (elim run_elims) (simp_all add: that)

text \<open>
  What the code relies on of the keys: a key made for a PIN is opened by this PIN, at any state of the TPM, and by no other.
\<close>

definition pin_bound :: "'h hello_crates \<Rightarrow> opaque \<Rightarrow> opaque \<Rightarrow> opaque \<Rightarrow> bool" where
  "pin_bound k mk key pv \<longleftrightarrow> (\<forall>h. fst (ms_hello_key_load k mk key pv h) \<noteq> None)
     \<and> (\<forall>pv' h. pv' \<noteq> pv \<longrightarrow> fst (ms_hello_key_load k mk key pv' h) = None)"

definition keys_bound :: "'h hello_crates \<Rightarrow> bool" where
  "keys_bound k \<longleftrightarrow> (\<forall>mk pv h key. fst (ms_hello_key_create k mk pv h) = Some key \<longrightarrow> pin_bound k mk key pv)
     \<and> (\<forall>token mk cred h key. fst (provision_hello_for_business_key k token mk cred h) = Some key \<longrightarrow>
          (\<exists>pv. pin_value_new k cred = Some pv \<and> pin_bound k mk key pv))"

lemma provision_bound:
  assumes "provision_or_create_hello_key k token amr mk cred s = Return (Inr new, t)" "keys_bound k"
  shows "\<exists>pv. pin_value_new k cred = Some pv \<and> pin_bound k mk new pv"
  using assms unfolding keys_bound_def provision_or_create_hello_key_def create_decoupled_hello_key_def
  by (auto simp: pbindE_Return pbind_Return on_tpm_Return split: if_splits)

text \<open>
  C27. A PIN is set only by the authenticated user: a change that reports success had a token
  whose name is the account's, up to case. A new key, which the given PIN opens and no other PIN does, is stored under the tag of its
  kind, and no other key changes. With strong authentication it is the key in force from then on. Without, it is in force only if no
  key of the strong kind is stored; otherwise the old key, and so the old PIN, stays in force although the change
  reports success. Initialisation and the online probe do not see the key store.
\<close>

theorem changed_pin_in_force:
  assumes "hb_change_auth_token k delayed_init attempt_online a token cred mk amr s = Return (Inr r, t)"
    and "sealed_roundtrip k" and "keys_bound k" and "leaves store_view delayed_init" and "\<And>now. leaves store_view (attempt_online now)"
  shows "r \<and> (\<exists>spn. token_spn k token = Some spn \<and> to_lowercase a = to_lowercase spn)
    \<and> (\<exists>new pv. pin_value_new k cred = Some pv \<and> pin_bound k mk new pv
        \<and> hsm_stored k (fst t) = (hsm_stored k (fst s))(fetch_hello_key_tag a amr \<mapsto> new)
        \<and> hello_key_of k (fst t) a = (if amr then Some new
            else (case hsm_stored k (fst s) (fetch_hello_key_tag a True) of Some old \<Rightarrow> Some old | None \<Rightarrow> Some new)))"
proof (rule change_auth_token_steps [OF assms(1)])
  fix s1 now s2 s3 s4 new spn
  assume run: "delayed_init s = Return (True, s1)" "on_hb hb_now s1 = Return (now, s2)"
      "hb_check_online attempt_online now s2 = Return (True, s3)"
      "provision_or_create_hello_key k token amr mk cred s3 = Return (Inr new, s4)"
    and spn: "token_spn k token = Some spn" "to_lowercase a = to_lowercase spn"
    and put: "put_key k (fetch_hello_key_tag a amr) new s4 = Return (Inr (), t)" and "r"
  have "store_view s4 = store_view s"
    using leavesD [OF assms(4) run(1)] leavesD [OF on_hb_leaves run(2)] leavesD [OF check_online_leaves [OF assms(5)] run(3)]
      leavesD [OF provision_leaves run(4)] by simp
  then have stored: "hsm_stored k (fst t) = (hsm_stored k (fst s))(fetch_hello_key_tag a amr \<mapsto> new)"
    using put_key_Return(1) [OF put assms(2)] by (simp add: ready_after(1) [of s4 s])
  have "fetch_hello_key_tag a True \<noteq> fetch_hello_key_tag a False" by (simp add: fetch_hello_key_tag_def)
  with stored have "hello_key_of k (fst t) a = (if amr then Some new
      else (case hsm_stored k (fst s) (fetch_hello_key_tag a True) of Some old \<Rightarrow> Some old | None \<Rightarrow> Some new))"
    by (auto simp: hello_key_of_def split: option.split)
  with stored spn \<open>r\<close> provision_bound [OF run(4) assms(3)] show ?thesis by blast
qed

lemma as_bytes_back: "map (\<lambda>x. char_of (unat x)) (as_bytes v) = v"
  by (induction v) (simp_all add: as_bytes_def unat_of_char)

lemma sample_roundtrip: "sealed_roundtrip sample_crates"
  by (auto simp: sealed_roundtrip_def sample_crates_def as_bytes_back)

lemma sample_keys_bound: "keys_bound sample_crates"
  by (auto simp: keys_bound_def pin_bound_def sample_crates_def split: if_splits)

theorem changed_pin_in_force_witness:
  "\<exists>t. hb_change_auth_token sample_crates (pret True) (\<lambda>_. pret False) ''alice@example.com'' ''token'' ''5678'' ''mk'' False
      (sample_store [(''alice@example.com/hello'', ''1234'')], (), sample_hb\<lparr>hb_cachestate := Online\<rparr>) = Return (Inr True, t)
    \<and> hello_key_of sample_crates (fst t) ''alice@example.com'' = Some ''1234''
    \<and> (\<exists>new. hsm_stored sample_crates (fst t) ''alice@example.com/hello_decoupled'' = Some new \<and> pin_bound sample_crates ''mk'' new ''5678'')"
proof -
  let ?s = "(sample_store [(''alice@example.com/hello'', ''1234'')], (), sample_hb\<lparr>hb_cachestate := Online\<rparr>)"
  have storable: "hsm_storable sample_crates ''5678''"
    by (simp add: hsm_storable_def sample_crates_def as_bytes_back)
  have crates: "token_spn sample_crates = (\<lambda>_. Some ''alice@example.com'')"
    "ms_hello_key_create sample_crates = (\<lambda>mk pin h. (Some pin, h))" by (simp_all add: sample_crates_def)
  have "\<exists>t. hb_change_auth_token sample_crates (pret True) (\<lambda>_. pret False) ''alice@example.com'' ''token'' ''5678'' ''mk'' False ?s
      = Return (Inr True, t)"
    using storable by (simp add: hb_change_auth_token_def hb_check_online_def provision_or_create_hello_key_def
        create_decoupled_hello_key_def hb_now_def hb_run crates)
  then obtain t where run: "hb_change_auth_token sample_crates (pret True) (\<lambda>_. pret False) ''alice@example.com'' ''token'' ''5678'' ''mk''
      False ?s = Return (Inr True, t)" by blast
  from changed_pin_in_force [OF run sample_roundtrip sample_keys_bound leaves_pret leaves_pret] run show ?thesis by auto
qed

section \<open>Enrolling a TOTP secret\<close>

text \<open>
  What the enrolment relies on of the crates: sealed data is unsealed by the same storage key, a
  PIN that opened the Hello key opens it again to the same storage key, and a record that was
  serialised is UTF-8 text and is parsed back.
\<close>

definition seals :: "'h hello_crates \<Rightarrow> bool" where
  "seals k \<longleftrightarrow> (\<forall>sk d h x h2. fst (seal_data k sk d h) = Some x \<longrightarrow> fst (unseal_data k sk x h2) = Some d)
     \<and> (\<forall>mk key pv h sk h2. fst (ms_hello_key_load k mk key pv h) = Some sk \<longrightarrow> fst (ms_hello_key_load k mk key pv h2) = Some sk)
     \<and> (\<forall>r txt. ser_totp k r = Some txt \<longrightarrow> valid_utf8 (as_bytes txt) \<and> de_totp k txt = Some r)"

text \<open>The code an authenticator shows for the secret at the given time.\<close>

definition code_current :: "'h hello_crates \<Rightarrow> string \<Rightarrow> string \<Rightarrow> string \<Rightarrow> systime \<Rightarrow> bool" where
  "code_current k a secret code now \<longleftrightarrow> (case totp_new k (new_totp_record k a secret) of
     None \<Rightarrow> False | Some totp \<Rightarrow> totp_check_current k totp code now = Some True)"

lemma from_utf8_as_bytes: "valid_utf8 (as_bytes x) \<Longrightarrow> from_utf8 (as_bytes x) = Some x"
  by (simp add: from_utf8_def as_bytes_back)

lemma setup_steps:
  assumes "setup_hello_totp k a pin mk ch s = Return ((Inr r, ch'), t)"
  obtains secret s1 json pv key kt s2 sk s3 sealed where
    "on_tpm (totp_generate k (''Himmelblau '' @ hostname k) a) s = Return (Some secret, s1)"
    "ser_totp k (new_totp_record k a secret) = Some json"
    "pin_value_new k pin = Some pv" "on_store (fetch_hello_key k a) s1 = Return (Inr (key, kt), s2)"
    "on_tpm (ms_hello_key_load k mk key pv) s2 = Return (Some sk, s3)"
    "on_tpm (seal_data k sk (as_bytes json)) s3 = Return (Some sealed, t)"
    "ch' = CH_HelloTOTP pin (Some sealed)"
    "r = (Auth_Next (AR_HelloTOTP (otpauth_url k (''Himmelblau '' @ hostname k) a secret)), NoCacheAction)"
proof -
  from assms obtain sealed msg where run: "seal_new_totp k a pin mk s = Return (Inr (sealed, msg), t)"
    and ch: "ch' = CH_HelloTOTP pin (Some sealed)" "r = (Auth_Next (AR_HelloTOTP msg), NoCacheAction)"
    unfolding setup_hello_totp_def by (elim pbind_elim) (auto split: sum.split_asm prod.split_asm)
  from run show thesis
    unfolding seal_new_totp_def by (elim run_elims) (simp_all add: that ch)
qed

lemma fetch_is_key_of:
  assumes "sql_ready (fst s)" and "on_store (fetch_hello_key k a) s = Return (Inr (key, kt), t)"
  shows "hello_key_of k (fst s) a = Some key"
  using fetch_hello_key_of [OF assms(1), of "()" k a] assms(2) by (auto simp: on_store_Return split: option.splits)

lemma hello_key_of_cong: "store_view s = store_view t \<Longrightarrow> hello_key_of k (fst s) a = hello_key_of k (fst t) a"
  using hb_stored_cong [of s t k] by (simp add: hello_key_of_def cong: option.case_cong)

lemma on_store_fetch_run:
  assumes "sql_ready c" and "hello_key_of k c a = Some key"
  obtains c' kt where "on_store (fetch_hello_key k a) (c, x) = Return (Inr (key, kt), c', x)" "store_view (c', x) = store_view (c, x)"
  using fetch_hello_key_of [OF assms(1), of x k a] assms(2) that by (auto simp: on_store_Return)

lemma fst_eq_SomeE: "fst (f h) = x \<Longrightarrow> (\<And>h'. f h = (x, h') \<Longrightarrow> P) \<Longrightarrow> P"
  by (cases "f h") auto

lemma totp_auth_accepts:
  assumes ready: "sql_ready c" and key: "hello_key_of k c a = Some key" and pv: "pin_value_new k pin = Some pv"
    and load: "\<And>h. fst (ms_hello_key_load k mk key pv h) = Some sk"
    and unseal: "\<And>h. fst (unseal_data k sk sealed h) = Some data"
    and totp: "from_utf8 data = Some txt" "de_totp k txt = Some r" "totp_new k r = Some totp"
      "totp_check_current k totp code (hb_time p) = Some True"
    and "hsm_storable k sealed"
  shows "\<exists>u. hello_pin_totp_auth k cfg a token code pin mk (Some sealed) (c, h, p) = Return (Inr (Auth_Success token), u)
    \<and> hsm_stored k (fst u) (fetch_hello_totp_key_tag a) = Some sealed \<and> pin_count (snd (snd u)) a = 0"
proof -
  from on_store_fetch_run [OF ready key, of "(h, p)"] obtain c' kt where
    fetch: "on_store (fetch_hello_key k a) (c, h, p) = Return (Inr (key, kt), c', h, p)"
      "store_view (c', h, p) = store_view (c, h, p)" .
  then have ready': "sql_ready c'" using ready sql_ready_cong [OF fetch(2)] by simp
  from load obtain h1 where l: "ms_hello_key_load k mk key pv h = (Some sk, h1)" by (rule fst_eq_SomeE)
  from unseal obtain h2 where u: "unseal_data k sk sealed h1 = (Some data, h2)" by (rule fst_eq_SomeE)
  show ?thesis
    using assms ready' fetch(1) l u
    by (simp add: hello_pin_totp_auth_def sealed_totp_secret_of_def pbindE_def [where m = "on_store (fetch_hello_key k a)"]
        hb_run hb_now_def hb_time_def reset_bad_pin_count_def pin_count_def del: fetch_hello_key_run)
qed

lemma totp_auth_refuses:
  assumes ready: "sql_ready c" and key: "hello_key_of k c a = Some key" and pv: "pin_value_new k pin = Some pv"
    and load: "\<And>h. fst (ms_hello_key_load k mk key pv h) = Some sk"
    and unseal: "\<And>h. fst (unseal_data k sk sealed h) = Some data"
    and totp: "from_utf8 data = Some txt" "de_totp k txt = Some r"
      "\<And>totp. totp_new k r = Some totp \<Longrightarrow> totp_check_current k totp code (hb_time p) \<noteq> Some True"
    and run: "hello_pin_totp_auth k cfg a token code pin mk (Some sealed) (c, h, p) = Return (res, u)"
  shows "(\<forall>x. res \<noteq> Inr (Auth_Success x)) \<and> hsm_stored k (fst u) (fetch_hello_totp_key_tag a) = hsm_stored k c (fetch_hello_totp_key_tag a)"
proof -
  from on_store_fetch_run [OF ready key, of "(h, p)"] obtain c' kt where
    fetch: "on_store (fetch_hello_key k a) (c, h, p) = Return (Inr (key, kt), c', h, p)"
      "store_view (c', h, p) = store_view (c, h, p)" .
  from load obtain h1 where l: "ms_hello_key_load k mk key pv h = (Some sk, h1)" by (rule fst_eq_SomeE)
  from unseal obtain h2 where un: "unseal_data k sk sealed h1 = (Some data, h2)" by (rule fst_eq_SomeE)
  let ?p = "p\<lparr>hb_tick := Suc (hb_tick p)\<rparr>"
  have "res = Inl TpmError \<and> fst u = c' \<or> deny_pin cfg a totp_failed_msg (c', h2, ?p) = Return (res, u)"
    using run pv totp fetch(1) l un
    by (auto simp: hello_pin_totp_auth_def sealed_totp_secret_of_def pbindE_def [where m = "on_store (fetch_hello_key k a)"]
        hb_run hb_now_def hb_time_def simp del: fetch_hello_key_run split: option.splits if_splits)
  moreover have "totp_view k a u = totp_view k a (c', h2, ?p)" if "deny_pin cfg a totp_failed_msg (c', h2, ?p) = Return (res, u)"
    using leavesD [OF deny_pin_leaves that] .
  moreover have "hsm_stored k c' = hsm_stored k c" using hb_stored_cong [OF fetch(2)] by simp
  ultimately show ?thesis by (auto simp: totp_view_def deny_pin_not_success)
qed


lemma byte_back: "of_char (char_of (unat x) :: char) = (x :: u8)"
proof -
  have "(of_char (char_of (unat x) :: char) :: u8) = of_nat (of_char (char_of (unat x) :: char))" by (simp only: of_nat_of_char)
  also have "\<dots> = of_nat (unat x mod 256)" by (simp only: of_char_of)
  also have "\<dots> = x" using unsigned_less [of x, where 'a = nat] by simp
  finally show ?thesis .
qed

lemma sample_seals: "seals sample_crates"
proof -
  have "valid_utf8 (as_bytes ''JBSW'')" by code_simp
  then show ?thesis
    by (auto simp: seals_def sample_crates_def as_bytes_def comp_def byte_back split: if_splits)
qed

lemma sample_storable: "hsm_storable sample_crates x"
  by (simp add: hsm_storable_def sample_crates_def as_bytes_back)


section \<open>The cache of refresh tokens\<close>

text \<open>At a reading of the clock from \<open>m\<close> on and before \<open>n\<close> the entry had not expired.\<close>

definition fresh_at :: "hb_state \<Rightarrow> nat \<Rightarrow> nat \<Rightarrow> systime \<Rightarrow> bool" where
  "fresh_at p m n iat \<longleftrightarrow> (\<exists>i. m \<le> i \<and> i < n \<and> hb_clock p i \<le> iat + int PRT_LIFETIME * 1000000000)"

lemma fresh_at_mono: "fresh_at p m n iat \<Longrightarrow> m' \<le> m \<Longrightarrow> n \<le> n' \<Longrightarrow> hb_clock p' = hb_clock p \<Longrightarrow> fresh_at p' m' n' iat"
  by (auto simp: fresh_at_def intro: order.trans less_le_trans)

lemma remove_list_Return:
  assumes "remove_list m p = Return (rm, p')"
  shows "p' = p\<lparr>hb_tick := hb_tick p + length m\<rparr>"
    "(a, x, iat) \<in> set m \<Longrightarrow> a \<notin> set rm \<Longrightarrow> fresh_at p (hb_tick p) (hb_tick p') iat"
proof -
  have "p' = p\<lparr>hb_tick := hb_tick p + length m\<rparr> \<and>
    (\<forall>a x iat. (a, x, iat) \<in> set m \<longrightarrow> a \<notin> set rm \<longrightarrow> fresh_at p (hb_tick p) (hb_tick p') iat)"
    using assms
  proof (induction m arbitrary: p rm)
    case (Cons e es)
    obtain a x iat where e: "e = (a, x, iat)" by (cases e)
    from Cons.prems obtain t rm1 where t: "time_add_secs iat PRT_LIFETIME = Some t"
      and rest: "remove_list es (p\<lparr>hb_tick := Suc (hb_tick p)\<rparr>) = Return (rm1, p')"
      and rm: "rm = (if t < hb_clock p (hb_tick p) then a # rm1 else rm1)"
      unfolding e by (auto simp: hb_now_def pbind_def pret_def ppanic_def split: option.splits outcome.splits)
    note IH = Cons.IH [OF rest]
    have p': "p' = p\<lparr>hb_tick := hb_tick p + length (e # es)\<rparr>" using IH by simp
    have "fresh_at p (hb_tick p) (hb_tick p') iat" if "a \<notin> set rm"
      unfolding fresh_at_def using that t rm p'
      by (intro exI [of _ "hb_tick p"]) (auto simp: time_add_secs_def split: if_splits)
    moreover have "fresh_at p (hb_tick p) (hb_tick p') i" if "(b, y, i) \<in> set es" "b \<notin> set rm" for b y i
    proof -
      from that(2) rm have "b \<notin> set rm1" by (auto split: if_splits)
      with IH that(1) have "fresh_at (p\<lparr>hb_tick := Suc (hb_tick p)\<rparr>) (Suc (hb_tick p)) (hb_tick p') i" by fastforce
      then show ?thesis by (rule fresh_at_mono) simp_all
    qed
    ultimately show ?case using p' e by auto
  qed simp
  then show "p' = p\<lparr>hb_tick := hb_tick p + length m\<rparr>"
    "(a, x, iat) \<in> set m \<Longrightarrow> a \<notin> set rm \<Longrightarrow> fresh_at p (hb_tick p) (hb_tick p') iat" by blast+
qed

lemma map_of_remove: "map_of (remove_entries rm m) a = (if a \<in> set rm then None else map_of m a)"
  by (induction m) (auto simp: remove_entries_def)

lemma purge_Return:
  assumes "purge p = Return (z, p')"
  shows "map_of (hb_prts p') a = Some (x, iat) \<Longrightarrow> map_of (hb_prts p) a = Some (x, iat) \<and> fresh_at p (hb_tick p) (hb_tick p') iat"
    "map_of (hb_refresh_tokens p') a = Some (y, iat) \<Longrightarrow>
      map_of (hb_refresh_tokens p) a = Some (y, iat) \<and> fresh_at p (hb_tick p) (hb_tick p') iat"
proof -
  from assms obtain rm p1 where 1: "remove_list (hb_prts p) p = Return (rm, p1)"
    and rest: "pbind (pmodify (\<lambda>p. p\<lparr>hb_prts := remove_entries rm (hb_prts p)\<rparr>)) (\<lambda>_.
      pbind (pbind (pgets hb_refresh_tokens) remove_list) (\<lambda>rm'.
      pmodify (\<lambda>p. p\<lparr>hb_refresh_tokens := remove_entries rm' (hb_refresh_tokens p)\<rparr>))) p1 = Return (z, p')"
    unfolding purge_def by (auto simp: pbind_Return [of "pbind (pgets hb_prts) remove_list"] pbind_Return [of "pgets hb_prts"])
  note p1 = remove_list_Return(1) [OF 1]
  let ?q = "p1\<lparr>hb_prts := remove_entries rm (hb_prts p1)\<rparr>"
  from rest obtain rm2 p2 where 2: "remove_list (hb_refresh_tokens ?q) ?q = Return (rm2, p2)"
    and p': "p' = p2\<lparr>hb_refresh_tokens := remove_entries rm2 (hb_refresh_tokens p2)\<rparr>"
    by (auto simp: pbind_Return)
  note p2 = remove_list_Return(1) [OF 2]
  show "map_of (hb_prts p) a = Some (x, iat) \<and> fresh_at p (hb_tick p) (hb_tick p') iat"
    if "map_of (hb_prts p') a = Some (x, iat)"
  proof -
    from that have m: "map_of (hb_prts p) a = Some (x, iat)" "a \<notin> set rm"
      by (auto simp: p' p2 p1 map_of_remove split: if_splits)
    from remove_list_Return(2) [OF 1 map_of_SomeD [OF m(1)] m(2)] have "fresh_at p (hb_tick p) (hb_tick p') iat"
      by (rule fresh_at_mono) (simp_all add: p' p2)
    with m show ?thesis by simp
  qed
  show "map_of (hb_refresh_tokens p) a = Some (y, iat) \<and> fresh_at p (hb_tick p) (hb_tick p') iat"
    if "map_of (hb_refresh_tokens p') a = Some (y, iat)"
  proof -
    from that have m: "map_of (hb_refresh_tokens ?q) a = Some (y, iat)" "a \<notin> set rm2"
      by (auto simp: p' p2 map_of_remove split: if_splits)
    from remove_list_Return(2) [OF 2 map_of_SomeD [OF m(1)] m(2)] have "fresh_at p (hb_tick p) (hb_tick p') iat"
      by (rule fresh_at_mono) (simp_all add: p' p2 p1)
    with m show ?thesis by (simp add: p1)
  qed
qed

text \<open>
  What the refresh cache hands out is at most a day old: an entry returned was stored for the
  account, whatever the case of its name, and at some reading of the clock during the request its
  age did not exceed 24 hours. A refresh token is handed out only if no primary refresh token is left.
\<close>

theorem refresh_token_fresh:
  assumes "refresh_token a p = Return (Inr e, p')"
  shows "\<exists>iat. fresh_at p (hb_tick p) (hb_tick p') iat \<and> (case e of
      Prt prt \<Rightarrow> map_of (hb_prts p) (to_lowercase a) = Some (prt, iat)
    | RefreshToken tok \<Rightarrow> map_of (hb_prts p') (to_lowercase a) = None
        \<and> map_of (hb_refresh_tokens p) (to_lowercase a) = Some (tok, iat))"
proof -
  from assms obtain z where purge: "purge p = Return (z, p')"
    and e: "Inr e = (case map_of (hb_prts p') (to_lowercase a) of
         Some (prt, _) \<Rightarrow> Inr (Prt prt)
       | None \<Rightarrow> (case map_of (hb_refresh_tokens p') (to_lowercase a) of
           Some (tok, _) \<Rightarrow> Inr (RefreshToken tok)
         | None \<Rightarrow> Inl (NotFound ''account_id'' ''refresh_cache'')))"
    unfolding refresh_token_def by (auto simp: pbind_Return)
  from e show ?thesis
    using purge_Return [OF purge, of "to_lowercase a"] by (auto split: option.splits)
qed

definition sample_cache :: hb_state where
  "sample_cache = sample_hb\<lparr>hb_prts := [(''alice@example.com'', ''prt'', 0), (''bob@example.com'', ''old'', - 90000000000000)]\<rparr>"

theorem refresh_token_fresh_witness:
  "\<exists>p' iat. refresh_token ''Alice@Example.com'' sample_cache = Return (Inr (Prt ''prt''), p')
    \<and> fresh_at sample_cache 5 (hb_tick p') iat"
proof -
  have low: "to_lowercase ''Alice@Example.com'' = ''alice@example.com''" by code_simp
  have "\<exists>p'. refresh_token ''Alice@Example.com'' sample_cache = Return (Inr (Prt ''prt''), p')"
    by (simp add: refresh_token_def purge_def sample_cache_def sample_hb_def pbind_def pgets_def pmodify_def pret_def
        hb_now_def time_add_secs_def PRT_LIFETIME_def remove_entries_def low)
  then obtain p' where run: "refresh_token ''Alice@Example.com'' sample_cache = Return (Inr (Prt ''prt''), p')" by blast
  have "hb_tick sample_cache = 5" by (simp add: sample_cache_def sample_hb_def)
  with refresh_token_fresh [OF run] run show ?thesis by auto
qed

section \<open>Across a restart\<close>

text \<open>The entries of the cache: one per account, under the lowercase name, at times the clock can show.\<close>

definition prts_wf :: "(string \<times> 'a \<times> systime) list \<Rightarrow> bool" where
  "prts_wf m \<longleftrightarrow> distinct (map fst m) \<and> (\<forall>(a, x, iat) \<in> set m. to_lowercase a = a \<and> iat div 1000000000 < 2 ^ 63)"

text \<open>What the code relies on of \<open>serde_json\<close>: the map that was written is read, in any order.\<close>

definition prts_codec :: "'h hello_crates \<Rightarrow> bool" where
  "prts_codec k \<longleftrightarrow> (\<forall>es b. distinct (map fst es) \<longrightarrow> ser_prts k es = Some b \<longrightarrow>
     (\<exists>es'. de_prts k b = Some es' \<and> distinct (map fst es') \<and> set es' = set es))"

lemma refresh_add_wf:
  assumes "refresh_add a e p = Return (x, p')" and "prts_wf (hb_prts p)" and "hb_clock p (hb_tick p) div 1000000000 < 2 ^ 63"
  shows "prts_wf (hb_prts p')"
  using assms
  by (auto simp: refresh_add_def pbind_Return hb_now_def prts_wf_def distinct_map_filter' kv_replace_def
      split: RefreshCacheEntry.splits)

lemma import_entries_run:
  assumes "distinct (map fst es)" and "\<And>a x n. (a, x, n) \<in> set es \<Longrightarrow> to_lowercase a = a \<and> n < 2 ^ 63"
  shows "\<exists>q'. import_entries es q = Return ((), q') \<and> (\<forall>a. map_of (hb_prts q') a =
    (case map_of es a of None \<Rightarrow> map_of (hb_prts q) a | Some (x, n) \<Rightarrow> Some (x, int n * 1000000000)))"
  using assms
proof (induction es arbitrary: q)
  case (Cons e es)
  obtain b y n where e: "e = (b, y, n)" by (cases e)
  let ?q = "q\<lparr>hb_prts := kv_replace b (y, int n * 1000000000) (hb_prts q)\<rparr>"
  from Cons.prems(2) [of b y n] have b: "to_lowercase b = b" "n < 2 ^ 63" by (auto simp: e)
  from Cons.IH [of ?q] Cons.prems obtain q' where "import_entries es ?q = Return ((), q')"
    "\<forall>a. map_of (hb_prts q') a = (case map_of es a of None \<Rightarrow> map_of (hb_prts ?q) a | Some (x, n) \<Rightarrow> Some (x, int n * 1000000000))"
    by auto
  moreover have "map_of es b = None" using Cons.prems(1) by (simp add: e map_of_eq_None_iff)
  moreover have "int n < 2 ^ 63" using b(2) by simp
  ultimately show ?case
    using b(1) by (intro exI [of _ q']) (auto simp: e pbind_def pmodify_def time_add_secs_def split: option.splits)
qed (simp add: pret_def)

lemma map_of_stamped: "map_of (map (\<lambda>(a, prt, iat). (a, prt, f iat)) m) b = map_option (\<lambda>(prt, iat). (prt, f iat)) (map_of m b)"
  by (induction m) auto

lemma epoch_secs_bounds:
  assumes "iat div 1000000000 < 2 ^ 63"
  shows "epoch_secs iat < 2 ^ 63"
    "0 \<le> iat \<Longrightarrow> int (epoch_secs iat) * 1000000000 \<le> iat \<and> iat < int (epoch_secs iat) * 1000000000 + 1000000000"
proof -
  show "epoch_secs iat < 2 ^ 63" using assms by (auto simp: epoch_secs_def secs_since_epoch_def nat_less_iff)
  assume "0 \<le> iat"
  then have "int (epoch_secs iat) = iat div 1000000000" by (simp add: epoch_secs_def secs_since_epoch_def pos_imp_zdiv_nonneg_iff)
  then show "int (epoch_secs iat) * 1000000000 \<le> iat \<and> iat < int (epoch_secs iat) * 1000000000 + 1000000000" by linarith
qed

text \<open>
  C29. Primary refresh tokens survive a restart of the daemon without living longer: importing
  what was exported succeeds and restores, for every account, the same token with its own time of
  insertion, rounded down to the second. So the 24 hours are not counted anew.
\<close>

theorem broker_prts_survive_restart:
  assumes "hb_export_broker_prts k p = Return (Inr b, p1)" and "prts_wf (hb_prts p)" and "prts_codec k" and "hb_prts q = []"
  shows "\<exists>q'. hb_import_broker_prts k b q = Return (Inr (), q') \<and> (\<forall>a. (case map_of (hb_prts p) a of
      None \<Rightarrow> map_of (hb_prts q') a = None
    | Some (prt, iat) \<Rightarrow> (\<exists>iat'. map_of (hb_prts q') a = Some (prt, iat')
        \<and> (0 \<le> iat \<longrightarrow> iat' \<le> iat \<and> iat < iat' + 1000000000))))"
proof -
  let ?es = "map (\<lambda>(a, prt, iat). (a, prt, epoch_secs iat)) (hb_prts p)"
  have fst_es: "map fst ?es = map fst (hb_prts p)" by (simp add: case_prod_beta)
  have ser: "ser_prts k ?es = Some b"
    using assms(1) by (auto simp: hb_export_broker_prts_def)
  from assms(2) have dist: "distinct (map fst ?es)" unfolding fst_es by (simp add: prts_wf_def)
  with assms(3) ser obtain es' where es': "de_prts k b = Some es'" "distinct (map fst es')" "set es' = set ?es"
    unfolding prts_codec_def by blast
  have wf': "to_lowercase a = a \<and> n < 2 ^ 63" if "(a, x, n) \<in> set es'" for a x n
    using that assms(2) unfolding es'(3) prts_wf_def by (auto intro!: epoch_secs_bounds(1) [simplified])
  have "\<exists>q'. import_entries es' q = Return ((), q') \<and> (\<forall>a. map_of (hb_prts q') a =
      (case map_of es' a of None \<Rightarrow> map_of (hb_prts q) a | Some (x, n) \<Rightarrow> Some (x, int n * 1000000000)))"
    by (rule import_entries_run [OF es'(2)]) (rule wf')
  then obtain q' where imp: "import_entries es' q = Return ((), q')"
    and m: "\<And>a. map_of (hb_prts q') a = (case map_of es' a of None \<Rightarrow> map_of (hb_prts q) a
      | Some (x, n) \<Rightarrow> Some (x, int n * 1000000000))"
    by blast
  have es_p: "map_of es' a = map_option (\<lambda>(prt, iat). (prt, epoch_secs iat)) (map_of (hb_prts p) a)" for a
    using map_of_inject_set [OF es'(2) dist] es'(3) by (simp add: map_of_stamped)
  show ?thesis
  proof (intro exI [of _ q'] conjI allI)
    show "hb_import_broker_prts k b q = Return (Inr (), q')"
      using imp es'(1) by (simp add: hb_import_broker_prts_def pbind_def pret_def)
    fix a
    have "iat div 1000000000 < 2 ^ 63" if "map_of (hb_prts p) a = Some (prt, iat)" for prt iat
      using map_of_SomeD [OF that] assms(2) by (auto simp: prts_wf_def)
    then show "case map_of (hb_prts p) a of None \<Rightarrow> map_of (hb_prts q') a = None
      | Some (prt, iat) \<Rightarrow> (\<exists>iat'. map_of (hb_prts q') a = Some (prt, iat')
          \<and> (0 \<le> iat \<longrightarrow> iat' \<le> iat \<and> iat < iat' + 1000000000))"
      by (auto simp: m es_p assms(4) epoch_secs_bounds(2) split: option.split)
  qed
qed

definition json_crates :: "unit hello_crates" where
  "json_crates = sample_crates\<lparr>
     ser_prts := (\<lambda>es. if es = [(''alice@example.com'', ''prt'', 7)] then Some [1] else None),
     de_prts := (\<lambda>b. if b = [1] then Some [(''alice@example.com'', ''prt'', 7)] else None)\<rparr>"

theorem broker_prts_survive_restart_witness:
  "\<exists>q' iat'. hb_import_broker_prts json_crates [1] sample_hb = Return (Inr (), q')
    \<and> map_of (hb_prts q') ''alice@example.com'' = Some (''prt'', iat') \<and> iat' \<le> 7500000000 \<and> 7500000000 < iat' + 1000000000"
proof -
  let ?p = "sample_hb\<lparr>hb_prts := [(''alice@example.com'', ''prt'', 7500000000)]\<rparr>"
  have low: "to_lowercase ''alice@example.com'' = ''alice@example.com''" by code_simp
  have export: "hb_export_broker_prts json_crates ?p = Return (Inr [1], ?p)"
    by (simp add: hb_export_broker_prts_def json_crates_def pgets_def epoch_secs_def secs_since_epoch_def or_err_def)
  have wf: "prts_wf (hb_prts ?p)" by (simp add: prts_wf_def low)
  have codec: "prts_codec json_crates" by (simp add: prts_codec_def json_crates_def)
  have empty: "hb_prts sample_hb = []" by (simp add: sample_hb_def)
  from broker_prts_survive_restart [OF export wf codec empty] obtain q' where
    "hb_import_broker_prts json_crates [1] sample_hb = Return (Inr (), q')"
    and all: "\<forall>a. (case map_of (hb_prts ?p) a of
      None \<Rightarrow> map_of (hb_prts q') a = None
    | Some (prt, iat) \<Rightarrow> (\<exists>iat'. map_of (hb_prts q') a = Some (prt, iat')
        \<and> (0 \<le> iat \<longrightarrow> iat' \<le> iat \<and> iat < iat' + 1000000000)))" by blast
  with spec [OF all, of "''alice@example.com''"] show ?thesis by auto
qed

end
