(* ===== verification/Resolver_Locks.thy ===== *)
theory Resolver_Locks
  imports Resolver Cache_Props
begin

text \<open>
  Locks and the invariant of the cache across whole requests (\<open>resolver.rs\<close>).
  \<open>runs H m K\<close> is a Hoare triple on the locks: started with exactly the locks \<open>H\<close> held,
  \<open>m\<close> never asks for a lock it holds, and where it returns, exactly the locks \<open>K\<close> are
  held, the database is guarded exactly if its lock is held, and the unique columns of its
  tables are unique. The triples of the requests say that each one gives back every lock.
  One request does not always: \<open>pam_account_authenticate_init\<close> asks for a second
  transaction while it holds the first.
\<close>

section \<open>What the code relies on of a provider\<close>

text \<open>
  The trait hands a method a key-store transaction: it can read, write and delete tagged
  keys, and nothing else in the database. A method comes back: it does not wait for a lock
  for ever.
\<close>

definition keystore_only :: "dbconn \<Rightarrow> dbconn \<Rightarrow> bool" where
  "keystore_only c c' \<longleftrightarrow> in_txn c c' \<and> cur c' = (cur c)\<lparr>hsm_data_t := hsm_data_t (cur c')\<rparr>"

definition keystore_call :: "(dbconn \<times> 'x, 'a) prog \<Rightarrow> bool" where
  "keystore_call m \<longleftrightarrow> keeps (\<lambda>s t. keystore_only (fst s) (fst t)) m"

definition comes_back :: "('x, 'a) prog \<Rightarrow> bool" where
  "comes_back m \<longleftrightarrow> keeps (\<lambda>_ _. True) m"

definition idp_laws :: "('p, 'h) IdProvider \<Rightarrow> bool" where
  "idp_laws cl \<longleftrightarrow>
     (\<forall>mk. keystore_call (idp_configure_hsm_keys cl mk)) \<and>
     (\<forall>now. comes_back (idp_check_online cl now)) \<and>
     (\<forall>i t mk. keystore_call (idp_unix_user_get cl i t mk)) \<and>
     (\<forall>i sc t ci ru rc mk. keystore_call (idp_unix_user_access cl i sc t ci ru rc mk)) \<and>
     (\<forall>i t mk. keystore_call (idp_unix_user_tgts cl i t mk)) \<and>
     (\<forall>i t n mk. keystore_call (idp_unix_user_prt_cookie cl i t n mk)) \<and>
     (\<forall>a t n mk. keystore_call (idp_change_auth_token cl a t n mk)) \<and>
     (\<forall>a t sv n f mk. keystore_call (idp_unix_user_online_auth_init cl a t sv n f mk)) \<and>
     (\<forall>a t sv n h r mk. keystore_call (idp_unix_user_online_auth_step cl a t sv n h r mk)) \<and>
     (\<forall>a t n. keystore_call (idp_unix_user_offline_auth_init cl a t n)) \<and>
     (\<forall>a t h r mk b. keystore_call (idp_unix_user_offline_auth_step cl a t h r mk b)) \<and>
     (\<forall>i. comes_back (idp_unix_group_get cl i)) \<and>
     (\<forall>a. keystore_call (idp_get_cachestate cl a)) \<and>
     (\<forall>ttl. comes_back (idp_offline_break_glass cl ttl)) \<and>
     comes_back (idp_export_broker_prts cl) \<and>
     (\<forall>b. comes_back (idp_import_broker_prts cl b))"

section \<open>Triples on locks\<close>

definition fits :: "lock list \<Rightarrow> ('p, 'h, 'l) rstate \<Rightarrow> bool" where
  "fits H s \<longleftrightarrow> rs_held s = H \<and> (guard (rs_db s) \<longleftrightarrow> LDb \<in> set H) \<and> conn_wf (rs_db s)"

definition runs :: "lock list \<Rightarrow> (('p, 'h, 'l) rstate, 'a) prog \<Rightarrow> lock list \<Rightarrow> bool" where
  "runs H m K \<longleftrightarrow> (\<forall>s. fits H s \<longrightarrow> m s \<noteq> Blocked \<and> (\<forall>a t. m s = Return (a, t) \<longrightarrow> fits K t))"

lemma runs_not_Blocked: "runs H m K \<Longrightarrow> fits H s \<Longrightarrow> m s \<noteq> Blocked"
  by (simp add: runs_def)

lemma runs_Return: "runs H m K \<Longrightarrow> fits H s \<Longrightarrow> m s = Return (a, t) \<Longrightarrow> fits K t"
  by (simp add: runs_def)

lemma runs_pbind: "runs H m K \<Longrightarrow> (\<And>a. runs K (f a) L) \<Longrightarrow> runs H (pbind m f) L"
  unfolding runs_def pbind_Return pbind_Blocked by metis

lemma runs_pbindE: "runs H m H \<Longrightarrow> (\<And>a. runs H (f a) H) \<Longrightarrow> runs H (pbindE m f) H"
  unfolding runs_def pbindE_Return pbindE_Blocked by metis

lemma runs_pret: "H = K \<Longrightarrow> runs H (pret x) K"
  by (simp add: runs_def)

lemma runs_pgets: "runs H (pgets f) H"
  by (simp add: runs_def)

lemma runs_ppanic: "runs H ppanic K"
  by (simp add: runs_def)

lemma runs_map_err: "runs H m K \<Longrightarrow> runs H (map_err f m) K"
  by (auto simp: runs_def map_err_Return map_err_Blocked)

lemma runs_pmodify:
  assumes "\<And>s. rs_held (f s) = rs_held s" and "\<And>s. rs_db (f s) = rs_db s"
  shows "runs H (pmodify f) H"
  using assms by (simp add: runs_def fits_def)

lemma runs_if: "runs H m K \<Longrightarrow> runs H n K \<Longrightarrow> runs H (if b then m else n) K"
  by simp

lemma runs_option:
  "runs H m K \<Longrightarrow> (\<And>y. runs H (f y) K) \<Longrightarrow> runs H (case x of None \<Rightarrow> m | Some y \<Rightarrow> f y) K"
  by (cases x) simp_all

lemma runs_sum:
  "(\<And>y. runs H (f y) K) \<Longrightarrow> (\<And>y. runs H (g y) K) \<Longrightarrow> runs H (case x of Inl y \<Rightarrow> f y | Inr y \<Rightarrow> g y) K"
  by (cases x) simp_all

lemma runs_prod: "(\<And>y z. runs H (f y z) K) \<Longrightarrow> runs H (case x of (y, z) \<Rightarrow> f y z) K"
  by (cases x) simp_all

lemma runs_Let: "(\<And>y. runs H (f y) K) \<Longrightarrow> runs H (let y = x in f y) K"
  by (simp add: Let_def)

lemma runs_lock: "k \<notin> set H \<Longrightarrow> k \<noteq> LDb \<Longrightarrow> runs H (r_lock k) (k # H)"
  by (auto simp: runs_def r_lock_def fits_def)

lemma runs_unlock: "k \<noteq> LDb \<Longrightarrow> K = removeAll k H \<Longrightarrow> runs H (r_unlock k) K"
  by (auto simp: runs_def r_unlock_def fits_def)

lemma runs_begin:
  assumes "LDb \<notin> set H"
  shows "runs H r_begin (LDb # H)"
  using assms
  by (auto simp: runs_def r_begin_def r_lock_def at_db_def fits_def prog_Return prog_Blocked db_write_Return
      conn_wf_def db_write_def)

lemma runs_commit: "LDb \<in> set H \<Longrightarrow> K = removeAll LDb H \<Longrightarrow> runs H r_commit K"
  by (auto simp: runs_def r_commit_def r_unlock_def at_db_def fits_def prog_Return prog_Blocked
      dest: commit_Return) (auto simp: commit_def Let_def split: option.splits if_splits)

lemma runs_drop: "LDb \<in> set H \<Longrightarrow> K = removeAll LDb H \<Longrightarrow> runs H r_drop K"
  by (auto simp: runs_def r_drop_def r_unlock_def at_db_def fits_def prog_Return prog_Blocked
      dest: drop_txn_Return) (auto simp: drop_txn_def split: if_splits)

lemma runs_pzoom:
  assumes "keeps Q m" and "\<And>s t. Q (g s) t \<Longrightarrow> rs_held (p t s) = rs_held s \<and> in_txn (rs_db s) (rs_db (p t s))"
  shows "runs H (pzoom g p m :: (('p, 'h, 'l) rstate, 'a) prog) H"
  unfolding runs_def
proof (intro allI impI conjI)
  fix s :: "('p, 'h, 'l) rstate"
  assume s: "fits H s"
  show "pzoom g p m s \<noteq> Blocked" using keeps_not_Blocked [OF assms(1)] by (simp add: pzoom_Blocked)
  fix a t
  assume "pzoom g p m s = Return (a, t)"
  then obtain u where u: "m (g s) = Return (a, u)" "t = p u s" by (auto simp: pzoom_Return)
  from assms(2) [OF keepsD [OF assms(1) u(1)]] s show "fits H t" by (simp add: u(2) fits_def in_txn_def)
qed

lemma runs_at_db: "keeps in_txn m \<Longrightarrow> runs H (at_db m) H"
  unfolding at_db_def by (erule runs_pzoom) simp_all

lemma runs_at_db_hsm: "keeps in_txn_hsm m \<Longrightarrow> runs H (at_db_hsm m) H"
  unfolding at_db_hsm_def by (erule runs_pzoom) (auto simp: in_txn_hsm_def)

lemma runs_at_all: "keystore_call m \<Longrightarrow> runs H (at_all m) H"
  unfolding at_all_def keystore_call_def by (erule runs_pzoom) (auto simp: keystore_only_def)

lemma runs_at_db_client: "keystore_call m \<Longrightarrow> runs H (at_db_client m) H"
  unfolding at_db_client_def keystore_call_def by (erule runs_pzoom) (auto simp: keystore_only_def)

lemma runs_at_hsm_client: "comes_back m \<Longrightarrow> runs H (at_hsm_client m) H"
  unfolding at_hsm_client_def comes_back_def by (erule runs_pzoom) (auto simp: stmt.R_refl)

lemma runs_at_client: "comes_back m \<Longrightarrow> runs H (at_client m) H"
  unfolding at_client_def comes_back_def by (erule runs_pzoom) (auto simp: stmt.R_refl)

lemma runs_system_now: "runs H system_now H"
  by (auto simp: runs_def system_now_def fits_def)

lemma runs_time_plus: "runs H (time_plus t n) H"
  unfolding time_plus_def by (intro runs_option runs_ppanic runs_pret) simp

lemmas runs_flow = runs_pbindE runs_pret runs_pgets runs_map_err runs_if runs_option runs_sum runs_prod
  runs_Let runs_system_now runs_time_plus

section \<open>The operations\<close>

lemma runs_db_read: "LDb \<notin> set H \<Longrightarrow> runs (LDb # H) m (LDb # H) \<Longrightarrow> runs H (db_read m) H"
  unfolding db_read_def
  by (rule runs_pbind, rule runs_begin, simp, rule runs_pbind, assumption, rule runs_pbind,
      rule runs_drop, simp, rule refl, rule runs_pret, simp)

lemma runs_db_change: "LDb \<notin> set H \<Longrightarrow> runs (LDb # H) m (LDb # H) \<Longrightarrow> runs H (db_change m) H"
  unfolding db_change_def end_txn_def
  by (rule runs_pbind, rule runs_begin, simp, rule runs_pbind, assumption, rule runs_sum;
      rule runs_pbind, rule runs_drop runs_commit, simp, rule refl, rule runs_pret, simp)

lemma runs_with_hsm_txn:
  assumes "LDb \<notin> set H" and "LHsm \<notin> set H" and m: "runs (LHsm # LDb # H) m (LHsm # LDb # H)"
  shows "runs H (with_hsm_txn m :: (('a, 'b, 'c) rstate, unit + 'd) prog) H"
proof -
  have end_txn: "runs (LHsm # LDb # H) (end_txn r) (LHsm # H)" for r :: "CacheError + 'd"
    unfolding end_txn_def using assms by (intro runs_sum; intro runs_pbind runs_drop runs_commit runs_pret refl) simp_all
  show ?thesis
    unfolding with_hsm_txn_def using assms
    by (intro runs_pbind [OF runs_begin] runs_pbind [OF runs_lock] runs_pbind [OF m] runs_pbind [OF end_txn]
        runs_pbind [OF runs_unlock] runs_pret refl) simp_all
qed

lemma runs_hsm_db_call:
  assumes "LDb \<notin> set H" and "LHsm \<notin> set H" and m: "runs (LDb # LHsm # H) m (LDb # LHsm # H)"
  shows "runs H (hsm_db_call m) H"
proof -
  have u: "runs (LDb # LHsm # H) (r_unlock LHsm) (LDb # H)" and c: "runs (LDb # H) r_commit H"
    using assms by (intro runs_unlock runs_commit; simp)+
  show ?thesis
    unfolding hsm_db_call_def using assms
    by (intro runs_pbind [OF runs_lock] runs_pbind [OF runs_begin] runs_pbind [OF m] runs_pbind [OF u]
        runs_pbind [OF c] runs_pret refl) simp_all
qed

lemma runs_locked:
  assumes "k \<notin> set H" and "k \<noteq> LDb" and m: "runs (k # H) m (k # H)"
  shows "runs H (pbind (r_lock k) (\<lambda>_. pbind m (\<lambda>r. pbind (r_unlock k) (\<lambda>_. pret r)))) H"
  using assms by (intro runs_pbind [OF runs_lock] runs_pbind [OF m] runs_pbind [OF runs_unlock] runs_pret refl) simp_all

lemma runs_check_nxset: "LNxset \<notin> set H \<Longrightarrow> runs H (check_nxset n g) H"
  unfolding check_nxset_def by (rule runs_locked) (auto intro: runs_pgets)

lemma runs_check_nxcache: "LNxcache \<notin> set H \<Longrightarrow> runs H (check_nxcache self i) H"
  unfolding check_nxcache_def by (rule runs_locked) (auto simp: runs_def fits_def)

lemma runs_set_nxcache: "LNxcache \<notin> set H \<Longrightarrow> runs H (set_nxcache self i) H"
  unfolding set_nxcache_def
  by (rule runs_pbind [OF runs_lock], simp, simp, rule runs_pbind [OF runs_system_now],
      rule runs_pbind [OF runs_time_plus], rule runs_pbind [OF runs_pmodify], simp, simp, rule runs_unlock) simp_all

lemma runs_reload_nxset: "LNxset \<notin> set H \<Longrightarrow> runs H (reload_nxset self xs) H"
  unfolding reload_nxset_def
  by (rule runs_pbind [OF runs_lock], simp, simp, rule runs_pbind [OF runs_pmodify], simp, simp, rule runs_unlock)
    simp_all

lemma runs_cached_or_nx: "LNxcache \<notin> set H \<Longrightarrow> runs H (cached_or_nx self i r) H"
  unfolding cached_or_nx_def
  by (intro runs_option runs_prod runs_pbind [OF runs_time_plus] runs_pbind [OF runs_system_now]
      runs_pbind [OF runs_check_nxcache] runs_pret) simp_all

lemma runs_get_cached_usertoken:
  "LDb \<notin> set H \<Longrightarrow> LNxcache \<notin> set H \<Longrightarrow> runs H (get_cached_usertoken self i) H"
  unfolding get_cached_usertoken_def
  by (intro runs_db_read runs_pbindE runs_map_err runs_at_db get_account_keeps runs_cached_or_nx) simp_all

lemma runs_get_cached_grouptoken:
  "LDb \<notin> set H \<Longrightarrow> LNxcache \<notin> set H \<Longrightarrow> runs H (get_cached_grouptoken self i) H"
  unfolding get_cached_grouptoken_def
  by (intro runs_db_read runs_pbindE runs_map_err runs_at_db get_group_keeps runs_cached_or_nx) simp_all

lemma runs_get_cached_usertokens: "LDb \<notin> set H \<Longrightarrow> runs H (get_cached_usertokens self) H"
  unfolding get_cached_usertokens_def by (intro runs_db_read runs_map_err runs_at_db get_accounts_keeps)

lemma runs_get_cached_grouptokens: "LDb \<notin> set H \<Longrightarrow> runs H (get_cached_grouptokens self) H"
  unfolding get_cached_grouptokens_def by (intro runs_db_read runs_map_err runs_at_db get_groups_keeps)

lemma runs_expiry_offset: "runs H (expiry_offset self) H"
  unfolding expiry_offset_def
  by (intro runs_pbind [OF runs_system_now] runs_pbind [OF runs_time_plus] runs_pret refl)

lemma runs_path_exists: "runs H (path_exists f) H"
  unfolding path_exists_def by (rule runs_pgets)

lemma runs_remove_file: "runs H (remove_file f) H"
  by (auto simp: runs_def remove_file_def fits_def)

lemma groups_then_account_keeps:
  "keeps in_txn (pbindE (ptry_for_each (\<lambda>g. update_group d g e) gs) (\<lambda>_. update_account d a e))"
  by (intro stmt.flow update_group_keeps update_account_keeps)

lemma runs_set_cache_usertoken:
  assumes "LDb \<notin> set H" and "LNxset \<notin> set H"
  shows "runs H (set_cache_usertoken self t) H"
proof -
  have ns: "runs H (pbind (r_lock LNxset) (\<lambda>_. pbind (pgets rs_nxset) (\<lambda>ns. pbind (r_unlock LNxset) (\<lambda>_. f ns)))) H"
    if "\<And>ns. runs H (f ns) H" for f :: "Id set \<Rightarrow> (('a, 'b, 'c) rstate, 'd) prog"
    using assms(2) that
    by (intro runs_pbind [OF runs_lock] runs_pbind [OF runs_pgets] runs_pbind [OF runs_unlock [OF _ refl]]) simp_all
  show ?thesis
    unfolding set_cache_usertoken_def
    by (intro runs_pbindE runs_expiry_offset runs_pbind [where K = H] runs_option runs_pret refl runs_path_exists
        runs_Let ns runs_db_change runs_at_db groups_then_account_keeps assms)
qed

lemma runs_set_cache_grouptoken: "LDb \<notin> set H \<Longrightarrow> runs H (set_cache_grouptoken self t) H"
  unfolding set_cache_grouptoken_def
  by (intro runs_pbindE runs_expiry_offset runs_db_change runs_at_db update_group_keeps)

lemma runs_delete_cache_usertoken: "LDb \<notin> set H \<Longrightarrow> runs H (delete_cache_usertoken self u) H"
  unfolding delete_cache_usertoken_def by (intro runs_db_change runs_at_db delete_account_keeps)

lemma runs_delete_cache_grouptoken: "LDb \<notin> set H \<Longrightarrow> runs H (delete_cache_grouptoken self u) H"
  unfolding delete_cache_grouptoken_def by (intro runs_db_change runs_at_db delete_group_keeps)

lemma runs_set_cache_userpassword:
  "LDb \<notin> set H \<Longrightarrow> LHsm \<notin> set H \<Longrightarrow> runs H (set_cache_userpassword self u p) H"
  unfolding set_cache_userpassword_def by (intro runs_with_hsm_txn runs_at_db_hsm update_account_password_keeps)

lemma runs_check_cache_userpassword:
  "LDb \<notin> set H \<Longrightarrow> LHsm \<notin> set H \<Longrightarrow> runs H (check_cache_userpassword self u p) H"
  unfolding check_cache_userpassword_def by (intro runs_with_hsm_txn runs_at_db_hsm check_account_password_keeps)

lemma idp_lawsD:
  assumes "idp_laws cl"
  shows "keystore_call (idp_configure_hsm_keys cl mk)" "comes_back (idp_check_online cl now)"
    "keystore_call (idp_unix_user_get cl i t mk)" "keystore_call (idp_unix_user_access cl i sc t ci ru rc mk)"
    "keystore_call (idp_unix_user_tgts cl i t mk)" "keystore_call (idp_unix_user_prt_cookie cl i t n mk)"
    "keystore_call (idp_change_auth_token cl a ut nt mk)"
    "keystore_call (idp_unix_user_online_auth_init cl a t sv b f mk)"
    "keystore_call (idp_unix_user_online_auth_step cl a tk sv b h r mk)"
    "keystore_call (idp_unix_user_offline_auth_init cl a t b)"
    "keystore_call (idp_unix_user_offline_auth_step cl a tk h r mk b)" "comes_back (idp_unix_group_get cl i)"
    "keystore_call (idp_get_cachestate cl ao)" "comes_back (idp_offline_break_glass cl ttl)"
    "comes_back (idp_export_broker_prts cl)" "comes_back (idp_import_broker_prts cl bs)"
  using assms unfolding idp_laws_def by simp_all

lemma runs_get_cachestate:
  assumes "idp_laws (r_client self)" and "LDb \<notin> set H"
  shows "runs H (get_cachestate self a) H"
proof -
  have c: "runs (LDb # H) r_commit H" using assms(2) by (intro runs_commit) simp_all
  show ?thesis
    unfolding get_cachestate_def using assms
    by (intro runs_pbind [OF runs_begin] runs_pbind [OF runs_at_db_client] runs_pbind [OF c] runs_pret refl idp_lawsD)
qed

lemma runs_CacheState:
  "runs H m K \<Longrightarrow> runs H n K \<Longrightarrow> (\<And>t. runs H (f t) K) \<Longrightarrow>
     runs H (case st of Online \<Rightarrow> m | Offline \<Rightarrow> n | OfflineNextCheck t \<Rightarrow> f t) K"
  by (cases st) simp_all

lemma runs_Id:
  "(\<And>n. runs H (f n) K) \<Longrightarrow> (\<And>g. runs H (k g) K) \<Longrightarrow> runs H (case i of IdName n \<Rightarrow> f n | IdGid g \<Rightarrow> k g) K"
  by (cases i) simp_all

lemma runs_test_connection:
  assumes "idp_laws (r_client self)"
  shows "runs [] (test_connection self) []"
proof -
  have u: "runs [LHsm] (r_unlock LHsm) []" by (intro runs_unlock) simp_all
  show ?thesis
    unfolding test_connection_def using assms
    by (intro runs_pbind [OF runs_get_cachestate] runs_CacheState runs_pbind [OF runs_lock]
        runs_pbind [OF runs_system_now] runs_pbind [OF runs_at_hsm_client] runs_pbind [OF u] runs_pret refl
        idp_lawsD) simp_all
qed

lemma runs_refresh_usertoken:
  assumes "idp_laws (r_client self)"
  shows "runs [] (refresh_usertoken self i t) []"
proof -
  have call: "runs [] (hsm_db_call (at_all (idp_unix_user_get (r_client self) i t (r_machine_key self)))) []"
    using assms by (intro runs_hsm_db_call runs_at_all idp_lawsD) simp_all
  have k: "runs [] (case res of
        Inr (UserUpdate n_tok) \<Rightarrow> pbindE (set_cache_usertoken self n_tok) (\<lambda>n_tok'. pret (Inr (Some n_tok')))
      | Inr UserNotFound \<Rightarrow>
          pbindE (case t of None \<Rightarrow> pret (Inr ()) | Some tok \<Rightarrow> delete_cache_usertoken self (ut_uuid tok)) (\<lambda>_.
          pbind (set_nxcache self i) (\<lambda>_. pret (Inr None)))
      | Inr UseCached \<Rightarrow> pret (Inr t)
      | Inl _ \<Rightarrow> pret (Inr t)) []" for res
    by (cases res rule: sum.exhaust; simp split: UserTokenState.split)
      (auto intro!: runs_pret runs_pbindE runs_set_cache_usertoken runs_option runs_delete_cache_usertoken
        runs_pbind [OF runs_set_nxcache])
  show ?thesis
    unfolding refresh_usertoken_def
    by (intro runs_pbind [OF call] runs_prod) (auto intro!: runs_sum runs_pret k)
qed

lemma runs_refresh_grouptoken:
  assumes "idp_laws (r_client self)"
  shows "runs [] (refresh_grouptoken self i t) []"
proof -
  have u: "runs [LHsm] (r_unlock LHsm) []" by (intro runs_unlock) simp_all
  show ?thesis
    unfolding refresh_grouptoken_def using assms
    by (intro runs_pbind [OF runs_lock] runs_pbind [OF runs_at_hsm_client] runs_pbind [OF u] runs_sum runs_pret refl
        runs_pbind [OF runs_check_nxset] runs_if runs_pbindE runs_delete_cache_grouptoken runs_set_cache_grouptoken
        idp_lawsD) simp_all
qed

lemma runs_get_usertoken:
  assumes "idp_laws (r_client self)"
  shows "runs [] (get_usertoken self i) []"
  unfolding get_usertoken_def using assms
  by (intro runs_pbind [OF runs_check_nxset] runs_if runs_pret refl runs_pbindE runs_get_cached_usertoken runs_prod
      runs_pbind [where K = "[]" and H = "[]"] runs_Id runs_option runs_get_cachestate runs_CacheState
      runs_system_now runs_test_connection runs_refresh_usertoken) simp_all

lemma get_grouptoken_cached:
  "get_grouptoken self i = pbindE (get_cached_grouptoken self i) (\<lambda>(_, item). pret (Inr item))"
  by (simp add: get_grouptoken_def Let_def)

lemma runs_get_grouptoken: "runs [] (get_grouptoken self i) []"
  unfolding get_grouptoken_cached
  by (intro runs_pbindE runs_get_cached_grouptoken runs_prod runs_pret) simp_all

lemma runs_provider_request:
  assumes "idp_laws (r_client self)" and call: "\<And>t. runs [LDb, LHsm] (call t) [LDb, LHsm]"
  shows "runs [] (provider_request self i call k) []"
proof -
  have c: "runs [] (hsm_db_call (call t)) []" for t
    by (rule runs_hsm_db_call) (auto intro: call)
  show ?thesis
    unfolding provider_request_def using assms(1)
    by (intro runs_pbind [OF runs_check_nxset] runs_if runs_pret refl runs_pbind [OF runs_get_usertoken] runs_sum
        runs_option runs_pbind [OF c] runs_prod) simp_all
qed

lemma runs_unlock_last: "k \<noteq> LDb \<Longrightarrow> runs [k] (r_unlock k) []"
  by (rule runs_unlock) simp_all

lemma runs_clear_cache: "runs [] (clear_cache self) []"
  unfolding clear_cache_def
  by (intro runs_pbind [OF runs_lock] runs_pbind [OF runs_pmodify] runs_pbind [OF runs_pbindE]
      runs_pbind [OF runs_unlock_last] runs_pbind [OF runs_path_exists] runs_db_change runs_at_db stmt.pbindE_keeps
      clear_keeps clear_hello_keys_keeps runs_if runs_remove_file runs_pret) simp_all

lemma runs_resolver_invalidate: "runs [] (resolver_invalidate self) []"
  unfolding resolver_invalidate_def
  by (intro runs_pbind [OF runs_lock] runs_pbind [OF runs_pmodify] runs_pbind [OF runs_db_change]
      runs_pbind [OF runs_unlock_last] runs_at_db invalidate_keeps runs_pret) simp_all

lemma runs_get_groupmembers: "runs [] (get_groupmembers self g) []"
  unfolding get_groupmembers_def
  by (intro runs_db_read runs_pbind [OF runs_at_db] get_group_members_keeps runs_pret) simp_all

lemma runs_collect_nssgroups: "runs [] (collect_nssgroups self l r) []"
  by (induction l arbitrary: r) (auto intro!: runs_pret runs_pbind [OF runs_get_groupmembers])

lemma runs_get_nssgroups: "runs [] (get_nssgroups self) []"
  unfolding get_nssgroups_def
  by (intro runs_pbindE runs_get_cached_grouptokens runs_pbind [OF runs_collect_nssgroups] runs_pret) simp_all

lemma runs_get_nssgroup: "runs [] (get_nssgroup self i) []"
  unfolding get_nssgroup_def
  by (intro runs_pbindE runs_get_grouptoken runs_option runs_pbind [OF runs_get_groupmembers] runs_pret) simp_all

lemma runs_change_auth_token:
  assumes "idp_laws (r_client self)"
  shows "runs [] (change_auth_token self a t n) []"
  unfolding change_auth_token_def using assms
  by (intro runs_pbind [OF runs_check_nxset] runs_if runs_pret refl runs_pbind [OF runs_hsm_db_call] runs_at_all
      idp_lawsD runs_prod) simp_all

lemma runs_auth_cache_action: "runs [] (auth_cache_action self t ss res) []"
proof -
  have pw: "runs [] (pbind (set_cache_userpassword self u cred) (\<lambda>w. pret (f w))) []" for u cred f
    by (intro runs_pbind [OF runs_set_cache_userpassword] runs_pret) simp_all
  show ?thesis
    unfolding auth_cache_action_def
    by (auto intro!: runs_pret pw split: prod.split sum.split AuthCacheAction.split AuthResult.split)
qed

lemma runs_auth_step_online:
  assumes "idp_laws (r_client self)"
  shows "runs [] (auth_step_online self ss t r) []"
  unfolding auth_step_online_def Let_def using assms
  by (intro runs_pbind [OF runs_hsm_db_call] runs_at_all idp_lawsD runs_prod runs_sum runs_auth_cache_action runs_pret)
    simp_all

lemma runs_auth_step_pin:
  assumes "idp_laws (r_client self)"
  shows "runs [] (auth_step_pin self ss t r) []"
  unfolding auth_step_pin_def using assms
  by (intro runs_pbind [OF runs_hsm_db_call] runs_at_all idp_lawsD runs_prod runs_pret) simp_all

lemma runs_auth_step_offline:
  assumes laws: "idp_laws (r_client self)"
  shows "runs [] (auth_step_offline self ss t r) []"
proof -
  have "runs [] (pbind (check_cache_userpassword self u cred) (\<lambda>w. pret (f w))) []" for u cred f
    by (intro runs_pbind [OF runs_check_cache_userpassword] runs_pret) simp_all
  then show ?thesis
    unfolding auth_step_offline_def
    using runs_auth_step_pin [OF laws, of ss t r]
    by (auto intro!: runs_pret split: PamAuthRequest.split AuthCredHandler.split)
qed

lemma runs_auth_step_verdict:
  assumes laws: "idp_laws (r_client self)"
  shows "runs [] (auth_step_verdict self ss state r) []"
  unfolding auth_step_verdict_def
  using runs_auth_step_online [OF laws] runs_auth_step_offline [OF laws]
  by (auto intro!: runs_pret split: AuthSession.split option.split)

lemma runs_auth_step_conclude: "runs [] (auth_step_conclude self v ss) []"
proof -
  have del: "runs [] (pbind (delete_cache_usertoken self u) (\<lambda>d. pret (f d))) []" for u f
    by (intro runs_pbind [OF runs_delete_cache_usertoken] runs_pret) simp_all
  have put: "runs [] (pbind (set_cache_usertoken self u) (\<lambda>d. pret (f d))) []" for u f
    by (intro runs_pbind [OF runs_set_cache_usertoken] runs_pret) simp_all
  show ?thesis
    unfolding auth_step_conclude_def
    by (auto intro!: runs_pret runs_pbind [OF runs_check_nxset] runs_if del put
        split: sum.split AuthResult.split IdpError.split)
qed

lemma runs_pam_account_authenticate_step:
  assumes laws: "idp_laws (r_client self)"
  shows "runs [] (pam_account_authenticate_step self ss r) []"
  unfolding pam_account_authenticate_step_def
  by (intro runs_pbind [OF runs_get_cachestate [OF laws]] runs_pbind [OF runs_auth_step_verdict [OF laws]]
      runs_prod runs_auth_step_conclude) simp_all

lemma runs_drop_last: "runs [LDb, LHsm] r_drop [LHsm]"
  by (rule runs_drop) simp_all

lemma runs_auth_init_reauth:
  assumes laws: "idp_laws (r_client self)"
  shows "runs [] (auth_init_online self a sv n True t) []"
proof -
  have mid: "runs [LDb, LHsm] (case res of Inl e \<Rightarrow> pret (Inl e) | Inr r \<Rightarrow> pret (Inr r)) [LDb, LHsm]"
    for res :: "IdpError + AuthRequest \<times> AuthCredHandler"
    by (intro runs_sum runs_pret refl)
  show ?thesis
    unfolding auth_init_online_def if_True using laws
    by (intro runs_pbind [OF runs_lock] runs_pbind [OF runs_begin] runs_pbind [OF runs_at_all] idp_lawsD
        runs_pbind [OF mid] runs_pbind [OF runs_drop_last] runs_pbind [OF runs_unlock_last] runs_pret) simp_all
qed

lemma runs_auth_init_offline:
  assumes laws: "idp_laws (r_client self)"
  shows "runs [] (auth_init_offline self a n t) []"
  unfolding auth_init_offline_def using laws
  by (intro runs_db_read runs_at_db_client idp_lawsD) simp_all

lemma runs_auth_init:
  assumes laws: "idp_laws (r_client self)"
    and online: "\<And>t. runs [] (auth_init_online self a sv n f t) []"
  shows "runs [] (pam_account_authenticate_init self a sv n f) []"
  unfolding pam_account_authenticate_init_def Let_def using laws
  by (intro runs_pbind [OF runs_check_nxset] runs_if runs_pret runs_pbindE runs_get_cached_usertoken runs_prod
      runs_option runs_refresh_usertoken runs_pbind [OF runs_get_cachestate] runs_pbind [where K = "[]" and H = "[]"]
      runs_CacheState runs_test_connection online runs_auth_init_offline) simp_all

lemma runs_resolver_new:
  assumes laws: "idp_laws (r_client self)"
  shows "runs [] (resolver_new hc self) []"
proof -
  have fail: "runs [LDb, LHsm] (pbind r_drop (\<lambda>_. pbind (r_unlock LHsm) (\<lambda>_. pret (Inl x)))) []" for x
    by (intro runs_pbind [OF runs_drop_last] runs_pbind [OF runs_unlock_last] runs_pret) simp_all
  have u: "runs [LDb, LHsm] (r_unlock LHsm) [LDb]" and d: "runs [LDb] r_drop []" and c: "runs [LDb] r_commit []"
    by (intro runs_unlock runs_drop runs_commit; simp)+
  show ?thesis
    unfolding resolver_new_def using laws
    by (intro runs_pbind [OF runs_lock] runs_pbind [OF runs_begin] runs_pbind [where K = "[LDb, LHsm]"] runs_sum
        runs_option runs_pret fail runs_at_db runs_at_db_hsm on_hsm_keeps get_hsm_int_key_keeps insert_hsm_int_key_keeps
        runs_at_all idp_lawsD runs_pbind [OF u] runs_pbind [OF d] runs_pbind [OF c] runs_pbind [OF runs_pmodify]
        get_hsm_int_key_keeps [of "r_deps self" "''hmac''", folded get_hsm_hmac_key_def]
        insert_hsm_int_key_keeps [of "r_deps self" "''hmac''", folded insert_hsm_hmac_key_def]) simp_all
qed

section \<open>Sequences of requests\<close>

datatype request =
    Rq_clear_cache
  | Rq_invalidate
  | Rq_reload_nxset "(string \<times> u32) list"
  | Rq_accesstoken Id "string list" "string option" "string option" "string option"
  | Rq_tgts Id
  | Rq_prt_cookie Id "string option"
  | Rq_change_auth_token string UnixUserToken string
  | Rq_offline_break_glass "u64 option"
  | Rq_usertoken Id
  | Rq_nssaccounts
  | Rq_nssaccount Id
  | Rq_nssgroups
  | Rq_nssgroup Id
  | Rq_initgroups string
  | Rq_account_allowed string
  | Rq_beginsession string
  | Rq_reauth_init string string bool
  | Rq_auth_step AuthSession PamAuthRequest
  | Rq_test_connection
  | Rq_export_broker_prts
  | Rq_import_broker_prts bytes

fun run_request :: "('p, 'h, 'l) resolver \<Rightarrow> request \<Rightarrow> (('p, 'h, 'l) rstate, unit) prog" where
  "run_request self Rq_clear_cache = ignore_result (clear_cache self)"
| "run_request self Rq_invalidate = ignore_result (resolver_invalidate self)"
| "run_request self (Rq_reload_nxset xs) = ignore_result (reload_nxset self xs)"
| "run_request self (Rq_accesstoken i sc ci ru rc) = ignore_result (get_user_accesstoken self i sc ci ru rc)"
| "run_request self (Rq_tgts i) = ignore_result (get_user_tgts self i)"
| "run_request self (Rq_prt_cookie i n) = ignore_result (get_user_prt_cookie self i n)"
| "run_request self (Rq_change_auth_token a t n) = ignore_result (change_auth_token self a t n)"
| "run_request self (Rq_offline_break_glass ttl) = ignore_result (offline_break_glass self ttl)"
| "run_request self (Rq_usertoken i) = ignore_result (get_usertoken self i)"
| "run_request self Rq_nssaccounts = ignore_result (get_nssaccounts self)"
| "run_request self (Rq_nssaccount i) = ignore_result (get_nssaccount self i)"
| "run_request self Rq_nssgroups = ignore_result (get_nssgroups self)"
| "run_request self (Rq_nssgroup i) = ignore_result (get_nssgroup self i)"
| "run_request self (Rq_initgroups a) = ignore_result (get_initgroups self a)"
| "run_request self (Rq_account_allowed a) = ignore_result (pam_account_allowed self a)"
| "run_request self (Rq_beginsession a) = ignore_result (pam_account_beginsession self a)"
| "run_request self (Rq_reauth_init a sv n) = ignore_result (pam_account_authenticate_init self a sv n True)"
| "run_request self (Rq_auth_step ss r) = ignore_result (pam_account_authenticate_step self ss r)"
| "run_request self Rq_test_connection = ignore_result (test_connection self)"
| "run_request self Rq_export_broker_prts = ignore_result (export_broker_prts self)"
| "run_request self (Rq_import_broker_prts b) = ignore_result (import_broker_prts self b)"

fun run_requests :: "('p, 'h, 'l) resolver \<Rightarrow> request list \<Rightarrow> (('p, 'h, 'l) rstate, unit) prog" where
  "run_requests self [] = pret ()"
| "run_requests self (r # rs) = pbind (run_request self r) (\<lambda>_. run_requests self rs)"

lemma runs_ignore: "runs H m K \<Longrightarrow> runs H (ignore_result m) K"
  unfolding ignore_result_def by (rule runs_pbind) (auto intro: runs_pret)

lemma runs_after_usertoken:
  assumes "idp_laws (r_client self)" and "\<And>t. \<exists>x. f t = pret x"
  shows "runs [] (pbindE (get_usertoken self i) f) []"
proof -
  have "runs [] (f t) []" for t using assms(2) [of t] by (auto intro: runs_pret)
  then show ?thesis using assms(1) by (intro runs_pbindE runs_get_usertoken)
qed

lemma runs_get_nssaccounts: "runs [] (get_nssaccounts self) []"
  unfolding get_nssaccounts_def by (intro runs_pbindE runs_get_cached_usertokens runs_pret) simp_all

lemma runs_pam_account_allowed: "idp_laws (r_client self) \<Longrightarrow> runs [] (pam_account_allowed self a) []"
  unfolding pam_account_allowed_def by (intro runs_pbindE runs_get_usertoken runs_if runs_pret refl)

lemma runs_request:
  assumes laws: "idp_laws (r_client self)"
  shows "runs [] (run_request self r) []"
  using laws
  by (cases r; simp; intro runs_ignore)
    (auto simp: get_user_accesstoken_def get_user_tgts_def get_user_prt_cookie_def offline_break_glass_def
      get_nssaccount_def get_initgroups_def pam_account_beginsession_def
      export_broker_prts_def import_broker_prts_def
      intro: runs_clear_cache runs_resolver_invalidate runs_reload_nxset runs_change_auth_token runs_get_usertoken
        runs_get_nssgroups runs_get_nssgroup runs_pam_account_authenticate_step runs_test_connection
        runs_provider_request runs_at_all idp_lawsD runs_map_err runs_at_client runs_after_usertoken
        runs_get_nssaccounts runs_pam_account_allowed runs_auth_init runs_auth_init_reauth)

lemma runs_requests: "idp_laws (r_client self) \<Longrightarrow> runs [] (run_requests self rs) []"
  by (induction rs) (auto intro: runs_pret runs_pbind runs_request)

text \<open>
  C7. However many requests are served one after the other, in whatever order and however
  they end, none of them waits for a lock its own task holds, every lock is given back, and
  the unique columns of the cache stay unique. The requests are those of NSS, PAM, the broker
  and the administrator, except an authentication that may fall back to offline.
\<close>

theorem requests_release_locks:
  assumes laws: "idp_laws (r_client self)" and idle: "rs_held s = []" "\<not> guard (rs_db s)" "conn_wf (rs_db s)"
  shows "run_requests self rs s \<noteq> Blocked \<and>
    (\<forall>x t. run_requests self rs s = Return (x, t) \<longrightarrow>
       rs_held t = [] \<and> \<not> guard (rs_db t) \<and> conn_wf (rs_db t))"
proof -
  have s: "fits [] s" using idle by (simp add: fits_def)
  have "fits [] t" if "run_requests self rs s = Return (x, t)" for x t
    by (rule runs_Return [OF runs_requests [OF laws] s that])
  then show ?thesis
    using runs_not_Blocked [OF runs_requests [OF laws] s] by (simp add: fits_def)
qed

section \<open>A sample resolver\<close>

definition sample_lru :: "(Id \<times> systime) list lru" where
  "sample_lru = \<lparr>lru_new = [], lru_put = (\<lambda>k v l. (k, v) # l), lru_get = (\<lambda>k l. (map_of l k, l)),
     lru_clear = (\<lambda>_. [])\<rparr>"

text \<open>A provider that is online, knows one user, asks for a PIN and accepts one.\<close>

definition sample_client :: "(unit, unit) IdProvider" where
  "sample_client = \<lparr>
     idp_configure_hsm_keys = (\<lambda>_. pret (Inr ())),
     idp_check_online = (\<lambda>_. pret True),
     idp_unix_user_get = (\<lambda>_ _ _. pret (Inr (UserUpdate sample_user))),
     idp_unix_user_access = (\<lambda>_ _ _ _ _ _ _. pret (Inr ''token'')),
     idp_unix_user_tgts = (\<lambda>_ _ _. pret (None, None, None, None)),
     idp_unix_user_prt_cookie = (\<lambda>_ _ _ _. pret (Inr ''cookie'')),
     idp_change_auth_token = (\<lambda>_ _ _ _. pret (Inr True)),
     idp_unix_user_online_auth_init = (\<lambda>_ _ _ _ _ _. pret (Inr (AR_Pin, CH_None))),
     idp_unix_user_online_auth_step = (\<lambda>_ t _ _ h r _. pret (
       case r of PQ_Pin p \<Rightarrow> if p = ''123456'' then Inr (Auth_Success t, NoCacheAction)
           else Inr (Auth_Denied ''bad pin'', NoCacheAction)
         | _ \<Rightarrow> Inl BadRequest, h)),
     idp_unix_user_offline_auth_init = (\<lambda>_ _ _. pret (Inr (AR_Pin, CH_None))),
     idp_unix_user_offline_auth_step = (\<lambda>_ t h r _ _. pret (Inl BadRequest, h)),
     idp_unix_group_get = (\<lambda>_. pret (Inl BadRequest)),
     idp_get_cachestate = (\<lambda>_. pret Online),
     idp_offline_break_glass = (\<lambda>_. pret (Inr ())),
     idp_export_broker_prts = pret (Inr []),
     idp_import_broker_prts = (\<lambda>_. pret (Inr ()))\<rparr>"

definition sample_resolver :: "(unit, unit, (Id \<times> systime) list) resolver" where
  "sample_resolver = \<lparr>r_deps = sample_deps, r_lru = sample_lru, r_client = sample_client, r_machine_key = ''mk'',
     r_pam_allow_groups = {''7''}, r_timeout_seconds = 300, r_default_shell = ''/bin/bash'',
     r_home_prefix = ''/home/'', r_home_attr = HA_Uuid, r_home_alias = Some HA_Spn, r_uid_attr_map = UA_Spn,
     r_gid_attr_map = UA_Spn, r_allow_id_overrides = {}\<rparr>"

definition sample_idle :: "(unit, unit, (Id \<times> systime) list) rstate" where
  "sample_idle = \<lparr>rs_db = \<lparr>disk = sample_tables, txn = None, guard = False, sql_fault = (\<lambda>_. False), stmt_no = 0,
       foreign_keys = False\<rparr>, rs_hsm = (), rs_client = (), rs_nxset = {}, rs_nxcache = [], rs_held = [],
     rs_trace = [], rs_clock = (\<lambda>_. 1700000000 * 1000000000), rs_tick = 0, rs_files = {}, rs_remove_fails = (\<lambda>_. False)\<rparr>"

lemma keystore_only_refl: "keystore_only c c"
  by (simp add: keystore_only_def stmt.R_refl)

lemma keystore_call_pret: "keystore_call (pret x)" "comes_back (pret y)"
  by (simp_all add: keystore_call_def comes_back_def keeps_def keystore_only_refl)

lemma sample_client_laws: "idp_laws sample_client"
  unfolding idp_laws_def sample_client_def by (simp add: keystore_call_pret)

lemma sample_idle_facts:
  "rs_held sample_idle = []" "\<not> guard (rs_db sample_idle)" "conn_wf (rs_db sample_idle)"
  "r_client sample_resolver = sample_client"
  using sample_ready(1)
  by (simp_all add: sample_idle_def sample_resolver_def conn_wf_def)

theorem requests_release_locks_witness:
  "run_requests sample_resolver [Rq_usertoken (IdName ''alice''), Rq_nssgroups, Rq_clear_cache] sample_idle \<noteq> Blocked"
  using requests_release_locks [of sample_resolver sample_idle] sample_client_laws
  by (simp add: sample_idle_facts del: run_requests.simps)

section \<open>The authentication that waits for itself\<close>

lemma get_cachestate_Blocked: "LDb \<in> set (rs_held s) \<Longrightarrow> get_cachestate self a s = Blocked"
  by (simp add: get_cachestate_def r_begin_def r_lock_def pbind_def)

lemma auth_init_online_Blocked:
  assumes laws: "idp_laws (r_client self)" and s: "fits [] s"
    and db: "txn (rs_db s) = None" "\<And>n. \<not> sql_fault (rs_db s) n"
    and err: "\<And>x. \<exists>e y. idp_unix_user_online_auth_init (r_client self) a t sv n False (r_machine_key self) x = Return (Inl e, y)"
  shows "auth_init_online self a sv n False t s = Blocked"
proof -
  let ?init = "at_all (idp_unix_user_online_auth_init (r_client self) a t sv n False (r_machine_key self))"
  obtain s1 where s1: "r_lock LHsm s = Return ((), s1)" "rs_db s1 = rs_db s" "fits [LHsm] s1"
    using s by (auto simp: r_lock_def fits_def)
  obtain s2 where s2: "r_begin s1 = Return ((), s2)" "fits [LDb, LHsm] s2"
  proof -
    have "\<exists>s2. r_begin s1 = Return ((), s2)"
      using s1 db by (auto simp: r_begin_def r_lock_def at_db_def prog_Return db_write_Return fits_def)
    then obtain s2 where s2: "r_begin s1 = Return ((), s2)" by blast
    have "runs [LHsm] r_begin [LDb, LHsm]" by (rule runs_begin) simp
    from that [OF s2 runs_Return [OF this s1(3) s2]] show ?thesis .
  qed
  from err [of "(rs_db s2, rs_hsm s2, rs_client s2)"] obtain e s3 where s3: "?init s2 = Return (Inl e, s3)"
    by (auto simp: at_all_def pzoom_def)
  have "fits [LDb, LHsm] s3"
    by (rule runs_Return [OF runs_at_all [OF idp_lawsD(8) [OF laws]] s2(2) s3])
  then have "get_cachestate self (Some a) s3 = Blocked"
    by (intro get_cachestate_Blocked) (simp add: fits_def)
  then show ?thesis
    unfolding auth_init_online_def by (simp add: pbind_def s1(1) s2(1) s3)
qed

text \<open>
  C8. When the provider's online initialisation of an authentication fails, and the request
  does not insist on a fresh sign-in, the daemon asks for the cache state while it still holds
  the database transaction of the same request. The request never completes, and the database
  and the HSM stay locked.
\<close>

theorem auth_init_error_deadlocks:
  assumes laws: "idp_laws (r_client self)"
    and idle: "rs_held s = []" "\<not> guard (rs_db s)" "conn_wf (rs_db s)"
    and nx: "check_nxset (Some a) None s = Return (False, s1)"
    and cached: "get_cached_usertoken self (IdName a) s1 = Return (Inr (ex, Some token), s2)"
    and online: "get_cachestate self (Some a) s2 = Return (Online, s3)"
    and db: "txn (rs_db s3) = None" "\<And>n. \<not> sql_fault (rs_db s3) n"
    and err: "\<And>x. \<exists>e y. idp_unix_user_online_auth_init (r_client self) a (Some token) sv n False
      (r_machine_key self) x = Return (Inl e, y)"
  shows "pam_account_authenticate_init self a sv n False s = Blocked"
proof -
  have "fits [] s" using idle by (simp add: fits_def)
  then have "fits [] s1" by (rule runs_Return [OF runs_check_nxset _ nx, rotated]) simp
  then have "fits [] s2" by (rule runs_Return [OF runs_get_cached_usertoken _ cached, rotated -1]) simp_all
  then have "fits [] s3" by (rule runs_Return [OF runs_get_cachestate [OF laws] _ online, rotated]) simp
  from auth_init_online_Blocked [OF laws this db err] show ?thesis
    by (simp add: pam_account_authenticate_init_def pbind_def pbindE_def pret_def Let_def nx cached online)
qed

definition failing_resolver :: "(unit, unit, (Id \<times> systime) list) resolver" where
  "failing_resolver = sample_resolver\<lparr>r_client := sample_client\<lparr>
     idp_unix_user_online_auth_init := (\<lambda>_ _ _ _ _ _. pret (Inl Transport))\<rparr>\<rparr>"

definition cached_idle :: "(unit, unit, (Id \<times> systime) list) rstate" where
  "cached_idle = sample_idle\<lparr>rs_db := (rs_db sample_idle)\<lparr>disk :=
     sample_tables\<lparr>account_t := [account_entry ''1'' sample_user [1] 100 None]\<rparr>\<rparr>\<rparr>"

lemmas resolver_eval = prog_defs at_db_def at_db_client_def at_all_def r_lock_def r_unlock_def r_begin_def
  r_commit_def r_drop_def db_read_def check_nxset_def get_cached_usertoken_def cached_or_nx_def check_nxcache_def
  system_now_def time_plus_def time_add_secs_def get_cachestate_def db_write_def commit_def drop_txn_def
  get_account_def get_account_data_name_def sql_prepare_def sql_exec_def sql_select_def sql_def Let_def cur_def
  put_cur_def one_token_def u64_of_i64_def fk_dangling_def

lemmas sample_eval = sample_idle_def sample_resolver_def sample_client_def sample_tables_def empty_tables_def
  cached_idle_def failing_resolver_def account_entry_def

lemma failing_laws: "idp_laws (r_client failing_resolver)"
  unfolding idp_laws_def failing_resolver_def sample_client_def sample_resolver_def by (simp add: keystore_call_pret)

lemma cached_idle_facts: "rs_held cached_idle = []" "\<not> guard (rs_db cached_idle)" "conn_wf (rs_db cached_idle)"
  using sample_ready(1)
  by (simp_all add: cached_idle_def sample_idle_def conn_wf_def tables_wf_def account_unique_def)

lemma alice_matches: "eq_nocase (ut_spn sample_user) ''alice@example.com''"
  "\<not> eq_nocase (ut_name sample_user) ''alice@example.com''"
  by code_simp+

theorem auth_init_error_deadlocks_witness:
  "pam_account_authenticate_init failing_resolver ''alice@example.com'' ''sshd'' False False cached_idle = Blocked"
proof -
  let ?a = "''alice@example.com''"
  have "\<exists>s1. check_nxset (Some ?a) None cached_idle = Return (False, s1) \<and>
      rs_db s1 = rs_db cached_idle \<and> rs_held s1 = [] \<and> rs_nxcache s1 = [] \<and> rs_clock s1 = rs_clock cached_idle
      \<and> rs_hsm s1 = () \<and> rs_client s1 = ()"
    by (simp add: resolver_eval sample_eval)
  then obtain s1 where nx: "check_nxset (Some ?a) None cached_idle = Return (False, s1)"
    and s1: "rs_db s1 = rs_db cached_idle" "rs_held s1 = []" "rs_clock s1 = rs_clock cached_idle" by blast
  have "\<exists>ex s2. get_cached_usertoken failing_resolver (IdName ?a) s1 = Return (Inr (ex, Some sample_user), s2)
     \<and> rs_held s2 = [] \<and> guard (rs_db s2) = False \<and> txn (rs_db s2) = None \<and> sql_fault (rs_db s2) = (\<lambda>_. False)
     \<and> memberof_t (disk (rs_db s2)) = []"
    using alice_matches by (simp add: resolver_eval sample_eval s1) blast
  then obtain ex s2 where cached: "get_cached_usertoken failing_resolver (IdName ?a) s1 = Return (Inr (ex, Some sample_user), s2)"
    and s2: "rs_held s2 = []" "\<not> guard (rs_db s2)" "txn (rs_db s2) = None" "sql_fault (rs_db s2) = (\<lambda>_. False)"
     "memberof_t (disk (rs_db s2)) = []" by blast
  have "\<exists>s3. get_cachestate failing_resolver (Some ?a) s2 = Return (Online, s3) \<and> txn (rs_db s3) = None
     \<and> sql_fault (rs_db s3) = (\<lambda>_. False)"
    by (simp add: resolver_eval failing_resolver_def sample_resolver_def sample_client_def s2)
  then obtain s3 where online: "get_cachestate failing_resolver (Some ?a) s2 = Return (Online, s3)"
    and s3: "txn (rs_db s3) = None" "sql_fault (rs_db s3) = (\<lambda>_. False)" by blast
  show ?thesis
    by (rule auth_init_error_deadlocks [OF failing_laws cached_idle_facts nx cached online s3(1)])
      (auto simp: s3(2) failing_resolver_def sample_resolver_def sample_client_def pret_def)
qed

end
