(* ===== verification/Resolver_Auth.thy ===== *)
theory Resolver_Auth
  imports Resolver_Locks
begin

text \<open>
  What an authentication and an authorisation guarantee (\<open>resolver.rs\<close>): success has
  evidence behind it, a finished session cannot succeed, a request for a fresh sign-in is
  never satisfied offline, local users are never touched, and membership of an allowed group
  is decided by object ids alone.
\<close>

section \<open>The set of local names is only changed by reloading it\<close>

lemma nxset_lock: "leaves rs_nxset (r_lock k)"
  by (auto simp: leaves_def r_lock_def)

lemma nxset_unlock: "leaves rs_nxset (r_unlock k)"
  unfolding r_unlock_def by (rule leaves_pmodify) simp

lemma nxset_at: "leaves rs_nxset (at_db m1)" "leaves rs_nxset (at_db_hsm m2)" "leaves rs_nxset (at_client m3)"
  "leaves rs_nxset (at_hsm_client m4)" "leaves rs_nxset (at_db_client m5)" "leaves rs_nxset (at_all m6)"
  unfolding at_db_def at_db_hsm_def at_client_def at_hsm_client_def at_db_client_def at_all_def
  by (rule leaves_pzoom; simp split: prod.split)+

lemma nxset_txn: "leaves rs_nxset r_begin" "leaves rs_nxset r_commit" "leaves rs_nxset r_drop"
  unfolding r_begin_def r_commit_def r_drop_def
  by (intro leaves_flow nxset_lock nxset_unlock nxset_at)+

lemmas nxset_flow = leaves_flow nxset_lock nxset_unlock nxset_at nxset_txn

lemma nxset_calls:
  "leaves rs_nxset m \<Longrightarrow> leaves rs_nxset (hsm_db_call m)"
  "leaves rs_nxset n \<Longrightarrow> leaves rs_nxset (with_hsm_txn n)"
  unfolding hsm_db_call_def with_hsm_txn_def end_txn_def by (intro nxset_flow; assumption)+

lemma nxset_get_cachestate: "leaves rs_nxset (get_cachestate self a)"
  unfolding get_cachestate_def by (intro nxset_flow)

lemma nxset_passwords: "leaves rs_nxset (set_cache_userpassword self u p)"
  "leaves rs_nxset (check_cache_userpassword self u p)"
  unfolding set_cache_userpassword_def check_cache_userpassword_def by (intro nxset_calls nxset_flow)+

lemma nxset_auth_cache_action: "leaves rs_nxset (auth_cache_action self t ss res)"
  unfolding auth_cache_action_def
  by (auto intro!: nxset_flow nxset_passwords split: prod.split sum.split AuthCacheAction.split AuthResult.split)

lemma nxset_auth_step_online: "leaves rs_nxset (auth_step_online self ss t r)"
  unfolding auth_step_online_def Let_def by (intro nxset_flow nxset_calls nxset_auth_cache_action)

lemma nxset_auth_step_pin: "leaves rs_nxset (auth_step_pin self ss t r)"
  unfolding auth_step_pin_def by (intro nxset_flow nxset_calls)

lemma nxset_auth_step_offline: "leaves rs_nxset (auth_step_offline self ss t r)"
  unfolding auth_step_offline_def
  by (auto intro!: nxset_flow nxset_passwords nxset_auth_step_pin split: PamAuthRequest.split AuthCredHandler.split)

lemma nxset_auth_step_verdict: "leaves rs_nxset (auth_step_verdict self ss st r)"
  unfolding auth_step_verdict_def
  by (auto intro!: nxset_flow nxset_auth_step_online nxset_auth_step_offline split: AuthSession.split option.split)

lemma check_nxset_Return:
  "check_nxset n g s = Return (b, t) \<Longrightarrow>
     b = ((case n of Some x \<Rightarrow> IdName x \<in> rs_nxset s | None \<Rightarrow> False)
        \<or> (case g of Some x \<Rightarrow> IdGid x \<in> rs_nxset s | None \<Rightarrow> False)) \<and> rs_nxset t = rs_nxset s"
  by (cases n; cases g) (auto simp: check_nxset_def pbind_Return r_lock_def r_unlock_def split: if_splits)

section \<open>Evidence of success\<close>

text \<open>
  What may stand behind a successful step of a session with the token \<open>token\<close>, when the
  resolver is in the state \<open>u\<close> and its connection is \<open>st\<close>: the provider's verdict while
  online; a password that the cache accepts; the provider's verdict on a PIN or a TOTP code
  while offline. Offline evidence counts only where no fresh sign-in is asked for.
\<close>

definition online_accepts :: "('p, 'h, 'l) resolver \<Rightarrow> ('p, 'h, 'l) rstate \<Rightarrow> AuthSession \<Rightarrow> UserToken
    \<Rightarrow> PamAuthRequest \<Rightarrow> UserToken \<Rightarrow> bool" where
  "online_accepts self u ss token req tok \<longleftrightarrow>
     (\<exists>act h w. hsm_db_call (at_all (idp_unix_user_online_auth_step (r_client self) (as_account_id ss) token
        (as_service ss) (as_no_hello_pin ss) (as_cred_handler ss) req (r_machine_key self))) u =
        Return (((Inr (Auth_Success tok, act), h), Inr ()), w))"

definition pin_accepted :: "('p, 'h, 'l) resolver \<Rightarrow> ('p, 'h, 'l) rstate \<Rightarrow> AuthSession \<Rightarrow> UserToken
    \<Rightarrow> PamAuthRequest \<Rightarrow> UserToken \<Rightarrow> bool" where
  "pin_accepted self u ss token req tok \<longleftrightarrow>
     (\<exists>h w. hsm_db_call (at_all (idp_unix_user_offline_auth_step (r_client self) (as_account_id ss) token
        (as_cred_handler ss) req (r_machine_key self) (as_online_at_init ss))) u =
        Return (((Inr (Auth_Success tok), h), Inr ()), w))"

definition success_evidence :: "('p, 'h, 'l) resolver \<Rightarrow> ('p, 'h, 'l) rstate \<Rightarrow> CacheState \<Rightarrow> AuthSession \<Rightarrow> UserToken
    \<Rightarrow> PamAuthRequest \<Rightarrow> UserToken \<Rightarrow> bool" where
  "success_evidence self u st ss token req tok \<longleftrightarrow>
     (if as_online_at_init ss \<and> st = Online then online_accepts self u ss token req tok
      else \<not> as_force_reauth ss \<and> (case req of
          PQ_Password cred \<Rightarrow> tok = token \<and>
            (\<exists>w. check_cache_userpassword self (ut_uuid token) cred u = Return (Inr True, w))
        | PQ_Pin _ \<Rightarrow> pin_accepted self u ss token req tok
        | PQ_HelloTOTP _ \<Rightarrow> pin_accepted self u ss token req tok
        | _ \<Rightarrow> False))"

lemma case_sum_Inr:
  "(case a of Inl _ \<Rightarrow> Inl e | Inr _ \<Rightarrow> Inr y) = Inr x \<longleftrightarrow> (\<exists>z. a = Inr z) \<and> y = x"
  "Inr x = (case a of Inl _ \<Rightarrow> Inl e | Inr _ \<Rightarrow> Inr y) \<longleftrightarrow> (\<exists>z. a = Inr z) \<and> y = x"
  by (cases a; auto)+

lemma end_txn_Inr: "end_txn r s = Return (Inr x, t) \<Longrightarrow> r = Inr x"
  by (cases r) (auto simp: end_txn_def pbind_Return case_sum_Inr)

lemma auth_cache_action_success:
  assumes "auth_cache_action self token ss res s = Return ((Inr (Inr (Auth_Success tok)), ss'), t)"
  shows "\<exists>act. res = Inr (Auth_Success tok, act)"
proof (cases res)
  case (Inl e)
  with assms show ?thesis by (simp add: auth_cache_action_def)
next
  case (Inr ra)
  obtain r act where ra: "ra = (r, act)" by (cases ra)
  show ?thesis
    using assms unfolding Inr ra
    by (cases act; cases r) (auto simp: auth_cache_action_def pbind_Return case_sum_Inr)
qed

lemma auth_step_online_success:
  assumes "auth_step_online self ss token req s = Return ((Inr (Inr (Auth_Success tok)), ss'), t)"
  shows "online_accepts self s ss token req tok"
proof -
  let ?call = "idp_unix_user_online_auth_step (r_client self) (as_account_id ss) token
        (as_service ss) (as_no_hello_pin ss) (as_cred_handler ss) req (r_machine_key self)"
  from assms obtain r h c u where call: "hsm_db_call (at_all ?call) s = Return (((r, h), c), u)"
    and k: "(case c of Inl _ \<Rightarrow> pret (Inl (Inl ()), set_handler h ss)
      | Inr _ \<Rightarrow> auth_cache_action self token (set_handler h ss) r) u
        = Return ((Inr (Inr (Auth_Success tok)), ss'), t)"
    by (auto simp: auth_step_online_def pbind_Return Let_def cong: sum.case_cong)
  from k have "c = Inr ()" by (cases c) auto
  moreover from this k have "\<exists>act. r = Inr (Auth_Success tok, act)"
    by (auto dest: auth_cache_action_success)
  ultimately show ?thesis using call unfolding online_accepts_def by blast
qed

lemma auth_step_pin_success:
  assumes "auth_step_pin self ss token req s = Return ((Inr (Inr (Auth_Success tok)), ss'), t)"
  shows "pin_accepted self s ss token req tok"
proof -
  let ?call = "idp_unix_user_offline_auth_step (r_client self) (as_account_id ss) token (as_cred_handler ss) req
           (r_machine_key self) (as_online_at_init ss)"
  from assms obtain r h c u where call: "hsm_db_call (at_all ?call) s = Return (((r, h), c), u)"
    and "(case c of Inl _ \<Rightarrow> Inl (Inl ()) | Inr _ \<Rightarrow> Inr r) = (Inr (Inr (Auth_Success tok)) :: StepVerdict)"
    by (auto simp: auth_step_pin_def pbind_Return cong: sum.case_cong)
  then have "r = Inr (Auth_Success tok) \<and> c = Inr ()" by (cases c) auto
  with call show ?thesis unfolding pin_accepted_def by blast
qed

lemma auth_step_offline_success:
  assumes "auth_step_offline self ss token req s = Return ((Inr (Inr (Auth_Success tok)), ss'), t)"
  shows "\<not> as_force_reauth ss \<and> (case req of
          PQ_Password cred \<Rightarrow> tok = token \<and>
            (\<exists>w. check_cache_userpassword self (ut_uuid token) cred s = Return (Inr True, w))
        | PQ_Pin _ \<Rightarrow> pin_accepted self s ss token req tok
        | PQ_HelloTOTP _ \<Rightarrow> pin_accepted self s ss token req tok
        | _ \<Rightarrow> False)"
proof -
  from assms have f: "\<not> as_force_reauth ss" by (auto simp: auth_step_offline_def)
  consider (pw) cred where "req = PQ_Password cred" | (pin) "\<exists>p. req = PQ_Pin p \<or> req = PQ_HelloTOTP p"
      "auth_step_pin self ss token req s = Return ((Inr (Inr (Auth_Success tok)), ss'), t)"
    using assms f unfolding auth_step_offline_def by (cases req; cases "as_cred_handler ss"; simp)
  then show ?thesis
  proof cases
    case pw
    with assms f obtain r u where r: "check_cache_userpassword self (ut_uuid token) cred s = Return (r, u)"
      and v: "(case r of Inr True \<Rightarrow> Inr (Inr (Auth_Success token))
            | Inr False \<Rightarrow> Inr (Inr (Auth_Denied ''Offline auth failed''))
            | Inl _ \<Rightarrow> Inl (Inl ())) = (Inr (Inr (Auth_Success tok)) :: StepVerdict)"
      by (auto simp: auth_step_offline_def pbind_Return)
    from v have "r = Inr True \<and> tok = token" by (simp split: sum.splits bool.splits)
    with r pw f show ?thesis by simp
  next
    case pin
    with f auth_step_pin_success [OF pin(2)] show ?thesis by auto
  qed
qed

text \<open>The only early answer of a step is the refusal to go on offline.\<close>

definition early_denial :: "StepVerdict \<times> AuthSession \<Rightarrow> bool" where
  "early_denial vs \<longleftrightarrow> (\<forall>p. fst vs = Inl (Inr p) \<longrightarrow> p = PR_Denied reauth_msg)"

lemma early_denial_simps [simp]:
  "early_denial (Inr r, ss)" "early_denial (Inl (Inl ()), ss)" "early_denial (Inl (Inr (PR_Denied reauth_msg)), ss)"
  "early_denial (case w of Inl _ \<Rightarrow> Inl (Inl ()) | Inr _ \<Rightarrow> Inr x, ss)"
  by (auto simp: early_denial_def split: sum.splits)

lemma early_auth_cache_action: "yields early_denial (auth_cache_action self tk ss res)"
  unfolding auth_cache_action_def
  by (auto intro!: yields_pbind split: sum.split prod.split AuthCacheAction.split AuthResult.split)

lemma early_auth_step_online: "yields early_denial (auth_step_online self ss tk req)"
  unfolding auth_step_online_def Let_def
  by (rule yields_pbind) (auto intro!: early_auth_cache_action split: sum.split prod.split)

lemma early_auth_step_pin: "yields early_denial (auth_step_pin self ss tk req)"
  unfolding auth_step_pin_def by (rule yields_pbind) (auto split: prod.split)

lemma early_auth_step_offline: "yields early_denial (auth_step_offline self ss tk req)"
proof -
  have "early_denial (case r of Inl _ \<Rightarrow> Inl (Inl ()) | Inr True \<Rightarrow> Inr x | Inr False \<Rightarrow> Inr y, ss)"
    for r :: "unit + bool" and x y
    by (auto simp: early_denial_def split: sum.splits bool.splits)
  then show ?thesis
    unfolding auth_step_offline_def
    by (auto intro!: yields_pbind early_auth_step_pin split: PamAuthRequest.split AuthCredHandler.split)
qed

lemma auth_step_verdict_early: "yields early_denial (auth_step_verdict self ss st req)"
  unfolding auth_step_verdict_def
  by (auto intro!: early_auth_step_online early_auth_step_offline split: AuthSession.split option.split)

lemma auth_step_verdict_success:
  assumes "auth_step_verdict self ss st req s = Return ((Inr (Inr (Auth_Success tok)), ss'), t)"
  obtains a sv i token onl h n f where "ss = InProgress a sv i (Some token) onl h n f"
    and "success_evidence self s st ss token req tok"
proof (cases ss)
  case (InProgress a sv i tk onl h n f)
  with assms obtain token where tk: "tk = Some token"
    by (cases tk) (auto simp: auth_step_verdict_def)
  have "success_evidence self s st ss token req tok"
  proof (cases "onl \<and> st = Online")
    case True
    with assms InProgress tk
    have "auth_step_online self ss token req s = Return ((Inr (Inr (Auth_Success tok)), ss'), t)"
      by (simp add: auth_step_verdict_def)
    from auth_step_online_success [OF this] InProgress True show ?thesis by (simp add: success_evidence_def)
  next
    case False
    with assms InProgress tk
    have off: "auth_step_offline self ss token req s = Return ((Inr (Inr (Auth_Success tok)), ss'), t)"
      by (auto simp: auth_step_verdict_def)
    from auth_step_offline_success [OF off] InProgress False show ?thesis by (auto simp: success_evidence_def)
  qed
  with that InProgress tk show ?thesis by blast
qed (use assms in \<open>auto simp: auth_step_verdict_def\<close>)

lemma set_cache_usertoken_spn:
  "set_cache_usertoken self tok s = Return (Inr tok', t) \<Longrightarrow> ut_spn tok' = ut_spn tok"
  by (auto simp: set_cache_usertoken_def prog_Return Let_def split: if_splits)

lemma auth_step_conclude_success:
  assumes "auth_step_conclude self v ss s = Return ((Inr PR_Success, ss'), t)" and "v \<noteq> Inl (Inr PR_Success)"
  obtains tok where "v = Inr (Inr (Auth_Success tok))" and "ss' = Session_Success (ut_spn tok)"
    and "IdName (ut_name tok) \<notin> rs_nxset s" and "IdGid (ut_gidnumber tok) \<notin> rs_nxset s"
proof -
  from assms have "\<exists>tok. v = Inr (Inr (Auth_Success tok))"
    by (cases v) (auto simp: auth_step_conclude_def into_PamAuthResponse_never_final [THEN not_sym]
        split: sum.splits AuthResult.splits IdpError.splits)
  then obtain tok where v: "v = Inr (Inr (Auth_Success tok))" by blast
  from assms(1) obtain nx u where nx: "check_nxset (Some (ut_name tok)) (Some (ut_gidnumber tok)) s = Return (nx, u)"
    and k: "(if nx then pbind (delete_cache_usertoken self (ut_uuid tok)) (\<lambda>d.
            pret (case d of Inl _ \<Rightarrow> (Inl (), ss) | Inr _ \<Rightarrow> (Inr PR_Unknown, Session_Denied)))
          else pbind (set_cache_usertoken self tok) (\<lambda>t.
            pret (case t of Inl _ \<Rightarrow> (Inl (), ss) | Inr tok \<Rightarrow> (Inr PR_Success, Session_Success (ut_spn tok))))) u
          = Return ((Inr PR_Success, ss'), t)"
    by (auto simp: auth_step_conclude_def v pbind_Return)
  from k have "\<not> nx"
    by (rule contrapos_pn) (auto simp: pbind_Return split: sum.splits)
  with k obtain r where r: "set_cache_usertoken self tok u = Return (r, t)"
    and "(case r of Inl _ \<Rightarrow> (Inl (), ss) | Inr tok \<Rightarrow> (Inr PR_Success, Session_Success (ut_spn tok))) =
      (Inr PR_Success, ss')"
    by (auto simp: pbind_Return)
  then obtain tok' where "r = Inr tok'" "ss' = Session_Success (ut_spn tok')" by (cases r) auto
  with r set_cache_usertoken_spn [of self tok u tok' t] check_nxset_Return [OF nx] \<open>\<not> nx\<close> v that
  show ?thesis by auto
qed

lemma auth_step_success:
  assumes run: "pam_account_authenticate_step self ss req s = Return ((Inr PR_Success, ss'), t)"
  shows "\<exists>a sv i token onl h n f tok st u. ss = InProgress a sv i (Some token) onl h n f
    \<and> get_cachestate self (Some a) s = Return (st, u)
    \<and> ss' = Session_Success (ut_spn tok) \<and> success_evidence self u st ss token req tok
    \<and> IdName (ut_name tok) \<notin> rs_nxset s \<and> IdGid (ut_gidnumber tok) \<notin> rs_nxset s"
proof -
  from run obtain st u v ss1 w where
    st: "get_cachestate self (case ss of InProgress a _ _ _ _ _ _ _ \<Rightarrow> Some a | _ \<Rightarrow> None) s = Return (st, u)"
    and v: "auth_step_verdict self ss st req u = Return ((v, ss1), w)"
    and c: "auth_step_conclude self v ss1 w = Return ((Inr PR_Success, ss'), t)"
    by (auto simp: pam_account_authenticate_step_def pbind_Return)
  have "v \<noteq> Inl (Inr PR_Success)"
    using yieldsD [OF auth_step_verdict_early v] by (auto simp: early_denial_def)
  then obtain tok where tok: "v = Inr (Inr (Auth_Success tok))" "ss' = Session_Success (ut_spn tok)"
    "IdName (ut_name tok) \<notin> rs_nxset w" "IdGid (ut_gidnumber tok) \<notin> rs_nxset w"
    by (rule auth_step_conclude_success [OF c])
  have "rs_nxset w = rs_nxset s"
    using leavesD [OF nxset_get_cachestate st] leavesD [OF nxset_auth_step_verdict v] by simp
  moreover from v tok(1) have "auth_step_verdict self ss st req u = Return ((Inr (Inr (Auth_Success tok)), ss1), w)" by simp
  then obtain a sv i token onl h n f where "ss = InProgress a sv i (Some token) onl h n f"
    "success_evidence self u st ss token req tok"
    by (rule auth_step_verdict_success)
  ultimately show ?thesis using tok st by auto
qed

text \<open>
  C6. An authentication step reports success only with evidence: the session was in progress
  and had a token; in the state the step found after asking for the connection, the provider
  accepted the step online, or the cache accepted the password, or the provider accepted a PIN
  or TOTP code offline; and neither the name nor the uid of the released token is a local one.
  The session ends as a success for that token's SPN.
\<close>

theorem auth_step_success_sound:
  assumes run: "pam_account_authenticate_step self ss req s = Return ((Inr PR_Success, ss'), t)"
  shows "\<exists>a sv i token onl h n f tok st u. ss = InProgress a sv i (Some token) onl h n f
    \<and> get_cachestate self (Some a) s = Return (st, u)
    \<and> ss' = Session_Success (ut_spn tok) \<and> success_evidence self u st ss token req tok
    \<and> IdName (ut_name tok) \<notin> rs_nxset s \<and> IdGid (ut_gidnumber tok) \<notin> rs_nxset s"
  using assms by (rule auth_step_success)

section \<open>Fresh sign-ins\<close>

text \<open>
  C11. A session that insists on a fresh sign-in succeeds only online: it was started while the
  resolver was online, the resolver is online at this step, and the provider itself accepted
  the step. No cached credential stands behind the success.
\<close>

theorem reauth_requires_online:
  assumes ss: "ss = InProgress a sv i (Some token) onl h n True"
    and st: "get_cachestate self (Some a) s = Return (st, u)"
    and run: "pam_account_authenticate_step self ss req s = Return ((Inr PR_Success, ss'), t)"
  shows "onl \<and> st = Online \<and> (\<exists>tok act h' w. hsm_db_call (at_all (idp_unix_user_online_auth_step (r_client self)
    a token sv n h req (r_machine_key self))) u = Return (((Inr (Auth_Success tok, act), h'), Inr ()), w))"
proof -
  from run st obtain v ss1 w where v: "auth_step_verdict self ss st req u = Return ((v, ss1), w)"
    and c: "auth_step_conclude self v ss1 w = Return ((Inr PR_Success, ss'), t)"
    by (auto simp: pam_account_authenticate_step_def pbind_Return ss)
  have "v \<noteq> Inl (Inr PR_Success)"
    using yieldsD [OF auth_step_verdict_early v] by (auto simp: early_denial_def)
  then obtain tok where tok: "v = Inr (Inr (Auth_Success tok))" by (rule auth_step_conclude_success [OF c])
  with v have v': "auth_step_verdict self ss st req u = Return ((Inr (Inr (Auth_Success tok)), ss1), w)" by simp
  then obtain a' sv' i' tk' onl' h' n' f' where "ss = InProgress a' sv' i' (Some tk') onl' h' n' f'"
    and "success_evidence self u st ss tk' req tok"
    by (rule auth_step_verdict_success)
  with ss show ?thesis by (auto simp: success_evidence_def online_accepts_def split: if_splits)
qed

text \<open>The sessions that \<open>pam_account_authenticate_init\<close> hands out.\<close>

definition init_ok :: "bool \<Rightarrow> unit + AuthSession \<times> PamAuthResponse \<Rightarrow> bool" where
  "init_ok f r \<longleftrightarrow> (\<forall>ss resp. r = Inr (ss, resp) \<longrightarrow> resp \<noteq> PR_Success
     \<and> (\<forall>a sv i tk onl h n f'. ss = InProgress a sv i tk onl h n f' \<longrightarrow> f' = f \<and> (f \<longrightarrow> onl)))"

lemma init_ok_simps [simp]:
  "init_ok f (Inl e)" "init_ok f (Inr (Session_Denied, PR_Unknown))"
  "init_ok f (Inr (Session_Denied, PR_InitDenied m))"
  by (simp_all add: init_ok_def)

lemma yields_pbindE:
  "(\<And>a. yields P (f a)) \<Longrightarrow> (\<And>e. P (Inl e)) \<Longrightarrow> yields P (pbindE m f)"
  unfolding yields_def pbindE_Return by blast

lemma pam_account_authenticate_init_ok: "yields (init_ok f) (pam_account_authenticate_init self a sv n f)"
proof -
  have "init_ok f (case m of
             Inr (next_req, cred_handler) \<Rightarrow>
               Inr (InProgress a sv (IdName a) tk onl cred_handler n f, into_PamAuthResponse next_req)
           | Inl (NotFound what locus) \<Rightarrow> Inr (Session_Denied, PR_Denied (not_found_msg what locus))
           | Inl _ \<Rightarrow> Inl ())" if "onl \<or> \<not> f" for m tk onl
    using that by (auto simp: init_ok_def into_PamAuthResponse_never_final split: sum.splits prod.splits IdpError.splits)
  then show ?thesis
    unfolding pam_account_authenticate_init_def Let_def
    by (auto intro!: yields_pbind yields_pbindE split: prod.split)
qed

text \<open>
  A request for a fresh sign-in starts a session only while the resolver is online, and the
  answer to a first request is never that the user is authenticated already.
\<close>

theorem reauth_starts_online:
  assumes "pam_account_authenticate_init self a sv n True s = Return (Inr (ss, resp), t)"
  shows "resp \<noteq> PR_Success \<and> (ss = InProgress a' sv' i tk onl h n' f \<longrightarrow> onl \<and> f)"
  using yieldsD [OF pam_account_authenticate_init_ok assms] by (auto simp: init_ok_def)

text \<open>
  C12. Unsealing with a PIN reports success only if the daemon asked for the PIN and the
  authentication step with this PIN succeeded.
\<close>

theorem try_unseal_sound:
  assumes "pam_try_unseal self a cred s = Return (Inr True, t)"
  shows "\<exists>ss u ss'. pam_account_authenticate_init self a ''try_unseal'' False False s = Return (Inr (ss, PR_Pin), u)
    \<and> pam_account_authenticate_step self ss (PQ_Pin cred) u = Return ((Inr PR_Success, ss'), t)"
proof -
  from assms obtain ss resp u where i: "pam_account_authenticate_init self a ''try_unseal'' False False s = Return (Inr (ss, resp), u)"
    and k: "(case resp of
        PR_Pin \<Rightarrow> pbind (pam_account_authenticate_step self ss (PQ_Pin cred)) (\<lambda>(step_resp, _).
          pret (case step_resp of Inl _ \<Rightarrow> Inl () | Inr PR_Success \<Rightarrow> Inr True | Inr _ \<Rightarrow> Inr False))
      | PR_Success \<Rightarrow> pret (Inr True)
      | _ \<Rightarrow> pret (Inr False)) u = Return (Inr True, t)"
    by (auto simp: pam_try_unseal_def pbindE_Return)
  from yieldsD [OF pam_account_authenticate_init_ok i] have "resp \<noteq> PR_Success" by (auto simp: init_ok_def)
  with k have resp: "resp = PR_Pin" by (cases resp) auto
  from k [unfolded resp] obtain r ss' where
    st: "pam_account_authenticate_step self ss (PQ_Pin cred) u = Return ((r, ss'), t)"
    and "(case r of Inl _ \<Rightarrow> Inl () | Inr PR_Success \<Rightarrow> Inr True | Inr _ \<Rightarrow> Inr False) = (Inr True :: unit + bool)"
    by (auto simp: pbind_Return)
  then have "r = Inr PR_Success" by (auto split: sum.splits PamAuthResponse.splits)
  with i st resp show ?thesis by blast
qed

section \<open>Local users\<close>

lemma check_nxset_local:
  assumes "IdName a \<in> rs_nxset s" and "LNxset \<notin> set (rs_held s)"
  shows "check_nxset (Some a) g s = Return (True, s\<lparr>rs_trace := Release LNxset # Acquire LNxset # rs_trace s\<rparr>)"
  using assms by (simp add: check_nxset_def pbind_def r_lock_def r_unlock_def pgets_def pmodify_def pret_def)

text \<open>
  C13. A user that exists locally is left to the local system: an authentication ends at once
  as unknown, a lookup finds nothing, a password change is refused and no access token is
  fetched; none of these requests reads the cache or asks the provider.
\<close>

theorem local_user_untouched:
  assumes "IdName a \<in> rs_nxset s" and "rs_held s = []"
  shows "\<exists>t. pam_account_authenticate_init self a sv n f s = Return (Inr (Session_Denied, PR_Unknown), t)
    \<and> get_usertoken self (IdName a) s = Return (Inr None, t)
    \<and> change_auth_token self a tok new_tok s = Return (Inr False, t)
    \<and> get_user_accesstoken self (IdName a) scopes ci ru rc s = Return (None, t)
    \<and> rs_db t = rs_db s \<and> rs_client t = rs_client s \<and> rs_hsm t = rs_hsm s \<and> rs_held t = []"
  using assms check_nxset_local [of a s None]
  by (simp add: pam_account_authenticate_init_def get_usertoken_def change_auth_token_def get_user_accesstoken_def
      provider_request_def id_name_def id_gid_def pbind_def pret_def)

theorem local_user_untouched_witness:
  "\<exists>t. pam_account_authenticate_init sample_resolver ''root'' ''sshd'' False False (sample_idle\<lparr>rs_nxset := {IdName ''root''}\<rparr>)
      = Return (Inr (Session_Denied, PR_Unknown), t)"
proof -
  have "IdName ''root'' \<in> rs_nxset (sample_idle\<lparr>rs_nxset := {IdName ''root''}\<rparr>)"
    and "rs_held (sample_idle\<lparr>rs_nxset := {IdName ''root''}\<rparr>) = []" using sample_idle_facts(1) by simp_all
  from local_user_untouched [OF this, of sample_resolver "''sshd''" False False] show ?thesis by blast
qed

section \<open>Authorisation\<close>

text \<open>
  C14. With a list of allowed groups, a user is admitted exactly if the user's token is known
  and valid, and the list has the account name or the object id of one of the user's groups.
  Changing the names of the groups does not change the answer.
\<close>

theorem account_allowed_by_object_id:
  assumes list: "r_pam_allow_groups self \<noteq> {}"
    and run: "pam_account_allowed self a s = Return (r, t)"
  shows "(r = Inr (Some True) \<longleftrightarrow> (\<exists>tok. get_usertoken self (IdName a) s = Return (Inr (Some tok), t) \<and> ut_valid tok
      \<and> (a \<in> r_pam_allow_groups self \<or> (\<exists>g \<in> set (ut_groups tok). uuid_str (r_deps self) (gt_uuid g) \<in> r_pam_allow_groups self))))
    \<and> allowed_by_groups self a tok2 = allowed_by_groups self a (tok2\<lparr>ut_groups :=
        map (\<lambda>g. g\<lparr>gt_name := nm g, gt_spn := sp g\<rparr>) (ut_groups tok2)\<rparr>)"
proof -
  have names: "allowed_by_groups self a tok2 = allowed_by_groups self a (tok2\<lparr>ut_groups :=
        map (\<lambda>g. g\<lparr>gt_name := nm g, gt_spn := sp g\<rparr>) (ut_groups tok2)\<rparr>)"
    by (simp add: allowed_by_groups_def o_def)
  have allowed: "allowed_by_groups self a tok \<longleftrightarrow> ut_valid tok \<and> (a \<in> r_pam_allow_groups self
      \<or> (\<exists>g \<in> set (ut_groups tok). uuid_str (r_deps self) (gt_uuid g) \<in> r_pam_allow_groups self))" for tok
    by (auto simp: allowed_by_groups_def Let_def)
  from run list show ?thesis
    by (auto simp: pam_account_allowed_def pbindE_Return allowed names [symmetric])
qed

end
