(* ===== verification/Pin_Policy.thy ===== *)
theory Pin_Policy
  imports Himmelblau_Prelude
begin

text \<open>
  The rules for a new Hello PIN, \<open>common/src/hello_pin_complexity.rs\<close>, and the cache of the
  administrator's policies they read, \<open>common/src/policy_cache.rs\<close>. The file system and SQLite
  are parameters of opening the cache; the table of policies is an association list.
\<close>

section \<open>Characters\<close>

text \<open>
  A string is its UTF-8 bytes. \<open>chars\<close> gives the first byte of every character, which decides
  all the tests below: the bytes that continue a character are \<open>0x80\<close> to \<open>0xBF\<close>.
\<close>

definition chars_of :: "string \<Rightarrow> string" where
  "chars_of s = filter (\<lambda>c. \<not> (0x80 \<le> (of_char c :: nat) \<and> (of_char c :: nat) \<le> 0xBF)) s"

definition is_ascii_digit :: "char \<Rightarrow> bool" where
  "is_ascii_digit c \<longleftrightarrow> 48 \<le> (of_char c :: nat) \<and> (of_char c :: nat) \<le> 57"

definition is_ascii_lowercase :: "char \<Rightarrow> bool" where
  "is_ascii_lowercase c \<longleftrightarrow> 97 \<le> (of_char c :: nat) \<and> (of_char c :: nat) \<le> 122"

definition is_ascii_uppercase :: "char \<Rightarrow> bool" where
  "is_ascii_uppercase c \<longleftrightarrow> 65 \<le> (of_char c :: nat) \<and> (of_char c :: nat) \<le> 90"

definition is_ascii_alphanumeric :: "char \<Rightarrow> bool" where
  "is_ascii_alphanumeric c \<longleftrightarrow> is_ascii_digit c \<or> is_ascii_lowercase c \<or> is_ascii_uppercase c"

section \<open>Simple PINs\<close>

definition DEFAULT_HELLO_PIN_MIN_LEN :: nat where
  "DEFAULT_HELLO_PIN_MIN_LEN = 6"

text \<open>\<open>windows(2)\<close>\<close>

fun windows2 :: "'a list \<Rightarrow> ('a \<times> 'a) list" where
  "windows2 (x # y # zs) = (x, y) # windows2 (y # zs)"
| "windows2 _ = []"

text \<open>\<open>collect::<Option<Vec<_>>>()\<close> stops at the first character that is no digit.\<close>

fun pin_digits :: "string \<Rightarrow> u8 list option" where
  "pin_digits [] = Some []"
| "pin_digits (c # cs) =
     (case to_digit c of
        None \<Rightarrow> None
      | Some d \<Rightarrow> map_option ((#) (of_nat d)) (pin_digits cs))"

definition pin_deltas :: "u8 list \<Rightarrow> u8 list" where
  "pin_deltas digits = map (\<lambda>(a, b). (10 + b - a) mod 10) (windows2 digits)"

definition is_simple_pin :: "string \<Rightarrow> bool" where
  "is_simple_pin pin \<longleftrightarrow>
     (if length pin < DEFAULT_HELLO_PIN_MIN_LEN then True
      else (case pin_digits (chars_of pin) of
          None \<Rightarrow> False
        | Some digits \<Rightarrow> list_all (\<lambda>(a, b). a = b) (windows2 (pin_deltas digits))))"

section \<open>The cache of policies\<close>

datatype PolicyValue = PolicyInt u32 | PolicyText string

text \<open>A row has the value as text and the number \<open>is_number\<close>. A statement may fail.\<close>

record PolicyCache =
  pc_conn :: "(string \<times> string \<times> int) list option"
  pc_writable :: bool
  pc_fault :: bool

text \<open>What opening the cache depends on: the user, the file system and SQLite.\<close>

record policy_env =
  pe_root :: bool
  pe_file :: "(string \<times> string \<times> int) list option"
  pe_mkdir_ok :: bool
  pe_open_ok :: bool
  pe_create_ok :: bool
  pe_stmt_fault :: bool

definition policy_cache_new :: "policy_env \<Rightarrow> bool \<Rightarrow> unit + PolicyCache" where
  "policy_cache_new e writable =
     (if pe_file e = None \<and> pe_root e \<and> writable \<and> \<not> pe_mkdir_ok e then Inl ()
      else (case pe_file e of
          Some rows \<Rightarrow>
            if pe_open_ok e then Inr \<lparr>pc_conn = Some rows, pc_writable = writable \<and> pe_root e, pc_fault = pe_stmt_fault e\<rparr>
            else Inl ()
        | None \<Rightarrow>
            if writable \<and> pe_root e then
              (if pe_create_ok e then Inr \<lparr>pc_conn = Some [], pc_writable = True, pc_fault = pe_stmt_fault e\<rparr> else Inl ())
            else Inr \<lparr>pc_conn = None, pc_writable = False, pc_fault = pe_stmt_fault e\<rparr>))"

definition policy_set :: "string \<Rightarrow> PolicyValue \<Rightarrow> PolicyCache \<Rightarrow> (unit + unit) \<times> PolicyCache" where
  "policy_set key v pc =
     (if \<not> pc_writable pc then (Inr (), pc)
      else (case pc_conn pc of
          None \<Rightarrow> (Inr (), pc)
        | Some rows \<Rightarrow>
            let (val_str, is_number) = (case v of PolicyInt n \<Rightarrow> (show_nat (unat n), 1) | PolicyText s \<Rightarrow> (s, 0)) in
            if pc_fault pc then (Inl (), pc)
            else (Inr (), pc\<lparr>pc_conn := Some (filter (\<lambda>r. fst r \<noteq> key) rows @ [(key, val_str, is_number)])\<rparr>)))"

definition policy_get :: "PolicyCache \<Rightarrow> string \<Rightarrow> PolicyValue option" where
  "policy_get pc key =
     (case pc_conn pc of
        None \<Rightarrow> None
      | Some rows \<Rightarrow>
          if pc_fault pc then None
          else (case map_of rows key of
              None \<Rightarrow> None
            | Some (v, is_number) \<Rightarrow>
                if is_number < - (2 ^ 31) \<or> 2 ^ 31 \<le> is_number then None
                else if is_number = 1 then map_option (\<lambda>n. PolicyInt (of_nat n)) (parse_uint 32 v)
                else Some (PolicyText v)))"

section \<open>The administrator's policy\<close>

definition count_chars :: "(char \<Rightarrow> bool) \<Rightarrow> string \<Rightarrow> u32" where
  "count_chars P pin = of_nat (length (filter P (chars_of pin)))"

definition policy_msg :: "u32 \<Rightarrow> string \<Rightarrow> string" where
  "policy_msg n label = ''PIN is not compliant with administrator policy: must contain at least '' @ show_nat (unat n) @ '' ''
     @ label @ '' character'' @ (if n = 1 then '''' else ''s'') @ ''.''"

definition check_policy :: "PolicyCache \<Rightarrow> string \<Rightarrow> u32 \<Rightarrow> string \<Rightarrow> string + unit" where
  "check_policy pc key actual label =
     (case policy_get pc key of
        Some (PolicyInt n) \<Rightarrow> if actual < n then Inl (policy_msg n label) else Inr ()
      | _ \<Rightarrow> Inr ())"

fun first_error :: "(string + unit) list \<Rightarrow> string + unit" where
  "first_error [] = Inr ()"
| "first_error (Inl e # _) = Inl e"
| "first_error (Inr _ # rs) = first_error rs"

definition meets_intune_pin_policy :: "policy_env \<Rightarrow> string \<Rightarrow> string + unit" where
  "meets_intune_pin_policy e pin =
     (case policy_cache_new e False of
        Inl _ \<Rightarrow> Inl ''Failed to load policy cache.''
      | Inr pc \<Rightarrow> first_error
          [check_policy pc ''linux_passwordpolicy_minimumlength'' (count_chars (\<lambda>_. True) pin) ''total'',
           check_policy pc ''linux_passwordpolicy_minimumdigits'' (count_chars is_ascii_digit pin) ''digit'',
           check_policy pc ''linux_passwordpolicy_minimumlowercase'' (count_chars is_ascii_lowercase pin) ''lowercase'',
           check_policy pc ''linux_passwordpolicy_minimumuppercase'' (count_chars is_ascii_uppercase pin) ''uppercase'',
           check_policy pc ''linux_passwordpolicy_minimumsymbols'' (count_chars (\<lambda>c. \<not> is_ascii_alphanumeric c) pin) ''symbol''])"

section \<open>What counts as simple\<close>

text \<open>The digits go on by the same step, modulo ten.\<close>

definition progression :: "nat list \<Rightarrow> nat \<Rightarrow> bool" where
  "progression ds d \<longleftrightarrow> (\<forall>i < length ds. ds ! i = (ds ! 0 + i * d) mod 10)"

lemma windows2_nth: "length (windows2 xs) = length xs - 1 \<and> (\<forall>i < length xs - 1. windows2 xs ! i = (xs ! i, xs ! Suc i))"
proof (induction xs rule: windows2.induct)
  case (1 x y zs)
  then show ?case by (auto simp: nth_Cons split: nat.split)
qed simp_all

lemma windows2_all: "list_all (\<lambda>(a, b). P a b) (windows2 xs) \<longleftrightarrow> (\<forall>i. Suc i < length xs \<longrightarrow> P (xs ! i) (xs ! Suc i))"
  using windows2_nth [of xs] by (auto simp: list_all_length)

lemma all_steps_eq:
  "(\<forall>i. Suc i < length xs \<longrightarrow> xs ! i = xs ! Suc i) \<longleftrightarrow> (\<forall>i < length xs. xs ! i = xs ! 0)"
proof
  assume step: "\<forall>i. Suc i < length xs \<longrightarrow> xs ! i = xs ! Suc i"
  show "\<forall>i < length xs. xs ! i = xs ! 0"
  proof (intro allI impI)
    fix i
    assume "i < length xs"
    then show "xs ! i = xs ! 0"
    proof (induction i)
      case (Suc i)
      then have "xs ! i = xs ! 0" by simp
      with step Suc.prems show ?case by metis
    qed simp
  qed
next
  assume all: "\<forall>i < length xs. xs ! i = xs ! 0"
  show "\<forall>i. Suc i < length xs \<longrightarrow> xs ! i = xs ! Suc i"
    using all by (metis Suc_lessD)
qed

lemma delta_nat:
  assumes "(a :: u8) < 10" and "b < 10"
  shows "unat ((10 + b - a) mod 10) = (10 + unat b - unat a) mod 10"
proof -
  have bounds: "unat a < 10" "unat b < 10" using assms by (simp_all add: word_less_nat_alt)
  then have "unat (10 + b) = 10 + unat b" by (simp add: unat_word_ariths)
  moreover from this have "a \<le> 10 + b" using bounds by (simp add: word_le_nat_alt)
  ultimately have "unat (10 + b - a) = 10 + unat b - unat a" by (simp add: unat_sub)
  then show ?thesis by (simp add: unat_mod)
qed

lemma pin_digits_small: "pin_digits cs = Some ds \<Longrightarrow> d \<in> set ds \<Longrightarrow> d < 10"
proof (induction cs arbitrary: ds)
  case (Cons c cs)
  then obtain n ds' where n: "to_digit c = Some n" and rest: "pin_digits cs = Some ds'" and ds: "ds = of_nat n # ds'"
    by (auto split: option.splits)
  from n have "n < 10" by (auto simp: to_digit_def split: if_splits)
  then have "(of_nat n :: u8) < 10" by (simp add: word_less_nat_alt unat_of_nat)
  with Cons.IH [OF rest] Cons.prems(2) ds show ?case by auto
qed simp

lemma mod10_below_20: "n < 20 \<Longrightarrow> n mod 10 = (if n < 10 then n else n - 10 :: nat)"
  by (simp add: le_mod_geq)

lemma step_mod10:
  fixes a b d :: nat
  assumes "a < 10" and "b < 10"
  shows "(10 + b - a) mod 10 = d mod 10 \<longleftrightarrow> b = (a + d) mod 10"
proof -
  have e: "d mod 10 < 10" by simp
  have "(10 + b - a) mod 10 = (if a \<le> b then b - a else 10 + b - a)"
    using assms mod10_below_20 [of "10 + b - a"] by auto
  moreover have "(a + d) mod 10 = (if a + d mod 10 < 10 then a + d mod 10 else a + d mod 10 - 10)"
    using assms e mod10_below_20 [of "a + d mod 10"] by (simp add: mod_add_right_eq)
  ultimately show ?thesis using assms e by auto
qed

lemma progression_steps:
  assumes small: "\<And>i. i < length ds \<Longrightarrow> ds ! i < 10"
  shows "progression ds d \<longleftrightarrow> (\<forall>i. Suc i < length ds \<longrightarrow> ds ! Suc i = (ds ! i + d) mod 10)"
proof
  assume p: "progression ds d"
  show "\<forall>i. Suc i < length ds \<longrightarrow> ds ! Suc i = (ds ! i + d) mod 10"
  proof (intro allI impI)
    fix i
    assume "Suc i < length ds"
    with p have "ds ! Suc i = (ds ! 0 + Suc i * d) mod 10" "ds ! i = (ds ! 0 + i * d) mod 10" by (auto simp: progression_def)
    then show "ds ! Suc i = (ds ! i + d) mod 10" by (simp add: mod_simps algebra_simps)
  qed
next
  assume step: "\<forall>i. Suc i < length ds \<longrightarrow> ds ! Suc i = (ds ! i + d) mod 10"
  have "ds ! i = (ds ! 0 + i * d) mod 10" if "i < length ds" for i
    using that
  proof (induction i)
    case 0
    then show ?case using small by simp
  next
    case (Suc i)
    then have "ds ! i = (ds ! 0 + i * d) mod 10" by simp
    then show ?case using step Suc.prems by (simp add: mod_simps algebra_simps)
  qed
  then show "progression ds d" by (simp add: progression_def)
qed

lemma pin_deltas_nth:
  "length (pin_deltas ds) = length ds - 1"
  "i < length ds - 1 \<Longrightarrow> pin_deltas ds ! i = (10 + ds ! Suc i - ds ! i) mod 10"
  using windows2_nth [of ds] by (simp_all add: pin_deltas_def)

lemma deltas_progression:
  assumes small: "\<And>d. d \<in> set ds \<Longrightarrow> d < 10" and len: "2 \<le> length ds"
  shows "list_all (\<lambda>(a, b). a = b) (windows2 (pin_deltas ds)) \<longleftrightarrow> (\<exists>d. progression (map unat ds) d)"
proof -
  have small': "unat (ds ! i) < 10" if "i < length ds" for i
    using small [OF nth_mem [OF that]] by (simp add: word_less_nat_alt)
  have delta: "unat (pin_deltas ds ! i) = (10 + unat (ds ! Suc i) - unat (ds ! i)) mod 10" if "Suc i < length ds" for i
    using that small by (simp add: pin_deltas_nth delta_nat)
  have same: "unat (pin_deltas ds ! i) = d mod 10 \<longleftrightarrow> unat (ds ! Suc i) = (unat (ds ! i) + d) mod 10" if "Suc i < length ds" for i d
    unfolding delta [OF that] using that by (intro step_mod10) (simp_all add: small')
  have "list_all (\<lambda>(a, b). a = b) (windows2 (pin_deltas ds)) \<longleftrightarrow> (\<forall>i < length ds - 1. pin_deltas ds ! i = pin_deltas ds ! 0)"
    using all_steps_eq [of "pin_deltas ds"] by (simp add: windows2_all pin_deltas_nth(1))
  also have "\<dots> \<longleftrightarrow> (\<exists>d. \<forall>i. Suc i < length ds \<longrightarrow> unat (pin_deltas ds ! i) = d mod 10)"
  proof
    assume "\<forall>i < length ds - 1. pin_deltas ds ! i = pin_deltas ds ! 0"
    moreover have "unat (pin_deltas ds ! 0) = unat (pin_deltas ds ! 0) mod 10" using len by (simp add: delta)
    ultimately show "\<exists>d. \<forall>i. Suc i < length ds \<longrightarrow> unat (pin_deltas ds ! i) = d mod 10"
      by (intro exI [of _ "unat (pin_deltas ds ! 0)"]) (metis Suc_eq_plus1 less_diff_conv)
  next
    assume "\<exists>d. \<forall>i. Suc i < length ds \<longrightarrow> unat (pin_deltas ds ! i) = d mod 10"
    then show "\<forall>i < length ds - 1. pin_deltas ds ! i = pin_deltas ds ! 0"
      using len by (metis Suc_le_lessD less_diff_conv One_nat_def Suc_eq_plus1 numeral_2_eq_2 word_unat_eq_iff)
  qed
  also have "\<dots> \<longleftrightarrow> (\<exists>d. progression (map unat ds) d)"
    using same small' progression_steps [of "map unat ds"] by simp
  finally show ?thesis .
qed

lemma deltas_short:
  assumes "\<And>d. d \<in> set ds \<Longrightarrow> d < 10" and "length ds < 2"
  shows "list_all (\<lambda>(a, b). a = b) (windows2 (pin_deltas ds)) \<and> progression (map unat ds) 0"
proof (cases ds)
  case (Cons x xs)
  with assms(2) have "xs = []" by (cases xs) auto
  with assms Cons show ?thesis by (simp add: progression_def pin_deltas_def word_less_nat_alt)
qed (simp add: progression_def pin_deltas_def)

text \<open>
  C33. A PIN is simple exactly if it is shorter than six bytes, or all its characters are digits
  that form an arithmetic progression modulo ten, whatever the step. The subtraction on \<open>u8\<close> in
  the code does not overflow and agrees with this description.
\<close>

theorem simple_pin_iff_progression:
  "is_simple_pin pin \<longleftrightarrow> length pin < 6 \<or>
    (\<exists>ds d. pin_digits (chars_of pin) = Some ds \<and> progression (map unat ds) d)"
proof (cases "pin_digits (chars_of pin)")
  case (Some ds)
  note small = pin_digits_small [OF Some]
  have "list_all (\<lambda>(a, b). a = b) (windows2 (pin_deltas ds)) \<longleftrightarrow> (\<exists>d. progression (map unat ds) d)"
    using deltas_progression [OF small] deltas_short [OF small] by (cases "length ds < 2") auto
  with Some show ?thesis by (simp add: is_simple_pin_def DEFAULT_HELLO_PIN_MIN_LEN_def)
qed (simp add: is_simple_pin_def DEFAULT_HELLO_PIN_MIN_LEN_def)

section \<open>What the policy demands\<close>

lemma first_error_ok: "first_error rs = Inr () \<longleftrightarrow> (\<forall>r \<in> set rs. r = Inr ())"
  by (induction rs rule: first_error.induct) auto

lemma check_policy_ok:
  "check_policy pc key actual label = Inr () \<longleftrightarrow> (\<forall>n. policy_get pc key = Some (PolicyInt n) \<longrightarrow> n \<le> actual)"
  by (auto simp: check_policy_def not_less split: option.splits PolicyValue.splits)

lemma policy_set_get:
  assumes "pc_writable pc" and "pc_conn pc = Some rows" and "\<not> pc_fault pc"
  shows "policy_get (snd (policy_set key v pc)) key = Some v"
    and "key' \<noteq> key \<Longrightarrow> policy_get (snd (policy_set key v pc)) key' = policy_get pc key'"
proof -
  have find: "map_of (filter (\<lambda>r. fst r \<noteq> key) rows @ [(key, x)]) key' = (if key' = key then Some x else map_of rows key')" for x key'
    by (induction rows) (auto simp: map_add_def)
  have "parse_uint 32 (show_nat (unat n)) = Some (unat n)" for n :: u32
    using unsigned_less [of n, where 'a = nat] by (intro parse_show_nat) simp
  then show "policy_get (snd (policy_set key v pc)) key = Some v"
    using assms find by (auto simp: policy_get_def policy_set_def split: PolicyValue.split)
  show "policy_get (snd (policy_set key v pc)) key' = policy_get pc key'" if "key' \<noteq> key"
    using assms find that by (auto simp: policy_get_def policy_set_def split: PolicyValue.split)
qed

text \<open>The minima the policy sets, and that a PIN keeps all of them.\<close>

definition pin_compliant :: "PolicyCache \<Rightarrow> string \<Rightarrow> bool" where
  "pin_compliant pc pin \<longleftrightarrow> (\<forall>(key, P) \<in> {(''linux_passwordpolicy_minimumlength'', \<lambda>_. True),
      (''linux_passwordpolicy_minimumdigits'', is_ascii_digit), (''linux_passwordpolicy_minimumlowercase'', is_ascii_lowercase),
      (''linux_passwordpolicy_minimumuppercase'', is_ascii_uppercase),
      (''linux_passwordpolicy_minimumsymbols'', \<lambda>c. \<not> is_ascii_alphanumeric c)}.
    \<forall>n. policy_get pc key = Some (PolicyInt n) \<longrightarrow> n \<le> count_chars P pin)"

lemma meets_policy_iff:
  "meets_intune_pin_policy e pin = Inr () \<longleftrightarrow> (\<exists>pc. policy_cache_new e False = Inr pc \<and> pin_compliant pc pin)"
  by (auto simp: meets_intune_pin_policy_def pin_compliant_def first_error_ok check_policy_ok split: sum.splits)

end
