(* ===== verification/File_Caches.thy ===== *)
theory File_Caches
  imports Idp_Interface Pin_Policy
begin

text \<open>
  The small SQLite files that the modules share with the daemon: mapped names (\<open>common/src/mapping.rs\<close>),
  users seen by NSS (\<open>common/src/nss_cache.rs\<close>) and statically assigned ids (\<open>common/src/idmap_cache.rs\<close>).
  Together with the cache of policies (\<^theory_text>\<open>Pin_Policy\<close>) they keep the contract of the locale \<open>keyed_cache\<close>.
  A table is the list of its rows in the order in which they were inserted; \<open>INSERT OR REPLACE\<close> deletes the row with the
  same key and appends the new one.
\<close>

section \<open>Opening a cache\<close>

datatype Mode = ReadOnly | ReadWrite

text \<open>What opening depends on: the user, the file system and SQLite. \<open>ce_file\<close> has the rows of an existing file.\<close>

record 'r cache_env =
  ce_root :: bool
  ce_file :: "'r list option"
  ce_mkdir_ok :: bool
  ce_open_ok :: bool
  ce_create_ok :: bool
  ce_stmt_fault :: bool

record 'r file_cache =
  fc_conn :: "'r list option"
  fc_writable :: bool
  fc_fault :: bool

definition open_by_mode :: "'r cache_env \<Rightarrow> Mode \<Rightarrow> unit + 'r file_cache" where
  "open_by_mode e mode =
     (if ce_file e = None \<and> ce_root e \<and> \<not> ce_mkdir_ok e then Inl ()
      else (case ce_file e of
          Some rows \<Rightarrow>
            if ce_open_ok e then Inr \<lparr>fc_conn = Some rows, fc_writable = (ce_root e \<and> mode = ReadWrite), fc_fault = ce_stmt_fault e\<rparr>
            else Inl ()
        | None \<Rightarrow>
            if ce_root e \<and> mode = ReadWrite then
              (if ce_create_ok e then Inr \<lparr>fc_conn = Some [], fc_writable = True, fc_fault = ce_stmt_fault e\<rparr> else Inl ())
            else Inr \<lparr>fc_conn = None, fc_writable = False, fc_fault = ce_stmt_fault e\<rparr>))"

definition replace_row :: "('r \<Rightarrow> 'k) \<Rightarrow> 'r \<Rightarrow> 'r list \<Rightarrow> 'r list" where
  "replace_row key r rows = filter (\<lambda>x. key x \<noteq> key r) rows @ [r]"

text \<open>An insertion whose error is dropped.\<close>

definition insert_row :: "('r \<Rightarrow> 'k) \<Rightarrow> 'r \<Rightarrow> 'r file_cache \<Rightarrow> 'r file_cache" where
  "insert_row key r c =
     (case fc_conn c of
        Some rows \<Rightarrow> if fc_writable c \<and> \<not> fc_fault c then c\<lparr>fc_conn := Some (replace_row key r rows)\<rparr> else c
      | None \<Rightarrow> c)"

text \<open>The first row that a query gives, if the statement can be run.\<close>

definition first_row :: "('r \<Rightarrow> bool) \<Rightarrow> 'r file_cache \<Rightarrow> 'r option" where
  "first_row P c = (case fc_conn c of Some rows \<Rightarrow> if fc_fault c then None else find P rows | None \<Rightarrow> None)"

section \<open>Mapped names\<close>

definition mapped_cache_new :: "(string \<times> string) cache_env \<Rightarrow> Mode \<Rightarrow> unit + (string \<times> string) file_cache" where
  "mapped_cache_new e mode = open_by_mode e mode"

definition insert_mapping :: "string \<Rightarrow> string \<Rightarrow> (string \<times> string) file_cache \<Rightarrow> (string \<times> string) file_cache" where
  "insert_mapping upn mapped_name c =
     (if CHR ''@'' \<notin> set upn \<or> upn = mapped_name then c else insert_row fst (upn, mapped_name) c)"

definition get_mapped_name :: "(string \<times> string) file_cache \<Rightarrow> string \<Rightarrow> string" where
  "get_mapped_name c upn =
     (if fc_conn c = None then upn
      else if CHR ''@'' \<notin> set upn then upn
      else (case first_row (\<lambda>r. fst r = upn) c of Some (_, mapped_name) \<Rightarrow> mapped_name | None \<Rightarrow> upn))"

section \<open>Users seen by NSS\<close>

definition nss_cache_new :: "(NssUser \<times> int) cache_env \<Rightarrow> Mode \<Rightarrow> unit + (NssUser \<times> int) file_cache" where
  "nss_cache_new e mode = open_by_mode e mode"

text \<open>The clock in whole seconds; zero before the epoch.\<close>

definition nss_now :: "systime \<Rightarrow> int" where
  "nss_now t = (case secs_since_epoch t of Some s \<Rightarrow> int s | None \<Rightarrow> 0)"

definition max_age_secs :: int where
  "max_age_secs = 48 * 3600"

definition insert_user :: "systime \<Rightarrow> NssUser \<Rightarrow> (NssUser \<times> int) file_cache \<Rightarrow> (NssUser \<times> int) file_cache" where
  "insert_user t user c = insert_row (nu_name \<circ> fst) (user, nss_now t) c"

fun id_matches :: "Id \<Rightarrow> NssUser \<Rightarrow> bool" where
  "id_matches (IdName n) user = (nu_name user = n)"
| "id_matches (IdGid uid) user = (nu_uid user = uid)"

definition get_user :: "systime \<Rightarrow> (NssUser \<times> int) file_cache \<Rightarrow> Id \<Rightarrow> NssUser option" where
  "get_user t c ident =
     (case first_row (\<lambda>r. id_matches ident (fst r)) c of
        Some (user, last_updated) \<Rightarrow> if nss_now t - last_updated > max_age_secs then None else Some user
      | None \<Rightarrow> None)"

definition get_users :: "systime \<Rightarrow> (NssUser \<times> int) file_cache \<Rightarrow> NssUser list" where
  "get_users t c =
     (case fc_conn c of
        Some rows \<Rightarrow> if fc_fault c then [] else map fst (filter (\<lambda>r. nss_now t - snd r \<le> max_age_secs) rows)
      | None \<Rightarrow> [])"

section \<open>Statically assigned ids\<close>

record StaticUser =
  su_name :: string
  su_uid :: u32
  su_gid :: u32

record StaticGroup =
  sg_name :: string
  sg_gid :: u32

record StaticIdCache =
  sc_users :: "StaticUser list option"
  sc_groups :: "StaticGroup list"
  sc_writable :: bool
  sc_fault :: bool

text \<open>Both tables are in one file: \<open>sc_users\<close> is \<open>None\<close> without a connection.\<close>

definition static_cache_new :: "(StaticUser list \<times> StaticGroup list) option \<Rightarrow> unit cache_env \<Rightarrow> bool \<Rightarrow> unit + StaticIdCache" where
  "static_cache_new file e writable =
     (if file = None \<and> ce_root e \<and> writable \<and> \<not> ce_mkdir_ok e then Inl ()
      else (case file of
          Some (us, gs) \<Rightarrow>
            if ce_open_ok e
            then Inr \<lparr>sc_users = Some us, sc_groups = gs, sc_writable = (writable \<and> ce_root e), sc_fault = ce_stmt_fault e\<rparr>
            else Inl ()
        | None \<Rightarrow>
            if writable \<and> ce_root e then
              (if ce_create_ok e then Inr \<lparr>sc_users = Some [], sc_groups = [], sc_writable = True, sc_fault = ce_stmt_fault e\<rparr> else Inl ())
            else Inr \<lparr>sc_users = None, sc_groups = [], sc_writable = False, sc_fault = ce_stmt_fault e\<rparr>))"

definition static_insert_user :: "StaticUser \<Rightarrow> StaticIdCache \<Rightarrow> (unit + unit) \<times> StaticIdCache" where
  "static_insert_user user c =
     (case sc_users c of
        Some us \<Rightarrow>
          if sc_writable c then
            (if sc_fault c then (Inl (), c) else (Inr (), c\<lparr>sc_users := Some (replace_row su_name user us)\<rparr>))
          else (Inr (), c)
      | None \<Rightarrow> (Inr (), c))"

definition static_insert_group :: "StaticGroup \<Rightarrow> StaticIdCache \<Rightarrow> (unit + unit) \<times> StaticIdCache" where
  "static_insert_group grp c =
     (case sc_users c of
        Some _ \<Rightarrow>
          if sc_writable c then
            (if sc_fault c then (Inl (), c) else (Inr (), c\<lparr>sc_groups := replace_row sg_name grp (sc_groups c)\<rparr>))
          else (Inr (), c)
      | None \<Rightarrow> (Inr (), c))"

definition get_user_by_name :: "StaticIdCache \<Rightarrow> string \<Rightarrow> StaticUser option" where
  "get_user_by_name c name =
     (case sc_users c of Some us \<Rightarrow> if sc_fault c then None else find (\<lambda>u. su_name u = name) us | None \<Rightarrow> None)"

definition get_group_by_name :: "StaticIdCache \<Rightarrow> string \<Rightarrow> StaticGroup option" where
  "get_group_by_name c name =
     (case sc_users c of Some _ \<Rightarrow> if sc_fault c then None else find (\<lambda>g. sg_name g = name) (sc_groups c) | None \<Rightarrow> None)"

definition list_users :: "StaticIdCache \<Rightarrow> StaticUser list" where
  "list_users c = (case sc_users c of Some us \<Rightarrow> if sc_fault c then [] else us | None \<Rightarrow> [])"

definition list_groups :: "StaticIdCache \<Rightarrow> StaticGroup list" where
  "list_groups c = (case sc_users c of Some _ \<Rightarrow> if sc_fault c then [] else sc_groups c | None \<Rightarrow> [])"

section \<open>The contract of a keyed cache\<close>

text \<open>What a client relies on: a stored value is found under its key, and nothing else changes.\<close>

locale keyed_cache =
  fixes put :: "'k \<Rightarrow> 'v \<Rightarrow> 'c \<Rightarrow> 'c"
    and get :: "'c \<Rightarrow> 'k \<Rightarrow> 'v option"
    and storable :: "'k \<Rightarrow> 'v \<Rightarrow> bool"
    and ready :: "'c \<Rightarrow> bool"
  assumes get_put: "ready c \<Longrightarrow> storable k v \<Longrightarrow> get (put k v c) k' = (if k' = k then Some v else get c k')"
    and ready_put: "ready c \<Longrightarrow> ready (put k v c)"
begin

lemma ready_puts: "ready c \<Longrightarrow> ready (fold (\<lambda>(k, v). put k v) kvs c)"
  by (induction kvs arbitrary: c) (auto simp: ready_put)

text \<open>After a sequence of insertions the last value of a key counts.\<close>

lemma get_puts:
  assumes "ready c" and "\<forall>(k, v) \<in> set kvs. storable k v"
  shows "get (fold (\<lambda>(k, v). put k v) kvs c) k = (case map_of (rev kvs) k of Some v \<Rightarrow> Some v | None \<Rightarrow> get c k)"
  using assms
proof (induction kvs arbitrary: c)
  case (Cons kv kvs)
  obtain k0 v0 where "kv = (k0, v0)" by fastforce
  with Cons show ?case
    by (auto simp: ready_put get_put map_add_def split: option.splits)
qed simp

lemma puts_commute:
  assumes "ready c" "storable k v" "storable k' v'" "k \<noteq> k'"
  shows "get (put k v (put k' v' c)) = get (put k' v' (put k v c))"
  using assms by (auto simp: get_put ready_put)

end

lemma find_replace_row: "find (\<lambda>x. key x = k) (replace_row key r rows) = (if k = key r then Some r else find (\<lambda>x. key x = k) rows)"
proof -
  have "find (\<lambda>x. key x = k) (filter (\<lambda>x. key x \<noteq> key r) rows) = (if k = key r then None else find (\<lambda>x. key x = k) rows)"
    by (induction rows) auto
  moreover have "find P (xs @ [r]) = (case find P xs of None \<Rightarrow> if P r then Some r else None | Some x \<Rightarrow> Some x)" for P xs
    by (induction xs) auto
  ultimately show ?thesis by (auto simp: replace_row_def split: option.split)
qed

lemma find_append: "find P (xs @ ys) = (case find P xs of None \<Rightarrow> find P ys | Some x \<Rightarrow> Some x)"
  by (induction xs) auto

subsection \<open>The caches keep it\<close>

definition cache_ready :: "'r file_cache \<Rightarrow> bool" where
  "cache_ready c \<longleftrightarrow> fc_conn c \<noteq> None \<and> fc_writable c \<and> \<not> fc_fault c"

lemma insert_row_ready [simp]: "cache_ready (insert_row key r c) = cache_ready c"
  by (auto simp: insert_row_def cache_ready_def split: option.splits)

lemma first_row_insert:
  assumes "cache_ready c"
  shows "first_row (\<lambda>x. key x = k) (insert_row key r c) = (if k = key r then Some r else first_row (\<lambda>x. key x = k) c)"
  using assms by (auto simp: cache_ready_def first_row_def insert_row_def find_replace_row)

lemma cache_ready_conn: "cache_ready c \<Longrightarrow> fc_conn c \<noteq> None"
  by (simp add: cache_ready_def)

text \<open>\<open>get_mapped_name\<close> gives the name itself where nothing is stored.\<close>

definition mapped_lookup :: "(string \<times> string) file_cache \<Rightarrow> string \<Rightarrow> string option" where
  "mapped_lookup c upn = (let n = get_mapped_name c upn in if n = upn then None else Some n)"

interpretation mapped: keyed_cache insert_mapping mapped_lookup "\<lambda>upn n. CHR ''@'' \<in> set upn \<and> n \<noteq> upn" cache_ready
proof
  fix c :: "(string \<times> string) file_cache" and k v k' :: string
  assume "cache_ready c" "CHR ''@'' \<in> set k \<and> v \<noteq> k"
  then show "mapped_lookup (insert_mapping k v c) k' = (if k' = k then Some v else mapped_lookup c k')"
    using first_row_insert [of c fst k' "(k, v)"] cache_ready_conn [of c] cache_ready_conn [of "insert_row fst (k, v) c"]
    by (auto simp: mapped_lookup_def get_mapped_name_def insert_mapping_def)
qed (simp add: insert_mapping_def)

interpretation nss_names: keyed_cache "\<lambda>n. insert_user t" "\<lambda>c n. get_user t c (IdName n)"
  "\<lambda>n u. nu_name u = n" cache_ready for t
proof
  fix c :: "(NssUser \<times> int) file_cache" and k k' and v :: NssUser
  assume "cache_ready c" "nu_name v = k"
  then show "get_user t (insert_user t v c) (IdName k') = (if k' = k then Some v else get_user t c (IdName k'))"
    using first_row_insert [of c "nu_name \<circ> fst" k' "(v, nss_now t)"]
    by (simp add: get_user_def insert_user_def comp_def max_age_secs_def)
qed (simp add: insert_user_def)

interpretation policies_kv: keyed_cache "\<lambda>k v c. snd (policy_set k v c)" policy_get "\<lambda>_ _. True"
  "\<lambda>pc. pc_conn pc \<noteq> None \<and> pc_writable pc \<and> \<not> pc_fault pc"
proof
  fix c :: PolicyCache and k v k'
  assume "pc_conn c \<noteq> None \<and> pc_writable c \<and> \<not> pc_fault c"
  then show "policy_get (snd (policy_set k v c)) k' = (if k' = k then Some v else policy_get c k')"
    using policy_set_get [where pc = c and key = k and v = v] by (cases "k' = k") auto
qed (auto simp: policy_set_def split: prod.splits)

interpretation static_users: keyed_cache "\<lambda>n u c. snd (static_insert_user u c)" get_user_by_name "\<lambda>n u. su_name u = n"
  "\<lambda>c. sc_users c \<noteq> None \<and> sc_writable c \<and> \<not> sc_fault c"
  by unfold_locales (auto simp: get_user_by_name_def static_insert_user_def find_replace_row split: option.splits)

interpretation static_groups: keyed_cache "\<lambda>n g c. snd (static_insert_group g c)" get_group_by_name "\<lambda>n g. sg_name g = n"
  "\<lambda>c. sc_users c \<noteq> None \<and> sc_writable c \<and> \<not> sc_fault c"
  by unfold_locales (auto simp: get_group_by_name_def static_insert_group_def find_replace_row split: option.splits)

section \<open>Lookups by uid\<close>

text \<open>The users seen by NSS are keyed by their name, but a lookup by uid reads only the oldest row with this uid.
  When a user is renamed, the lookup by uid therefore gives the old name for 48 hours and nothing at all afterwards, however often
  the new name is stored again, while the lookup by name finds the new entry.\<close>

theorem renamed_user_hidden_by_uid:
  assumes "fc_conn c = Some rows" "fc_writable c" "\<not> fc_fault c" and "\<forall>r \<in> set rows. nu_uid (fst r) \<noteq> nu_uid old"
    and "nu_uid renamed = nu_uid old" "nu_name renamed \<noteq> nu_name old"
    and "c' = fold (\<lambda>t1. insert_user t1 renamed) later (insert_user t0 old c)"
  shows "get_user t c' (IdGid (nu_uid old)) = (if nss_now t - nss_now t0 > max_age_secs then None else Some old)
    \<and> (later \<noteq> [] \<and> nss_now t - nss_now (last later) \<le> max_age_secs \<longrightarrow> get_user t c' (IdName (nu_name renamed)) = Some renamed)"
proof -
  let ?P = "\<lambda>r. nu_uid (fst r) = nu_uid old" and ?key = "nu_name \<circ> fst"
  have none: "find ?P (filter Q rows) = None" for Q :: "NssUser \<times> int \<Rightarrow> bool"
    using assms(4) by (auto simp: find_None_iff)
  have step: "find ?P (replace_row ?key (renamed, u) rs) = Some (old, nss_now t0)"
    if "find ?P rs = Some (old, nss_now t0)" for rs u
  proof -
    from that assms(6) have "find ?P (filter (\<lambda>x. ?key x \<noteq> ?key (renamed, u)) rs) = Some (old, nss_now t0)"
      by (induction rs) (auto split: if_splits)
    then show ?thesis by (simp add: replace_row_def find_append)
  qed
  have inv: "cache_ready c'' \<and> first_row ?P c'' = Some (old, nss_now t0)"
    if "c'' = fold (\<lambda>t1. insert_user t1 renamed) ts (insert_user t0 old c)" for ts c''
    using that
  proof (induction ts arbitrary: c'' rule: rev_induct)
    case Nil
    with assms none show ?case
      by (simp add: cache_ready_def first_row_def insert_user_def insert_row_def replace_row_def find_append)
  next
    case (snoc t1 ts)
    then show ?case
      using step by (auto simp: cache_ready_def first_row_def insert_user_def insert_row_def split: option.splits if_splits)
  qed
  have "get_user t c' (IdName (nu_name renamed)) = Some renamed"
    if "later \<noteq> []" "nss_now t - nss_now (last later) \<le> max_age_secs"
  proof -
    define ts t1 where "ts = butlast later" and "t1 = last later"
    then have "later = ts @ [t1]" using that(1) by simp
    then show ?thesis
      using assms(7) that(2) inv [of _ ts] first_row_insert [of _ ?key "nu_name renamed" "(renamed, nss_now t1)"]
      by (simp add: get_user_def insert_user_def comp_def)
  qed
  with inv [OF assms(7)] show ?thesis by (simp add: get_user_def)
qed

definition sample_nss_user :: "string \<Rightarrow> NssUser" where
  "sample_nss_user n = \<lparr>nu_name = n, nu_uid = 1000, nu_gid = 1000, nu_gecos = [], nu_homedir = ''/home/u'', nu_shell = ''/bin/sh''\<rparr>"

definition empty_cache :: "'r file_cache" where
  "empty_cache = \<lparr>fc_conn = Some [], fc_writable = True, fc_fault = False\<rparr>"

theorem renamed_user_hidden_by_uid_witness:
  "let day = 86400 * 10 ^ 9; u0 = sample_nss_user ''a@x''; u1 = sample_nss_user ''b@x'';
       c = insert_user (day * 2) u1 (insert_user day u1 (insert_user 0 u0 empty_cache))
   in get_user (day * 3) c (IdGid 1000) = None \<and> get_user day c (IdGid 1000) = Some u0
      \<and> get_user (day * 3) c (IdName ''b@x'') = Some u1"
proof -
  let ?day = "86400 * 10 ^ 9 :: int" and ?u0 = "sample_nss_user ''a@x''" and ?u1 = "sample_nss_user ''b@x''"
  have "get_user t (fold (\<lambda>t1. insert_user t1 ?u1) [?day, ?day * 2] (insert_user 0 ?u0 empty_cache)) (IdGid (nu_uid ?u0))
      = (if nss_now t - nss_now 0 > max_age_secs then None else Some ?u0)
    \<and> (nss_now t - nss_now (?day * 2) \<le> max_age_secs \<longrightarrow>
      get_user t (fold (\<lambda>t1. insert_user t1 ?u1) [?day, ?day * 2] (insert_user 0 ?u0 empty_cache)) (IdName (nu_name ?u1)) = Some ?u1)" for t
    using renamed_user_hidden_by_uid [of empty_cache "[]" ?u0 ?u1 _ "[?day, ?day * 2]" 0 t]
    by (simp add: empty_cache_def sample_nss_user_def)
  from this [of "?day * 3"] this [of ?day] show ?thesis
    by (simp add: Let_def nss_now_def secs_since_epoch_def max_age_secs_def sample_nss_user_def)
qed

end
