(* ===== verification/Config.thy ===== *)
theory Config
  imports File_Caches Idmap
begin

text \<open>
  The configuration, \<open>common/src/config.rs\<close>: values with defaults and per-domain overrides, the file that the
  daemon writes for itself, and the mapping between local names and Entra Id names. The INI library, the getters
  that the build generates and the federation service are parameters.
\<close>

section \<open>Parameters\<close>

type_synonym file_tree = "string \<rightharpoonup> string"

text \<open>The INI library: reading files, values by section and key, and the text that is written.\<close>

record 'i ini_lib =
  ini_new :: 'i
  ini_load :: "file_tree \<Rightarrow> string \<Rightarrow> 'i \<Rightarrow> string + 'i"
  ini_load_and_append :: "file_tree \<Rightarrow> string \<Rightarrow> 'i \<Rightarrow> string + 'i"
  ini_get :: "'i \<Rightarrow> string \<Rightarrow> string \<Rightarrow> string option"
  ini_set :: "string \<Rightarrow> string \<Rightarrow> string option \<Rightarrow> 'i \<Rightarrow> 'i"
  ini_sections :: "'i \<Rightarrow> string list"
  ini_remove_section :: "string \<Rightarrow> 'i \<Rightarrow> 'i"
  ini_remove_key :: "string \<Rightarrow> string \<Rightarrow> 'i \<Rightarrow> 'i"
  ini_map :: "'i \<Rightarrow> (string \<times> string list) list"
  ini_text :: "'i \<Rightarrow> string"

datatype IdAttr = IdUuid | IdAttrName | IdRfc2307
datatype JoinType = Join | Register
datatype IpVersionSelection = Both | Ipv4Only | Ipv6Only
datatype IpVersion = V4 | V6
datatype HsmType = HsmSoft | HsmTpmIfPossible | HsmTpm

text \<open>The generated getters that the modelled code calls, and whether a URL parses.\<close>

record 'i cfg_lib = "'i ini_lib" +
  gen_connection_timeout :: "'i \<Rightarrow> u64"
  gen_name_mapping_script :: "'i \<Rightarrow> string option"
  gen_cn_name_mapping :: "'i \<Rightarrow> bool"
  gen_apply_policy :: "'i \<Rightarrow> bool"
  gen_logon_script :: "'i \<Rightarrow> string option"
  gen_logon_token_scopes :: "'i \<Rightarrow> string list"
  gen_ip_version :: "'i \<Rightarrow> IpVersionSelection"
  gen_user_map_file :: "'i \<Rightarrow> string"
  gen_hello_pin_min_length :: "'i \<Rightarrow> nat"
  gen_local_groups :: "'i \<Rightarrow> string list"
  gen_local_sudo_group :: "'i \<Rightarrow> string"
  url_parses :: "string \<Rightarrow> bool"

record 'i HimmelblauConfig =
  config :: 'i
  filename :: string

section \<open>Parsing values\<close>

fun join_type_u32 :: "JoinType \<Rightarrow> u32" where
  "join_type_u32 Join = 0"
| "join_type_u32 Register = 4"

definition split_username :: "string \<Rightarrow> (string \<times> string) option" where
  "split_username username = (case split_char CHR ''@'' username of [a, b] \<Rightarrow> Some (a, b) | _ \<Rightarrow> None)"

definition is_ascii_alphabetic :: "char \<Rightarrow> bool" where
  "is_ascii_alphabetic c \<longleftrightarrow> is_ascii_lowercase c \<or> is_ascii_uppercase c"

text \<open>The multiplications wrap around, as in a release build.\<close>

definition parse_ttl_to_seconds :: "string \<Rightarrow> u64 option" where
  "parse_ttl_to_seconds s =
     (let ttl_str = to_lowercase (trim s) in
      if ttl_str = [] then None
      else
        let (num_part, suffix) = (if is_ascii_alphabetic (last ttl_str) then (butlast ttl_str, last ttl_str) else (ttl_str, CHR ''s''))
        in (case parse_uint 64 num_part of
              None \<Rightarrow> None
            | Some n \<Rightarrow>
                let number = of_nat n :: u64 in
                if suffix = CHR ''s'' then Some number
                else if suffix = CHR ''m'' then Some (number * 60)
                else if suffix = CHR ''h'' then Some (number * 3600)
                else if suffix = CHR ''d'' then Some (number * 86400)
                else None))"

definition str_to_home_attr :: "string \<Rightarrow> HomeAttr" where
  "str_to_home_attr attrib =
     (if to_lowercase attrib = ''uuid'' then HA_Uuid
      else if to_lowercase attrib = ''spn'' then HA_Spn
      else if to_lowercase attrib = ''cn'' then HA_Cn
      else HA_Uuid)"

definition match_bool :: "string option \<Rightarrow> bool \<Rightarrow> bool" where
  "match_bool val dflt =
     (case val of
        None \<Rightarrow> dflt
      | Some v \<Rightarrow>
          let l = to_lowercase v in
          if l = ''true'' then True else if l = ''false'' then False
          else if l = ''1'' then True else if l = ''0'' then False else dflt)"

text \<open>A list of values separated by commas.\<close>

definition comma_list :: "string \<Rightarrow> string list" where
  "comma_list v = map trim (split_char CHR '','' v)"

fun parse_all_u32 :: "string list \<Rightarrow> u32 list option" where
  "parse_all_u32 [] = Some []"
| "parse_all_u32 (s # ss) =
     (case parse_uint 32 s of None \<Rightarrow> None | Some n \<Rightarrow> map_option ((#) (of_nat n)) (parse_all_u32 ss))"

definition parse_range :: "string \<Rightarrow> u32 \<times> u32 \<Rightarrow> u32 \<times> u32" where
  "parse_range v dflt =
     (let vals = (case parse_all_u32 (split_char CHR ''-'' v) of Some ns \<Rightarrow> ns | None \<Rightarrow> [fst dflt, snd dflt])
      in (case vals of [mn, mx] \<Rightarrow> (mn, mx) | _ \<Rightarrow> dflt))"

section \<open>Reading the configuration\<close>

definition DEFAULT_CONFIG_PATH :: string where
  "DEFAULT_CONFIG_PATH = ''/etc/himmelblau/himmelblau.conf''"

definition SERVER_CONFIG_FILE :: string where
  "SERVER_CONFIG_FILE = ''/var/cache/himmelblaud/himmelblau.conf''"

definition read_failed :: "string \<Rightarrow> string \<Rightarrow> string" where
  "read_failed path e = ''failed to read config from '' @ path @ '' - cannot start up: '' @ e @ '' Quitting.''"

definition config_new :: "('i, 'z) cfg_lib_scheme \<Rightarrow> file_tree \<Rightarrow> string option \<Rightarrow> string + 'i HimmelblauConfig" where
  "config_new lib files config_path =
     (let fname = (case config_path of Some p \<Rightarrow> p | None \<Rightarrow> DEFAULT_CONFIG_PATH);
          loaded = (if files fname \<noteq> None
            then (case ini_load lib files fname (ini_new lib) of Inl e \<Rightarrow> Inl (read_failed fname e) | Inr i \<Rightarrow> Inr i)
            else Inr (ini_new lib))
      in (case loaded of
            Inl e \<Rightarrow> Inl e
          | Inr i \<Rightarrow>
              if files SERVER_CONFIG_FILE \<noteq> None then
                (case ini_load_and_append lib files SERVER_CONFIG_FILE i of
                   Inl e \<Rightarrow> Inl (read_failed SERVER_CONFIG_FILE e)
                 | Inr i' \<Rightarrow> Inr \<lparr>config = i', filename = fname\<rparr>)
              else Inr \<lparr>config = i, filename = fname\<rparr>))"

definition cfg_get :: "('i, 'z) cfg_lib_scheme \<Rightarrow> 'i HimmelblauConfig \<Rightarrow> string \<Rightarrow> string \<Rightarrow> string option" where
  "cfg_get lib cfg sect opt = ini_get lib (config cfg) sect opt"

text \<open>The value of a domain's section, or else of the section \<open>global\<close>.\<close>

definition domain_or_global :: "('i, 'z) cfg_lib_scheme \<Rightarrow> 'i HimmelblauConfig \<Rightarrow> string option \<Rightarrow> string \<Rightarrow> string option" where
  "domain_or_global lib cfg domain opt =
     (case domain of
        Some d \<Rightarrow> (case cfg_get lib cfg d opt of Some v \<Rightarrow> Some v | None \<Rightarrow> cfg_get lib cfg ''global'' opt)
      | None \<Rightarrow> cfg_get lib cfg ''global'' opt)"

definition get_home_prefix :: "('i, 'z) cfg_lib_scheme \<Rightarrow> 'i HimmelblauConfig \<Rightarrow> string option \<Rightarrow> string" where
  "get_home_prefix lib cfg domain = (case domain_or_global lib cfg domain ''home_prefix'' of Some v \<Rightarrow> v | None \<Rightarrow> ''/home/'')"

definition get_home_attr :: "('i, 'z) cfg_lib_scheme \<Rightarrow> 'i HimmelblauConfig \<Rightarrow> string option \<Rightarrow> HomeAttr" where
  "get_home_attr lib cfg domain =
     (case domain_or_global lib cfg domain ''home_attr'' of Some v \<Rightarrow> str_to_home_attr v | None \<Rightarrow> HA_Uuid)"

definition get_home_alias :: "('i, 'z) cfg_lib_scheme \<Rightarrow> 'i HimmelblauConfig \<Rightarrow> string option \<Rightarrow> HomeAttr option" where
  "get_home_alias lib cfg domain =
     (case domain_or_global lib cfg domain ''home_alias'' of Some v \<Rightarrow> Some (str_to_home_attr v) | None \<Rightarrow> Some HA_Spn)"

definition get_shell :: "('i, 'z) cfg_lib_scheme \<Rightarrow> 'i HimmelblauConfig \<Rightarrow> string option \<Rightarrow> string" where
  "get_shell lib cfg domain = (case domain_or_global lib cfg domain ''shell'' of Some v \<Rightarrow> v | None \<Rightarrow> ''/bin/bash'')"

definition DEFAULT_ODC_PROVIDER :: string where
  "DEFAULT_ODC_PROVIDER = ''odc.officeapps.live.com''"

definition get_odc_provider :: "('i, 'z) cfg_lib_scheme \<Rightarrow> 'i HimmelblauConfig \<Rightarrow> string \<Rightarrow> string" where
  "get_odc_provider lib cfg domain =
     (case domain_or_global lib cfg (Some domain) ''odc_provider'' of Some v \<Rightarrow> v | None \<Rightarrow> DEFAULT_ODC_PROVIDER)"

definition get_idmap_range :: "('i, 'z) cfg_lib_scheme \<Rightarrow> 'i HimmelblauConfig \<Rightarrow> string \<Rightarrow> u32 \<times> u32" where
  "get_idmap_range lib cfg domain =
     (case domain_or_global lib cfg (Some domain) ''idmap_range'' of
        Some v \<Rightarrow> parse_range v DEFAULT_IDMAP_RANGE
      | None \<Rightarrow> DEFAULT_IDMAP_RANGE)"

definition u64_saturating_mul :: "u64 \<Rightarrow> u64 \<Rightarrow> u64" where
  "u64_saturating_mul a b = (if unat a * unat b < 2 ^ 64 then a * b else - 1)"

definition get_unix_sock_timeout :: "('i, 'z) cfg_lib_scheme \<Rightarrow> 'i HimmelblauConfig \<Rightarrow> u64" where
  "get_unix_sock_timeout lib cfg = u64_saturating_mul (gen_connection_timeout lib (config cfg)) 2"

definition get_subid_range :: "('i, 'z) cfg_lib_scheme \<Rightarrow> 'i HimmelblauConfig \<Rightarrow> u32 \<times> u32" where
  "get_subid_range lib cfg =
     (case cfg_get lib cfg ''global'' ''subid_range'' of
        Some v \<Rightarrow> parse_range v DEFAULT_SUBID_RANGE
      | None \<Rightarrow> DEFAULT_SUBID_RANGE)"

definition get_authority_host :: "('i, 'z) cfg_lib_scheme \<Rightarrow> 'i HimmelblauConfig \<Rightarrow> string \<Rightarrow> string" where
  "get_authority_host lib cfg domain =
     (case cfg_get lib cfg domain ''authority_host'' of Some v \<Rightarrow> v | None \<Rightarrow> ''login.microsoftonline.com'')"

definition get_tenant_id :: "('i, 'z) cfg_lib_scheme \<Rightarrow> 'i HimmelblauConfig \<Rightarrow> string \<Rightarrow> string option" where
  "get_tenant_id lib cfg domain = cfg_get lib cfg domain ''tenant_id''"

definition get_graph_url :: "('i, 'z) cfg_lib_scheme \<Rightarrow> 'i HimmelblauConfig \<Rightarrow> string \<Rightarrow> string option" where
  "get_graph_url lib cfg domain = cfg_get lib cfg domain ''graph_url''"

definition get_app_id :: "('i, 'z) cfg_lib_scheme \<Rightarrow> 'i HimmelblauConfig \<Rightarrow> string \<Rightarrow> string option" where
  "get_app_id lib cfg domain = domain_or_global lib cfg (Some domain) ''app_id''"

definition get_logon_token_app_id :: "('i, 'z) cfg_lib_scheme \<Rightarrow> 'i HimmelblauConfig \<Rightarrow> string \<Rightarrow> string option" where
  "get_logon_token_app_id lib cfg domain = domain_or_global lib cfg (Some domain) ''logon_token_app_id''"

definition get_policies_db_path :: "('i, 'z) cfg_lib_scheme \<Rightarrow> 'i HimmelblauConfig \<Rightarrow> string" where
  "get_policies_db_path lib cfg =
     (case cfg_get lib cfg ''global'' ''policies_db_path'' of Some v \<Rightarrow> v | None \<Rightarrow> ''/var/cache/himmelblau-policies/'')"

definition get_hsm_type :: "('i, 'z) cfg_lib_scheme \<Rightarrow> 'i HimmelblauConfig \<Rightarrow> HsmType" where
  "get_hsm_type lib cfg =
     (case cfg_get lib cfg ''global'' ''hsm_type'' of
        Some v \<Rightarrow>
          let l = to_lowercase v in
          if l = ''soft'' \<or> l = ''tpm_bound_soft_if_possible'' then HsmSoft
          else if l = ''tpm_if_possible'' then HsmTpmIfPossible
          else if l = ''tpm'' then HsmTpm
          else HsmSoft
      | None \<Rightarrow> HsmSoft)"

text \<open>The first argument is the environment variable \<open>HIMMELBLAU_HSM_PIN_PATH\<close>.\<close>

definition get_hsm_pin_path :: "string option \<Rightarrow> ('i, 'z) cfg_lib_scheme \<Rightarrow> 'i HimmelblauConfig \<Rightarrow> string" where
  "get_hsm_pin_path env_var lib cfg =
     (case env_var of
        Some v \<Rightarrow> v
      | None \<Rightarrow> (case cfg_get lib cfg ''global'' ''hsm_pin_path'' of Some v \<Rightarrow> v | None \<Rightarrow> ''/var/lib/himmelblaud/hsm-pin''))"

text \<open>The values of a list in all sections, in the order of the sections.\<close>

definition all_sections_list :: "('i, 'z) cfg_lib_scheme \<Rightarrow> 'i HimmelblauConfig \<Rightarrow> string \<Rightarrow> string list" where
  "all_sections_list lib cfg opt =
     concat (map (\<lambda>sect. case cfg_get lib cfg sect opt of Some v \<Rightarrow> comma_list v | None \<Rightarrow> []) (ini_sections lib (config cfg)))"

definition get_pam_allow_groups :: "('i, 'z) cfg_lib_scheme \<Rightarrow> 'i HimmelblauConfig \<Rightarrow> string list" where
  "get_pam_allow_groups lib cfg = all_sections_list lib cfg ''pam_allow_groups''"

definition get_sudo_groups :: "('i, 'z) cfg_lib_scheme \<Rightarrow> 'i HimmelblauConfig \<Rightarrow> string list" where
  "get_sudo_groups lib cfg = all_sections_list lib cfg ''sudo_groups''"

definition get_join_type :: "('i, 'z) cfg_lib_scheme \<Rightarrow> 'i HimmelblauConfig \<Rightarrow> JoinType" where
  "get_join_type lib cfg =
     (case cfg_get lib cfg ''global'' ''join_type'' of
        Some v \<Rightarrow> if to_lowercase v = ''join'' then Join else if to_lowercase v = ''register'' then Register else Join
      | None \<Rightarrow> Join)"

definition get_id_attr_map :: "('i, 'z) cfg_lib_scheme \<Rightarrow> 'i HimmelblauConfig \<Rightarrow> IdAttr" where
  "get_id_attr_map lib cfg =
     (case cfg_get lib cfg ''global'' ''id_attr_map'' of
        Some v \<Rightarrow>
          let l = to_lowercase v in
          if l = ''uuid'' then IdUuid else if l = ''name'' then IdAttrName else if l = ''rfc2307'' then IdRfc2307 else IdAttrName
      | None \<Rightarrow> IdAttrName)"

definition get_rfc2307_group_fallback_map :: "('i, 'z) cfg_lib_scheme \<Rightarrow> 'i HimmelblauConfig \<Rightarrow> IdAttr option" where
  "get_rfc2307_group_fallback_map lib cfg =
     (case cfg_get lib cfg ''global'' ''rfc2307_group_fallback_map'' of
        Some v \<Rightarrow>
          let l = to_lowercase v in if l = ''uuid'' then Some IdUuid else if l = ''name'' then Some IdAttrName else None
      | None \<Rightarrow> None)"

definition DEFAULT_DENY_LIST :: string where
  "DEFAULT_DENY_LIST = ''ssh,telnet,ftp,rsh,rlogin,rexec,vnc,xrdp,cockpit,mosh''"

definition get_password_only_remote_services_deny_list :: "('i, 'z) cfg_lib_scheme \<Rightarrow> 'i HimmelblauConfig \<Rightarrow> string list" where
  "get_password_only_remote_services_deny_list lib cfg =
     filter (\<lambda>s. s \<noteq> [])
       (comma_list (case cfg_get lib cfg ''global'' ''password_only_remote_services_deny_list'' of Some v \<Rightarrow> v | None \<Rightarrow> DEFAULT_DENY_LIST))"

definition get_ip_versions :: "('i, 'z) cfg_lib_scheme \<Rightarrow> 'i HimmelblauConfig \<Rightarrow> IpVersion list" where
  "get_ip_versions lib cfg =
     (case gen_ip_version lib (config cfg) of Ipv4Only \<Rightarrow> [V4] | Ipv6Only \<Rightarrow> [V6] | Both \<Rightarrow> [V4, V6])"

section \<open>The file of the daemon\<close>

definition permitted_keys :: "string list" where
  "permitted_keys = [''authority_host'', ''tenant_id'', ''graph_url'', ''domain_aliases'', ''device_id'', ''intune_device_id'']"

definition keys_to_remove :: "(string \<times> string list) list \<Rightarrow> (string \<times> string) list" where
  "keys_to_remove m = concat (map (\<lambda>(sect, keys). map (Pair sect) (filter (\<lambda>k. k \<notin> set permitted_keys) keys)) m)"

definition server_config :: "('i, 'z) cfg_lib_scheme \<Rightarrow> 'i HimmelblauConfig \<Rightarrow> 'i" where
  "server_config lib cfg =
     (let srv_conf = ini_remove_section lib ''global'' (config cfg)
      in fold (\<lambda>(sect, key). ini_remove_key lib sect key) (keys_to_remove (ini_map lib srv_conf)) srv_conf)"

text \<open>Writing a file succeeds where the file system allows it.\<close>

definition write_file :: "(string \<Rightarrow> bool) \<Rightarrow> string \<Rightarrow> string \<Rightarrow> file_tree \<Rightarrow> (unit + unit) \<times> file_tree" where
  "write_file can_write path text files = (if can_write path then (Inr (), files(path \<mapsto> text)) else (Inl (), files))"

definition write_server_config :: "('i, 'z) cfg_lib_scheme \<Rightarrow> (string \<Rightarrow> bool) \<Rightarrow> 'i HimmelblauConfig \<Rightarrow> file_tree \<Rightarrow> (unit + unit) \<times> file_tree" where
  "write_server_config lib can_write cfg files =
     write_file can_write SERVER_CONFIG_FILE (ini_text lib (server_config lib cfg)) files"

definition config_write :: "('i, 'z) cfg_lib_scheme \<Rightarrow> (string \<Rightarrow> bool) \<Rightarrow> 'i HimmelblauConfig \<Rightarrow> file_tree \<Rightarrow> (unit + unit) \<times> file_tree" where
  "config_write lib can_write cfg files = write_file can_write (filename cfg) (ini_text lib (config cfg)) files"

definition config_set :: "('i, 'z) cfg_lib_scheme \<Rightarrow> string \<Rightarrow> string \<Rightarrow> string \<Rightarrow> 'i HimmelblauConfig \<Rightarrow> 'i HimmelblauConfig" where
  "config_set lib sect key v cfg = cfg\<lparr>config := ini_set lib sect key (Some v) (config cfg)\<rparr>"

section \<open>Domains and their aliases\<close>

definition get_configured_domains :: "('i, 'z) cfg_lib_scheme \<Rightarrow> 'i HimmelblauConfig \<Rightarrow> string list" where
  "get_configured_domains lib cfg =
     (let listed = (\<lambda>opt. case cfg_get lib cfg ''global'' opt of Some v \<Rightarrow> comma_list v | None \<Rightarrow> []);
          domains = listed ''domains'' @ listed ''domain'';
          sections = filter (\<lambda>s. s \<noteq> ''global'' \<and> s \<noteq> ''offline_breakglass'') (ini_sections lib (config cfg))
      in fold (\<lambda>s ds. if s \<in> set ds then ds else ds @ [s]) sections domains)"

definition lower_aliases :: "('i, 'z) cfg_lib_scheme \<Rightarrow> 'i HimmelblauConfig \<Rightarrow> string \<Rightarrow> string list" where
  "lower_aliases lib cfg domain =
     (case cfg_get lib cfg domain ''domain_aliases'' of
        Some v \<Rightarrow> map to_lowercase (split_char CHR '','' v)
      | None \<Rightarrow> [])"

definition get_primary_domain_from_alias_simple :: "('i, 'z) cfg_lib_scheme \<Rightarrow> 'i HimmelblauConfig \<Rightarrow> string \<Rightarrow> string option" where
  "get_primary_domain_from_alias_simple lib cfg alias =
     find (\<lambda>d. to_lowercase d = to_lowercase alias \<or> to_lowercase alias \<in> set (lower_aliases lib cfg d)) (get_configured_domains lib cfg)"

definition get_intune_device_id :: "('i, 'z) cfg_lib_scheme \<Rightarrow> 'i HimmelblauConfig \<Rightarrow> string \<Rightarrow> string option" where
  "get_intune_device_id lib cfg domain =
     cfg_get lib cfg (case get_primary_domain_from_alias_simple lib cfg domain of Some d \<Rightarrow> d | None \<Rightarrow> domain) ''intune_device_id''"

definition strip_suffix :: "string \<Rightarrow> string \<Rightarrow> string" where
  "strip_suffix suffix s = (if ends_with suffix s then take (length s - length suffix) s else s)"

definition get_oidc_issuer_url :: "('i, 'z) cfg_lib_scheme \<Rightarrow> 'i HimmelblauConfig \<Rightarrow> string option" where
  "get_oidc_issuer_url lib cfg =
     (case cfg_get lib cfg ''global'' ''oidc_issuer_url'' of
        None \<Rightarrow> None
      | Some v \<Rightarrow>
          let s = strip_suffix ''/.well-known/openid-configuration'' (trim v) in
          if s = [] then None
          else if \<not> starts_with ''https://'' s then None
          else if CHR ''?'' \<in> set s \<or> CHR ''#'' \<in> set s then None
          else if \<not> url_parses lib s then None
          else Some s)"

text \<open>What the federation service answers for a provider and a domain: authority host, tenant and graph URL.\<close>

type_synonym federation = "string \<Rightarrow> string \<Rightarrow> (string \<times> string \<times> string) option"

definition push_alias :: "('i, 'z) cfg_lib_scheme \<Rightarrow> string \<Rightarrow> string \<Rightarrow> 'i HimmelblauConfig \<Rightarrow> 'i HimmelblauConfig" where
  "push_alias lib domain alias cfg =
     config_set lib domain ''domain_aliases'' (case cfg_get lib cfg domain ''domain_aliases'' of
         Some v \<Rightarrow> v @ '','' @ alias
       | None \<Rightarrow> alias) cfg"

text \<open>The loop over the domains; the flag tells whether the configuration was modified.\<close>

fun search_alias :: "('i, 'z) cfg_lib_scheme \<Rightarrow> federation \<Rightarrow> string \<Rightarrow> string \<Rightarrow> string list \<Rightarrow> bool \<Rightarrow> 'i HimmelblauConfig
    \<Rightarrow> string option \<times> bool \<times> 'i HimmelblauConfig" where
  "search_alias lib fed alias tenant [] modified cfg = (None, modified, cfg)"
| "search_alias lib fed alias tenant (d # ds) modified cfg =
     (let found = (\<lambda>t m c. if t = tenant then (Some d, True, push_alias lib d alias c) else search_alias lib fed alias tenant ds m c)
      in case get_tenant_id lib cfg d of
           Some t \<Rightarrow> found t modified cfg
         | None \<Rightarrow>
             (case fed (get_odc_provider lib cfg d) d of
                None \<Rightarrow> search_alias lib fed alias tenant ds modified cfg
              | Some (host, t, graph) \<Rightarrow>
                  found t True (config_set lib d ''graph_url'' graph (config_set lib d ''tenant_id'' t
                    (config_set lib d ''authority_host'' host cfg)))))"

definition get_primary_domain_from_alias :: "('i, 'z) cfg_lib_scheme \<Rightarrow> federation \<Rightarrow> (string \<Rightarrow> bool) \<Rightarrow> string
    \<Rightarrow> 'i HimmelblauConfig \<times> file_tree \<Rightarrow> string option \<times> 'i HimmelblauConfig \<times> file_tree" where
  "get_primary_domain_from_alias lib fed can_write alias = (\<lambda>(cfg, files).
     if get_oidc_issuer_url lib cfg \<noteq> None then (None, cfg, files)
     else (case get_primary_domain_from_alias_simple lib cfg alias of
         Some primary \<Rightarrow> (Some primary, cfg, files)
       | None \<Rightarrow>
           let domains = get_configured_domains lib cfg in
           if domains = [] then (None, cfg, files)
           else (case fed DEFAULT_ODC_PROVIDER alias of
               None \<Rightarrow> (None, cfg, files)
             | Some (_, tenant, _) \<Rightarrow>
                 let (r, modified, cfg') = search_alias lib fed alias tenant domains False cfg
                 in (r, cfg', if r \<noteq> None \<or> modified then snd (write_server_config lib can_write cfg' files) else files))))"

definition domains_are_aliases :: "('i, 'z) cfg_lib_scheme \<Rightarrow> federation \<Rightarrow> (string \<Rightarrow> bool) \<Rightarrow> string \<Rightarrow> string
    \<Rightarrow> 'i HimmelblauConfig \<times> file_tree \<Rightarrow> bool \<times> 'i HimmelblauConfig \<times> file_tree" where
  "domains_are_aliases lib fed can_write domain1 domain2 s =
     (let (r1, s1) = get_primary_domain_from_alias lib fed can_write domain1 s in
      case r1 of
        Some primary \<Rightarrow> (domain2 = primary, s1)
      | None \<Rightarrow>
          let (r2, s2) = get_primary_domain_from_alias lib fed can_write domain2 s1 in
          (case r2 of Some primary \<Rightarrow> (domain1 = primary, s2) | None \<Rightarrow> (False, s2)))"

section \<open>Local names and Entra Id names\<close>

text \<open>What mapping a name depends on: the users of \<open>/etc/passwd\<close>, the mapping script, given by its status and output,
  and the file of mapped names.\<close>

record name_env =
  passwd_users :: "string list"
  run_script :: "string \<Rightarrow> string \<Rightarrow> (bool \<times> bytes) option"
  utf8_lossy :: "bytes \<Rightarrow> string"
  mapped_file :: "(string \<times> string) cache_env"

text \<open>The file after a cache has been open.\<close>

definition stored_back :: "'r file_cache \<Rightarrow> 'r cache_env \<Rightarrow> 'r cache_env" where
  "stored_back c e = e\<lparr>ce_file := fc_conn c\<rparr>"

definition remember_mapping :: "string \<Rightarrow> string \<Rightarrow> name_env \<Rightarrow> name_env" where
  "remember_mapping upn account_id ne =
     (case mapped_cache_new (mapped_file ne) ReadWrite of
        Inl _ \<Rightarrow> ne
      | Inr c \<Rightarrow> ne\<lparr>mapped_file := stored_back (insert_mapping upn account_id c) (mapped_file ne)\<rparr>)"

text \<open>Opening the cache creates its file even where the script then fails.\<close>

definition open_mapping :: "name_env \<Rightarrow> name_env" where
  "open_mapping ne =
     (case mapped_cache_new (mapped_file ne) ReadWrite of Inl _ \<Rightarrow> ne | Inr c \<Rightarrow> ne\<lparr>mapped_file := stored_back c (mapped_file ne)\<rparr>)"

definition map_name_to_upn :: "('i, 'z) cfg_lib_scheme \<Rightarrow> 'i HimmelblauConfig \<Rightarrow> string \<Rightarrow> name_env \<Rightarrow> string \<times> name_env" where
  "map_name_to_upn lib cfg account_id ne =
     (let domains = get_configured_domains lib cfg;
          by_cn = (if gen_cn_name_mapping lib (config cfg) \<and> CHR ''@'' \<notin> set account_id \<and> domains \<noteq> []
            then account_id @ ''@'' @ hd domains else account_id)
      in if account_id \<in> set (passwd_users ne) then (account_id, ne)
         else (case gen_name_mapping_script lib (config cfg) of
             Some script \<Rightarrow>
               if CHR ''@'' \<in> set account_id then (by_cn, ne)
               else (case run_script ne script account_id of
                   Some (True, out) \<Rightarrow> let upn = trim (utf8_lossy ne out) in (upn, remember_mapping upn account_id ne)
                 | _ \<Rightarrow> (by_cn, open_mapping ne))
           | None \<Rightarrow> (by_cn, ne)))"

definition map_upn_to_name :: "('i, 'z) cfg_lib_scheme \<Rightarrow> 'i HimmelblauConfig \<Rightarrow> name_env \<Rightarrow> string \<Rightarrow> string" where
  "map_upn_to_name lib cfg ne upn =
     (case split_username upn of
        None \<Rightarrow> upn
      | Some (name, domain) \<Rightarrow>
          let primary = to_lowercase (case get_configured_domains lib cfg of d # _ \<Rightarrow> d | [] \<Rightarrow> []) in
          if gen_name_mapping_script lib (config cfg) \<noteq> None then
            (case mapped_cache_new (mapped_file ne) ReadOnly of Inr c \<Rightarrow> get_mapped_name c upn | Inl _ \<Rightarrow> upn)
          else if gen_cn_name_mapping lib (config cfg) \<and> primary = to_lowercase domain then name
          else upn)"

end
