(* ===== verification/Daemon.thy ===== *)
theory Daemon
  imports Resolver_Auth Config
begin

text \<open>
  The daemon's connections, \<open>src/daemon/src/daemon.rs\<close>: what each request of a client makes the resolver do and what is
  answered, the tasks that follow a sign-in and the start of a session, and the connection to the privileged task daemon.
  A connection knows the uid of its peer and keeps one authentication session. Waiting for a task ends with its
  outcome or without one; the task daemon is a parameter with a state of its own.
\<close>

section \<open>Messages on a socket\<close>

text \<open>The codecs take the whole buffer for one message; \<open>parse\<close> and \<open>ser\<close> are the JSON library.\<close>

definition codec_decode :: "(bytes \<Rightarrow> 'm option) \<Rightarrow> bytes \<Rightarrow> 'm option \<times> bytes" where
  "codec_decode parse src = (case parse src of Some msg \<Rightarrow> (Some msg, []) | None \<Rightarrow> (None, src))"

definition codec_encode :: "('m \<Rightarrow> bytes option) \<Rightarrow> 'm \<Rightarrow> bytes \<Rightarrow> unit + bytes" where
  "codec_encode ser msg dst = (case ser msg of Some data \<Rightarrow> Inr (dst @ data) | None \<Rightarrow> Inl ())"

section \<open>Tasks\<close>

datatype TaskRequest =
    HomeDirectory HomeDirectoryInfo
  | LocalGroups string bool
  | LogonScript string string
  | KerberosConfig "string option" "string option"
  | KerberosTGTs u32 u32 "KerberosCredentials option" "KerberosCredentials option"
  | LoadProfilePhoto string string
  | ApplyPolicy "string option" string string string string
  | SubordinateIds string u32 u32

datatype TaskResponse = Task_Success int | Task_Error string | Task_NonCompliant "NoncompliantRule list"

datatype TaskOutcome = Status_Code int | Status_NonCompliant "NoncompliantRule list"

definition task_outcome :: "TaskResponse \<Rightarrow> TaskOutcome" where
  "task_outcome r = (case r of
      Task_Success status \<Rightarrow> Status_Code status
    | Task_Error _ \<Rightarrow> Status_Code 1
    | Task_NonCompliant rules \<Rightarrow> Status_NonCompliant rules)"

text \<open>
  The loop over the queue of tasks. A task carries the number of the request that waits for it; \<open>ti_closed\<close> tells
  which have stopped waiting. The socket gives an answer, or none that can be read. The result is an error
  where the connection has to be made again; the outcomes that were passed on are listed.
\<close>

record 'w task_io =
  ti_send :: "TaskRequest \<Rightarrow> 'w \<Rightarrow> bool \<times> 'w"
  ti_next :: "'w \<Rightarrow> TaskResponse option \<times> 'w"
  ti_closed :: "nat \<Rightarrow> bool"
  ti_requeue_ok :: bool

fun handle_task_client :: "'w task_io \<Rightarrow> (TaskRequest \<times> nat) list \<Rightarrow> 'w
    \<Rightarrow> (unit + unit) \<times> (TaskRequest \<times> nat) list \<times> (nat \<times> TaskOutcome) list \<times> 'w" where
  "handle_task_client io [] w = (Inr (), [], [], w)"
| "handle_task_client io ((req, tx) # q) w =
     (let (sent, w1) = ti_send io req w in
      if \<not> sent then (Inl (), if \<not> ti_closed io tx \<and> ti_requeue_ok io then q @ [(req, tx)] else q, [], w1)
      else
        let (answer, w2) = ti_next io w1 in
        (case answer of
           None \<Rightarrow> (Inl (), q, [], w2)
         | Some r \<Rightarrow>
             let (res, q', out, w3) = handle_task_client io q w2
             in (res, q', if ti_closed io tx then out else (tx, task_outcome r) # out, w3)))"

section \<open>State\<close>

datatype TaskWait = NotSent | Dropped | TimedOut | Outcome TaskOutcome

record ('i, 'w) daemon_env =
  dm_lib :: "'i cfg_lib"
  dm_cfg :: "'i HimmelblauConfig"
  dm_files :: file_tree
  dm_names :: name_env
  dm_access_token :: "UnixUserToken \<Rightarrow> string option"
  dm_bearer_token :: "string \<Rightarrow> string \<Rightarrow> UnixUserToken"
  dm_parse_uuid :: "string \<Rightarrow> Uuid option"
  dm_task :: "TaskRequest \<Rightarrow> nat \<Rightarrow> 'w \<Rightarrow> TaskWait \<times> 'w"

record ('p, 'h, 'l, 'w) dstate =
  ds_resolver :: "('p, 'h, 'l) rstate"
  ds_world :: 'w
  ds_session :: "AuthSession option"

type_synonym ('p, 'h, 'l, 'w, 'a) daemon_prog = "(('p, 'h, 'l, 'w) dstate, 'a) prog"

definition cachelayer :: "(('p, 'h, 'l) rstate, 'a) prog \<Rightarrow> ('p, 'h, 'l, 'w, 'a) daemon_prog" where
  "cachelayer m = pzoom ds_resolver (\<lambda>r s. s\<lparr>ds_resolver := r\<rparr>) m"

text \<open>A task and the milliseconds to wait for its outcome.\<close>

definition run_task :: "('i, 'w) daemon_env \<Rightarrow> TaskRequest \<Rightarrow> nat \<Rightarrow> ('p, 'h, 'l, 'w, TaskWait) daemon_prog" where
  "run_task env task ms = (\<lambda>s. (case dm_task env task ms (ds_world s) of (r, w) \<Rightarrow> Return (r, s\<lparr>ds_world := w\<rparr>)))"

definition get_session :: "('p, 'h, 'l, 'w, AuthSession option) daemon_prog" where
  "get_session = pgets ds_session"

definition set_session :: "AuthSession option \<Rightarrow> ('p, 'h, 'l, 'w, unit) daemon_prog" where
  "set_session a = pmodify (\<lambda>s. s\<lparr>ds_session := a\<rparr>)"

definition user_name :: "string \<Rightarrow> Id" where
  "user_name account_id = IdName account_id"

section \<open>Intune policies\<close>

datatype ApplyPolicyError =
    TokenAcquisitionFailed
  | MissingAccessToken
  | DispatchFailed
  | TaskTimeout
  | TaskError
  | PolicyFailure
  | PolicyNonCompliant "NoncompliantRule list"

definition DEFAULT_APP_ID :: string where
  "DEFAULT_APP_ID = ''b743a22d-6705-4147-8670-d92fa515ee2b''"

definition INTUNE_POLICY_TASK_TIMEOUT_SECS :: nat where
  "INTUNE_POLICY_TASK_TIMEOUT_SECS = 300"

text \<open>The configuration is read again, since the device id may have been written after the start.\<close>

definition intune_device_of :: "('i, 'w) daemon_env \<Rightarrow> string \<Rightarrow> string option" where
  "intune_device_of env account_id =
     (case split_username account_id of
        Some (_, domain) \<Rightarrow>
          (case config_new (dm_lib env) (dm_files env) (Some (filename (dm_cfg env))) of
             Inr cfg \<Rightarrow> get_intune_device_id (dm_lib env) cfg domain
           | Inl _ \<Rightarrow> None)
      | None \<Rightarrow> None)"

definition policy_token :: "('p, 'h, 'l) resolver \<Rightarrow> string \<Rightarrow> string \<Rightarrow> ('p, 'h, 'l, 'w, UnixUserToken option) daemon_prog" where
  "policy_token self account_id resource =
     cachelayer (get_user_accesstoken self (user_name account_id) [resource @ ''/.default''] (Some DEFAULT_APP_ID) None None)"

definition apply_intune_policy_for_account :: "('i, 'w) daemon_env \<Rightarrow> ('p, 'h, 'l) resolver \<Rightarrow> string
    \<Rightarrow> ('p, 'h, 'l, 'w, ApplyPolicyError + unit) daemon_prog" where
  "apply_intune_policy_for_account env self account_id =
     pbind (policy_token self account_id ''00000003-0000-0000-c000-000000000000'') (\<lambda>graph_token.
     pbind (policy_token self account_id ''0000000a-0000-0000-c000-000000000000'') (\<lambda>intune_token.
     pbind (policy_token self account_id ''b8066b99-6e67-41be-abfa-75db1a2c8809'') (\<lambda>iwservice_token.
     case (graph_token, intune_token, iwservice_token) of
       (Some g, Some i, Some w) \<Rightarrow>
         (case (dm_access_token env g, dm_access_token env i, dm_access_token env w) of
            (Some graph_at, Some intune_at, Some iwservice_at) \<Rightarrow>
              pbind (run_task env (ApplyPolicy (intune_device_of env account_id) account_id graph_at intune_at iwservice_at)
                ((INTUNE_POLICY_TASK_TIMEOUT_SECS + 5) * 1000)) (\<lambda>r.
              pret (case r of
                  NotSent \<Rightarrow> Inl DispatchFailed
                | Outcome (Status_Code status) \<Rightarrow> if status = 0 then Inr () else Inl PolicyFailure
                | Outcome (Status_NonCompliant rules) \<Rightarrow> Inl (PolicyNonCompliant rules)
                | Dropped \<Rightarrow> Inl TaskError
                | TimedOut \<Rightarrow> Inl TaskTimeout))
          | _ \<Rightarrow> pret (Inl MissingAccessToken))
     | _ \<Rightarrow> pret (Inl TokenAcquisitionFailed))))"

section \<open>After a sign-in\<close>

definition script_denied_msg :: string where
  "script_denied_msg = ''Authentication was explicitly denied by the logon script''"

text \<open>The logon script can turn the success into a denial; without an outcome the success stands.\<close>

definition logon_script :: "('i, 'w) daemon_env \<Rightarrow> ('p, 'h, 'l) resolver \<Rightarrow> string \<Rightarrow> ('p, 'h, 'l, 'w, PamAuthResponse) daemon_prog" where
  "logon_script env self account_id =
     (if gen_logon_script (dm_lib env) (config (dm_cfg env)) = None then pret PR_Success
      else
        let client_id = (case split_username account_id of
            Some (_, domain) \<Rightarrow> get_logon_token_app_id (dm_lib env) (dm_cfg env) domain
          | None \<Rightarrow> None)
        in
        pbind (cachelayer (get_user_accesstoken self (user_name account_id)
            (gen_logon_token_scopes (dm_lib env) (config (dm_cfg env))) client_id None None)) (\<lambda>token.
        let access_token = (case Option.bind token (dm_access_token env) of Some t \<Rightarrow> t | None \<Rightarrow> []) in
        pbind (run_task env (LogonScript account_id access_token) 60000) (\<lambda>r.
        pret (if r = Outcome (Status_Code 2) then PR_Denied script_denied_msg else PR_Success))))"

definition kerberos_tasks :: "('i, 'w) daemon_env \<Rightarrow> ('p, 'h, 'l) resolver \<Rightarrow> string \<Rightarrow> ('p, 'h, 'l, 'w, unit) daemon_prog" where
  "kerberos_tasks env self account_id =
     pbind (cachelayer (get_user_tgts self (user_name account_id))) (\<lambda>r.
     case r of
       None \<Rightarrow> pret ()
     | Some (uid, gid, tgt_cloud, tgt_ad, top_level_names, tenant_id) \<Rightarrow>
         pbind (run_task env (KerberosConfig top_level_names tenant_id) 60000) (\<lambda>_.
         pbind (run_task env (KerberosTGTs uid gid tgt_cloud tgt_ad) 60000) (\<lambda>_.
         pret ())))"

definition profile_photo :: "('i, 'w) daemon_env \<Rightarrow> ('p, 'h, 'l) resolver \<Rightarrow> string \<Rightarrow> ('p, 'h, 'l, 'w, unit) daemon_prog" where
  "profile_photo env self account_id =
     pbind (cachelayer (get_user_accesstoken self (user_name account_id) [] None None None)) (\<lambda>token.
     case Option.bind token (dm_access_token env) of
       None \<Rightarrow> pret ()
     | Some access_token \<Rightarrow> pbind (run_task env (LoadProfilePhoto account_id access_token) 60000) (\<lambda>_. pret ()))"

definition after_sign_in :: "('i, 'w) daemon_env \<Rightarrow> ('p, 'h, 'l) resolver \<Rightarrow> string \<Rightarrow> ('p, 'h, 'l, 'w, PamAuthResponse) daemon_prog" where
  "after_sign_in env self account_id =
     pbind (logon_script env self account_id) (\<lambda>resp.
     pbind (kerberos_tasks env self account_id) (\<lambda>_.
     pbind (profile_photo env self account_id) (\<lambda>_.
     pbind (if gen_apply_policy (dm_lib env) (config (dm_cfg env))
            then pbind (apply_intune_policy_for_account env self account_id) (\<lambda>_. pret ())
            else pret ()) (\<lambda>_.
     pret resp))))"

definition authenticate_step :: "('i, 'w) daemon_env \<Rightarrow> ('p, 'h, 'l) resolver \<Rightarrow> PamAuthRequest \<Rightarrow> ('p, 'h, 'l, 'w, ClientResponse) daemon_prog" where
  "authenticate_step env self pam_next_req =
     pbind get_session (\<lambda>state.
     case state of
       None \<Rightarrow> pret CR_Error
     | Some auth_session \<Rightarrow>
         pbind (cachelayer (pam_account_authenticate_step self auth_session pam_next_req)) (\<lambda>(r, auth_session').
         pbind (set_session (Some auth_session')) (\<lambda>_.
         case r of
           Inl _ \<Rightarrow> pret CR_Error
         | Inr resp \<Rightarrow>
             (case (auth_session', resp) of
                (Session_Success account_id, PR_Success) \<Rightarrow>
                  pbind (after_sign_in env self (to_lowercase account_id)) (\<lambda>resp'.
                  pret (CR_PamAuthenticateStepResponse resp'))
              | _ \<Rightarrow> pret (CR_PamAuthenticateStepResponse resp)))))"

definition authenticate_init :: "('p, 'h, 'l) resolver \<Rightarrow> string \<Rightarrow> string \<Rightarrow> bool \<Rightarrow> bool \<Rightarrow> ('p, 'h, 'l, 'w, ClientResponse) daemon_prog" where
  "authenticate_init self account_id service no_hello_pin force_reauth =
     pbind (cachelayer (pam_account_authenticate_init self account_id service no_hello_pin force_reauth)) (\<lambda>r.
     case r of
       Inr (auth_session, resp) \<Rightarrow>
         pbind (set_session (Some auth_session)) (\<lambda>_. pret (CR_PamAuthenticateStepResponse resp))
     | Inl _ \<Rightarrow> pret CR_Error)"

section \<open>Sessions\<close>

text \<open>The answer to a task that must be done.\<close>

definition task_done :: "TaskWait \<Rightarrow> ClientResponse" where
  "task_done r = (case r of Outcome _ \<Rightarrow> CR_Ok | _ \<Rightarrow> CR_Error)"

fun in_sudo_groups :: "('i, 'w) daemon_env \<Rightarrow> ('p, 'h, 'l) resolver \<Rightarrow> string \<Rightarrow> string list \<Rightarrow> bool \<Rightarrow> ('p, 'h, 'l, 'w, bool) daemon_prog" where
  "in_sudo_groups env self account_id [] is_sudoer = pret is_sudoer"
| "in_sudo_groups env self account_id (g # gs) is_sudoer =
     (case dm_parse_uuid env g of
        None \<Rightarrow> in_sudo_groups env self account_id gs is_sudoer
      | Some uuid \<Rightarrow>
          pbind (cachelayer (get_groupmembers self uuid)) (\<lambda>members.
          in_sudo_groups env self account_id gs (is_sudoer \<or> account_id \<in> set members)))"

definition begin_session :: "('i, 'w) daemon_env \<Rightarrow> ('p, 'h, 'l) resolver \<Rightarrow> string \<Rightarrow> ('p, 'h, 'l, 'w, ClientResponse) daemon_prog" where
  "begin_session env self account_id =
     pbind (cachelayer (pam_account_beginsession self account_id)) (\<lambda>r.
     case r of
       Inr (Some info) \<Rightarrow>
         pbind (run_task env (HomeDirectory info) 1000) (\<lambda>r1.
         pbind (in_sudo_groups env self account_id (get_sudo_groups (dm_lib env) (dm_cfg env)) False) (\<lambda>is_sudoer.
         pbind (run_task env (LocalGroups account_id is_sudoer) 1000) (\<lambda>r2.
         let mapped_name = map_upn_to_name (dm_lib env) (dm_cfg env) (dm_names env) account_id;
             subid_start = gen_subid_start mapped_name (get_subid_range (dm_lib env) (dm_cfg env))
         in
         pbind (run_task env (SubordinateIds mapped_name subid_start SUBID_COUNT) 1000) (\<lambda>_.
         pret (if task_done r1 = CR_Error then CR_Error else task_done r2)))))
     | _ \<Rightarrow> pret CR_Error)"

definition compliance_check :: "('i, 'w) daemon_env \<Rightarrow> ('p, 'h, 'l) resolver \<Rightarrow> u32 \<Rightarrow> ('p, 'h, 'l, 'w, ClientResponse) daemon_prog" where
  "compliance_check env self uid =
     (if \<not> gen_apply_policy (dm_lib env) (config (dm_cfg env)) then pret CR_Error
      else
        pbind (cachelayer (get_nssaccount_gid self uid)) (\<lambda>r.
        case r of
          Inr (Some nss_user) \<Rightarrow>
            pbind (apply_intune_policy_for_account env self (nu_name nss_user)) (\<lambda>res.
            pret (case res of
                Inr _ \<Rightarrow> CR_Ok
              | Inl (PolicyNonCompliant rules) \<Rightarrow> CR_NonCompliant rules
              | Inl MissingAccessToken \<Rightarrow> CR_NotAuthenticated
              | Inl _ \<Rightarrow> CR_Error))
        | _ \<Rightarrow> pret CR_Error))"

section \<open>Requests\<close>

definition ok_or_error :: "('s, 'e + 'a) prog \<Rightarrow> ('s, ClientResponse) prog" where
  "ok_or_error m = pbind m (\<lambda>r. pret (case r of Inr _ \<Rightarrow> CR_Ok | Inl _ \<Rightarrow> CR_Error))"

definition answer_or :: "('a \<Rightarrow> ClientResponse) \<Rightarrow> ClientResponse \<Rightarrow> ('s, 'e + 'a) prog \<Rightarrow> ('s, ClientResponse) prog" where
  "answer_or f e m = pbind m (\<lambda>r. pret (case r of Inr a \<Rightarrow> f a | Inl _ \<Rightarrow> e))"

fun handle_request :: "('i, 'w) daemon_env \<Rightarrow> ('p, 'h, 'l) resolver \<Rightarrow> u32 \<Rightarrow> ClientRequest \<Rightarrow> ('p, 'h, 'l, 'w, ClientResponse) daemon_prog" where
  "handle_request env self uid NssAccounts = answer_or CR_NssAccounts (CR_NssAccounts []) (cachelayer (get_nssaccounts self))"
| "handle_request env self uid (NssAccountByUid gid) =
     answer_or CR_NssAccount (CR_NssAccount None) (cachelayer (get_nssaccount_gid self gid))"
| "handle_request env self uid (NssAccountByName account_id) =
     answer_or CR_NssAccount (CR_NssAccount None) (cachelayer (get_nssaccount_name self (to_lowercase account_id)))"
| "handle_request env self uid NssGroups = answer_or CR_NssGroups (CR_NssGroups []) (cachelayer (get_nssgroups self))"
| "handle_request env self uid (NssGroupByGid gid) =
     answer_or CR_NssGroup (CR_NssGroup None) (cachelayer (get_nssgroup_gid self gid))"
| "handle_request env self uid (NssGroupByName grp_id) =
     answer_or CR_NssGroup (CR_NssGroup None) (cachelayer (get_nssgroup_name self grp_id))"
| "handle_request env self uid (NssInitgroups account_id) =
     answer_or CR_NssInitgroups CR_Error (cachelayer (get_initgroups self (to_lowercase account_id)))"
| "handle_request env self uid (PamAuthenticateInit account_id service no_hello_pin force_reauth) =
     authenticate_init self (to_lowercase account_id) service no_hello_pin force_reauth"
| "handle_request env self uid (PamAuthenticateStep pam_next_req) = authenticate_step env self pam_next_req"
| "handle_request env self uid (PamAccountAllowed account_id) =
     answer_or CR_PamStatus CR_Error (cachelayer (pam_account_allowed self (to_lowercase account_id)))"
| "handle_request env self uid (PamAccountBeginSession account_id) = begin_session env self (to_lowercase account_id)"
| "handle_request env self uid (PamChangeAuthToken account_id access_token refresh_token new_pin) =
     ok_or_error (cachelayer (change_auth_token self (to_lowercase account_id) (dm_bearer_token env access_token refresh_token) new_pin))"
| "handle_request env self uid (PamTryUnseal account_id cred) =
     pbind (cachelayer (pam_try_unseal self (to_lowercase account_id) cred)) (\<lambda>_. pret CR_Ok)"
| "handle_request env self uid InvalidateCache = ok_or_error (cachelayer (resolver_invalidate self))"
| "handle_request env self uid ClearCache =
     (if uid = 0 then ok_or_error (cachelayer (clear_cache self)) else pret CR_Error)"
| "handle_request env self uid (OfflineBreakGlass ttl) =
     (if uid = 0 then ok_or_error (cachelayer (offline_break_glass self ttl)) else pret CR_Error)"
| "handle_request env self uid Status =
     pbind (cachelayer (test_connection self)) (\<lambda>online. pret (if online then CR_Ok else CR_Error))"
| "handle_request env self uid ComplianceCheck = compliance_check env self uid"

text \<open>The requests of one connection, in the order in which they arrive.\<close>

fun handle_requests :: "('i, 'w) daemon_env \<Rightarrow> ('p, 'h, 'l) resolver \<Rightarrow> u32 \<Rightarrow> ClientRequest list
    \<Rightarrow> ('p, 'h, 'l, 'w, ClientResponse list) daemon_prog" where
  "handle_requests env self uid [] = pret []"
| "handle_requests env self uid (req # reqs) =
     pbind (handle_request env self uid req) (\<lambda>resp.
     pbind (handle_requests env self uid reqs) (\<lambda>resps. pret (resp # resps)))"

definition handle_client :: "('i, 'w) daemon_env \<Rightarrow> ('p, 'h, 'l) resolver \<Rightarrow> u32 \<Rightarrow> ClientRequest list
    \<Rightarrow> ('p, 'h, 'l, 'w, ClientResponse list) daemon_prog" where
  "handle_client env self uid reqs = pbind (set_session None) (\<lambda>_. handle_requests env self uid reqs)"

section \<open>Local users\<close>

text \<open>The entries of \<open>/etc/passwd\<close> and \<open>/etc/group\<close>, or none where a file cannot be read or parsed.\<close>

definition process_etc_passwd_group :: "('p, 'h, 'l) resolver \<Rightarrow> (string \<times> u32) list option \<Rightarrow> (string \<times> u32) list option
    \<Rightarrow> ('p, 'h, 'l, 'w, unit + unit) daemon_prog" where
  "process_etc_passwd_group self users groups =
     (case (users, groups) of
        (Some us, Some gs) \<Rightarrow> pbind (cachelayer (reload_nxset self (us @ gs))) (\<lambda>_. pret (Inr ()))
      | _ \<Rightarrow> pret (Inl ()))"

end
