(* ===== verification/Pam_Client.thy ===== *)
theory Pam_Client
  imports Idp_Interface Pin_Policy
begin

text \<open>
  The conversation of the PAM module with the user and the daemon, \<open>common/src/auth.rs\<close>, and
  the module's options and result codes, \<open>common/src/pam.rs\<close>. The socket, the terminal, the
  security keys and the crates for regular expressions and QR codes are parameters on a world of
  type \<open>'w\<close>. Loops that depend on the user or the daemon may not end: not returning is \<open>None\<close>.
\<close>

section \<open>Results and options\<close>

datatype PamResultCode =
    PAM_SUCCESS | PAM_OPEN_ERR | PAM_SYMBOL_ERR | PAM_SERVICE_ERR | PAM_SYSTEM_ERR | PAM_BUF_ERR | PAM_PERM_DENIED
  | PAM_AUTH_ERR | PAM_CRED_INSUFFICIENT | PAM_AUTHINFO_UNAVAIL | PAM_USER_UNKNOWN | PAM_MAXTRIES
  | PAM_NEW_AUTHTOK_REQD | PAM_ACCT_EXPIRED | PAM_SESSION_ERR | PAM_CRED_UNAVAIL | PAM_CRED_EXPIRED | PAM_CRED_ERR
  | PAM_NO_MODULE_DATA | PAM_CONV_ERR | PAM_AUTHTOK_ERR | PAM_AUTHTOK_RECOVERY_ERR | PAM_AUTHTOK_LOCK_BUSY
  | PAM_AUTHTOK_DISABLE_AGING | PAM_TRY_AGAIN | PAM_IGNORE | PAM_ABORT | PAM_AUTHTOK_EXPIRED | PAM_MODULE_UNKNOWN
  | PAM_BAD_ITEM | PAM_CONV_AGAIN | PAM_INCOMPLETE

fun code_name :: "PamResultCode \<Rightarrow> string" where
  "code_name PAM_SUCCESS = ''PAM_SUCCESS''"
| "code_name PAM_OPEN_ERR = ''PAM_OPEN_ERR''"
| "code_name PAM_SYMBOL_ERR = ''PAM_SYMBOL_ERR''"
| "code_name PAM_SERVICE_ERR = ''PAM_SERVICE_ERR''"
| "code_name PAM_SYSTEM_ERR = ''PAM_SYSTEM_ERR''"
| "code_name PAM_BUF_ERR = ''PAM_BUF_ERR''"
| "code_name PAM_PERM_DENIED = ''PAM_PERM_DENIED''"
| "code_name PAM_AUTH_ERR = ''PAM_AUTH_ERR''"
| "code_name PAM_CRED_INSUFFICIENT = ''PAM_CRED_INSUFFICIENT''"
| "code_name PAM_AUTHINFO_UNAVAIL = ''PAM_AUTHINFO_UNAVAIL''"
| "code_name PAM_USER_UNKNOWN = ''PAM_USER_UNKNOWN''"
| "code_name PAM_MAXTRIES = ''PAM_MAXTRIES''"
| "code_name PAM_NEW_AUTHTOK_REQD = ''PAM_NEW_AUTHTOK_REQD''"
| "code_name PAM_ACCT_EXPIRED = ''PAM_ACCT_EXPIRED''"
| "code_name PAM_SESSION_ERR = ''PAM_SESSION_ERR''"
| "code_name PAM_CRED_UNAVAIL = ''PAM_CRED_UNAVAIL''"
| "code_name PAM_CRED_EXPIRED = ''PAM_CRED_EXPIRED''"
| "code_name PAM_CRED_ERR = ''PAM_CRED_ERR''"
| "code_name PAM_NO_MODULE_DATA = ''PAM_NO_MODULE_DATA''"
| "code_name PAM_CONV_ERR = ''PAM_CONV_ERR''"
| "code_name PAM_AUTHTOK_ERR = ''PAM_AUTHTOK_ERR''"
| "code_name PAM_AUTHTOK_RECOVERY_ERR = ''PAM_AUTHTOK_RECOVERY_ERR''"
| "code_name PAM_AUTHTOK_LOCK_BUSY = ''PAM_AUTHTOK_LOCK_BUSY''"
| "code_name PAM_AUTHTOK_DISABLE_AGING = ''PAM_AUTHTOK_DISABLE_AGING''"
| "code_name PAM_TRY_AGAIN = ''PAM_TRY_AGAIN''"
| "code_name PAM_IGNORE = ''PAM_IGNORE''"
| "code_name PAM_ABORT = ''PAM_ABORT''"
| "code_name PAM_AUTHTOK_EXPIRED = ''PAM_AUTHTOK_EXPIRED''"
| "code_name PAM_MODULE_UNKNOWN = ''PAM_MODULE_UNKNOWN''"
| "code_name PAM_BAD_ITEM = ''PAM_BAD_ITEM''"
| "code_name PAM_CONV_AGAIN = ''PAM_CONV_AGAIN''"
| "code_name PAM_INCOMPLETE = ''PAM_INCOMPLETE''"

record pam_options =
  opt_debug :: bool
  opt_use_first_pass :: bool
  opt_ignore_unknown_user :: bool
  opt_mfa_poll_prompt :: bool
  opt_no_hello_pin :: bool
  opt_set_authtok :: bool
  opt_try_unseal :: bool
  opt_force_reauth :: bool

fun decode_args :: "bytes list \<Rightarrow> string list option" where
  "decode_args [] = Some []"
| "decode_args (a # as) = (case from_utf8 a of None \<Rightarrow> None | Some x \<Rightarrow> map_option ((#) x) (decode_args as))"

definition options_try_from :: "bytes list \<Rightarrow> unit + pam_options" where
  "options_try_from args =
     (case decode_args args of
        None \<Rightarrow> Inl ()
      | Some gopts \<Rightarrow>
          let try_unseal = (''try_unseal'' \<in> set gopts) in
          Inr \<lparr>opt_debug = (''debug'' \<in> set gopts),
            opt_use_first_pass = (''use_first_pass'' \<in> set gopts \<or> try_unseal),
            opt_ignore_unknown_user = (''ignore_unknown_user'' \<in> set gopts \<or> try_unseal),
            opt_mfa_poll_prompt = (''mfa_poll_prompt'' \<in> set gopts),
            opt_no_hello_pin = (''no_hello_pin'' \<in> set gopts),
            opt_set_authtok = (''set_authtok'' \<in> set gopts \<or> ''keyring_authtok'' \<in> set gopts),
            opt_try_unseal = try_unseal,
            opt_force_reauth = False\<rparr>)"

section \<open>The state of a conversation\<close>

text \<open>
  \<open>poll_attempt\<close> is an \<open>i32\<close>, read with \<open>sint\<close>. The messages shown, the seconds slept and
  the exchanges with the daemon are recorded.
\<close>

record 'w AuthenticateState =
  au_authtok :: "string option"
  au_account_id :: string
  au_service :: string
  au_opts :: pam_options
  poll_attempt :: u32
  polling_interval :: u32
  world :: 'w
  printed :: "string list"
  waited :: nat
  exchanges :: "(ClientRequest \<times> ClientResponse option) list"

record pam_cfg =
  oidc_issuer_url :: "string option"
  entra_id_password_prompt :: string
  hello_pin_prompt :: string
  hello_pin_min_length :: nat
  fido_timeout :: u64
  fido_prompt :: string
  fido_presence_prompt :: string
  qr_bluetooth_prompt :: string

text \<open>\<open>qr_encode\<close> gives the size of a QR code and its modules, \<open>adapters\<close> the property
  \<open>Powered\<close> of every Bluetooth adapter, \<open>totp_captures\<close> the groups 2, 3 and 4 of a match.\<close>

record 'w pam_env =
  call_and_wait :: "ClientRequest \<Rightarrow> 'w \<Rightarrow> ClientResponse option \<times> 'w"
  prompt_echo_off :: "string \<Rightarrow> 'w \<Rightarrow> string option \<times> 'w"
  qr_encode :: "string \<Rightarrow> string + int \<times> (int \<Rightarrow> int \<Rightarrow> bool)"
  find_url :: "string \<Rightarrow> string option"
  totp_captures :: "string \<Rightarrow> (string option \<times> string option \<times> string option) option"
  urldecode :: "string \<Rightarrow> string option"
  adapters :: "'w \<Rightarrow> bool option list option \<times> 'w"
  fido_auth :: "string \<Rightarrow> string list \<Rightarrow> u64 \<Rightarrow> string \<Rightarrow> string \<Rightarrow> 'w \<Rightarrow> (PamResultCode + string) \<times> 'w"
  fido_auth_with_qr_bluetooth :: "string \<Rightarrow> string list \<Rightarrow> u64 \<Rightarrow> string \<Rightarrow> string \<Rightarrow> string \<Rightarrow> 'w
    \<Rightarrow> (PamResultCode + string) \<times> 'w"
  fido_auth_qr_bluetooth_only :: "string \<Rightarrow> string list \<Rightarrow> string \<Rightarrow> 'w \<Rightarrow> (PamResultCode + string) \<times> 'w"
  policies :: "'w \<Rightarrow> policy_env"

datatype PamWhatNext = Next ClientRequest | Finish PamResultCode

type_synonym 'w pam_step = "'w AuthenticateState \<Rightarrow> PamWhatNext \<times> 'w AuthenticateState"

definition newline :: string where
  "newline = [CHR 0x0A]"

definition print_text :: "string \<Rightarrow> 'w AuthenticateState \<Rightarrow> 'w AuthenticateState" where
  "print_text msg st = st\<lparr>printed := printed st @ [msg]\<rparr>"

definition sleep_secs :: "nat \<Rightarrow> 'w AuthenticateState \<Rightarrow> 'w AuthenticateState" where
  "sleep_secs n st = st\<lparr>waited := waited st + n\<rparr>"

definition in_world :: "('w \<Rightarrow> 'a \<times> 'w) \<Rightarrow> 'w AuthenticateState \<Rightarrow> 'a \<times> 'w AuthenticateState" where
  "in_world f st = (case f (world st) of (a, w) \<Rightarrow> (a, st\<lparr>world := w\<rparr>))"

definition pam_fail :: "string \<Rightarrow> PamResultCode \<Rightarrow> 'w pam_step" where
  "pam_fail msg code st = (Finish PAM_ABORT, sleep_secs 2 (print_text (code_name code @ '': '' @ msg @ '' '' @ newline
     @ ''If you are now prompted for a password from pam_unix, please disregard the prompt, go back and try again.'') st))"

definition step_request :: "PamAuthRequest \<Rightarrow> PamWhatNext" where
  "step_request r = Next (PamAuthenticateStep r)"

section \<open>Messages\<close>

text \<open>The UTF-8 bytes of the block characters U+2588, U+2580 and U+2584, and a space.\<close>

definition qr_char :: "bool \<Rightarrow> bool \<Rightarrow> string" where
  "qr_char upper lower = (case (upper, lower) of
       (True, True) \<Rightarrow> [CHR 0xE2, CHR 0x96, CHR 0x88]
     | (True, False) \<Rightarrow> [CHR 0xE2, CHR 0x96, CHR 0x80]
     | (False, True) \<Rightarrow> [CHR 0xE2, CHR 0x96, CHR 0x84]
     | (False, False) \<Rightarrow> '' '')"

definition generate_unicode_qr :: "'w pam_env \<Rightarrow> string \<Rightarrow> string + string" where
  "generate_unicode_qr env content =
     (case qr_encode env content of
        Inl e \<Rightarrow> Inl e
      | Inr (sz, get_module) \<Rightarrow>
          let border = 4 in
          Inr (concat (map (\<lambda>y. concat (map (\<lambda>x. qr_char (get_module x y) (get_module x (y + 1)))
              [-border..sz + border - 1]) @ newline)
            (filter (\<lambda>y. even (y + border)) [-border..sz + border - 1]))))"

definition qr_failed :: string where
  "qr_failed = ''Failed to generate QR code''"

definition hello_totp_urldecode_match :: "'w pam_env \<Rightarrow> string option \<Rightarrow> string + string" where
  "hello_totp_urldecode_match env m =
     (case m of
        Some c \<Rightarrow> (case urldecode env c of Some x \<Rightarrow> Inr x | None \<Rightarrow> Inl qr_failed)
      | None \<Rightarrow> Inl qr_failed)"

definition hello_totp_enroll_fallback_msg :: "'w pam_env \<Rightarrow> string \<Rightarrow> string + string" where
  "hello_totp_enroll_fallback_msg env url =
     (case totp_captures env url of
        None \<Rightarrow> Inl qr_failed
      | Some (g2, g3, g4) \<Rightarrow>
          (case g4 of
             None \<Rightarrow> Inl qr_failed
           | Some secret \<Rightarrow>
               (case hello_totp_urldecode_match env g2 of
                  Inl e \<Rightarrow> Inl e
                | Inr issuer \<Rightarrow>
                    (case hello_totp_urldecode_match env g3 of
                       Inl e \<Rightarrow> Inl e
                     | Inr acct \<Rightarrow> Inr (''Enter the setup key '' @ [CHR 0x27] @ secret @ [CHR 0x27]
                         @ '' to enroll a TOTP Authenticator app. Use '' @ [CHR 0x27] @ issuer @ [CHR 0x27]
                         @ '' for the code name and '' @ [CHR 0x27] @ acct @ [CHR 0x27] @ '' as the label/name.'')))))"

section \<open>The handlers of the daemon's answers\<close>

definition mfapoll_msg :: "'w pam_env \<Rightarrow> 'w AuthenticateState \<Rightarrow> string \<Rightarrow> string" where
  "mfapoll_msg env st msg =
     (if \<not> contains_str ''https://microsoft.com/devicelogin'' msg \<and> trim msg \<noteq> [] then
        msg @ newline @ ''No push? Check your mobile device'' @ [CHR 0x27] @ ''s internet connection.''
      else if au_service st \<noteq> ''gdm-password'' then
        (case find_url env msg of
           None \<Rightarrow> msg
         | Some url \<Rightarrow> (case generate_unicode_qr env url of Inr qr \<Rightarrow> msg @ newline @ qr | Inl _ \<Rightarrow> msg))
      else msg)"

definition handle_pam_auth_response_mfapoll :: "'w pam_env \<Rightarrow> string \<Rightarrow> u32 \<Rightarrow> 'w pam_step" where
  "handle_pam_auth_response_mfapoll env msg0 interval st =
     (let msg = mfapoll_msg env st msg0;
          st1 = (if trim msg \<noteq> [] then print_text msg st else st);
          st2 = (if opt_mfa_poll_prompt (au_opts st) \<and> contains_str ''ssh'' (au_service st) \<and> trim msg \<noteq> []
            then snd (in_world (prompt_echo_off env ''Press enter to continue'') st1) else st1)
      in if 0 \<le> sint (poll_attempt st2) then pam_fail ''Unexpected error occurred.'' PAM_SYSTEM_ERR st2
         else (step_request (PQ_MFAPoll 0),
           sleep_secs (unat interval) (st2\<lparr>poll_attempt := 0, polling_interval := interval\<rparr>)))"

definition handle_pam_auth_response_mfapollwait :: "'w pam_step" where
  "handle_pam_auth_response_mfapollwait st =
     (let next_poll_attempt = (if sint (poll_attempt st) < 0 then 0 else poll_attempt st + 1)
      in (step_request (PQ_MFAPoll next_poll_attempt),
          (sleep_secs (unat (polling_interval st)) st)\<lparr>poll_attempt := next_poll_attempt\<rparr>))"

definition handle_pam_auth_response_unknown :: "'w pam_step" where
  "handle_pam_auth_response_unknown st =
     (Finish (if opt_ignore_unknown_user (au_opts st) then PAM_IGNORE else PAM_USER_UNKNOWN), st)"

definition handle_pam_auth_response_success :: "'w pam_step" where
  "handle_pam_auth_response_success st = (Finish PAM_SUCCESS, st)"

definition init_request :: "'w AuthenticateState \<Rightarrow> ClientRequest" where
  "init_request st = PamAuthenticateInit (au_account_id st) (au_service st) (opt_no_hello_pin (au_opts st))
     (opt_force_reauth (au_opts st))"

definition handle_pam_auth_response_denied :: "string \<Rightarrow> 'w pam_step" where
  "handle_pam_auth_response_denied msg st =
     (let st1 = sleep_secs 2 (print_text msg st) in (Next (init_request st1), st1))"

text \<open>The first password or PIN asked for is the one that an earlier module left, if any.\<close>

definition handle_pam_auth_response_password :: "'w pam_env \<Rightarrow> pam_cfg \<Rightarrow> 'w pam_step" where
  "handle_pam_auth_response_password env cfg st =
     (let st0 = st\<lparr>au_authtok := None\<rparr> in
      case au_authtok st of
        Some cred \<Rightarrow> (step_request (PQ_Password cred), st0)
      | None \<Rightarrow>
          let (pr, st1) = (if oidc_issuer_url cfg \<noteq> None then (''Cloud Password:'', st0)
            else (''Entra Id Password:'', print_text (entra_id_password_prompt cfg) st0));
              (r, st2) = in_world (prompt_echo_off env pr) st1
          in (case r of
                Some cred \<Rightarrow> (step_request (PQ_Password cred), st2)
              | None \<Rightarrow> pam_fail ''No Entra Id password was supplied.'' PAM_CRED_INSUFFICIENT st2))"

definition handle_pam_auth_response_mfacode :: "'w pam_env \<Rightarrow> string \<Rightarrow> 'w pam_step" where
  "handle_pam_auth_response_mfacode env msg st =
     (let (r, st1) = in_world (prompt_echo_off env ''Code: '') (print_text msg st)
      in (case r of
            Some cred \<Rightarrow> (step_request (PQ_MFACode cred), st1)
          | None \<Rightarrow> pam_fail ''No Entra Id auth code was supplied.'' PAM_CRED_INSUFFICIENT st1))"

definition hellototp_prompt :: "'w pam_env \<Rightarrow> 'w pam_step" where
  "hellototp_prompt env st =
     (let (r, st1) = in_world (prompt_echo_off env ''TOTP Code: '') st
      in (case r of
            Some cred \<Rightarrow> (step_request (PQ_HelloTOTP cred), st1)
          | None \<Rightarrow> pam_fail ''No Hello TOTP code was supplied.'' PAM_CRED_INSUFFICIENT st1))"

definition handle_pam_auth_response_hellototp :: "'w pam_env \<Rightarrow> string \<Rightarrow> 'w pam_step" where
  "handle_pam_auth_response_hellototp env msg st =
     (if starts_with ''otpauth://'' msg \<and> au_service st \<noteq> ''gdm-password'' then
        (case generate_unicode_qr env msg of
           Inr qr \<Rightarrow> hellototp_prompt env (print_text (''Open your authenticator app and scan this QR code to enroll. Then enter the generated code.''
             @ newline @ qr) st)
         | Inl _ \<Rightarrow>
             (case hello_totp_enroll_fallback_msg env msg of
                Inr m \<Rightarrow> hellototp_prompt env (print_text m st)
              | Inl m \<Rightarrow> pam_fail m PAM_SYSTEM_ERR st))
      else hellototp_prompt env (print_text msg st))"

definition handle_pam_auth_response_pin :: "'w pam_env \<Rightarrow> pam_cfg \<Rightarrow> 'w pam_step" where
  "handle_pam_auth_response_pin env cfg st =
     (let st0 = st\<lparr>au_authtok := None\<rparr> in
      case au_authtok st of
        Some cred \<Rightarrow> (step_request (PQ_Pin cred), st0)
      | None \<Rightarrow>
          let (r, st1) = in_world (prompt_echo_off env ''PIN: '') (print_text (hello_pin_prompt cfg) st0)
          in (case r of
                Some cred \<Rightarrow> (step_request (PQ_Pin cred), st1)
              | None \<Rightarrow> pam_fail ''No Entra Id Hello PIN was supplied.'' PAM_CRED_INSUFFICIENT st1))"

text \<open>Choosing a new PIN, until one is acceptable and confirmed; \<open>Inl\<close> when the user gives up.\<close>

definition pin_too_short :: "pam_cfg \<Rightarrow> string" where
  "pin_too_short cfg = ''Chosen pin is too short! '' @ show_nat (hello_pin_min_length cfg) @ '' chars required.''"

definition pin_too_simple :: string where
  "pin_too_simple = ''PIN must not use repeating or predictable sequences. Avoid patterns like '' @ [CHR 0x27] @ ''111111'' @ [CHR 0x27]
     @ '', '' @ [CHR 0x27] @ ''123456'' @ [CHR 0x27] @ '', or '' @ [CHR 0x27] @ ''135791'' @ [CHR 0x27] @ ''.''"

definition pin_objection :: "'w pam_env \<Rightarrow> pam_cfg \<Rightarrow> 'w AuthenticateState \<Rightarrow> string \<Rightarrow> string option" where
  "pin_objection env cfg st cred =
     (if length cred < hello_pin_min_length cfg then Some (pin_too_short cfg)
      else if is_simple_pin cred then Some pin_too_simple
      else (case meets_intune_pin_policy (policies env (world st)) cred of Inl msg \<Rightarrow> Some msg | Inr _ \<Rightarrow> None))"

partial_function (option) choose_pin :: "'w pam_env \<Rightarrow> pam_cfg \<Rightarrow> string \<Rightarrow> 'w AuthenticateState
    \<Rightarrow> ((PamWhatNext + string) \<times> 'w AuthenticateState) option" where
  "choose_pin env cfg msg st =
     (let (r, st1) = in_world (prompt_echo_off env ''New PIN: '') (print_text msg st) in
      case r of
        None \<Rightarrow> Some (map_prod Inl id (pam_fail ''No Entra Id Hello PIN was supplied.'' PAM_CRED_INSUFFICIENT st1))
      | Some pin \<Rightarrow>
          (case pin_objection env cfg st1 pin of
             Some why \<Rightarrow> choose_pin env cfg msg (sleep_secs 2 (print_text why st1))
           | None \<Rightarrow>
               let (r2, st2) = in_world (prompt_echo_off env ''Confirm PIN: '') (print_text msg st1) in
               (case r2 of
                  None \<Rightarrow> Some (map_prod Inl id (pam_fail ''No Entra Id Hello confirmation PIN was supplied.'' PAM_CRED_INSUFFICIENT st2))
                | Some confirm \<Rightarrow>
                    if pin = confirm then Some (Inr pin, st2)
                    else choose_pin env cfg msg (sleep_secs 2 (print_text ''Inputs did not match. Try again.'' st2)))))"

definition handle_pam_auth_response_setup_pin :: "'w pam_env \<Rightarrow> pam_cfg \<Rightarrow> string \<Rightarrow> 'w AuthenticateState
    \<Rightarrow> (PamWhatNext \<times> 'w AuthenticateState) option" where
  "handle_pam_auth_response_setup_pin env cfg msg0 st =
     (let msg = msg0 @ newline @ ''The minimum PIN length is '' @ show_nat (hello_pin_min_length cfg) @ '' characters.'' in
      Option.bind (choose_pin env cfg msg st) (\<lambda>(r, st1).
      Some (case r of
          Inl what \<Rightarrow> (what, st1)
        | Inr pin \<Rightarrow> (step_request (PQ_SetupPin pin), print_text ''Enrolling the Hello PIN. Please wait...'' st1))))"

partial_function (option) choose_password :: "'w pam_env \<Rightarrow> string \<Rightarrow> 'w AuthenticateState
    \<Rightarrow> ((PamWhatNext + string) \<times> 'w AuthenticateState) option" where
  "choose_password env msg st =
     (let (r, st1) = in_world (prompt_echo_off env ''New password: '') (print_text msg st) in
      case r of
        None \<Rightarrow> Some (map_prod Inl id (pam_fail ''No Entra Id password was supplied.'' PAM_CRED_INSUFFICIENT st1))
      | Some password \<Rightarrow>
          if length password < 8 then
            choose_password env msg (print_text ''Chosen password is too short! 8 chars required.'' st1)
          else
            let (r2, st2) = in_world (prompt_echo_off env ''Confirm password: '') (print_text msg st1) in
            (case r2 of
               None \<Rightarrow> Some (map_prod Inl id (pam_fail ''No Entra Id confirmation password was supplied.'' PAM_CRED_INSUFFICIENT st2))
             | Some confirm \<Rightarrow>
                 if password = confirm then Some (Inr password, st2)
                 else choose_password env msg (sleep_secs 2 (print_text ''Inputs did not match. Try again.'' st2))))"

definition handle_pam_auth_response_change_password :: "'w pam_env \<Rightarrow> string \<Rightarrow> 'w AuthenticateState
    \<Rightarrow> (PamWhatNext \<times> 'w AuthenticateState) option" where
  "handle_pam_auth_response_change_password env msg st =
     Option.bind (choose_password env msg st) (\<lambda>(r, st1).
     Some (case r of
         Inl what \<Rightarrow> (what, st1)
       | Inr password \<Rightarrow> (step_request (PQ_Password password), print_text ''Changing the password. Please wait...'' st1)))"

datatype BluetoothState = PoweredOn | PoweredOff | NoAdapter

definition check_bluetooth :: "'w pam_env \<Rightarrow> 'w AuthenticateState \<Rightarrow> BluetoothState \<times> 'w AuthenticateState" where
  "check_bluetooth env st =
     (let (objects, st1) = in_world (adapters env) st in
      (case objects of
         None \<Rightarrow> NoAdapter
       | Some as \<Rightarrow> if Some True \<in> set as then PoweredOn else if as \<noteq> [] then PoweredOff else NoAdapter, st1))"

fun wait_bluetooth :: "'w pam_env \<Rightarrow> nat \<Rightarrow> 'w AuthenticateState \<Rightarrow> bool \<times> 'w AuthenticateState" where
  "wait_bluetooth env 0 st = (False, st)"
| "wait_bluetooth env (Suc n) st =
     (let (b, st1) = check_bluetooth env (sleep_secs 1 st)
      in if b = PoweredOn then (True, st1) else wait_bluetooth env n st1)"

definition saturating_mul :: "u64 \<Rightarrow> u64 \<Rightarrow> u64" where
  "saturating_mul a b = (if unat a * unat b < 2 ^ 64 then a * b else - 1)"

definition fido_assertion :: "string \<Rightarrow> (PamResultCode + string) \<times> 'w AuthenticateState \<Rightarrow> PamWhatNext \<times> 'w AuthenticateState" where
  "fido_assertion msg r = (case r of
       (Inr assertion, st) \<Rightarrow> (step_request (PQ_Fido assertion), st)
     | (Inl e, st) \<Rightarrow> pam_fail msg e st)"

definition handle_pam_auth_response_fido :: "'w pam_env \<Rightarrow> pam_cfg \<Rightarrow> string \<Rightarrow> string list \<Rightarrow> bool \<Rightarrow> bool \<Rightarrow> 'w pam_step" where
  "handle_pam_auth_response_fido env cfg challenge allow_list has_key has_cross_device st =
     (let timeout_ms = saturating_mul (fido_timeout cfg) 1000;
          is_graphical = contains_str ''gdm'' (au_service st);
          (bt_state, st1) = check_bluetooth env st;
          can_qr0 = (has_cross_device \<and> bt_state = PoweredOn);
          (can_qr, st2) = (if \<not> has_key \<and> \<not> can_qr0 \<and> has_cross_device \<and> bt_state = PoweredOff \<and> is_graphical
            then wait_bluetooth env 30 (print_text ''Enable Bluetooth to sign in with your phone.'' st1)
            else (can_qr0, st1))
      in if \<not> has_key \<and> \<not> can_qr then (step_request PQ_FidoUnavailable, st2)
         else if has_key \<and> can_qr \<and> is_graphical then
           fido_assertion ''Security key and QR/Bluetooth authentication failed.''
             (in_world (fido_auth_with_qr_bluetooth env challenge allow_list timeout_ms (fido_prompt cfg)
               (fido_presence_prompt cfg) (qr_bluetooth_prompt cfg)) st2)
         else if can_qr \<and> is_graphical then
           fido_assertion ''QR/Bluetooth authentication failed.''
             (in_world (fido_auth_qr_bluetooth_only env challenge allow_list (qr_bluetooth_prompt cfg)) st2)
         else
           fido_assertion ''Security key authentication failed.''
             (in_world (fido_auth env challenge allow_list timeout_ms (fido_prompt cfg) (fido_presence_prompt cfg)) st2))"

definition handle_pam_auth_init_denied :: "string \<Rightarrow> 'w pam_step" where
  "handle_pam_auth_init_denied msg st = pam_fail msg PAM_ABORT st"

section \<open>The conversation\<close>

definition handle_response :: "'w pam_env \<Rightarrow> pam_cfg \<Rightarrow> PamAuthResponse \<Rightarrow> 'w AuthenticateState
    \<Rightarrow> (PamWhatNext \<times> 'w AuthenticateState) option" where
  "handle_response env cfg response st =
     (case response of
        PR_Unknown \<Rightarrow> Some (handle_pam_auth_response_unknown st)
      | PR_Success \<Rightarrow> Some (handle_pam_auth_response_success st)
      | PR_Denied msg \<Rightarrow> Some (handle_pam_auth_response_denied msg st)
      | PR_InitDenied msg \<Rightarrow> Some (handle_pam_auth_init_denied msg st)
      | PR_Password \<Rightarrow> Some (handle_pam_auth_response_password env cfg st)
      | PR_MFACode msg \<Rightarrow> Some (handle_pam_auth_response_mfacode env msg st)
      | PR_HelloTOTP msg \<Rightarrow> Some (handle_pam_auth_response_hellototp env msg st)
      | PR_MFAPoll msg interval \<Rightarrow> Some (handle_pam_auth_response_mfapoll env msg interval st)
      | PR_MFAPollWait \<Rightarrow> Some (handle_pam_auth_response_mfapollwait st)
      | PR_SetupPin msg \<Rightarrow> handle_pam_auth_response_setup_pin env cfg msg st
      | PR_Pin \<Rightarrow> Some (handle_pam_auth_response_pin env cfg st)
      | PR_Fido challenge allow_list has_key has_cross_device \<Rightarrow>
          Some (handle_pam_auth_response_fido env cfg challenge allow_list has_key has_cross_device st)
      | PR_ChangePassword msg \<Rightarrow> handle_pam_auth_response_change_password env msg st)"

definition authenticate_request_response :: "'w pam_env \<Rightarrow> pam_cfg \<Rightarrow> ClientRequest \<Rightarrow> 'w AuthenticateState
    \<Rightarrow> (PamWhatNext \<times> 'w AuthenticateState) option" where
  "authenticate_request_response env cfg req st =
     (let (res, st0) = in_world (call_and_wait env req) st;
          st1 = st0\<lparr>exchanges := exchanges st0 @ [(req, res)]\<rparr>
      in case res of
           Some (CR_PamAuthenticateStepResponse response) \<Rightarrow> handle_response env cfg response st1
         | _ \<Rightarrow> Some (pam_fail ''An unexpected error occurred.'' PAM_IGNORE st1))"

partial_function (option) auth_loop :: "'w pam_env \<Rightarrow> pam_cfg \<Rightarrow> ClientRequest \<Rightarrow> 'w AuthenticateState
    \<Rightarrow> (PamResultCode \<times> 'w AuthenticateState) option" where
  "auth_loop env cfg req st =
     Option.bind (authenticate_request_response env cfg req st) (\<lambda>(what, st1).
     case what of
       Next next_request \<Rightarrow> auth_loop env cfg next_request st1
     | Finish code \<Rightarrow> Some (code, st1))"

definition initial_state :: "string option \<Rightarrow> string \<Rightarrow> string \<Rightarrow> pam_options \<Rightarrow> 'w \<Rightarrow> 'w AuthenticateState" where
  "initial_state authtok account_id service opts w =
     \<lparr>au_authtok = authtok, au_account_id = account_id, au_service = service, au_opts = opts, poll_attempt = - 1,
      polling_interval = 2, world = w, printed = [], waited = 0, exchanges = []\<rparr>"

text \<open>\<open>connected\<close> tells whether the daemon's socket could be opened.\<close>

definition authenticate :: "'w pam_env \<Rightarrow> pam_cfg \<Rightarrow> bool \<Rightarrow> string option \<Rightarrow> string \<Rightarrow> string \<Rightarrow> pam_options \<Rightarrow> 'w
    \<Rightarrow> (PamResultCode \<times> 'w AuthenticateState) option" where
  "authenticate env cfg connected authtok account_id service opts w =
     (let st = initial_state authtok account_id service opts w in
      if \<not> connected then Some (PAM_IGNORE, st) else auth_loop env cfg (init_request st) st)"

declare choose_pin.simps [code] choose_password.simps [code] auth_loop.simps [code]

end
