(* ===== verification/Pam_Props.thy ===== *)
theory Pam_Props
  imports Pam_Client
begin

text \<open>
  Properties of the PAM conversation: what \<open>PAM_SUCCESS\<close> stands for, which PINs are sent to be
  enrolled, and what happens when the daemon asks for polling a second time.
\<close>

section \<open>What a step leaves alone\<close>

definition session_of :: "'w AuthenticateState \<Rightarrow> string \<times> string \<times> pam_options \<times> (ClientRequest \<times> ClientResponse option) list" where
  "session_of st = (au_account_id st, au_service st, au_opts st, exchanges st)"

lemma session_simps [simp]:
  "session_of (print_text m st) = session_of st" "session_of (sleep_secs n st) = session_of st"
  "session_of (st\<lparr>world := w\<rparr>) = session_of st" "session_of (st\<lparr>au_authtok := a\<rparr>) = session_of st"
  "session_of (st\<lparr>poll_attempt := p\<rparr>) = session_of st" "session_of (st\<lparr>polling_interval := i\<rparr>) = session_of st"
  "poll_attempt (print_text m st) = poll_attempt st" "poll_attempt (sleep_secs n st) = poll_attempt st"
  by (simp_all add: session_of_def print_text_def sleep_secs_def)

lemma in_world_session:
  assumes "in_world f st = (a, st')"
  shows "session_of st' = session_of st" "poll_attempt st' = poll_attempt st"
  using assms by (auto simp: in_world_def session_of_def split: prod.splits)

lemma in_world_snd [simp]:
  "session_of (snd (in_world f st)) = session_of st" "poll_attempt (snd (in_world f st)) = poll_attempt st"
  using in_world_session [of f st] by (metis prod.collapse)+

lemma pam_fail_simps [simp]:
  "fst (pam_fail m c st) = Finish PAM_ABORT" "session_of (snd (pam_fail m c st)) = session_of st"
  "poll_attempt (snd (pam_fail m c st)) = poll_attempt st"
  by (simp_all add: pam_fail_def)

fun is_PQ_SetupPin :: "PamAuthRequest \<Rightarrow> bool" where
  "is_PQ_SetupPin (PQ_SetupPin _) = True"
| "is_PQ_SetupPin _ = False"

text \<open>A step of the conversation that keeps the session and goes on with a request other than a new PIN, or gives up.\<close>

definition proceeds :: "'w AuthenticateState \<Rightarrow> PamWhatNext \<times> 'w AuthenticateState \<Rightarrow> bool" where
  "proceeds st r \<longleftrightarrow> session_of (snd r) = session_of st
     \<and> ((\<exists>q. fst r = step_request q \<and> \<not> is_PQ_SetupPin q) \<or> fst r = Finish PAM_ABORT)"

lemma proceeds_fail [simp]: "session_of st' = session_of st \<Longrightarrow> proceeds st (pam_fail m c st')"
  by (simp add: proceeds_def)

lemma proceeds_step [simp]: "session_of st' = session_of st \<Longrightarrow> \<not> is_PQ_SetupPin q \<Longrightarrow> proceeds st (step_request q, st')"
  by (auto simp: proceeds_def)

lemma handlers_proceed:
  "proceeds st (handle_pam_auth_response_mfapoll env msg i st)"
  "proceeds st (handle_pam_auth_response_mfapollwait st)"
  "proceeds st (handle_pam_auth_response_password env cfg st)"
  "proceeds st (handle_pam_auth_response_mfacode env msg st)"
  "proceeds st (handle_pam_auth_response_pin env cfg st)"
  by (simp_all add: handle_pam_auth_response_mfapoll_def handle_pam_auth_response_mfapollwait_def
      handle_pam_auth_response_password_def handle_pam_auth_response_mfacode_def handle_pam_auth_response_pin_def Let_def
      case_prod_beta split: option.split)

lemma hellototp_proceeds: "proceeds st (handle_pam_auth_response_hellototp env msg st)"
proof -
  have "proceeds st (hellototp_prompt env st')" if "session_of st' = session_of st" for st'
    using that by (simp add: hellototp_prompt_def case_prod_beta split: option.split)
  then show ?thesis by (simp add: handle_pam_auth_response_hellototp_def split: sum.split)
qed

lemma check_bluetooth_session [simp]:
  "session_of (snd (check_bluetooth env st)) = session_of st" "poll_attempt (snd (check_bluetooth env st)) = poll_attempt st"
  by (simp_all add: check_bluetooth_def case_prod_beta)

lemma wait_bluetooth_session [simp]:
  "session_of (snd (wait_bluetooth env n st)) = session_of st" "poll_attempt (snd (wait_bluetooth env n st)) = poll_attempt st"
  by (induction n arbitrary: st) (simp_all add: case_prod_beta)

lemma fido_proceeds: "proceeds st (handle_pam_auth_response_fido env cfg ch al b1 b2 st)"
proof -
  have "proceeds st (fido_assertion m (in_world f st'))" if "session_of st' = session_of st" for m f st'
    using that in_world_session(1) [of f st'] by (auto simp: fido_assertion_def split: prod.split sum.split)
  then show ?thesis
    by (simp add: handle_pam_auth_response_fido_def Let_def case_prod_beta)
qed

section \<open>Choosing a PIN\<close>

text \<open>What a PIN must satisfy to be sent to the daemon.\<close>

definition pin_acceptable :: "'w pam_env \<Rightarrow> pam_cfg \<Rightarrow> string \<Rightarrow> bool" where
  "pin_acceptable env cfg pin \<longleftrightarrow> hello_pin_min_length cfg \<le> length pin \<and> \<not> is_simple_pin pin
     \<and> (\<exists>w. meets_intune_pin_policy (policies env w) pin = Inr ())"

lemma pin_objection_None: "pin_objection env cfg st pin = None \<Longrightarrow> pin_acceptable env cfg pin"
  by (auto simp: pin_objection_def pin_acceptable_def not_less split: if_splits sum.splits)

definition chosen :: "(string \<Rightarrow> bool) \<Rightarrow> 'w AuthenticateState \<Rightarrow> (PamWhatNext + string) \<times> 'w AuthenticateState \<Rightarrow> bool" where
  "chosen P st y \<longleftrightarrow> session_of (snd y) = session_of st \<and> poll_attempt (snd y) = poll_attempt st
     \<and> (case fst y of Inl what \<Rightarrow> what = Finish PAM_ABORT | Inr x \<Rightarrow> P x)"

lemma chosen_fail [simp]:
  "session_of st' = session_of st \<Longrightarrow> poll_attempt st' = poll_attempt st \<Longrightarrow> chosen P st (map_prod Inl id (pam_fail m c st'))"
  by (simp add: chosen_def)

lemma chosen_ok [simp]:
  "session_of st' = session_of st \<Longrightarrow> poll_attempt st' = poll_attempt st \<Longrightarrow> chosen P st (Inr x, st') \<longleftrightarrow> P x"
  by (simp add: chosen_def)

lemma chosen_trans:
  "chosen P st' y \<Longrightarrow> session_of st' = session_of st \<Longrightarrow> poll_attempt st' = poll_attempt st \<Longrightarrow> chosen P st y"
  by (simp add: chosen_def)

lemma choose_pin_result:
  assumes "choose_pin env cfg msg st = Some y"
  shows "chosen (pin_acceptable env cfg) st y"
proof (rule choose_pin.raw_induct [where P = "\<lambda>env cfg msg st y. chosen (pin_acceptable env cfg) st y", OF _ assms])
  fix loop :: "'a pam_env \<Rightarrow> pam_cfg \<Rightarrow> string \<Rightarrow> 'a AuthenticateState \<Rightarrow> ((PamWhatNext + string) \<times> 'a AuthenticateState) option"
    and env cfg msg st y
  assume IH: "\<And>env cfg msg st y. loop env cfg msg st = Some y \<Longrightarrow> chosen (pin_acceptable env cfg) st y"
    and run: "(let (r, st1) = in_world (prompt_echo_off env ''New PIN: '') (print_text msg st) in
      case r of
        None \<Rightarrow> Some (map_prod Inl id (pam_fail ''No Entra Id Hello PIN was supplied.'' PAM_CRED_INSUFFICIENT st1))
      | Some pin \<Rightarrow>
          (case pin_objection env cfg st1 pin of
             None \<Rightarrow>
               let (r2, st2) = in_world (prompt_echo_off env ''Confirm PIN: '') (print_text msg st1) in
               (case r2 of
                  None \<Rightarrow> Some (map_prod Inl id (pam_fail ''No Entra Id Hello confirmation PIN was supplied.'' PAM_CRED_INSUFFICIENT st2))
                | Some confirm \<Rightarrow>
                    if pin = confirm then Some (Inr pin, st2)
                    else loop env cfg msg (sleep_secs 2 (print_text ''Inputs did not match. Try again.'' st2)))
           | Some why \<Rightarrow> loop env cfg msg (sleep_secs 2 (print_text why st1)))) = Some y"
  show "chosen (pin_acceptable env cfg) st y"
    using run
    by (auto simp: Let_def case_prod_beta split: option.splits if_splits dest!: IH
        intro: pin_objection_None elim!: chosen_trans)
qed

lemma choose_password_result:
  assumes "choose_password env msg st = Some y"
  shows "chosen (\<lambda>pw. 8 \<le> length pw) st y"
proof (rule choose_password.raw_induct [where P = "\<lambda>env msg st y. chosen (\<lambda>pw. 8 \<le> length pw) st y", OF _ assms])
  fix loop :: "'a pam_env \<Rightarrow> string \<Rightarrow> 'a AuthenticateState \<Rightarrow> ((PamWhatNext + string) \<times> 'a AuthenticateState) option"
    and env msg st y
  assume IH: "\<And>env msg st y. loop env msg st = Some y \<Longrightarrow> chosen (\<lambda>pw. 8 \<le> length pw) st y"
    and run: "(let (r, st1) = in_world (prompt_echo_off env ''New password: '') (print_text msg st) in
      case r of
        None \<Rightarrow> Some (map_prod Inl id (pam_fail ''No Entra Id password was supplied.'' PAM_CRED_INSUFFICIENT st1))
      | Some password \<Rightarrow>
          if length password < 8 then
            loop env msg (print_text ''Chosen password is too short! 8 chars required.'' st1)
          else
            let (r2, st2) = in_world (prompt_echo_off env ''Confirm password: '') (print_text msg st1) in
            (case r2 of
               None \<Rightarrow> Some (map_prod Inl id (pam_fail ''No Entra Id confirmation password was supplied.'' PAM_CRED_INSUFFICIENT st2))
             | Some confirm \<Rightarrow>
                 if password = confirm then Some (Inr password, st2)
                 else loop env msg (sleep_secs 2 (print_text ''Inputs did not match. Try again.'' st2)))) = Some y"
  show "chosen (\<lambda>pw. 8 \<le> length pw) st y"
    using run
    by (auto simp: Let_def case_prod_beta split: option.splits if_splits dest!: IH elim!: chosen_trans)
qed

section \<open>One exchange\<close>

text \<open>What may follow a request, and how the conversation may end.\<close>

inductive may_follow :: "'w pam_env \<Rightarrow> pam_cfg \<Rightarrow> 'w AuthenticateState \<Rightarrow> ClientResponse option \<Rightarrow> PamWhatNext \<Rightarrow> bool"
  for env cfg st res where
  restart: "may_follow env cfg st res (Next (init_request st))"
| step: "(\<forall>pin. r = PQ_SetupPin pin \<longrightarrow> pin_acceptable env cfg pin) \<Longrightarrow> may_follow env cfg st res (Next (PamAuthenticateStep r))"
| success: "res = Some (CR_PamAuthenticateStepResponse PR_Success) \<Longrightarrow> may_follow env cfg st res (Finish PAM_SUCCESS)"
| unknown: "res = Some (CR_PamAuthenticateStepResponse PR_Unknown) \<Longrightarrow>
    may_follow env cfg st res (Finish (if opt_ignore_unknown_user (au_opts st) then PAM_IGNORE else PAM_USER_UNKNOWN))"
| abort: "res \<notin> {Some (CR_PamAuthenticateStepResponse PR_Success), Some (CR_PamAuthenticateStepResponse PR_Unknown)} \<Longrightarrow> may_follow env cfg st res (Finish PAM_ABORT)"

inductive_cases may_follow_Next: "may_follow env cfg st res (Next q)"
inductive_cases may_follow_Finish: "may_follow env cfg st res (Finish c)"

lemma proceeds_may_follow:
  assumes "proceeds st r"
    and "res \<notin> {Some (CR_PamAuthenticateStepResponse PR_Success), Some (CR_PamAuthenticateStepResponse PR_Unknown)}"
  shows "may_follow env cfg st res (fst r)"
proof -
  have "may_follow env cfg st res (Next (PamAuthenticateStep q))" if "\<not> is_PQ_SetupPin q" for q
    using that by (auto intro: step)
  with assms show ?thesis by (auto simp: proceeds_def step_request_def intro: abort)
qed

lemma init_request_session: "session_of st = session_of st' \<Longrightarrow> init_request st = init_request st'"
  by (simp add: session_of_def init_request_def)

lemma setup_pin_follows:
  assumes "handle_pam_auth_response_setup_pin env cfg msg st = Some (what, st1)"
  shows "session_of st1 = session_of st \<and> poll_attempt st1 = poll_attempt st
    \<and> may_follow env cfg st (Some (CR_PamAuthenticateStepResponse (PR_SetupPin msg))) what"
proof -
  obtain r st2 m where pin: "choose_pin env cfg m st = Some (r, st2)"
    and result: "(what, st1) = (case r of Inl what \<Rightarrow> (what, st2)
      | Inr pin \<Rightarrow> (step_request (PQ_SetupPin pin), print_text ''Enrolling the Hello PIN. Please wait...'' st2))"
    using assms unfolding handle_pam_auth_response_setup_pin_def Let_def bind_eq_Some_conv by auto
  then show ?thesis
    using choose_pin_result [OF pin] by (auto simp: chosen_def step_request_def intro: step abort split: sum.splits)
qed

lemma change_password_follows:
  assumes "handle_pam_auth_response_change_password env msg st = Some (what, st1)"
  shows "session_of st1 = session_of st \<and> poll_attempt st1 = poll_attempt st
    \<and> may_follow env cfg st (Some (CR_PamAuthenticateStepResponse (PR_ChangePassword msg))) what"
proof -
  obtain r st2 where pw: "choose_password env msg st = Some (r, st2)"
    and result: "(what, st1) = (case r of Inl what \<Rightarrow> (what, st2)
      | Inr password \<Rightarrow> (step_request (PQ_Password password), print_text ''Changing the password. Please wait...'' st2))"
    using assms unfolding handle_pam_auth_response_change_password_def bind_eq_Some_conv by auto
  then show ?thesis
    using choose_password_result [OF pw] by (auto simp: chosen_def step_request_def intro: step abort split: sum.splits)
qed

lemma handle_response_follows:
  assumes "handle_response env cfg r st = Some (what, st1)"
  shows "session_of st1 = session_of st \<and> may_follow env cfg st (Some (CR_PamAuthenticateStepResponse r)) what"
proof -
  have proceed: ?thesis if "handle_response env cfg r st = Some x" "proceeds st x" "r \<notin> {PR_Success, PR_Unknown}" for x
    using assms that proceeds_may_follow [of st x "Some (CR_PamAuthenticateStepResponse r)" env cfg] by (auto simp: proceeds_def)
  show ?thesis
  proof (cases r)
    case (PR_Denied m)
    with assms have "what = Next (init_request st)" "session_of st1 = session_of st"
      by (auto simp: handle_response_def handle_pam_auth_response_denied_def Let_def intro!: init_request_session)
    then show ?thesis by (simp add: restart)
  next
    case (PR_InitDenied m)
    then show ?thesis
      by (intro proceed [of "pam_fail m PAM_ABORT st"]) (simp_all add: handle_response_def handle_pam_auth_init_denied_def)
  next
    case (PR_SetupPin m)
    with assms setup_pin_follows [of env cfg m st what st1] show ?thesis by (simp add: handle_response_def)
  next
    case (PR_ChangePassword m)
    with assms change_password_follows [of env m st what st1] show ?thesis by (simp add: handle_response_def)
  next
    case PR_Unknown
    with assms unknown [of "Some (CR_PamAuthenticateStepResponse r)" env cfg st] show ?thesis
      by (auto simp: handle_response_def handle_pam_auth_response_unknown_def)
  next
    case PR_Success
    with assms show ?thesis by (auto simp: handle_response_def handle_pam_auth_response_success_def intro: success)
  qed (rule proceed, simp add: handle_response_def, simp add: handlers_proceed hellototp_proceeds fido_proceeds, simp)+
qed

lemma session_eqD:
  assumes "session_of st1 = session_of st"
  shows "exchanges st1 = exchanges st" "init_request st1 = init_request st" "au_opts st1 = au_opts st"
  using assms by (simp_all add: session_of_def init_request_def)

lemma may_follow_session:
  assumes "init_request st1 = init_request st" "au_opts st1 = au_opts st"
  shows "may_follow env cfg st1 res what = may_follow env cfg st res what"
  using assms by (simp add: may_follow.simps)

lemma request_response_follows:
  assumes "authenticate_request_response env cfg req st = Some (what, st1)"
  obtains res where "exchanges st1 = exchanges st @ [(req, res)]" "init_request st1 = init_request st" "au_opts st1 = au_opts st"
    "may_follow env cfg st res what"
proof -
  obtain res st0 where call: "in_world (call_and_wait env req) st = (res, st0)" by fastforce
  define st' where "st' = st0\<lparr>exchanges := exchanges st0 @ [(req, res)]\<rparr>"
  note sess = session_eqD [OF in_world_session(1) [OF call]]
  have same: "exchanges st' = exchanges st @ [(req, res)]" "init_request st' = init_request st" "au_opts st' = au_opts st"
    using sess by (simp_all add: st'_def init_request_def)
  have "session_of st1 = session_of st' \<and> may_follow env cfg st' res what"
  proof (cases "\<exists>r. res = Some (CR_PamAuthenticateStepResponse r)")
    case True
    with assms call handle_response_follows [of env cfg _ st' what st1] show ?thesis
      by (auto simp: authenticate_request_response_def st'_def)
  next
    case False
    then have "(what, st1) = pam_fail ''An unexpected error occurred.'' PAM_IGNORE st'"
      using assms call by (auto simp: authenticate_request_response_def Let_def st'_def split: option.splits ClientResponse.splits)
    then have "what = Finish PAM_ABORT" "session_of st1 = session_of st'"
      by (metis fst_conv pam_fail_simps(1), metis snd_conv pam_fail_simps(2))
    with False show ?thesis by (auto intro: abort)
  qed
  with that [of res] same session_eqD [of st1 st'] show ?thesis by (simp add: may_follow_session [of st' st])
qed

section \<open>Whole conversations\<close>

text \<open>The exchanges of \<open>auth_loop\<close> as a step relation.\<close>

inductive conversation :: "'w pam_env \<Rightarrow> pam_cfg \<Rightarrow> ClientRequest \<Rightarrow> 'w AuthenticateState \<Rightarrow> PamResultCode \<Rightarrow> 'w AuthenticateState \<Rightarrow> bool"
  for env cfg where
  finishes: "authenticate_request_response env cfg req st = Some (Finish code, st') \<Longrightarrow> conversation env cfg req st code st'"
| goes_on: "authenticate_request_response env cfg req st = Some (Next q, st1) \<Longrightarrow> conversation env cfg q st1 code st'
    \<Longrightarrow> conversation env cfg req st code st'"

lemma auth_loop_conversation:
  assumes "auth_loop env cfg req st = Some (code, st')"
  shows "conversation env cfg req st code st'"
proof -
  have "conversation env cfg req st (fst y) (snd y)" if "auth_loop env cfg req st = Some y" for y
  proof (rule auth_loop.raw_induct [where P = "\<lambda>env cfg req st y. conversation env cfg req st (fst y) (snd y)", OF _ that])
    fix loop :: "'a pam_env \<Rightarrow> pam_cfg \<Rightarrow> ClientRequest \<Rightarrow> 'a AuthenticateState \<Rightarrow> (PamResultCode \<times> 'a AuthenticateState) option"
      and env cfg req st y
    assume IH: "\<And>env cfg req st y. loop env cfg req st = Some y \<Longrightarrow> conversation env cfg req st (fst y) (snd y)"
      and run: "Option.bind (authenticate_request_response env cfg req st) (\<lambda>(what, st1).
        case what of Next next_request \<Rightarrow> loop env cfg next_request st1 | Finish code \<Rightarrow> Some (code, st1)) = Some y"
    show "conversation env cfg req st (fst y) (snd y)"
    proof -
      obtain what st1 where step: "authenticate_request_response env cfg req st = Some (what, st1)"
        and rest: "(case what of Next next_request \<Rightarrow> loop env cfg next_request st1 | Finish code \<Rightarrow> Some (code, st1)) = Some y"
        using run by (auto simp: bind_eq_Some_conv)
      then show ?thesis by (cases what) (auto intro: finishes goes_on IH)
    qed
  qed
  with assms show ?thesis by fastforce
qed

text \<open>The requests a conversation may make after its first one.\<close>

definition request_lawful :: "'w pam_env \<Rightarrow> pam_cfg \<Rightarrow> ClientRequest \<Rightarrow> ClientRequest \<Rightarrow> bool" where
  "request_lawful env cfg init req \<longleftrightarrow> req = init
     \<or> (\<exists>r. req = PamAuthenticateStep r \<and> (\<forall>pin. r = PQ_SetupPin pin \<longrightarrow> pin_acceptable env cfg pin))"

lemma may_follow_lawful: "may_follow env cfg st res (Next q) \<Longrightarrow> request_lawful env cfg (init_request st) q"
  by (auto simp: request_lawful_def elim: may_follow_Next)

lemma conversation_history:
  assumes "conversation env cfg req st code st'" and "request_lawful env cfg (init_request st) req"
  shows "\<exists>xs res. exchanges st' = exchanges st @ xs \<and> xs \<noteq> [] \<and> fst (hd xs) = req \<and> res = snd (last xs)
    \<and> list_all (request_lawful env cfg (init_request st)) (map fst xs) \<and> may_follow env cfg st res (Finish code)"
  using assms
proof (induction rule: conversation.induct)
  case (finishes req st code st')
  then show ?case by (elim request_response_follows) auto
next
  case (goes_on req st q st1 code st')
  obtain res where step: "exchanges st1 = exchanges st @ [(req, res)]" "init_request st1 = init_request st"
      "au_opts st1 = au_opts st" "may_follow env cfg st res (Next q)"
    using goes_on.hyps(1) by (rule request_response_follows)
  then obtain xs where "exchanges st' = exchanges st1 @ xs" "xs \<noteq> []"
      "list_all (request_lawful env cfg (init_request st)) (map fst xs)" "may_follow env cfg st (snd (last xs)) (Finish code)"
    using goes_on.IH may_follow_lawful [OF step(4)] by (auto simp: may_follow_session [of st1 st])
  with step goes_on.prems show ?case by (intro exI [of _ "(req, res) # xs"]) auto
qed

lemma authenticate_conversation:
  assumes "authenticate env cfg connected authtok account_id service opts w = Some (code, st)"
  obtains (ignored) "\<not> connected" "code = PAM_IGNORE" "exchanges st = []"
  | (conversed) "conversation env cfg (init_request (initial_state authtok account_id service opts w))
      (initial_state authtok account_id service opts w) code st"
  using assms by (auto simp: authenticate_def Let_def initial_state_def split: if_splits dest!: auth_loop_conversation)

lemma authenticate_history:
  assumes "authenticate env cfg connected authtok account_id service opts w = Some (code, st)"
  defines "st0 \<equiv> initial_state authtok account_id service opts w"
  obtains (ignored) "code = PAM_IGNORE" "exchanges st = []"
  | (conversed) "exchanges st \<noteq> []" "fst (hd (exchanges st)) = init_request st0"
      "list_all (request_lawful env cfg (init_request st0)) (map fst (exchanges st))"
      "may_follow env cfg st0 (snd (last (exchanges st))) (Finish code)"
proof (cases rule: authenticate_conversation [OF assms(1), case_names ignored conversed])
  case conversed
  then show ?thesis
    using conversation_history [OF conversed] that(2) by (auto simp: request_lawful_def st0_def initial_state_def)
qed (use that in auto)

text \<open>C30. \<open>authenticate\<close> returns \<open>PAM_SUCCESS\<close> exactly when the last answer of the daemon was \<open>Success\<close>,
  and \<open>PAM_USER_UNKNOWN\<close> exactly when it was \<open>Unknown\<close> and the module is not told to ignore unknown users;
  no other code than these, \<open>PAM_IGNORE\<close> and \<open>PAM_ABORT\<close> is returned. A conversation starts with the
  \<open>PamAuthenticateInit\<close> of the account and the service it was called for, and goes on with this request or with steps.\<close>

theorem pam_success_sound:
  assumes "authenticate env cfg connected authtok account_id service opts w = Some (code, st)"
  shows "(code = PAM_SUCCESS \<longleftrightarrow> exchanges st \<noteq> [] \<and> snd (last (exchanges st)) = Some (CR_PamAuthenticateStepResponse PR_Success))
    \<and> (code = PAM_USER_UNKNOWN \<longleftrightarrow> exchanges st \<noteq> [] \<and> \<not> opt_ignore_unknown_user opts
         \<and> snd (last (exchanges st)) = Some (CR_PamAuthenticateStepResponse PR_Unknown))
    \<and> code \<in> {PAM_SUCCESS, PAM_USER_UNKNOWN, PAM_IGNORE, PAM_ABORT}
    \<and> (let init = PamAuthenticateInit account_id service (opt_no_hello_pin opts) (opt_force_reauth opts)
       in map fst (take 1 (exchanges st)) \<in> {[], [init]}
          \<and> list_all (\<lambda>req. req = init \<or> (\<exists>r. req = PamAuthenticateStep r)) (map fst (exchanges st)))"
  using assms
proof (cases rule: authenticate_history)
  case conversed
  have "take 1 (exchanges st) = [hd (exchanges st)]" using conversed(1) by (cases "exchanges st") auto
  with conversed show ?thesis
    by (auto simp: list_all_iff request_lawful_def Let_def initial_state_def init_request_def elim!: may_follow_Finish split: if_splits)
qed simp

text \<open>C31. Every PIN that a conversation sends to be enrolled is at least as long as the configured minimum,
  is not a simple PIN, and meets the Intune policy as read from the policy cache.\<close>

theorem enrolled_pins_acceptable:
  assumes "authenticate env cfg connected authtok account_id service opts w = Some (code, st)"
    and "(PamAuthenticateStep (PQ_SetupPin pin), res) \<in> set (exchanges st)"
  shows "hello_pin_min_length cfg \<le> length pin \<and> \<not> is_simple_pin pin
    \<and> (\<exists>w'. meets_intune_pin_policy (policies env w') pin = Inr ())"
  using assms(1)
proof (cases rule: authenticate_history)
  case conversed
  with assms(2) show ?thesis by (fastforce simp: list_all_iff request_lawful_def pin_acceptable_def init_request_def)
qed (use assms(2) in simp)

section \<open>Polling twice\<close>

fun is_mfapoll :: "ClientResponse option \<Rightarrow> bool" where
  "is_mfapoll (Some (CR_PamAuthenticateStepResponse (PR_MFAPoll _ _))) = True"
| "is_mfapoll _ = False"

text \<open>How an answer moves the counter of polls.\<close>

definition counts :: "ClientResponse option \<Rightarrow> u32 \<Rightarrow> PamWhatNext \<Rightarrow> u32 \<Rightarrow> bool" where
  "counts res p what p' \<longleftrightarrow>
     (if is_mfapoll res then (if 0 \<le> sint p then what = Finish PAM_ABORT else p' = 0)
      else p' = p \<or> p' = (if sint p < 0 then 0 else p + 1))"

lemma handlers_keep_poll_attempt:
  "poll_attempt (snd (handle_pam_auth_response_password env cfg st)) = poll_attempt st"
  "poll_attempt (snd (handle_pam_auth_response_mfacode env msg st)) = poll_attempt st"
  "poll_attempt (snd (handle_pam_auth_response_pin env cfg st)) = poll_attempt st"
  "poll_attempt (snd (handle_pam_auth_response_denied msg st)) = poll_attempt st"
  by (simp_all add: handle_pam_auth_response_password_def handle_pam_auth_response_mfacode_def
      handle_pam_auth_response_pin_def handle_pam_auth_response_denied_def Let_def case_prod_beta split: option.split)

lemma hellototp_keeps_poll_attempt: "poll_attempt (snd (handle_pam_auth_response_hellototp env msg st)) = poll_attempt st"
  by (simp add: handle_pam_auth_response_hellototp_def hellototp_prompt_def case_prod_beta split: sum.split option.split)

lemma fido_keeps_poll_attempt: "poll_attempt (snd (handle_pam_auth_response_fido env cfg ch al b1 b2 st)) = poll_attempt st"
proof -
  have "poll_attempt (snd (fido_assertion m (in_world f st'))) = poll_attempt st'" for m f and st' :: "'a AuthenticateState"
    using in_world_session(2) [of f st'] by (auto simp: fido_assertion_def split: prod.split sum.split)
  then show ?thesis by (simp add: handle_pam_auth_response_fido_def Let_def case_prod_beta)
qed

lemma handle_response_counts:
  assumes "handle_response env cfg r st = Some (what, st1)"
  shows "counts (Some (CR_PamAuthenticateStepResponse r)) (poll_attempt st) what (poll_attempt st1)"
proof -
  have keep: ?thesis if "handle_response env cfg r st = Some x" "poll_attempt (snd x) = poll_attempt st"
      "\<not> is_mfapoll (Some (CR_PamAuthenticateStepResponse r))" for x
    using assms that by (simp add: counts_def)
  show ?thesis
  proof (cases r)
    case (PR_MFAPoll m i)
    with assms show ?thesis
      by (auto simp: handle_response_def counts_def handle_pam_auth_response_mfapoll_def pam_fail_def Let_def split: if_splits)
  next
    case PR_MFAPollWait
    with assms show ?thesis
      by (auto simp: handle_response_def counts_def handle_pam_auth_response_mfapollwait_def Let_def)
  next
    case (PR_SetupPin m)
    with assms setup_pin_follows [of env cfg m st what st1] show ?thesis by (simp add: handle_response_def counts_def)
  next
    case (PR_ChangePassword m)
    with assms change_password_follows [of env m st what st1] show ?thesis by (simp add: handle_response_def counts_def)
  qed (rule keep, simp add: handle_response_def, simp add: handlers_keep_poll_attempt hellototp_keeps_poll_attempt
      fido_keeps_poll_attempt handle_pam_auth_response_unknown_def handle_pam_auth_response_success_def
      handle_pam_auth_init_denied_def, simp)+
qed

lemma request_response_counts:
  assumes "authenticate_request_response env cfg req st = Some (what, st1)"
  shows "counts (snd (last (exchanges st1))) (poll_attempt st) what (poll_attempt st1)"
proof -
  obtain res where ex: "exchanges st1 = exchanges st @ [(req, res)]" using assms by (rule request_response_follows)
  obtain res' st0 where call: "in_world (call_and_wait env req) st = (res', st0)" by fastforce
  define st' where "st' = st0\<lparr>exchanges := exchanges st0 @ [(req, res')]\<rparr>"
  have same: "poll_attempt st' = poll_attempt st" "exchanges st' = exchanges st @ [(req, res')]"
    using in_world_session [OF call] by (simp_all add: st'_def session_of_def)
  show ?thesis
  proof (cases "\<exists>r. res' = Some (CR_PamAuthenticateStepResponse r)")
    case True
    then obtain r where r: "res' = Some (CR_PamAuthenticateStepResponse r)" ..
    then have step: "handle_response env cfg r st' = Some (what, st1)"
      using assms call by (simp add: authenticate_request_response_def st'_def)
    then have "exchanges st1 = exchanges st'"
      using handle_response_follows [OF step] session_eqD(1) [of st1 st'] by simp
    with handle_response_counts [OF step] same r show ?thesis by simp
  next
    case False
    then have "(what, st1) = pam_fail ''An unexpected error occurred.'' PAM_IGNORE st'"
      using assms call by (auto simp: authenticate_request_response_def Let_def st'_def split: option.splits ClientResponse.splits)
    then have "poll_attempt st1 = poll_attempt st" "session_of st1 = session_of st'"
      by (metis snd_conv pam_fail_simps(3) same(1), metis snd_conv pam_fail_simps(2))
    moreover have "\<not> is_mfapoll res'" using False by (cases res' rule: is_mfapoll.cases) auto
    ultimately show ?thesis using session_eqD(1) [of st1 st'] same by (simp add: counts_def)
  qed
qed

text \<open>Once an answer asked for polling the counter is not negative, and it stays below the number of exchanges.\<close>

definition polling_inv :: "'w AuthenticateState \<Rightarrow> bool" where
  "polling_inv st \<longleftrightarrow> sint (poll_attempt st) < int (length (exchanges st))
     \<and> ((\<exists>i < length (exchanges st). is_mfapoll (snd (exchanges st ! i))) \<longrightarrow> 0 \<le> sint (poll_attempt st))"

lemma sint_u32_inc: "0 \<le> sint p \<Longrightarrow> sint p + 1 < 2 ^ 31 \<Longrightarrow> sint (p + 1) = sint p + 1" for p :: u32
  by (subst sint_word_ariths) (simp add: signed_take_bit_int_eq_self)

lemma counts_bounds:
  assumes "counts res p (Next q) p'" and "sint p < int n" and "n + 1 < 2 ^ 31"
  shows "sint p' < int (n + 1)" "0 \<le> sint p \<Longrightarrow> 0 \<le> sint p'" "is_mfapoll res \<Longrightarrow> sint p < 0 \<and> 0 \<le> sint p'"
  using assms sint_u32_inc [of p] by (auto simp: counts_def not_le split: if_splits)

lemma conversation_extends: "conversation env cfg req st code st' \<Longrightarrow> \<exists>xs. exchanges st' = exchanges st @ xs \<and> xs \<noteq> []"
proof (induction rule: conversation.induct)
  case (goes_on req st q st1 code st')
  obtain res where "exchanges st1 = exchanges st @ [(req, res)]"
    using goes_on.hyps(1) by (rule request_response_follows)
  with goes_on.IH show ?case by auto
qed (auto elim: request_response_follows)

lemma conversation_polls:
  assumes "conversation env cfg req st code st'" and "polling_inv st" and "length (exchanges st') < 2 ^ 31"
    and "i < j" "j < length (exchanges st')" "length (exchanges st) \<le> j"
    and "is_mfapoll (snd (exchanges st' ! i))" "is_mfapoll (snd (exchanges st' ! j))"
  shows "code = PAM_ABORT \<and> j + 1 = length (exchanges st')"
  using assms
proof (induction rule: conversation.induct)
  case (finishes req st code st')
  then obtain res where "exchanges st' = exchanges st @ [(req, res)]" by (elim request_response_follows)
  with finishes request_response_counts [OF finishes.hyps] show ?case
    by (auto simp: polling_inv_def counts_def nth_append split: if_splits)
next
  case (goes_on req st q st1 code st')
  obtain res where ex: "exchanges st1 = exchanges st @ [(req, res)]"
    using goes_on.hyps(1) by (rule request_response_follows)
  obtain xs where xs: "exchanges st' = exchanges st1 @ xs"
    using conversation_extends [OF goes_on.hyps(2)] by blast
  have counts: "counts res (poll_attempt st) (Next q) (poll_attempt st1)"
    using request_response_counts [OF goes_on.hyps(1)] ex by simp
  have "length (exchanges st) + 1 < 2 ^ 31" using goes_on.prems(2) ex xs by simp
  note bounds = counts_bounds [OF counts _ this]
  have inv: "polling_inv st1"
    using goes_on.prems(1) bounds ex by (auto simp: polling_inv_def nth_append less_Suc_eq)
  show ?case
  proof (cases "j = length (exchanges st)")
    case True
    with goes_on.prems ex xs bounds(3) have "is_mfapoll res" "0 \<le> sint (poll_attempt st)"
      by (auto simp: polling_inv_def nth_append)
    with bounds(3) goes_on.prems(1) show ?thesis by (auto simp: polling_inv_def)
  next
    case False
    with goes_on.IH [OF inv] goes_on.prems ex show ?thesis by simp
  qed
qed

text \<open>C32. A daemon that answers \<open>MFAPoll\<close> a second time in one conversation ends it at once
  with \<open>PAM_ABORT\<close>, even when the first poll was denied and the conversation has restarted with a new \<open>PamAuthenticateInit\<close> since:
  the counter of polls is never reset. The counter is a signed 32-bit number, hence the bound.\<close>

theorem second_poll_aborts:
  assumes "authenticate env cfg connected authtok account_id service opts w = Some (code, st)"
    and "length (exchanges st) < 2 ^ 31"
    and "i < j" "j < length (exchanges st)"
    and "is_mfapoll (snd (exchanges st ! i))" "is_mfapoll (snd (exchanges st ! j))"
  shows "code = PAM_ABORT \<and> j + 1 = length (exchanges st)"
  using assms(1)
proof (cases rule: authenticate_conversation)
  case conversed
  from this have "polling_inv (initial_state authtok account_id service opts w)"
    by (simp add: polling_inv_def initial_state_def)
  from conversation_polls [OF conversed this assms(2-4) _ assms(5-6)] show ?thesis by (simp add: initial_state_def)
qed (use assms(4) in simp)

section \<open>Witnesses\<close>

text \<open>A daemon that answers from a list, and a user who types from another.\<close>

type_synonym script = "PamAuthResponse list \<times> string list"

definition scripted :: "script pam_env" where
  "scripted = \<lparr>call_and_wait = (\<lambda>_ (rs, ps). (case rs of [] \<Rightarrow> None | r # _ \<Rightarrow> Some (CR_PamAuthenticateStepResponse r), (tl rs, ps))),
     prompt_echo_off = (\<lambda>_ (rs, ps). (case ps of [] \<Rightarrow> None | p # _ \<Rightarrow> Some p, (rs, tl ps))),
     qr_encode = (\<lambda>_. Inl []), find_url = (\<lambda>_. None), totp_captures = (\<lambda>_. None), urldecode = Some,
     adapters = (\<lambda>w. (None, w)), fido_auth = (\<lambda>_ _ _ _ _ w. (Inl PAM_ABORT, w)),
     fido_auth_with_qr_bluetooth = (\<lambda>_ _ _ _ _ _ w. (Inl PAM_ABORT, w)),
     fido_auth_qr_bluetooth_only = (\<lambda>_ _ _ w. (Inl PAM_ABORT, w)),
     policies = (\<lambda>_. \<lparr>pe_root = False, pe_file = Some [], pe_mkdir_ok = True, pe_open_ok = True, pe_create_ok = True,
       pe_stmt_fault = False\<rparr>)\<rparr>"

definition plain_cfg :: pam_cfg where
  "plain_cfg = \<lparr>oidc_issuer_url = None, entra_id_password_prompt = ''p'', hello_pin_prompt = ''h'', hello_pin_min_length = 6,
     fido_timeout = 30, fido_prompt = [], fido_presence_prompt = [], qr_bluetooth_prompt = []\<rparr>"

definition no_options :: pam_options where
  "no_options = \<lparr>opt_debug = False, opt_use_first_pass = False, opt_ignore_unknown_user = False, opt_mfa_poll_prompt = False,
     opt_no_hello_pin = False, opt_set_authtok = False, opt_try_unseal = False, opt_force_reauth = False\<rparr>"

definition conv_outcome :: "(PamResultCode \<times> 'w AuthenticateState) option \<Rightarrow> (PamResultCode \<times> (ClientRequest \<times> ClientResponse option) list) option" where
  "conv_outcome r = map_option (map_prod id exchanges) r"

definition converse :: "PamAuthResponse list \<Rightarrow> string list \<Rightarrow> (PamResultCode \<times> script AuthenticateState) option" where
  "converse rs ps = authenticate scripted plain_cfg True None ''u@x'' ''gdm'' no_options (rs, ps)"

lemma polled_twice:
  "conv_outcome (converse [PR_MFAPoll [] 1, PR_Denied [], PR_MFAPoll [] 1] []) =
     Some (PAM_ABORT, zip [PamAuthenticateInit ''u@x'' ''gdm'' False False, PamAuthenticateStep (PQ_MFAPoll 0),
        PamAuthenticateInit ''u@x'' ''gdm'' False False]
       (map (Some \<circ> CR_PamAuthenticateStepResponse) [PR_MFAPoll [] 1, PR_Denied [], PR_MFAPoll [] 1]))"
  by code_simp

lemma pin_set_up:
  "conv_outcome (converse [PR_SetupPin [], PR_Success] [''123456'', ''491728'', ''491728'']) =
     Some (PAM_SUCCESS, [(PamAuthenticateInit ''u@x'' ''gdm'' False False, Some (CR_PamAuthenticateStepResponse (PR_SetupPin []))),
       (PamAuthenticateStep (PQ_SetupPin ''491728''), Some (CR_PamAuthenticateStepResponse PR_Success))])"
  by code_simp

lemma converse_outcome:
  assumes "conv_outcome (converse rs ps) = Some (c, xs)"
  obtains st where "authenticate scripted plain_cfg True None ''u@x'' ''gdm'' no_options (rs, ps) = Some (c, st)" "exchanges st = xs"
  using assms by (auto simp: conv_outcome_def converse_def)

theorem pam_success_sound_witness:
  "\<exists>st. authenticate scripted plain_cfg True None ''u@x'' ''gdm'' no_options
       ([PR_SetupPin [], PR_Success], [''123456'', ''491728'', ''491728'']) = Some (PAM_SUCCESS, st)
     \<and> snd (last (exchanges st)) = Some (CR_PamAuthenticateStepResponse PR_Success)"
  by (rule converse_outcome [OF pin_set_up]) (blast dest: pam_success_sound)

theorem enrolled_pins_acceptable_witness:
  "\<exists>st. authenticate scripted plain_cfg True None ''u@x'' ''gdm'' no_options
       ([PR_SetupPin [], PR_Success], [''123456'', ''491728'', ''491728'']) = Some (PAM_SUCCESS, st)
     \<and> (PamAuthenticateStep (PQ_SetupPin ''491728''), Some (CR_PamAuthenticateStepResponse PR_Success)) \<in> set (exchanges st)
     \<and> \<not> is_simple_pin ''491728''"
proof (rule converse_outcome [OF pin_set_up])
  fix st
  assume run: "authenticate scripted plain_cfg True None ''u@x'' ''gdm'' no_options
      ([PR_SetupPin [], PR_Success], [''123456'', ''491728'', ''491728'']) = Some (PAM_SUCCESS, st)"
    and ex: "exchanges st = [(PamAuthenticateInit ''u@x'' ''gdm'' False False, Some (CR_PamAuthenticateStepResponse (PR_SetupPin []))),
      (PamAuthenticateStep (PQ_SetupPin ''491728''), Some (CR_PamAuthenticateStepResponse PR_Success))]"
  then show ?thesis
    using enrolled_pins_acceptable [OF run, of "''491728''" "Some (CR_PamAuthenticateStepResponse PR_Success)"] by auto
qed

theorem second_poll_aborts_witness:
  "\<exists>st. authenticate scripted plain_cfg True None ''u@x'' ''gdm'' no_options ([PR_MFAPoll [] 1, PR_Denied [], PR_MFAPoll [] 1], [])
       = Some (PAM_ABORT, st)
     \<and> map (is_mfapoll \<circ> snd) (exchanges st) = [True, False, True]"
proof -
  obtain st where run: "authenticate scripted plain_cfg True None ''u@x'' ''gdm'' no_options
      ([PR_MFAPoll [] 1, PR_Denied [], PR_MFAPoll [] 1], []) = Some (PAM_ABORT, st)"
    and ex: "map (is_mfapoll \<circ> snd) (exchanges st) = [True, False, True]" "length (exchanges st) = 3"
    by (rule converse_outcome [OF polled_twice]) simp
  then have "is_mfapoll (snd (exchanges st ! 0))" "is_mfapoll (snd (exchanges st ! 2))"
    by (metis (no_types, lifting) comp_apply length_map nth_Cons_0 nth_map zero_less_numeral,
        metis (no_types, lifting) comp_apply eval_nat_numeral(2) lessI nth_Cons_0 nth_Cons_Suc nth_map numeral_2_eq_2 numeral_3_eq_3)
  with second_poll_aborts [OF run, of 0 2] ex show ?thesis using run by auto
qed

end
