(* ===== verification/Auth_Service.thy ===== *)
theory Auth_Service
  imports Pam_Props
begin

text \<open>
  What the PAM module relies on when it talks to the daemon, as the locale \<open>auth_service\<close>: there is something that the daemon's side
  of the connection keeps (\<open>mine\<close>), whatever the user does meanwhile; the answer to the first request is never success, and a
  step that is answered with success leaves a world where this is \<open>earned\<close>. Then a conversation ends with \<open>PAM_SUCCESS\<close> only in such a world.
\<close>

locale auth_service =
  fixes env :: "'w pam_env" and init :: ClientRequest and mine :: "'w \<Rightarrow> bool" and earned :: "'w \<Rightarrow> bool"
  assumes prompt_mine: "mine w \<Longrightarrow> mine (snd (prompt_echo_off env m w))"
    and adapters_mine: "mine w \<Longrightarrow> mine (snd (adapters env w))"
    and fido_auth_mine: "mine w \<Longrightarrow> mine (snd (fido_auth env ch al tm p q w))"
    and fido_with_qr_mine: "mine w \<Longrightarrow> mine (snd (fido_auth_with_qr_bluetooth env ch al tm p q b w))"
    and fido_qr_only_mine: "mine w \<Longrightarrow> mine (snd (fido_auth_qr_bluetooth_only env ch al b w))"
    and init_answer: "mine w \<Longrightarrow> call_and_wait env init w = (res, w') \<Longrightarrow>
      mine w' \<and> res \<noteq> Some (CR_PamAuthenticateStepResponse PR_Success)"
    and step_answer: "mine w \<Longrightarrow> call_and_wait env (PamAuthenticateStep r) w = (res, w') \<Longrightarrow>
      mine w' \<and> (res = Some (CR_PamAuthenticateStepResponse PR_Success) \<longrightarrow> earned w')"
begin

lemma in_world_mine:
  assumes "\<And>w. mine w \<Longrightarrow> mine (snd (f w))" "mine (world st)"
  shows "mine (world (snd (in_world f st)))"
  using assms by (simp add: in_world_def case_prod_beta)

lemma world_simps [simp]:
  "world (print_text m st) = world st" "world (sleep_secs n st) = world st" "world (snd (pam_fail m c st)) = world st"
  by (simp_all add: print_text_def sleep_secs_def pam_fail_def)

lemmas users_side = in_world_mine [OF prompt_mine] in_world_mine [OF adapters_mine] in_world_mine [OF fido_auth_mine]
  in_world_mine [OF fido_with_qr_mine] in_world_mine [OF fido_qr_only_mine]

lemma handlers_mine:
  assumes "mine (world st)"
  shows "mine (world (snd (handle_pam_auth_response_mfapoll env msg i st)))"
    "mine (world (snd (handle_pam_auth_response_mfapollwait st)))"
    "mine (world (snd (handle_pam_auth_response_password env cfg st)))"
    "mine (world (snd (handle_pam_auth_response_mfacode env msg st)))"
    "mine (world (snd (handle_pam_auth_response_pin env cfg st)))"
    "mine (world (snd (hellototp_prompt env st)))"
  using assms
  by (simp_all add: handle_pam_auth_response_mfapoll_def handle_pam_auth_response_mfapollwait_def
      handle_pam_auth_response_password_def handle_pam_auth_response_mfacode_def handle_pam_auth_response_pin_def
      hellototp_prompt_def Let_def case_prod_beta users_side split: option.split)

lemma hellototp_mine: "mine (world st) \<Longrightarrow> mine (world (snd (handle_pam_auth_response_hellototp env msg st)))"
  by (simp add: handle_pam_auth_response_hellototp_def handlers_mine split: sum.split)

lemma check_bluetooth_mine: "mine (world st) \<Longrightarrow> mine (world (snd (check_bluetooth env st)))"
  by (simp add: check_bluetooth_def case_prod_beta users_side)

lemma wait_bluetooth_mine: "mine (world st) \<Longrightarrow> mine (world (snd (wait_bluetooth env n st)))"
  by (induction n arbitrary: st) (simp_all add: case_prod_beta check_bluetooth_mine)

lemma fido_mine: "mine (world st) \<Longrightarrow> mine (world (snd (handle_pam_auth_response_fido env cfg ch al b1 b2 st)))"
proof -
  have assertion: "mine (world (snd (fido_assertion m r)))" if "mine (world (snd r))" for m r
    using that by (auto simp: fido_assertion_def split: prod.split sum.split)
  assume "mine (world st)"
  then show ?thesis
    by (simp add: handle_pam_auth_response_fido_def Let_def case_prod_beta assertion users_side check_bluetooth_mine wait_bluetooth_mine)
qed

lemma choose_pin_mine:
  assumes "choose_pin env cfg msg st = Some y" "mine (world st)"
  shows "mine (world (snd y))"
proof -
  have "e = env \<longrightarrow> mine (world st) \<longrightarrow> mine (world (snd y))" if "choose_pin e cfg msg st = Some y" for e
  proof (rule choose_pin.raw_induct [where P = "\<lambda>e cfg msg st y. e = env \<longrightarrow> mine (world st) \<longrightarrow> mine (world (snd y))", OF _ that])
    fix loop :: "'w pam_env \<Rightarrow> pam_cfg \<Rightarrow> string \<Rightarrow> 'w AuthenticateState \<Rightarrow> ((PamWhatNext + string) \<times> 'w AuthenticateState) option"
      and e cfg msg st y
    assume IH: "\<And>e cfg msg st y. loop e cfg msg st = Some y \<Longrightarrow> e = env \<longrightarrow> mine (world st) \<longrightarrow> mine (world (snd y))"
      and run: "(let (r, st1) = in_world (prompt_echo_off e ''New PIN: '') (print_text msg st) in
      case r of
        None \<Rightarrow> Some (map_prod Inl id (pam_fail ''No Entra Id Hello PIN was supplied.'' PAM_CRED_INSUFFICIENT st1))
      | Some pin \<Rightarrow>
          (case pin_objection e cfg st1 pin of
             None \<Rightarrow>
               let (r2, st2) = in_world (prompt_echo_off e ''Confirm PIN: '') (print_text msg st1) in
               (case r2 of
                  None \<Rightarrow> Some (map_prod Inl id (pam_fail ''No Entra Id Hello confirmation PIN was supplied.'' PAM_CRED_INSUFFICIENT st2))
                | Some confirm \<Rightarrow>
                    if pin = confirm then Some (Inr pin, st2)
                    else loop e cfg msg (sleep_secs 2 (print_text ''Inputs did not match. Try again.'' st2)))
           | Some why \<Rightarrow> loop e cfg msg (sleep_secs 2 (print_text why st1)))) = Some y"
    show "e = env \<longrightarrow> mine (world st) \<longrightarrow> mine (world (snd y))"
      using run by (auto simp: Let_def case_prod_beta users_side split: option.splits if_splits dest!: IH)
  qed
  with assms show ?thesis by blast
qed

lemma choose_password_mine:
  assumes "choose_password env msg st = Some y" "mine (world st)"
  shows "mine (world (snd y))"
proof -
  have "e = env \<longrightarrow> mine (world st) \<longrightarrow> mine (world (snd y))" if "choose_password e msg st = Some y" for e
  proof (rule choose_password.raw_induct [where P = "\<lambda>e msg st y. e = env \<longrightarrow> mine (world st) \<longrightarrow> mine (world (snd y))", OF _ that])
    fix loop :: "'w pam_env \<Rightarrow> string \<Rightarrow> 'w AuthenticateState \<Rightarrow> ((PamWhatNext + string) \<times> 'w AuthenticateState) option"
      and e msg st y
    assume IH: "\<And>e msg st y. loop e msg st = Some y \<Longrightarrow> e = env \<longrightarrow> mine (world st) \<longrightarrow> mine (world (snd y))"
      and run: "(let (r, st1) = in_world (prompt_echo_off e ''New password: '') (print_text msg st) in
      case r of
        None \<Rightarrow> Some (map_prod Inl id (pam_fail ''No Entra Id password was supplied.'' PAM_CRED_INSUFFICIENT st1))
      | Some password \<Rightarrow>
          if length password < 8 then
            loop e msg (print_text ''Chosen password is too short! 8 chars required.'' st1)
          else
            let (r2, st2) = in_world (prompt_echo_off e ''Confirm password: '') (print_text msg st1) in
            (case r2 of
               None \<Rightarrow> Some (map_prod Inl id (pam_fail ''No Entra Id confirmation password was supplied.'' PAM_CRED_INSUFFICIENT st2))
             | Some confirm \<Rightarrow>
                 if password = confirm then Some (Inr password, st2)
                 else loop e msg (sleep_secs 2 (print_text ''Inputs did not match. Try again.'' st2)))) = Some y"
    show "e = env \<longrightarrow> mine (world st) \<longrightarrow> mine (world (snd y))"
      using run by (auto simp: Let_def case_prod_beta users_side split: option.splits if_splits dest!: IH)
  qed
  with assms show ?thesis by blast
qed

lemma handle_response_mine:
  assumes "handle_response env cfg r st = Some (what, st1)" "mine (world st)"
  shows "mine (world st1)"
proof -
  have result: "mine (world st1)" if "handle_response env cfg r st = Some x" "mine (world (snd x))" for x
    using assms(1) that by simp
  show ?thesis
  proof (cases r)
    case (PR_SetupPin m)
    with assms(1) have "handle_pam_auth_response_setup_pin env cfg m st = Some (what, st1)" by (simp add: handle_response_def)
    then obtain p st2 m' where "choose_pin env cfg m' st = Some (p, st2)"
      "(what, st1) = (case p of Inl what \<Rightarrow> (what, st2)
        | Inr pin \<Rightarrow> (step_request (PQ_SetupPin pin), print_text ''Enrolling the Hello PIN. Please wait...'' st2))"
      unfolding handle_pam_auth_response_setup_pin_def Let_def bind_eq_Some_conv by auto
    with choose_pin_mine [OF _ assms(2)] show ?thesis by (fastforce split: sum.splits)
  next
    case (PR_ChangePassword m)
    with assms(1) have "handle_pam_auth_response_change_password env m st = Some (what, st1)" by (simp add: handle_response_def)
    then obtain p st2 where "choose_password env m st = Some (p, st2)"
      "(what, st1) = (case p of Inl what \<Rightarrow> (what, st2)
        | Inr password \<Rightarrow> (step_request (PQ_Password password), print_text ''Changing the password. Please wait...'' st2))"
      unfolding handle_pam_auth_response_change_password_def bind_eq_Some_conv by auto
    with choose_password_mine [OF _ assms(2)] show ?thesis by (fastforce split: sum.splits)
  qed (rule result, simp add: handle_response_def, simp add: assms(2) handlers_mine hellototp_mine fido_mine
      handle_pam_auth_response_unknown_def handle_pam_auth_response_success_def handle_pam_auth_response_denied_def
      handle_pam_auth_init_denied_def Let_def)+
qed

text \<open>One exchange: the connection is kept, and a success is earned; nothing happens after it.\<close>

lemma exchange_mine:
  assumes run: "authenticate_request_response env cfg req st = Some (what, st1)" and mine: "mine (world st)"
    and req: "req = init \<or> (\<exists>r. req = PamAuthenticateStep r)"
  shows "mine (world st1) \<and> (what = Finish PAM_SUCCESS \<longrightarrow> earned (world st1))"
proof -
  obtain res w where call: "call_and_wait env req (world st) = (res, w)" by fastforce
  define st' where "st' = st\<lparr>world := w, exchanges := exchanges st @ [(req, res)]\<rparr>"
  have w: "mine w" and won: "res = Some (CR_PamAuthenticateStepResponse PR_Success) \<Longrightarrow> earned w"
    using req init_answer [OF mine] step_answer [OF mine] call by blast+
  have run': "(case res of Some (CR_PamAuthenticateStepResponse response) \<Rightarrow> handle_response env cfg response st'
      | _ \<Rightarrow> Some (pam_fail ''An unexpected error occurred.'' PAM_IGNORE st')) = Some (what, st1)"
    using run by (simp add: authenticate_request_response_def in_world_def call st'_def Let_def split: option.splits ClientResponse.splits)
  show ?thesis
  proof (cases "\<exists>r. res = Some (CR_PamAuthenticateStepResponse r)")
    case True
    then obtain r where r: "res = Some (CR_PamAuthenticateStepResponse r)" by blast
    with run' have h: "handle_response env cfg r st' = Some (what, st1)" by simp
    have "may_follow env cfg st' res what" using handle_response_follows [OF h] r by simp
    then have "what = Finish PAM_SUCCESS \<Longrightarrow> res = Some (CR_PamAuthenticateStepResponse PR_Success)"
      by (auto elim: may_follow_Finish split: if_splits)
    moreover have "r = PR_Success \<Longrightarrow> world st1 = w"
      using h by (auto simp: handle_response_def handle_pam_auth_response_success_def st'_def)
    ultimately show ?thesis using r won handle_response_mine [OF h] w by (auto simp: st'_def)
  next
    case False
    with run' have "(what, st1) = pam_fail ''An unexpected error occurred.'' PAM_IGNORE st'"
      by (auto split: option.splits ClientResponse.splits)
    then have "what = Finish PAM_ABORT" "world st1 = w" by (auto simp: pam_fail_def sleep_secs_def print_text_def st'_def)
    with w show ?thesis by simp
  qed
qed

lemma conversation_earned:
  assumes "conversation env cfg req st code st'" "mine (world st)" "req = init \<or> (\<exists>r. req = PamAuthenticateStep r)"
    "init_request st = init" "code = PAM_SUCCESS"
  shows "earned (world st')"
  using assms
proof (induction rule: conversation.induct)
  case (finishes req st code st')
  then show ?case using exchange_mine [OF finishes.hyps] by blast
next
  case (goes_on req st q st1 code st')
  obtain res where step: "init_request st1 = init_request st" "may_follow env cfg st res (Next q)"
    using goes_on.hyps(1) by (rule request_response_follows)
  have "q = init \<or> (\<exists>r. q = PamAuthenticateStep r)"
    using step(2) goes_on.prems(3) by (auto elim: may_follow_Next)
  with goes_on exchange_mine [OF goes_on.hyps(1) goes_on.prems(1,2)] step(1) show ?case by simp
qed

lemma success_earned:
  assumes "authenticate env cfg connected authtok account_id service opts w = Some (PAM_SUCCESS, st)" "mine w"
    "init = PamAuthenticateInit account_id service (opt_no_hello_pin opts) (opt_force_reauth opts)"
  shows "earned (world st)"
  using assms(1)
proof (cases rule: authenticate_conversation)
  case conversed
  then show ?thesis
    using assms(2,3) by (intro conversation_earned [OF conversed]) (simp_all add: initial_state_def init_request_def)
qed simp

end

end
