(* ===== verification/Daemon_Props.thy ===== *)
theory Daemon_Props
  imports Daemon Auth_Service
begin

text \<open>
  The daemon's connection (\<^theory_text>\<open>Daemon\<close>) as the partner of the PAM module: it keeps the contract \<open>auth_service\<close>, also while
  other connections change everything but this one's authentication session.
\<close>

section \<open>Whose session it is\<close>

definition session_for :: "string \<Rightarrow> string \<Rightarrow> bool \<Rightarrow> bool \<Rightarrow> AuthSession \<Rightarrow> bool" where
  "session_for account service n f ss \<longleftrightarrow>
     (\<forall>a sv i tk onl h n' f'. ss = InProgress a sv i tk onl h n' f' \<longrightarrow> a = account \<and> sv = service \<and> n' = n \<and> f' = f \<and> (f \<longrightarrow> onl))"

lemma session_for_simps [simp]:
  "session_for a sv n f Session_Denied" "session_for a sv n f (Session_Success u)"
  "session_for a sv n f (InProgress a' sv' i tk onl h n' f') \<longleftrightarrow> a' = a \<and> sv' = sv \<and> n' = n \<and> f' = f \<and> (f \<longrightarrow> onl)"
  by (auto simp: session_for_def)

lemma session_for_handler [simp]: "session_for a sv n f (set_handler h ss) = session_for a sv n f ss"
  by (cases ss) (simp_all add: set_handler_def)

text \<open>A first request starts a session for its own account and never answers success.\<close>

definition started :: "string \<Rightarrow> string \<Rightarrow> bool \<Rightarrow> bool \<Rightarrow> unit + AuthSession \<times> PamAuthResponse \<Rightarrow> bool" where
  "started a sv n f r \<longleftrightarrow> (\<forall>ss resp. r = Inr (ss, resp) \<longrightarrow> resp \<noteq> PR_Success \<and> session_for a sv n f ss)"

lemma started_simps [simp]:
  "started a sv n f (Inl e)" "started a sv n f (Inr (Session_Denied, PR_Unknown))"
  "started a sv n f (Inr (Session_Denied, PR_InitDenied m))"
  by (simp_all add: started_def)

lemma authenticate_init_started: "yields (started a sv n f) (pam_account_authenticate_init self a sv n f)"
proof -
  have "started a sv n f (case m of
             Inr (next_req, cred_handler) \<Rightarrow>
               Inr (InProgress a sv (IdName a) tk onl cred_handler n f, into_PamAuthResponse next_req)
           | Inl (NotFound what locus) \<Rightarrow> Inr (Session_Denied, PR_Denied (not_found_msg what locus))
           | Inl _ \<Rightarrow> Inl ())" if "onl \<or> \<not> f" for m tk onl
    using that by (auto simp: started_def into_PamAuthResponse_never_final split: sum.splits prod.splits IdpError.splits)
  then show ?thesis
    unfolding pam_account_authenticate_init_def Let_def
    by (auto intro!: yields_pbind yields_pbindE split: prod.split)
qed

text \<open>A step does not change whose session it is.\<close>

definition keeps_for :: "AuthSession \<Rightarrow> 'x \<times> AuthSession \<Rightarrow> bool" where
  "keeps_for ss r \<longleftrightarrow> (\<forall>a sv n f. session_for a sv n f ss \<longrightarrow> session_for a sv n f (snd r))"

lemma keeps_for_simps [simp]:
  "keeps_for ss (x, ss)" "keeps_for ss (x, set_handler h ss)" "keeps_for ss (x, Session_Denied)" "keeps_for ss (x, Session_Success u)"
  by (simp_all add: keeps_for_def)

lemma auth_cache_action_for: "yields (keeps_for ss) (auth_cache_action self token (set_handler h ss) res)"
  by (auto simp: auth_cache_action_def intro!: yields_pbind split: sum.split AuthCacheAction.split AuthResult.split)

lemma auth_step_verdict_for: "yields (keeps_for ss) (auth_step_verdict self ss st req)"
proof -
  have online: "yields (keeps_for ss) (auth_step_online self ss token req)" for token
    by (auto simp: auth_step_online_def Let_def intro!: yields_pbind auth_cache_action_for split: prod.split sum.split)
  have pin: "yields (keeps_for ss) (auth_step_pin self ss token req)" for token req
    by (auto simp: auth_step_pin_def intro!: yields_pbind split: prod.split)
  have "yields (keeps_for ss) (auth_step_offline self ss token req)" for token
    by (auto simp: auth_step_offline_def intro!: yields_pbind pin split: PamAuthRequest.split AuthCredHandler.split)
  with online show ?thesis
    by (auto simp: auth_step_verdict_def split: AuthSession.split option.split)
qed

lemma auth_step_conclude_for:
  assumes "keeps_for ss (v, ss1)"
  shows "yields (keeps_for ss) (auth_step_conclude self v' ss1)"
proof -
  have [simp]: "keeps_for ss (x, ss1)" for x :: 'x using assms by (simp add: keeps_for_def)
  show ?thesis
    by (auto simp: auth_step_conclude_def intro!: yields_pbind split: sum.split AuthResult.split IdpError.split)
qed

lemma authenticate_step_for: "yields (keeps_for ss) (pam_account_authenticate_step self ss req)"
  unfolding pam_account_authenticate_step_def
  by (auto intro!: yields_pbind yields_pbind_via [OF auth_step_verdict_for] auth_step_conclude_for split: prod.split)

section \<open>The requests of a sign-in\<close>

lemma leaves_cachelayer: "leaves ds_session (cachelayer m)"
  by (auto simp: leaves_def cachelayer_def pzoom_def split: outcome.splits)

lemma leaves_run_task: "leaves ds_session (run_task env t ms)"
  by (auto simp: leaves_def run_task_def split: prod.splits)

lemma leaves_intune: "leaves ds_session (apply_intune_policy_for_account env self a)"
  unfolding apply_intune_policy_for_account_def policy_token_def
  by (auto intro!: leaves_pbind leaves_cachelayer leaves_run_task leaves_pret split: option.split prod.split)

lemma leaves_after_sign_in: "leaves ds_session (after_sign_in env self a)"
  unfolding after_sign_in_def logon_script_def kerberos_tasks_def profile_photo_def Let_def
  by (auto intro!: leaves_pbind leaves_cachelayer leaves_run_task leaves_pret leaves_intune split: option.split prod.split)

definition mine_session :: "string \<Rightarrow> string \<Rightarrow> bool \<Rightarrow> bool \<Rightarrow> AuthSession option \<Rightarrow> bool" where
  "mine_session a sv n f x \<longleftrightarrow> (\<forall>ss. x = Some ss \<longrightarrow> session_for a sv n f ss)"

lemma handle_init:
  assumes "handle_request env self uid (PamAuthenticateInit account service n f) d = Return (resp, d')"
    "mine_session (to_lowercase account) service n f (ds_session d)"
  shows "mine_session (to_lowercase account) service n f (ds_session d') \<and> resp \<noteq> CR_PamAuthenticateStepResponse PR_Success"
proof -
  let ?a = "to_lowercase account"
  obtain r e where init: "pam_account_authenticate_init self ?a service n f (ds_resolver d) = Return (r, e)"
    and rest: "(case r of
         Inr (ss, resp) \<Rightarrow> pbind (set_session (Some ss)) (\<lambda>_. pret (CR_PamAuthenticateStepResponse resp))
       | Inl _ \<Rightarrow> pret CR_Error) (d\<lparr>ds_resolver := e\<rparr>) = Return (resp, d')"
    using assms(1) by (auto simp: authenticate_init_def pbind_Return cachelayer_def pzoom_Return)
  have "started ?a service n f r" by (rule yieldsD [OF authenticate_init_started init])
  with rest assms(2) show ?thesis
    by (auto simp: started_def mine_session_def set_session_def pbind_Return split: sum.splits prod.splits)
qed

text \<open>The step that earned a success.\<close>

definition step_succeeds :: "('p, 'h, 'l) resolver \<Rightarrow> PamAuthRequest \<Rightarrow> ('p, 'h, 'l, 'w) dstate \<Rightarrow> bool" where
  "step_succeeds self req d \<longleftrightarrow> (\<exists>ss ss' r. ds_session d = Some ss \<and>
     pam_account_authenticate_step self ss req (ds_resolver d) = Return ((Inr PR_Success, ss'), r))"

lemma handle_step:
  assumes "handle_request env self uid (PamAuthenticateStep req) d = Return (resp, d')"
    "mine_session a sv n f (ds_session d)"
  shows "mine_session a sv n f (ds_session d') \<and> (resp = CR_PamAuthenticateStepResponse PR_Success \<longrightarrow> step_succeeds self req d)"
proof (cases "ds_session d")
  case None
  then show ?thesis using assms by (auto simp: authenticate_step_def get_session_def pbind_Return)
next
  case (Some ss)
  obtain r ss' e where step: "pam_account_authenticate_step self ss req (ds_resolver d) = Return ((r, ss'), e)"
    and rest: "(case r of
         Inl _ \<Rightarrow> pret CR_Error
       | Inr resp \<Rightarrow>
           (case (ss', resp) of
              (Session_Success account_id, PR_Success) \<Rightarrow>
                pbind (after_sign_in env self (to_lowercase account_id)) (\<lambda>resp'. pret (CR_PamAuthenticateStepResponse resp'))
            | _ \<Rightarrow> pret (CR_PamAuthenticateStepResponse resp)))
         (d\<lparr>ds_resolver := e, ds_session := Some ss'\<rparr>) = Return (resp, d')"
    using assms(1) Some
    by (auto simp: authenticate_step_def get_session_def set_session_def pbind_Return cachelayer_def pzoom_Return)
  have mine: "session_for a sv n f ss'"
    using yieldsD [OF authenticate_step_for step] assms(2) Some by (auto simp: keeps_for_def mine_session_def)
  show ?thesis
  proof (cases "\<exists>u. ss' = Session_Success u \<and> r = Inr PR_Success")
    case True
    with rest obtain u resp' where
      "after_sign_in env self (to_lowercase u) (d\<lparr>ds_resolver := e, ds_session := Some ss'\<rparr>) = Return (resp', d')"
      by (auto simp: pbind_Return)
    from leavesD [OF leaves_after_sign_in this] True mine Some step show ?thesis
      by (auto simp: mine_session_def step_succeeds_def)
  next
    case False
    with rest have "ds_session d' = Some ss'" "resp = CR_PamAuthenticateStepResponse PR_Success \<Longrightarrow> r = Inr PR_Success"
      by (auto split: sum.splits AuthSession.splits PamAuthResponse.splits)
    with mine Some step show ?thesis by (auto simp: mine_session_def step_succeeds_def)
  qed
qed

section \<open>The daemon behind the PAM module\<close>

text \<open>
  The world of a PAM module that is connected to the daemon: the daemon's state for this connection, a record of the requests
  that were handled, each with the state in which it was handled and its answer, and the
  user's side \<open>u\<close>. Whenever the module waits for the user, other connections may do anything (\<open>others\<close>) to the resolver and the
  task daemon. A request that panics or never returns gets no answer.
\<close>

type_synonym ('p, 'h, 'l, 'w) handled = "ClientRequest \<times> ('p, 'h, 'l, 'w) dstate \<times> ClientResponse"
type_synonym ('p, 'h, 'l, 'w, 'u) connection = "('p, 'h, 'l, 'w) dstate \<times> ('p, 'h, 'l, 'w) handled list \<times> 'u"

definition meanwhile :: "(('p, 'h, 'l) rstate \<times> 'w \<times> 'u \<Rightarrow> ('p, 'h, 'l) rstate \<times> 'w) \<Rightarrow> ('u \<Rightarrow> 'a \<times> 'u)
    \<Rightarrow> ('p, 'h, 'l, 'w, 'u) connection \<Rightarrow> 'a \<times> ('p, 'h, 'l, 'w, 'u) connection" where
  "meanwhile others f = (\<lambda>(d, past, u).
     (case f u of (a, u') \<Rightarrow>
       (case others (ds_resolver d, ds_world d, u) of (r, w) \<Rightarrow> (a, d\<lparr>ds_resolver := r, ds_world := w\<rparr>, past, u'))))"

definition joined :: "('i, 'w) daemon_env \<Rightarrow> ('p, 'h, 'l) resolver \<Rightarrow> u32
    \<Rightarrow> (('p, 'h, 'l) rstate \<times> 'w \<times> 'u \<Rightarrow> ('p, 'h, 'l) rstate \<times> 'w) \<Rightarrow> 'u pam_env \<Rightarrow> ('p, 'h, 'l, 'w, 'u) connection pam_env" where
  "joined denv self uid others u = \<lparr>
     call_and_wait = (\<lambda>req (d, past, x). case handle_request denv self uid req d of
         Return (resp, d') \<Rightarrow> (Some resp, d', past @ [(req, d, resp)], x)
       | _ \<Rightarrow> (None, d, past, x)),
     prompt_echo_off = (\<lambda>m. meanwhile others (prompt_echo_off u m)),
     qr_encode = qr_encode u, find_url = find_url u, totp_captures = totp_captures u, urldecode = urldecode u,
     adapters = meanwhile others (adapters u),
     fido_auth = (\<lambda>c a t p q. meanwhile others (fido_auth u c a t p q)),
     fido_auth_with_qr_bluetooth = (\<lambda>c a t p q b. meanwhile others (fido_auth_with_qr_bluetooth u c a t p q b)),
     fido_auth_qr_bluetooth_only = (\<lambda>c a b. meanwhile others (fido_auth_qr_bluetooth_only u c a b)),
     policies = (\<lambda>(d, past, x). policies u x)\<rparr>"

lemma meanwhile_session: "ds_session (fst (snd (meanwhile others f x))) = ds_session (fst x)"
  by (simp add: meanwhile_def split: prod.split)

text \<open>The last request that was handled is a step that succeeded, in a session of the given account.\<close>

definition earned_by :: "('p, 'h, 'l) resolver \<Rightarrow> (AuthSession option \<Rightarrow> bool) \<Rightarrow> ('p, 'h, 'l, 'w) handled list \<Rightarrow> bool" where
  "earned_by self mine past \<longleftrightarrow> (\<exists>older req d. past = older @ [(PamAuthenticateStep req, d, CR_PamAuthenticateStepResponse PR_Success)]
     \<and> mine (ds_session d) \<and> step_succeeds self req d)"

interpretation daemon: auth_service "joined denv self uid others u" "PamAuthenticateInit account service n f"
    "\<lambda>x. mine_session (to_lowercase account) service n f (ds_session (fst x))"
    "\<lambda>x. earned_by self (mine_session (to_lowercase account) service n f) (fst (snd x))"
  for denv :: "('i, 'w) daemon_env" and self :: "('p, 'h, 'l) resolver" and uid others and u :: "'u pam_env" and account service n f
proof unfold_locales
  let ?mine = "\<lambda>x :: ('p, 'h, 'l, 'w, 'u) connection. mine_session (to_lowercase account) service n f (ds_session (fst x))"
  fix w w' :: "('p, 'h, 'l, 'w, 'u) connection" and res :: "ClientResponse option"
  assume mine: "?mine w"
  {
    assume "call_and_wait (joined denv self uid others u) (PamAuthenticateInit account service n f) w = (res, w')"
    with mine show "?mine w' \<and> res \<noteq> Some (CR_PamAuthenticateStepResponse PR_Success)"
      using handle_init [of denv self uid account service n f "fst w"]
      by (cases w) (auto simp del: handle_request.simps simp: joined_def split: outcome.splits)
  next
    fix r
    assume "call_and_wait (joined denv self uid others u) (PamAuthenticateStep r) w = (res, w')"
    with mine show "?mine w' \<and> (res = Some (CR_PamAuthenticateStepResponse PR_Success) \<longrightarrow>
        earned_by self (mine_session (to_lowercase account) service n f) (fst (snd w')))"
      using handle_step [of denv self uid r "fst w"]
      by (cases w) (auto simp del: handle_request.simps simp: joined_def earned_by_def split: outcome.splits)
  }
qed (simp_all add: joined_def meanwhile_session)

section \<open>The start of a session\<close>

lemma run_task_Return:
  "run_task env task ms d = Return (r, d') \<longleftrightarrow> (\<exists>w. dm_task env task ms (ds_world d) = (r, w) \<and> d' = d\<lparr>ds_world := w\<rparr>)"
  by (auto simp: run_task_def split: prod.splits)

lemma begin_session_answer:
  assumes "begin_session env self account d = Return (resp, d')"
    and "pam_account_beginsession self account (ds_resolver d) = Return (Inr (Some info), r)"
  obtains ms t1 w1 is_sudoer t2 w2 w2'
  where "dm_task env (HomeDirectory info) ms (ds_world d) = (t1, w1)" "dm_task env (LocalGroups account is_sudoer) ms w2 = (t2, w2')"
    "resp = (if task_done t1 = CR_Error then CR_Error else task_done t2)"
  using assms
  by (auto simp: begin_session_def cachelayer_def prog_Return run_task_Return Let_def)

text \<open>
  C40. The start of a session does not notice that its tasks failed: when the task daemon answers that it could neither make the
  home directory nor set the groups, the client is still told that all went well. Only a missing answer is an error.
\<close>

theorem begin_session_ignores_task_errors:
  assumes "handle_request env self uid (PamAccountBeginSession account) d = Return (resp, d')"
    and "pam_account_beginsession self (to_lowercase account) (ds_resolver d) = Return (Inr (Some info), r)"
    and "\<And>task ms w. \<exists>e w'. dm_task env task ms w = (Outcome (task_outcome (Task_Error e)), w')"
  shows "resp = CR_Ok"
proof (rule begin_session_answer [OF _ assms(2)])
  show "begin_session env self (to_lowercase account) d = Return (resp, d')" using assms(1) by simp
  fix ms t1 w1 s t2 w2 w2'
  assume "dm_task env (HomeDirectory info) ms (ds_world d) = (t1, w1)" "dm_task env (LocalGroups (to_lowercase account) s) ms w2 = (t2, w2')"
    "resp = (if task_done t1 = CR_Error then CR_Error else task_done t2)"
  with assms(3) [of "HomeDirectory info" ms "ds_world d"] assms(3) [of "LocalGroups (to_lowercase account) s" ms w2] show ?thesis
    by (auto simp: task_done_def)
qed

end
