(* ===== verification/Resolver_Cache.thy ===== *)
theory Resolver_Cache
  imports Resolver_Auth
begin

text \<open>
  What the resolver's caches guarantee (\<open>resolver.rs\<close>): a stored user is found again until
  its time is up, invalidation makes every entry stale, a user the provider does not know is
  not asked for again while the negative entry lives, and clearing the cache leaves no user,
  group or Hello key behind.
\<close>

section \<open>Transactions of the resolver\<close>

text \<open>What a transaction does not touch.\<close>

definition frame :: "('p, 'h, 'l) rstate \<Rightarrow> Id set \<times> 'l \<times> (nat \<Rightarrow> systime) \<times> nat \<times> string set \<times> (string \<Rightarrow> bool)" where
  "frame s = (rs_nxset s, rs_nxcache s, rs_clock s, rs_tick s, rs_files s, rs_remove_fails s)"

lemma frame_eq: "frame t = frame s \<longleftrightarrow> rs_nxset t = rs_nxset s \<and> rs_nxcache t = rs_nxcache s \<and>
  rs_clock t = rs_clock s \<and> rs_tick t = rs_tick s \<and> rs_files t = rs_files s \<and> rs_remove_fails t = rs_remove_fails s"
  by (auto simp: frame_def)

lemma frame_lock: "leaves frame (r_lock k)" "leaves frame (r_unlock k)"
  by (auto simp: leaves_def r_lock_def r_unlock_def frame_def split: if_splits)

lemma frame_at: "leaves frame (at_db m)" "leaves frame (at_db_client m')"
  unfolding at_db_def at_db_client_def by (rule leaves_pzoom; simp add: frame_def split: prod.split)+

lemma frame_txn: "leaves frame r_begin" "leaves frame r_commit" "leaves frame r_drop" "leaves frame (end_txn r)"
  unfolding r_begin_def r_commit_def r_drop_def end_txn_def by (intro leaves_flow frame_lock frame_at)+

lemma frame_db_change: "leaves frame (db_change (at_db m))"
  unfolding db_change_def by (intro leaves_flow frame_txn frame_at)

lemma r_begin_Return:
  assumes "r_begin s = Return (x, t)"
  shows "rs_db t = (rs_db s)\<lparr>guard := True, txn := Some (disk (rs_db s)), stmt_no := Suc (stmt_no (rs_db s))\<rparr>
    \<and> rs_held t = LDb # rs_held s"
  using assms by (auto simp: r_begin_def r_lock_def at_db_def prog_Return db_write_Return split: if_splits)

lemma r_commit_Inr:
  assumes "r_commit s = Return (Inr x, t)"
  shows "txn (rs_db t) = None \<and> txn (rs_db s) = Some (disk (rs_db t))"
  using assms
  by (auto simp: r_commit_def r_unlock_def at_db_def prog_Return commit_def Let_def split: option.splits if_splits)

lemma db_change_Inr:
  assumes run: "db_change (at_db m) s = Return (Inr x, t)" and m: "keeps in_txn m" and wf: "conn_wf (rs_db s)"
  obtains c1 c2 where "cur c1 = disk (rs_db s)" and "conn_wf c1" and "m c1 = Return (Inr x, c2)"
    and "disk (rs_db t) = cur c2" and "txn (rs_db t) = None"
proof -
  from run obtain u q v where b: "r_begin s = Return ((), u)" and q: "at_db m u = Return (q, v)"
    and e: "end_txn q v = Return (Inr x, t)"
    by (auto simp: db_change_def pbind_Return)
  from e have "q = Inr x" by (rule end_txn_Inr)
  with e have c: "\<exists>y. r_commit v = Return (Inr y, t)"
    by (auto simp: end_txn_def pbind_Return case_sum_Inr)
  from q obtain c2 where c2: "m (rs_db u) = Return (Inr x, c2)" "rs_db v = c2"
    by (auto simp: at_db_def pzoom_Return \<open>q = Inr x\<close>)
  from r_begin_Return [OF b] wf have "cur (rs_db u) = disk (rs_db s)" "conn_wf (rs_db u)"
    by (auto simp: cur_def conn_wf_def)
  moreover from c r_commit_Inr have "txn (rs_db t) = None" "txn c2 = Some (disk (rs_db t))"
    using c2(2) by auto
  ultimately show ?thesis using that [OF _ _ c2(1)] by (simp add: cur_def)
qed

section \<open>Storing and finding a user\<close>

lemma time_plus_Return: "time_plus t n s = Return (e, u) \<longleftrightarrow> time_add_secs t n = Some e \<and> u = s"
  by (auto simp: time_plus_def split: option.splits)

lemma system_now_Return:
  "system_now s = Return (n, t) \<longleftrightarrow> n = rs_clock s (rs_tick s) \<and> t = s\<lparr>rs_tick := Suc (rs_tick s)\<rparr>"
  by (auto simp: system_now_def)

lemma expiry_offset_Inr:
  assumes "expiry_offset self s = Return (Inr n, t)"
  shows "t = s\<lparr>rs_tick := Suc (rs_tick s)\<rparr> \<and>
    int n = rs_clock s (rs_tick s) div 1000000000 + int (r_timeout_seconds self)"
  using assms
  by (auto simp: expiry_offset_def pbind_Return time_plus_Return system_now_Return time_add_secs_def
      secs_since_epoch_def split: if_splits option.splits)

text \<open>The token that is stored: local groups removed, and a shell that exists.\<close>

definition stored_token :: "('p, 'h, 'l) resolver \<Rightarrow> ('p, 'h, 'l) rstate \<Rightarrow> UserToken \<Rightarrow> UserToken" where
  "stored_token self s tok =
     (if (case ut_shell tok of Some sh \<Rightarrow> sh \<in> rs_files s | None \<Rightarrow> False) then tok
      else tok\<lparr>ut_shell := Some (r_default_shell self)\<rparr>)
     \<lparr>ut_groups := filter (\<lambda>g. \<not> group_in_nxset (rs_nxset s) g) (ut_groups tok)\<rparr>"

lemma stored_token_keys [simp]:
  "ut_gidnumber (stored_token self s tok) = ut_gidnumber tok" "ut_uuid (stored_token self s tok) = ut_uuid tok"
  "ut_spn (stored_token self s tok) = ut_spn tok" "ut_name (stored_token self s tok) = ut_name tok"
  by (simp_all add: stored_token_def)

lemma set_cache_usertoken_Inr:
  assumes run: "set_cache_usertoken self tok s = Return (Inr tok', t)" and wf: "conn_wf (rs_db s)"
  obtains n c1 c2 where "tok' = stored_token self s tok"
    and "int n = rs_clock s (rs_tick s) div 1000000000 + int (r_timeout_seconds self)"
    and "conn_wf c1" and "update_account (r_deps self) tok' n c1 = Return (Inr (), c2)"
    and "disk (rs_db t) = cur c2" and "txn (rs_db t) = None"
    and "frame t = frame (s\<lparr>rs_tick := Suc (rs_tick s)\<rparr>)"
proof -
  let ?s1 = "s\<lparr>rs_tick := Suc (rs_tick s)\<rparr>"
  let ?m = "\<lambda>n. pbindE (ptry_for_each (\<lambda>g. update_group (r_deps self) g n) (ut_groups tok')) (\<lambda>_.
      update_account (r_deps self) tok' n)"
  from run obtain n s2 where off: "expiry_offset self s = Return (Inr n, s2)"
    and rest: "set_cache_usertoken self tok s = Return (Inr tok', t)"
    by (auto simp: set_cache_usertoken_def pbindE_Return)
  from expiry_offset_Inr [OF off] have s2: "s2 = ?s1"
    and n: "int n = rs_clock s (rs_tick s) div 1000000000 + int (r_timeout_seconds self)" by auto
  define u where "u = s\<lparr>rs_tick := Suc (rs_tick s), rs_trace := Release LNxset # Acquire LNxset # rs_trace s\<rparr>"
  have u: "rs_db u = rs_db s" "frame u = frame ?s1" by (simp_all add: u_def frame_def)
  from run off s2 have tok': "tok' = stored_token self s tok"
    by (cases "ut_shell tok")
      (auto simp: set_cache_usertoken_def prog_Return Let_def path_exists_def r_lock_def r_unlock_def stored_token_def
        split: if_splits)
  from run off s2 have ch: "db_change (at_db (?m n)) u = Return (Inr (), t)"
    by (cases "ut_shell tok")
      (auto simp: set_cache_usertoken_def prog_Return Let_def path_exists_def r_lock_def r_unlock_def u_def
        split: if_splits)
  have keeps: "keeps in_txn (?m n)" by (rule groups_then_account_keeps)
  from wf u(1) have "conn_wf (rs_db u)" by simp
  from db_change_Inr [OF ch keeps this] obtain c0 c2 where c: "conn_wf c0" "?m n c0 = Return (Inr (), c2)"
    "disk (rs_db t) = cur c2" "txn (rs_db t) = None" by metis
  from c(2) obtain y c1 where grp: "ptry_for_each (\<lambda>g. update_group (r_deps self) g n) (ut_groups tok') c0 = Return (Inr y, c1)"
    and upd: "update_account (r_deps self) tok' n c1 = Return (Inr (), c2)" by (auto simp: pbindE_Return)
  have "keeps in_txn (ptry_for_each (\<lambda>g. update_group (r_deps self) g n) (ut_groups tok'))"
    by (intro stmt.flow update_group_keeps)
  from keepsD [OF this grp] c(1) have "conn_wf c1" by (simp add: in_txn_def)
  moreover have "frame t = frame ?s1" using leavesD [OF frame_db_change ch] u(2) by simp
  ultimately show ?thesis using that tok' n upd c by blast
qed

lemma update_account_token:
  assumes wf: "conn_wf c" and json: "serde_roundtrip d" and upd: "update_account d a e c = Return (Inr x, c1)"
  shows "one_token (de_user d) (map (\<lambda>r. (ar_token r, ar_expiry r))
    (filter (\<lambda>r. ar_gidnumber r = ut_gidnumber a) (account_t (cur c1)))) = Inr (Some (a, e))"
proof -
  let ?u = "uuid_str d (ut_uuid a)"
  from upd obtain data ex where ser: "ser_user d a = Some data" and ex: "i64_of_u64 e = Some ex"
    and t: "account_t (cur c1) = account_upsert ?u a data ex (account_t (cur c))"
    by (rule update_account_Inr) (auto simp: account_update_tables_def Let_def)
  from wf have "account_unique (account_t (cur c))" using cur_wf by (auto simp: tables_wf_def)
  with account_by_gid.lookup_stored [of _ "(?u, a, data, ex)" data e "de_user d" a] json ser ex
  show ?thesis
    by (auto simp: t put_account_def serde_roundtrip_def i64_of_u64_def split: if_splits)
qed

lemma sql_refused:
  assumes "sql_select ts q c = Return (Inl e, c') \<or> sql_prepare ts c = Return (Inl e, c')"
  shows "sql_fault c (stmt_no c) \<or> \<not> set ts \<subseteq> set (schema (cur c))"
  using assms by (auto simp: sql_select_def sql_prepare_def sql_exec_def sql_def Let_def split: if_splits)

lemma one_token_not_Sqlite: "Inl Sqlite \<noteq> one_token de xs"
  by (auto simp: one_token_def split: list.split option.split)

lemma get_account_refused:
  assumes "get_account d i c = Return (Inl Sqlite, c')"
  shows "(\<exists>n. sql_fault c n) \<or> ''account_t'' \<notin> set (schema (cur c))"
proof -
  have data: "(\<exists>n. sql_fault c n) \<or> ''account_t'' \<notin> set (schema (cur c))"
    if "pbindE (sql_prepare [''account_t'']) (\<lambda>_. sql_select [''account_t''] q) c = Return (Inl e, c')" for q e
  proof -
    from that consider "sql_prepare [''account_t''] c = Return (Inl e, c')"
      | x c1 where "sql_prepare [''account_t''] c = Return (Inr x, c1)" "sql_select [''account_t''] q c1 = Return (Inl e, c')"
      by (auto simp: pbindE_Return)
    then show ?thesis
    proof cases
      case 1
      with sql_refused [of "[''account_t'']" _ c e c'] show ?thesis by auto
    next
      case 2
      then have "cur c1 = cur c" "sql_fault c1 = sql_fault c"
        by (auto simp: sql_prepare_def sql_exec_def sql_Inr)
      with 2 sql_refused [of "[''account_t'']" q c1 e c'] show ?thesis by auto
    qed
  qed
  from assms have "(case i of IdName n \<Rightarrow> get_account_data_name n | IdGid g \<Rightarrow> get_account_data_gid g) c = Return (Inl Sqlite, c')"
    unfolding get_account_def pbindE_Return by (auto simp: one_token_not_Sqlite)
  then show ?thesis
    by (cases i) (auto simp: get_account_data_name_def get_account_data_gid_def dest: data)
qed

lemma update_account_schema:
  assumes "update_account d a e c = Return (Inr x, c')"
  shows "''account_t'' \<in> set (schema (cur c'))"
proof -
  from assms have "''account_t'' \<in> set (schema (cur c))"
    by (auto simp: update_account_def pbindE_Return Let_def sql_delete_accounts_def sql_Inr split: option.splits)
  moreover from assms have "schema (cur c') = schema (cur c)"
    by (rule update_account_Inr) (simp add: account_update_tables_def delete_accounts_def Let_def)
  ultimately show ?thesis by simp
qed

lemma db_read_Return:
  assumes "db_read m s = Return (r, t)"
  obtains u v where "r_begin s = Return ((), u)" and "m u = Return (r, v)" and "r_drop v = Return ((), t)"
  using assms by (auto simp: db_read_def pbind_Return)

lemma get_cached_usertoken_found:
  assumes run: "get_cached_usertoken self i s = Return (r, t)"
    and found: "\<And>c q c'. cur c = disk (rs_db s) \<Longrightarrow> get_account (r_deps self) i c = Return (q, c') \<Longrightarrow>
      q = Inr (Some (tok, n)) \<or> q = Inl Sqlite"
    and schema: "''account_t'' \<in> set (schema (disk (rs_db s)))"
  shows "r = Inl () \<and> (\<exists>n. sql_fault (rs_db s) n) \<or> r = Inr (int n * 1000000000 \<le> rs_clock s (rs_tick s), Some tok)"
proof -
  from run obtain u v where b: "r_begin s = Return ((), u)"
    and m: "pbindE (map_err (\<lambda>_. ()) (at_db (get_account (r_deps self) i))) (cached_or_nx self i) u = Return (r, v)"
    unfolding get_cached_usertoken_def by (rule db_read_Return)
  have u: "cur (rs_db u) = disk (rs_db s)" "rs_clock u = rs_clock s" "rs_tick u = rs_tick s"
    using r_begin_Return [OF b] leavesD [OF frame_txn(1) b] by (auto simp: cur_def frame_eq)
  from r_begin_Return [OF b] have f: "sql_fault (rs_db u) = sql_fault (rs_db s)" by simp
  from m obtain q c where q: "get_account (r_deps self) i (rs_db u) = Return (q, c)"
    and k: "(case q of Inl _ \<Rightarrow> pret (Inl ()) | Inr x \<Rightarrow> cached_or_nx self i x) (u\<lparr>rs_db := c\<rparr>) = Return (r, v)"
    by (auto simp: prog_Return at_db_def split: sum.split)
  from found [OF u(1) q] show ?thesis
  proof
    assume "q = Inr (Some (tok, n))"
    with k u show ?thesis
      by (auto simp: cached_or_nx_def pbind_Return time_plus_Return system_now_Return time_add_secs_def split: if_splits)
  next
    assume "q = Inl Sqlite"
    with k get_account_refused [of "r_deps self" i "rs_db u" c] q u(1) f schema show ?thesis by auto
  qed
qed

text \<open>
  C10. A user that was stored in the cache is found by its uid: the lookup returns the stored
  token, marked as expired exactly from the configured number of seconds after it was stored.
  Only an engine that refuses statements can prevent it. The stored token lists no local group and
  names a shell that exists, or the default one.
\<close>

theorem cached_user_roundtrip:
  assumes wf: "conn_wf (rs_db s)" and json: "serde_roundtrip (r_deps self)"
    and put: "set_cache_usertoken self tok s = Return (Inr tok', s1)"
    and get: "get_cached_usertoken self (IdGid (ut_gidnumber tok)) s1 = Return (r, s2)"
  shows "tok' = stored_token self s tok \<and> (r = Inl () \<and> (\<exists>n. sql_fault (rs_db s1) n) \<or> r = Inr (
    (rs_clock s (rs_tick s) div 1000000000 + int (r_timeout_seconds self)) * 1000000000
      \<le> rs_clock s (Suc (rs_tick s)), Some tok'))"
proof -
  from set_cache_usertoken_Inr [OF put wf] obtain n c1 c2 where tok': "tok' = stored_token self s tok"
    and n: "int n = rs_clock s (rs_tick s) div 1000000000 + int (r_timeout_seconds self)"
    and c1: "conn_wf c1" and upd: "update_account (r_deps self) tok' n c1 = Return (Inr (), c2)"
    and s1: "disk (rs_db s1) = cur c2" and fr: "frame s1 = frame (s\<lparr>rs_tick := Suc (rs_tick s)\<rparr>)"
    by metis
  have "q = Inr (Some (tok', n)) \<or> q = Inl Sqlite"
    if "cur c = disk (rs_db s1)" "get_account (r_deps self) (IdGid (ut_gidnumber tok)) c = Return (q, c')" for c q c'
    using get_account_gid_cases [OF that(2)] update_account_token [OF c1 json upd] that(1) s1 tok' by auto
  note found = this
  have "''account_t'' \<in> set (schema (disk (rs_db s1)))" using update_account_schema [OF upd] s1 by simp
  from get_cached_usertoken_found [OF get found this] n fr tok' show ?thesis by (auto simp: frame_eq)
qed

section \<open>A database that accepts every statement\<close>

definition rs_ready :: "('p, 'h, 'l) rstate \<Rightarrow> bool" where
  "rs_ready s \<longleftrightarrow> rs_held s = [] \<and> \<not> guard (rs_db s) \<and> txn (rs_db s) = None \<and> (\<forall>n. \<not> sql_fault (rs_db s) n)
     \<and> db_tables \<subseteq> set (schema (disk (rs_db s))) \<and> conn_wf (rs_db s) \<and> \<not> foreign_keys (rs_db s)"

lemma rs_ready_upd [simp]: "rs_ready (s\<lparr>rs_tick := n\<rparr>) = rs_ready s" "rs_ready (s\<lparr>rs_trace := tr\<rparr>) = rs_ready s"
  "rs_ready (s\<lparr>rs_nxcache := l\<rparr>) = rs_ready s" "rs_ready (s\<lparr>rs_client := p\<rparr>) = rs_ready s"
  by (simp_all add: rs_ready_def)

definition in_ready_txn :: "('p, 'h, 'l) rstate \<Rightarrow> bool" where
  "in_ready_txn s \<longleftrightarrow> rs_held s = [LDb] \<and> guard (rs_db s) \<and> txn (rs_db s) \<noteq> None \<and> sql_ready (rs_db s)
     \<and> conn_wf (rs_db s) \<and> \<not> foreign_keys (rs_db s)"

lemma r_begin_ready:
  assumes "rs_ready s"
  shows "\<exists>t. r_begin s = Return ((), t) \<and> in_ready_txn t \<and> frame t = frame s"
  using assms
  by (auto simp: rs_ready_def r_begin_def r_lock_def at_db_def prog_Return db_write_Return in_ready_txn_def
      sql_ready_def cur_def conn_wf_def frame_def)

lemma r_commit_ready:
  assumes "in_ready_txn s"
  shows "\<exists>t. r_commit s = Return (Inr (), t) \<and> rs_ready t \<and> frame t = frame s"
  using assms
  by (auto simp: in_ready_txn_def r_commit_def r_unlock_def at_db_def prog_Return commit_def Let_def rs_ready_def
      sql_ready_def cur_def conn_wf_def frame_def)

lemma r_drop_ready:
  assumes "in_ready_txn s" and "db_tables \<subseteq> set (schema (disk (rs_db s)))"
  shows "\<exists>t. r_drop s = Return ((), t) \<and> rs_ready t \<and> frame t = frame s"
  using assms
  by (auto simp: in_ready_txn_def r_drop_def r_unlock_def at_db_def prog_Return drop_txn_def rs_ready_def
      sql_ready_def cur_def conn_wf_def frame_def)

lemma at_db_ready:
  assumes s: "in_ready_txn s" and keeps: "keeps in_txn m"
    and run: "m (rs_db s) = Return (x, c)" and ready: "sql_ready c"
  shows "at_db m s = Return (x, s\<lparr>rs_db := c\<rparr>) \<and> in_ready_txn (s\<lparr>rs_db := c\<rparr>)"
  using s keepsD [OF keeps run] ready run by (auto simp: in_ready_txn_def at_db_def pzoom_def in_txn_def)

lemma db_change_ready:
  assumes s: "rs_ready s" and keeps: "keeps in_txn m"
    and m: "succeeds (\<lambda>c. sql_ready c \<and> conn_wf c) m (\<lambda>_. sql_ready)"
  shows "\<exists>x t. db_change (at_db m) s = Return (Inr x, t) \<and> rs_ready t \<and> frame t = frame s"
proof -
  from r_begin_ready [OF s] obtain u where u: "r_begin s = Return ((), u)" "in_ready_txn u" "frame u = frame s" by blast
  then have "sql_ready (rs_db u) \<and> conn_wf (rs_db u)" by (simp add: in_ready_txn_def)
  with succeedsD [OF m, of "rs_db u"] obtain x c where c: "m (rs_db u) = Return (Inr x, c)" "sql_ready c" by blast
  from at_db_ready [OF u(2) keeps c] r_commit_ready obtain t where
    "at_db m u = Return (Inr x, u\<lparr>rs_db := c\<rparr>)" "r_commit (u\<lparr>rs_db := c\<rparr>) = Return (Inr (), t)" "rs_ready t"
    "frame t = frame (u\<lparr>rs_db := c\<rparr>)" by blast
  with u show ?thesis
    by (auto simp: db_change_def end_txn_def pbind_def pret_def frame_def)
qed

lemma update_group_succeeds:
  assumes "ser_group d g = Some b" and "e < 2 ^ 63"
  shows "succeeds (\<lambda>c. sql_ready c \<and> conn_wf c) (update_group d g e) (\<lambda>_ c. sql_ready c \<and> conn_wf c)"
proof -
  have "succeeds sql_ready (update_group d g e) (\<lambda>_. sql_ready)"
    using assms unfolding update_group_def
    by (auto simp: i64_of_u64_def intro!: succeeds_pbindE [where R = "\<lambda>_. sql_ready"] sql_prepare_succeeds
        sql_exec_succeeds)
  then show ?thesis
    unfolding succeeds_def using keepsD [OF update_group_keeps] by (metis in_txn_def)
qed

lemma groups_then_account_succeeds:
  assumes "\<And>g. g \<in> set gs \<Longrightarrow> ser_group d g \<noteq> None" and "ser_user d a = Some b" and e: "e < 2 ^ 63"
  shows "succeeds (\<lambda>c. sql_ready c \<and> conn_wf c)
    (pbindE (ptry_for_each (\<lambda>g. update_group d g e) gs) (\<lambda>_. update_account d a e)) (\<lambda>_. sql_ready)"
proof (rule succeeds_pbindE)
  show "succeeds (\<lambda>c. sql_ready c \<and> conn_wf c) (ptry_for_each (\<lambda>g. update_group d g e) gs)
      (\<lambda>_ c. sql_ready c \<and> conn_wf c)"
    using assms(1)
  proof (induction gs)
    case (Cons g gs)
    then obtain bg where "ser_group d g = Some bg" by auto
    from succeeds_pbindE [OF update_group_succeeds [OF this e]] Cons show ?case by simp
  qed (simp add: succeeds_def)
next
  fix x :: unit
  show "succeeds (\<lambda>c. sql_ready c \<and> conn_wf c) (update_account d a e) (\<lambda>_. sql_ready)"
    unfolding succeeds_def using update_account_total [OF _ _ assms(2) e] by blast
qed

lemma set_cache_usertoken_ready:
  assumes s: "rs_ready s" and now: "time_add_secs (rs_clock s (rs_tick s)) (r_timeout_seconds self) = Some e" "0 \<le> e"
    and grp: "\<And>g. g \<in> set (ut_groups tok) \<Longrightarrow> ser_group (r_deps self) g \<noteq> None"
    and usr: "ser_user (r_deps self) (stored_token self s tok) \<noteq> None"
  shows "\<exists>t. set_cache_usertoken self tok s = Return (Inr (stored_token self s tok), t) \<and> rs_ready t
    \<and> frame t = frame (s\<lparr>rs_tick := Suc (rs_tick s)\<rparr>)"
proof -
  let ?tok = "stored_token self s tok" and ?n = "nat (e div 1000000000)"
  let ?u = "s\<lparr>rs_tick := Suc (rs_tick s), rs_held := [], rs_trace := Release LNxset # Acquire LNxset # rs_trace s\<rparr>"
  let ?m = "pbindE (ptry_for_each (\<lambda>g. update_group (r_deps self) g ?n) (ut_groups ?tok)) (\<lambda>_.
      update_account (r_deps self) ?tok ?n)"
  from now have n: "?n < 2 ^ 63"
    by (auto simp: time_add_secs_def split: if_splits)
  obtain b where "ser_user (r_deps self) ?tok = Some b" using usr by blast
  then have m: "succeeds (\<lambda>c. sql_ready c \<and> conn_wf c) ?m (\<lambda>_. sql_ready)"
    by (rule groups_then_account_succeeds [OF _ _ n, rotated]) (use grp in \<open>auto simp: stored_token_def\<close>)
  have "rs_ready ?u" using s by (simp add: rs_ready_def)
  from db_change_ready [OF this groups_then_account_keeps m] obtain x t where
    t: "db_change (at_db ?m) ?u = Return (Inr x, t)" "rs_ready t" "frame t = frame ?u" by blast
  have held: "rs_held s = []" using s by (simp add: rs_ready_def)
  have off: "expiry_offset self s = Return (Inr ?n, s\<lparr>rs_tick := Suc (rs_tick s)\<rparr>)"
    using now by (simp add: expiry_offset_def pbind_def system_now_def time_plus_def pret_def secs_since_epoch_def)
  have "set_cache_usertoken self tok s = Return (Inr ?tok, t)"
    using t(1) by (cases "ut_shell tok")
      (auto simp: set_cache_usertoken_def prog_Return off Let_def path_exists_def r_lock_def r_unlock_def held
        stored_token_def)
  with t show ?thesis by (auto simp: frame_def)
qed

lemma get_cached_usertoken_ready:
  assumes s: "rs_ready s"
    and found: "\<And>c q c'. cur c = disk (rs_db s) \<Longrightarrow> get_account (r_deps self) i c = Return (q, c') \<Longrightarrow>
      q = Inr (Some (tok, n)) \<or> q = Inl Sqlite" and n: "n < 2 ^ 63"
  shows "\<exists>r t. get_cached_usertoken self i s = Return (r, t) \<and> rs_ready t"
proof -
  from r_begin_ready [OF s] obtain u where u: "r_begin s = Return ((), u)" "in_ready_txn u" "frame u = frame s" by blast
  from r_begin_Return [OF u(1)] have d: "cur (rs_db u) = disk (rs_db s)" "disk (rs_db u) = disk (rs_db s)"
    by (auto simp: cur_def)
  from u(2) get_account_ready [of "rs_db u" "r_deps self" i] obtain q where
    q: "get_account (r_deps self) i (rs_db u) = Return (q, (rs_db u)\<lparr>stmt_no := stmt_no (rs_db u) + 2\<rparr>)" "q \<noteq> Inl Sqlite"
    by (auto simp: in_ready_txn_def)
  let ?v = "u\<lparr>rs_db := (rs_db u)\<lparr>stmt_no := stmt_no (rs_db u) + 2\<rparr>, rs_tick := Suc (rs_tick u)\<rparr>"
  have v: "in_ready_txn ?v" using u(2) by (auto simp: in_ready_txn_def conn_wf_def)
  moreover have "db_tables \<subseteq> set (schema (disk (rs_db ?v)))" using d s by (simp add: rs_ready_def)
  ultimately obtain t where t: "r_drop ?v = Return ((), t)" "rs_ready t" using r_drop_ready by blast
  from found [OF d(1) q(1)] q(2) have "q = Inr (Some (tok, n))" by simp
  with q u(1) t n show ?thesis
    by (auto simp: get_cached_usertoken_def db_read_def prog_Return at_db_def cached_or_nx_def time_plus_Return
        system_now_Return time_add_secs_def)
qed

lemma sample_rs_ready: "rs_ready sample_idle"
  using sample_idle_facts by (simp add: rs_ready_def) (simp add: sample_idle_def db_tables_def sample_tables_def)

lemma sample_stored: "stored_token sample_resolver sample_idle sample_user = sample_user"
  by (simp add: stored_token_def sample_resolver_def sample_idle_def sample_user_def group_in_nxset_def)

lemma sample_time:
  "time_add_secs (rs_clock s (rs_tick s)) (r_timeout_seconds sample_resolver) = Some 1700000300000000000"
  if "rs_clock s = rs_clock sample_idle"
  using that by (simp add: sample_resolver_def sample_idle_def time_add_secs_def)

lemma sample_store:
  assumes "rs_ready s" "rs_clock s = rs_clock sample_idle" "rs_nxset s \<subseteq> {IdName ''alice@example.com''}" "rs_files s = {}"
  shows "\<exists>t. set_cache_usertoken sample_resolver sample_user s = Return (Inr sample_user, t) \<and> rs_ready t
    \<and> frame t = frame (s\<lparr>rs_tick := Suc (rs_tick s)\<rparr>)"
proof -
  have "\<not> group_in_nxset (rs_nxset s) sample_group"
    using assms(3) by (auto simp: group_in_nxset_def sample_group_def)
  then have st: "stored_token sample_resolver s sample_user = sample_user"
    using assms by (simp add: stored_token_def sample_resolver_def sample_user_def)
  have d: "r_deps sample_resolver = sample_deps" by (simp add: sample_resolver_def)
  have "ser_group (r_deps sample_resolver) g \<noteq> None" if "g \<in> set (ut_groups sample_user)" for g
    using that by (simp add: d sample_user_def)
  moreover have "ser_user (r_deps sample_resolver) (stored_token sample_resolver s sample_user) \<noteq> None"
    by (simp add: st d)
  ultimately show ?thesis
    using set_cache_usertoken_ready [OF assms(1) sample_time [OF assms(2)], of sample_user] by (simp add: st)
qed

lemma sample_idle_frame: "rs_nxset sample_idle = {}" "rs_files sample_idle = {}" "rs_nxcache sample_idle = []"
  "disk (rs_db sample_idle) = sample_tables"
  by (simp_all add: sample_idle_def)

lemma sample_stored_then_cached:
  assumes wf: "conn_wf (rs_db sample_idle)"
    and s1: "set_cache_usertoken sample_resolver sample_user sample_idle = Return (Inr sample_user, s1)" "rs_ready s1"
  shows "\<exists>r s2. get_cached_usertoken sample_resolver (IdGid 1000) s1 = Return (r, s2)"
proof -
  have json: "serde_roundtrip (r_deps sample_resolver)" by (simp add: sample_resolver_def serde_roundtrip_sample)
  obtain n c1 c2 where "sample_user = stored_token sample_resolver sample_idle sample_user"
    and n: "int n = rs_clock sample_idle (rs_tick sample_idle) div 1000000000 + int (r_timeout_seconds sample_resolver)"
    and c1: "conn_wf c1" and upd: "update_account (r_deps sample_resolver) sample_user n c1 = Return (Inr (), c2)"
    and d: "disk (rs_db s1) = cur c2" and "txn (rs_db s1) = None"
    and "frame s1 = frame (sample_idle\<lparr>rs_tick := Suc (rs_tick sample_idle)\<rparr>)"
    by (rule set_cache_usertoken_Inr [OF s1(1) wf])
  have g: "ut_gidnumber sample_user = 1000" by (simp add: sample_user_def)
  have found: "q = Inr (Some (sample_user, n)) \<or> q = Inl Sqlite"
    if "cur c = disk (rs_db s1)" "get_account (r_deps sample_resolver) (IdGid 1000) c = Return (q, c')" for c q c'
    using get_account_gid_cases [OF that(2)] update_account_token [OF c1 json upd] that(1) d g by auto
  have "n < 2 ^ 63" using n by (simp add: sample_idle_def sample_resolver_def)
  from get_cached_usertoken_ready [OF s1(2) found this] show ?thesis by fast
qed

theorem cached_user_roundtrip_witness:
  "\<exists>s1 s2. set_cache_usertoken sample_resolver sample_user sample_idle = Return (Inr sample_user, s1)
     \<and> get_cached_usertoken sample_resolver (IdGid 1000) s1 = Return (Inr (False, Some sample_user), s2)"
proof -
  have wf: "conn_wf (rs_db sample_idle)" by (rule sample_idle_facts)
  have json: "serde_roundtrip (r_deps sample_resolver)" by (simp add: sample_resolver_def serde_roundtrip_sample)
  have g: "ut_gidnumber sample_user = 1000" by (simp add: sample_user_def)
  from sample_store [OF sample_rs_ready refl _ sample_idle_frame(2)] sample_idle_frame(1) obtain s1 where
    s1: "set_cache_usertoken sample_resolver sample_user sample_idle = Return (Inr sample_user, s1)" "rs_ready s1"
    by auto
  from sample_stored_then_cached [OF wf s1] obtain r s2 where
    r: "get_cached_usertoken sample_resolver (IdGid 1000) s1 = Return (r, s2)" by fast
  have "\<not> (\<exists>n. sql_fault (rs_db s1) n)" using s1(2) by (simp add: rs_ready_def)
  with cached_user_roundtrip [OF wf json s1(1), unfolded g, OF r] have "r = Inr (False, Some sample_user)"
    by (simp add: sample_idle_def sample_resolver_def)
  with s1(1) r show ?thesis by fast
qed

section \<open>A sign-in that succeeds\<close>

lemma at_pret: "at_db_client (\<lambda>s. Return (x, s)) = pret x" "at_all (\<lambda>s. Return (x, s)) = pret x"
  by (auto simp: at_db_client_def at_all_def pzoom_def pret_def fun_eq_iff)

lemma get_cachestate_ready:
  assumes "rs_ready s" and st: "idp_get_cachestate (r_client self) a = pret st"
  shows "\<exists>t. get_cachestate self a s = Return (st, t) \<and> rs_ready t \<and> frame t = frame s"
proof -
  from r_begin_ready [OF assms(1)] obtain u where u: "r_begin s = Return ((), u)" "in_ready_txn u" "frame u = frame s"
    by blast
  from r_commit_ready [OF u(2)] obtain t where t: "r_commit u = Return (Inr (), t)" "rs_ready t" "frame t = frame u"
    by blast
  have "get_cachestate self a s = Return (st, t)"
    using u(1) t(1) by (simp add: get_cachestate_def st at_pret pbind_def pret_def)
  with t u(3) show ?thesis by metis
qed

lemma begin_hsm_ready:
  assumes "rs_ready s"
  shows "\<exists>u v. r_lock LHsm s = Return ((), u) \<and> r_begin u = Return ((), v) \<and> rs_held v = [LDb, LHsm]
    \<and> in_ready_txn (v\<lparr>rs_held := [LDb]\<rparr>) \<and> disk (rs_db v) = disk (rs_db s) \<and> frame v = frame s"
proof -
  let ?u = "s\<lparr>rs_held := [LHsm], rs_trace := Acquire LHsm # rs_trace s\<rparr>"
  let ?c = "rs_db s"
  let ?v = "?u\<lparr>rs_held := [LDb, LHsm], rs_trace := Acquire LDb # rs_trace ?u,
     rs_db := ?c\<lparr>guard := True, txn := Some (disk ?c), stmt_no := Suc (stmt_no ?c)\<rparr>\<rparr>"
  from assms have s: "rs_held s = []" "\<not> guard ?c" "txn ?c = None" "\<And>n. \<not> sql_fault ?c n"
    "db_tables \<subseteq> set (schema (disk ?c))" "conn_wf ?c" "\<not> foreign_keys ?c"
    by (simp_all add: rs_ready_def)
  have "r_lock LHsm s = Return ((), ?u)" using s by (simp add: r_lock_def)
  moreover have "r_begin ?u = Return ((), ?v)"
    using s by (simp add: r_begin_def r_lock_def pbind_def at_db_def pzoom_def db_write_def)
  moreover have "in_ready_txn (?v\<lparr>rs_held := [LDb]\<rparr>)"
    using s by (simp add: in_ready_txn_def sql_ready_def cur_def conn_wf_def)
  moreover have "frame ?v = frame s" by (simp add: frame_eq)
  ultimately show ?thesis by (intro exI [of _ ?u] exI [of _ ?v]) simp
qed

lemma unlock_hsm_held: "rs_held v = [LDb, LHsm] \<Longrightarrow> \<exists>w. r_unlock LHsm v = Return ((), w) \<and> rs_held w = [LDb]
    \<and> rs_db w = rs_db v \<and> frame w = frame v"
  by (simp add: r_unlock_def pmodify_def frame_eq)

lemma in_ready_txn_held: "rs_held w = [LDb] \<Longrightarrow> rs_db w = rs_db v \<Longrightarrow> in_ready_txn (v\<lparr>rs_held := [LDb]\<rparr>) \<Longrightarrow>
    in_ready_txn w"
  by (simp add: in_ready_txn_def)

lemma hsm_db_call_ready:
  assumes s: "rs_ready s"
  shows "\<exists>t. hsm_db_call (at_all (pret x)) s = Return ((x, Inr ()), t) \<and> rs_ready t \<and> frame t = frame s"
proof -
  from begin_hsm_ready [OF s] obtain u v where v: "r_lock LHsm s = Return ((), u)" "r_begin u = Return ((), v)"
    "rs_held v = [LDb, LHsm]" "in_ready_txn (v\<lparr>rs_held := [LDb]\<rparr>)" "frame v = frame s" by metis
  from unlock_hsm_held [OF v(3)] obtain w where w: "r_unlock LHsm v = Return ((), w)" "rs_held w = [LDb]"
    "rs_db w = rs_db v" "frame w = frame v" by metis
  from r_commit_ready [OF in_ready_txn_held [OF w(2,3) v(4)]] obtain t where
    t: "r_commit w = Return (Inr (), t)" "rs_ready t" "frame t = frame w" by metis
  have "hsm_db_call (at_all (pret x)) s = Return ((x, Inr ()), t)"
    using v(1,2) w(1) t(1) by (simp add: hsm_db_call_def pbind_def at_pret pret_def)
  with t w v show ?thesis by metis
qed

text \<open>States from which the sample resolver runs undisturbed; at most the SPN is a local name.\<close>

definition sample_like :: "(unit, unit, (Id \<times> systime) list) rstate \<Rightarrow> bool" where
  "sample_like s \<longleftrightarrow> rs_ready s \<and> rs_clock s = rs_clock sample_idle \<and> rs_nxset s \<subseteq> {IdName ''alice@example.com''} \<and> rs_files s = {}"

lemma sample_like_frame: "rs_ready t \<Longrightarrow> frame t = frame s \<Longrightarrow> sample_like s \<Longrightarrow> sample_like t"
  by (simp add: sample_like_def frame_eq)

lemma sample_like_idle: "sample_like sample_idle"
  using sample_rs_ready by (simp add: sample_like_def) (simp add: sample_idle_def)

lemma sample_client_calls:
  "r_client sample_resolver = sample_client" "idp_get_cachestate sample_client oa = pret Online"
  "idp_unix_user_get sample_client i tk mk = pret (Inr (UserUpdate sample_user))"
  "idp_unix_user_online_auth_init sample_client a tk' sv n f mk = pret (Inr (AR_Pin, CH_None))"
  "idp_unix_user_online_auth_step sample_client a token sv n h (PQ_Pin ''123456'') mk =
     pret (Inr (Auth_Success token, NoCacheAction), h)"
  by (simp_all add: sample_resolver_def sample_client_def)

lemma check_nxset_sample:
  assumes "sample_like s" "a \<noteq> Some ''alice@example.com''"
  shows "\<exists>t. check_nxset a g s = Return (False, t) \<and> sample_like t \<and> rs_db t = rs_db s \<and> rs_nxcache t = rs_nxcache s"
proof -
  let ?t = "s\<lparr>rs_trace := Release LNxset # Acquire LNxset # rs_trace s\<rparr>"
  from assms have "rs_nxset s \<subseteq> {IdName ''alice@example.com''}" "rs_held s = []" by (simp_all add: sample_like_def rs_ready_def)
  with assms(2) have "check_nxset a g s = Return (False, ?t)"
    by (cases a; cases g) (auto simp: check_nxset_def pbind_def r_lock_def r_unlock_def pgets_def pmodify_def pret_def)
  moreover have "sample_like ?t" using assms by (simp add: sample_like_def rs_ready_def)
  ultimately show ?thesis by (intro exI [of _ ?t]) simp
qed

lemma sample_store':
  assumes "sample_like s"
  shows "\<exists>t. set_cache_usertoken sample_resolver sample_user s = Return (Inr sample_user, t) \<and> sample_like t"
  using sample_store [of s] assms by (auto simp: sample_like_def frame_eq)

lemma sample_step:
  assumes s: "sample_like s"
  shows "\<exists>t. pam_account_authenticate_step sample_resolver
      (InProgress a sv i (Some sample_user) True h n f) (PQ_Pin ''123456'') s
      = Return ((Inr PR_Success, Session_Success ''alice@example.com''), t) \<and> sample_like t"
proof -
  note calls = sample_client_calls
  from get_cachestate_ready [of s sample_resolver "Some a" Online] s obtain u where
    u: "get_cachestate sample_resolver (Some a) s = Return (Online, u)" "rs_ready u" "frame u = frame s"
    by (auto simp: calls sample_like_def)
  from hsm_db_call_ready [OF u(2)] obtain v where
    v: "hsm_db_call (at_all (pret (Inr (Auth_Success sample_user, NoCacheAction) :: IdpError + AuthResult \<times> AuthCacheAction, h))) u =
      Return (((Inr (Auth_Success sample_user, NoCacheAction), h), Inr ()), v)" "rs_ready v" "frame v = frame u"
    by (metis (no_types))
  from u v s have "sample_like v" by (auto intro: sample_like_frame)
  from check_nxset_sample [OF this, of "Some (ut_name sample_user)" "Some (ut_gidnumber sample_user)"] obtain w where
    w: "check_nxset (Some (ut_name sample_user)) (Some (ut_gidnumber sample_user)) v = Return (False, w)" "sample_like w"
    by (auto simp: sample_user_def)
  from sample_store' [OF w(2)] obtain t where
    "set_cache_usertoken sample_resolver sample_user w = Return (Inr sample_user, t)" "sample_like t" by blast
  moreover have "ut_spn sample_user = ''alice@example.com''" by (simp add: sample_user_def)
  ultimately show ?thesis using u(1) v(1) w(1)
    by (simp add: pam_account_authenticate_step_def pbind_def auth_step_verdict_def auth_step_online_def calls
        auth_cache_action_def auth_step_conclude_def set_handler_def pret_def)
qed

theorem auth_step_success_sound_witness:
  "\<exists>tok st u. get_cachestate sample_resolver (Some ''alice'') sample_idle = Return (st, u) \<and>
     success_evidence sample_resolver u st (InProgress ''alice'' ''sshd'' (IdName ''alice'') (Some sample_user) True CH_None False False)
       sample_user (PQ_Pin ''123456'') tok"
  using sample_step [OF sample_like_idle, of "''alice''" "''sshd''" "IdName ''alice''" CH_None False False]
  by (auto dest!: auth_step_success_sound)

theorem reauth_requires_online_witness:
  "\<exists>u. get_cachestate sample_resolver (Some ''alice'') sample_idle = Return (Online, u)"
proof -
  from get_cachestate_ready [OF sample_rs_ready, of sample_resolver "Some ''alice''" Online] obtain u where
    u: "get_cachestate sample_resolver (Some ''alice'') sample_idle = Return (Online, u)"
    by (auto simp: sample_client_calls)
  from sample_step [OF sample_like_idle, of "''alice''" "''sshd''" "IdName ''alice''" CH_None False True] obtain t where
    "pam_account_authenticate_step sample_resolver
      (InProgress ''alice'' ''sshd'' (IdName ''alice'') (Some sample_user) True CH_None False True) (PQ_Pin ''123456'') sample_idle
      = Return ((Inr PR_Success, Session_Success ''alice@example.com''), t)" by blast
  from reauth_requires_online [OF refl u this] u show ?thesis by blast
qed

lemma sample_cached_none:
  assumes s: "sample_like s" and "disk (rs_db s) = sample_tables" and "rs_nxcache s = []"
  shows "\<exists>t. get_cached_usertoken sample_resolver (IdName a) s = Return (Inr (True, None), t) \<and> sample_like t"
proof -
  from s have r: "rs_ready s" by (simp add: sample_like_def)
  from r_begin_ready [OF r] obtain u where u: "r_begin s = Return ((), u)" "in_ready_txn u" "frame u = frame s" by blast
  from r_begin_Return [OF u(1)] assms(2) have d: "cur (rs_db u) = sample_tables" "disk (rs_db u) = sample_tables"
    by (auto simp: cur_def)
  from u(2) d have q: "get_account (r_deps sample_resolver) (IdName a) (rs_db u) =
      Return (Inr None, (rs_db u)\<lparr>stmt_no := stmt_no (rs_db u) + 2\<rparr>)"
    by (simp add: in_ready_txn_def get_account_def get_account_data_name_def pbindE_def pbind_def pret_def
        sql_select_ready sql_prepare_ready one_token_def)
  let ?v = "u\<lparr>rs_db := (rs_db u)\<lparr>stmt_no := stmt_no (rs_db u) + 2\<rparr>, rs_held := [LDb],
     rs_trace := Release LNxcache # Acquire LNxcache # rs_trace u\<rparr>"
  have v: "in_ready_txn ?v" using u(2) by (auto simp: in_ready_txn_def conn_wf_def)
  moreover have "db_tables \<subseteq> set (schema (disk (rs_db ?v)))" using d r assms(2) by (simp add: rs_ready_def)
  ultimately obtain t where t: "r_drop ?v = Return ((), t)" "rs_ready t" "frame t = frame ?v" using r_drop_ready by blast
  have "sample_like t" using t u s by (auto simp: sample_like_def frame_eq)
  moreover have "rs_nxcache u = []" "rs_held u = [LDb]" using u assms(3) by (simp_all add: frame_eq in_ready_txn_def)
  ultimately show ?thesis using q u(1) t
    by (auto simp: get_cached_usertoken_def db_read_def prog_Return at_db_def cached_or_nx_def check_nxcache_def
        r_lock_def r_unlock_def sample_resolver_def sample_lru_def)
qed

lemma sample_refresh:
  assumes "sample_like s"
  shows "\<exists>t. refresh_usertoken sample_resolver i tk s = Return (Inr (Some sample_user), t) \<and> sample_like t"
proof -
  from assms hsm_db_call_ready [of s "Inr (UserUpdate sample_user)"] obtain u where
    u: "hsm_db_call (at_all (pret (Inr (UserUpdate sample_user) :: IdpError + UserTokenState))) s =
      Return ((Inr (UserUpdate sample_user), Inr ()), u)"
    "rs_ready u" "frame u = frame s" by (auto simp: sample_like_def)
  with assms have "sample_like u" by (auto intro: sample_like_frame)
  from sample_store' [OF this] u(1) show ?thesis
    by (auto simp: refresh_usertoken_def sample_client_calls pbind_def pbindE_def pret_def)
qed

lemma sample_init_online:
  assumes s: "sample_like s"
  shows "\<exists>t. auth_init_online sample_resolver a sv n f tk s = Return (Inr (AR_Pin, CH_None), t) \<and> sample_like t"
proof -
  from s have rdy: "rs_ready s" by (simp add: sample_like_def)
  from begin_hsm_ready [OF rdy] obtain u v where v: "r_lock LHsm s = Return ((), u)" "r_begin u = Return ((), v)"
    "rs_held v = [LDb, LHsm]" "in_ready_txn (v\<lparr>rs_held := [LDb]\<rparr>)" "disk (rs_db v) = disk (rs_db s)" "frame v = frame s"
    by metis
  let ?w = "v\<lparr>rs_db := (rs_db v)\<lparr>guard := False, txn := None, stmt_no := Suc (stmt_no (rs_db v))\<rparr>, rs_held := [LHsm],
    rs_trace := Release LDb # rs_trace v\<rparr>"
  let ?t = "?w\<lparr>rs_held := [], rs_trace := Release LHsm # Release LDb # rs_trace v\<rparr>"
  from v(4) have db: "txn (rs_db v) \<noteq> None" "\<And>n. \<not> sql_fault (rs_db v) n" "conn_wf (rs_db v)" "\<not> foreign_keys (rs_db v)"
    by (auto simp: in_ready_txn_def sql_ready_def)
  have drop: "r_drop v = Return ((), ?w)"
    using v(3) db by (simp add: r_drop_def r_unlock_def pbind_def pmodify_def at_db_def pzoom_def drop_txn_def)
  have unlock: "r_unlock LHsm ?w = Return ((), ?t)" by (simp add: r_unlock_def pmodify_def)
  have "auth_init_online sample_resolver a sv n f tk s = Return (Inr (AR_Pin, CH_None), ?t)"
    using v(1,2) drop unlock by (simp add: auth_init_online_def sample_client_calls pbind_def at_pret pret_def)
  moreover have "sample_like ?t"
    using v(5,6) db s by (simp add: sample_like_def rs_ready_def frame_eq conn_wf_def)
  ultimately show ?thesis by metis
qed

lemma sample_init:
  assumes s: "sample_like s" and "disk (rs_db s) = sample_tables" and "rs_nxcache s = []" and a: "a \<noteq> ''alice@example.com''"
  shows "\<exists>t. pam_account_authenticate_init sample_resolver a sv n f s =
    Return (Inr (InProgress a sv (IdName a) (Some sample_user) True CH_None n f, PR_Pin), t) \<and> sample_like t"
proof -
  from check_nxset_sample [OF s, of "Some a" None] assms obtain u where
    u: "check_nxset (Some a) None s = Return (False, u)" "sample_like u" "disk (rs_db u) = sample_tables" "rs_nxcache u = []"
    by auto
  from sample_cached_none [OF u(2-4)] obtain v where
    v: "get_cached_usertoken sample_resolver (IdName a) u = Return (Inr (True, None), v)" "sample_like v" by blast
  from sample_refresh [OF v(2)] obtain w where
    w: "refresh_usertoken sample_resolver (IdName a) None v = Return (Inr (Some sample_user), w)" "sample_like w" by blast
  from w(2) get_cachestate_ready [of w sample_resolver "Some a" Online] obtain x where
    x: "get_cachestate sample_resolver (Some a) w = Return (Online, x)" "sample_like x"
    by (auto simp: sample_client_calls sample_like_def frame_eq)
  from sample_init_online [OF x(2)] obtain t where
    "auth_init_online sample_resolver a sv n f (Some sample_user) x = Return (Inr (AR_Pin, CH_None), t)" "sample_like t"
    by blast
  with u v w x show ?thesis
    by (simp add: pam_account_authenticate_init_def Let_def pbind_def pbindE_def pret_def)
qed

lemmas sample_init_idle = sample_init [OF sample_like_idle]

lemmas sample_idle_db = sample_idle_frame(4,3)

theorem reauth_starts_online_witness:
  "\<exists>ss t. pam_account_authenticate_init sample_resolver ''alice'' ''sshd'' False True sample_idle = Return (Inr (ss, PR_Pin), t)
     \<and> as_online_at_init ss \<and> as_force_reauth ss"
proof -
  from sample_init_idle [OF sample_idle_db, of "''alice''" "''sshd''" False True] obtain t where
    t: "pam_account_authenticate_init sample_resolver ''alice'' ''sshd'' False True sample_idle =
      Return (Inr (InProgress ''alice'' ''sshd'' (IdName ''alice'') (Some sample_user) True CH_None False True, PR_Pin), t)" by auto
  from reauth_starts_online [OF this, of "''alice''" "''sshd''" "IdName ''alice''" "Some sample_user" True CH_None False True]
    t show ?thesis by auto
qed

lemma sample_unseal: "\<exists>t. pam_try_unseal sample_resolver ''alice'' ''123456'' sample_idle = Return (Inr True, t)"
proof -
  from sample_init_idle [OF sample_idle_db, of "''alice''" "''try_unseal''" False False] obtain u where
    "pam_account_authenticate_init sample_resolver ''alice'' ''try_unseal'' False False sample_idle =
      Return (Inr (InProgress ''alice'' ''try_unseal'' (IdName ''alice'') (Some sample_user) True CH_None False False, PR_Pin), u)"
    "sample_like u" by auto
  with sample_step [of u "''alice''" "''try_unseal''" "IdName ''alice''" CH_None False False] show ?thesis
    by (auto simp: pam_try_unseal_def pbind_def pbindE_def pret_def)
qed

theorem try_unseal_sound_witness:
  "\<exists>ss u ss' t. pam_account_authenticate_step sample_resolver ss (PQ_Pin ''123456'') u = Return ((Inr PR_Success, ss'), t)"
  using sample_unseal by (auto dest!: try_unseal_sound)

lemma sample_get_usertoken:
  assumes s: "sample_like s" and "disk (rs_db s) = sample_tables" and "rs_nxcache s = []" and a: "a \<noteq> ''alice@example.com''"
  shows "\<exists>t. get_usertoken sample_resolver (IdName a) s = Return (Inr (Some sample_user), t)"
proof -
  from check_nxset_sample [OF s, of "Some a" None] assms obtain u where
    u: "check_nxset (Some a) None s = Return (False, u)" "sample_like u" "disk (rs_db u) = sample_tables" "rs_nxcache u = []"
    by auto
  from sample_cached_none [OF u(2-4)] obtain v where
    v: "get_cached_usertoken sample_resolver (IdName a) u = Return (Inr (True, None), v)" "sample_like v" by blast
  from v(2) get_cachestate_ready [of v sample_resolver "Some a" Online] obtain w where
    w: "get_cachestate sample_resolver (Some a) v = Return (Online, w)" "sample_like w"
    by (auto simp: sample_client_calls sample_like_def frame_eq)
  from sample_refresh [OF w(2), of "IdName a" None] u v w show ?thesis
    by (auto simp: get_usertoken_def id_name_def id_gid_def pbind_def pbindE_def pret_def)
qed

theorem account_allowed_by_object_id_witness:
  "\<exists>t. pam_account_allowed sample_resolver ''alice'' sample_idle = Return (Inr (Some True), t)"
proof -
  from sample_get_usertoken [OF sample_like_idle sample_idle_db, of "''alice''"] obtain t where
    g: "get_usertoken sample_resolver (IdName ''alice'') sample_idle = Return (Inr (Some sample_user), t)" by auto
  have ne: "r_pam_allow_groups sample_resolver \<noteq> {}" by (simp add: sample_resolver_def)
  with g obtain r where r: "pam_account_allowed sample_resolver ''alice'' sample_idle = Return (r, t)"
    by (auto simp: pam_account_allowed_def pbindE_def pbind_def pret_def)
  have "\<exists>g \<in> set (ut_groups sample_user). uuid_str (r_deps sample_resolver) (gt_uuid g) \<in> r_pam_allow_groups sample_resolver"
    by (simp add: sample_user_def sample_resolver_def sample_deps_def sample_group_def) code_simp
  with account_allowed_by_object_id [OF ne r] g r show ?thesis by (auto simp: sample_user_def)
qed

end
