(* ===== verification/Config_Props.thy ===== *)
theory Config_Props
  imports Config
begin

text \<open>
  Properties of the configuration: names are mapped back and forth, and what the file that the daemon
  writes for itself holds.
\<close>

section \<open>Names\<close>

lemma split_username_join [simp]:
  "CHR ''@'' \<notin> set a \<Longrightarrow> CHR ''@'' \<notin> set b \<Longrightarrow> split_username (a @ CHR ''@'' # b) = Some (a, b)"
  by (simp add: split_username_def split_char_append split_char_id)

lemma split_char_intersperse: "concat (map (\<lambda>w. d # w) (split_char d s)) = d # s"
proof (induction s)
  case (Cons c cs)
  then show ?case by (cases "split_char d cs") (auto split: if_splits)
qed simp

lemma split_char_no_delim: "w \<in> set (split_char d s) \<Longrightarrow> d \<notin> set w"
proof (induction s arbitrary: w)
  case (Cons c cs)
  then show ?case by (cases "split_char d cs") (auto split: if_splits)
qed simp

lemma split_username_Some:
  assumes "split_username upn = Some (a, b)"
  shows "upn = a @ CHR ''@'' # b \<and> CHR ''@'' \<notin> set a \<and> CHR ''@'' \<notin> set b"
proof -
  from assms have parts: "split_char CHR ''@'' upn = [a, b]"
    by (auto simp: split_username_def split: list.splits)
  then show ?thesis
    using split_char_intersperse [of "CHR ''@''" upn] split_char_no_delim [of _ "CHR ''@''" upn] by auto
qed

text \<open>The file of mapped names can be written: by root, without faults.\<close>

definition mapping_writable :: "name_env \<Rightarrow> bool" where
  "mapping_writable ne \<longleftrightarrow> ce_root (mapped_file ne) \<and> ce_mkdir_ok (mapped_file ne) \<and> ce_open_ok (mapped_file ne)
     \<and> ce_create_ok (mapped_file ne) \<and> \<not> ce_stmt_fault (mapped_file ne)"

lemma remembered:
  assumes "mapping_writable ne" and "CHR ''@'' \<in> set upn" and "account_id \<noteq> upn"
  obtains c where "mapped_cache_new (mapped_file (remember_mapping upn account_id ne)) ReadOnly = Inr c"
    "get_mapped_name c upn = account_id"
proof -
  obtain c0 where open0: "mapped_cache_new (mapped_file ne) ReadWrite = Inr c0" and ready: "cache_ready c0"
    using assms(1)
    by (cases "ce_file (mapped_file ne)") (auto simp: mapped_cache_new_def open_by_mode_def mapping_writable_def cache_ready_def)
  define c1 where "c1 = insert_mapping upn account_id c0"
  have ready1: "cache_ready c1" using mapped.ready_put [OF ready] by (simp add: c1_def)
  have "mapped_lookup c1 upn = Some account_id"
    using mapped.get_put [OF ready, of upn account_id upn] assms(2,3) by (simp add: c1_def)
  then have name: "get_mapped_name c1 upn = account_id" by (auto simp: mapped_lookup_def Let_def split: if_splits)
  obtain rows where rows: "fc_conn c1 = Some rows" using cache_ready_conn [OF ready1] by auto
  let ?c = "\<lparr>fc_conn = Some rows, fc_writable = False, fc_fault = False\<rparr>"
  have "mapped_cache_new (mapped_file (remember_mapping upn account_id ne)) ReadOnly = Inr ?c"
    using open0 rows assms(1)
    by (simp add: remember_mapping_def c1_def stored_back_def mapped_cache_new_def open_by_mode_def mapping_writable_def)
  moreover have "get_mapped_name ?c upn = account_id"
    using name rows ready1 assms(2) by (simp add: get_mapped_name_def first_row_def cache_ready_def)
  ultimately show thesis by (rule that)
qed


section \<open>The file of the daemon\<close>

text \<open>What is relied on of the INI library: section names and keys are read in lower case, removing a key or a section removes
  its values and nothing else, and the listing has every key with a value.\<close>

definition ini_laws :: "('i, 'z) cfg_lib_scheme \<Rightarrow> bool" where
  "ini_laws lib \<longleftrightarrow>
     (\<forall>i sect key sect' key'. ini_get lib (ini_remove_key lib sect key i) sect' key' =
        (if to_lowercase sect' = to_lowercase sect \<and> to_lowercase key' = to_lowercase key then None else ini_get lib i sect' key'))
   \<and> (\<forall>i sect sect' key'. ini_get lib (ini_remove_section lib sect i) sect' key' =
        (if to_lowercase sect' = to_lowercase sect then None else ini_get lib i sect' key'))
   \<and> (\<forall>i sect key. ini_get lib i sect key \<noteq> None \<longrightarrow>
        (\<exists>keys. (to_lowercase sect, keys) \<in> set (ini_map lib i) \<and> to_lowercase key \<in> set keys))
   \<and> (\<forall>i. \<forall>(sect, keys) \<in> set (ini_map lib i). \<forall>key \<in> set keys. to_lowercase key = key)"

lemma ini_lawsD:
  assumes "ini_laws lib"
  shows "ini_get lib (ini_remove_key lib sect key i) sect' key' =
      (if to_lowercase sect' = to_lowercase sect \<and> to_lowercase key' = to_lowercase key then None else ini_get lib i sect' key')"
    and "ini_get lib (ini_remove_section lib sect i) sect' key' =
      (if to_lowercase sect' = to_lowercase sect then None else ini_get lib i sect' key')"
    and "ini_get lib i sect key \<noteq> None \<Longrightarrow>
      \<exists>keys. (to_lowercase sect, keys) \<in> set (ini_map lib i) \<and> to_lowercase key \<in> set keys"
    and "(sect, keys) \<in> set (ini_map lib i) \<Longrightarrow> key \<in> set keys \<Longrightarrow> to_lowercase key = key"
  using assms unfolding ini_laws_def by (simp, simp, metis (no_types), fast)

lemma get_after_removals:
  assumes "ini_laws lib"
  shows "ini_get lib (fold (\<lambda>(sect, key). ini_remove_key lib sect key) sks i) s k =
    (if \<exists>(sect, key) \<in> set sks. to_lowercase s = to_lowercase sect \<and> to_lowercase k = to_lowercase key then None else ini_get lib i s k)"
proof (induction sks arbitrary: i)
  case (Cons sk sks)
  obtain sect key where "sk = (sect, key)" by fastforce
  with Cons ini_lawsD(1) [OF assms] show ?case by auto
qed simp

lemma keys_to_remove_iff:
  "(s, k) \<in> set (keys_to_remove m) \<longleftrightarrow> (\<exists>ks. (s, ks) \<in> set m \<and> k \<in> set ks) \<and> k \<notin> set permitted_keys"
  by (auto simp: keys_to_remove_def)

text \<open>C38. The file that the daemon writes for itself holds, of every section but \<open>global\<close>, exactly the values of the six
  permitted keys, so that reading it can override nothing else of the administrator's configuration.\<close>

theorem server_config_exact:
  assumes "ini_laws lib"
  shows "ini_get lib (server_config lib cfg) sect key =
    (if to_lowercase sect \<noteq> ''global'' \<and> to_lowercase key \<in> set permitted_keys then ini_get lib (config cfg) sect key else None)"
proof -
  let ?srv = "ini_remove_section lib ''global'' (config cfg)"
  have global: "to_lowercase ''global'' = ''global''" by code_simp
  have srv: "ini_get lib ?srv s k = (if to_lowercase s = ''global'' then None else ini_get lib (config cfg) s k)" for s k
    using ini_lawsD(2) [OF assms] global by simp
  have removed: "(\<exists>(s, k) \<in> set (keys_to_remove (ini_map lib ?srv)). to_lowercase sect = to_lowercase s \<and> to_lowercase key = to_lowercase k)
      \<longleftrightarrow> to_lowercase key \<notin> set permitted_keys" if present: "ini_get lib ?srv sect key \<noteq> None"
  proof -
    obtain keys where keys: "(to_lowercase sect, keys) \<in> set (ini_map lib ?srv)" "to_lowercase key \<in> set keys"
      using ini_lawsD(3) [OF assms present] by blast
    have lower: "to_lowercase k = k" if "(s, ks) \<in> set (ini_map lib ?srv)" "k \<in> set ks" for s ks k
      using ini_lawsD(4) [OF assms that] .
    let ?sks = "set (keys_to_remove (ini_map lib ?srv))"
    show ?thesis
    proof
      assume "\<exists>(s, k) \<in> ?sks. to_lowercase sect = to_lowercase s \<and> to_lowercase key = to_lowercase k"
      then obtain s k where "(s, k) \<in> ?sks" "to_lowercase key = to_lowercase k" by blast
      with lower show "to_lowercase key \<notin> set permitted_keys" by (auto simp: keys_to_remove_iff)
    next
      assume "to_lowercase key \<notin> set permitted_keys"
      with keys have "(to_lowercase sect, to_lowercase key) \<in> ?sks" by (auto simp: keys_to_remove_iff)
      then show "\<exists>(s, k) \<in> ?sks. to_lowercase sect = to_lowercase s \<and> to_lowercase key = to_lowercase k"
        by (rule bexI [rotated]) simp
    qed
  qed
  have "ini_get lib (server_config lib cfg) sect key = (if \<exists>(s, k) \<in> set (keys_to_remove (ini_map lib ?srv)).
      to_lowercase sect = to_lowercase s \<and> to_lowercase key = to_lowercase k then None else ini_get lib ?srv sect key)"
    using get_after_removals [OF assms] by (simp add: server_config_def Let_def)
  also have "\<dots> = (if to_lowercase key \<notin> set permitted_keys then None else ini_get lib ?srv sect key)"
    using removed by (cases "ini_get lib ?srv sect key = None") simp_all
  finally show ?thesis using srv [of sect key] by simp
qed

section \<open>Times to live\<close>

text \<open>A time to live that is accepted is the number times the length of its unit, reduced modulo 2 to the power of 64:
  it is exact as long as the product fits, and a larger one silently wraps around.\<close>

theorem ttl_value:
  assumes "parse_ttl_to_seconds s = Some n"
  shows "\<exists>number len. number < 2 ^ 64 \<and> len \<in> {1, 60, 3600, 86400} \<and> unat n = number * len mod 2 ^ 64
    \<and> parse_uint 64 (let t = to_lowercase (trim s) in if is_ascii_alphabetic (last t) then butlast t else t) = Some number"
proof -
  let ?t = "to_lowercase (trim s)"
  let ?num = "if is_ascii_alphabetic (last ?t) then butlast ?t else ?t"
  obtain number where number: "parse_uint 64 ?num = Some number"
    using assms by (auto simp: parse_ttl_to_seconds_def Let_def split: if_splits option.splits)
  then have bound: "number < 2 ^ 64" by (auto simp: parse_uint_def Let_def split: if_splits option.splits)
  have wrap: "unat (of_nat number * of_nat len :: u64) = number * len mod 2 ^ 64" for len
    by (simp add: unat_word_ariths unat_of_nat mod_mult_eq)
  have "\<exists>len \<in> {1, 60, 3600, 86400}. n = of_nat number * of_nat len"
    using assms number by (auto simp: parse_ttl_to_seconds_def Let_def split: if_splits)
  then obtain len where "len \<in> {1, 60, 3600, 86400}" "n = of_nat number * of_nat len" by blast
  with number bound wrap show ?thesis by (auto simp: Let_def)
qed

section \<open>Witnesses\<close>

text \<open>An INI library on association lists.\<close>

definition list_ini :: "((string \<times> string) \<times> string) list cfg_lib" where
  "list_ini = \<lparr>ini_new = [], ini_load = (\<lambda>_ _ i. Inr i), ini_load_and_append = (\<lambda>_ _ i. Inr i),
     ini_get = (\<lambda>i s k. map_of i (to_lowercase s, to_lowercase k)),
     ini_set = (\<lambda>s k v i. case v of Some x \<Rightarrow> ((to_lowercase s, to_lowercase k), x) # i | None \<Rightarrow> i),
     ini_sections = (\<lambda>i. remdups (map (fst \<circ> fst) i)),
     ini_remove_section = (\<lambda>s. filter (\<lambda>e. fst (fst e) \<noteq> to_lowercase s)),
     ini_remove_key = (\<lambda>s k. filter (\<lambda>e. fst e \<noteq> (to_lowercase s, to_lowercase k))),
     ini_map = map (\<lambda>e. (to_lowercase (fst (fst e)), [to_lowercase (snd (fst e))])), ini_text = (\<lambda>_. []),
     gen_connection_timeout = (\<lambda>_. 30), gen_name_mapping_script = (\<lambda>_. None), gen_cn_name_mapping = (\<lambda>_. True),
     gen_apply_policy = (\<lambda>_. False), gen_logon_script = (\<lambda>_. None), gen_logon_token_scopes = (\<lambda>_. []), gen_ip_version = (\<lambda>_. Both),
     gen_user_map_file = (\<lambda>_. ''/etc/himmelblau/user-map''), gen_hello_pin_min_length = (\<lambda>_. 6), gen_local_groups = (\<lambda>_. []),
     gen_local_sudo_group = (\<lambda>_. ''sudo''), url_parses = (\<lambda>_. True)\<rparr>"

lemma map_of_remove_key:
  "map_of (filter (\<lambda>e. fst e \<noteq> q) xs) k = (if k = q then None else map_of xs k)"
  by (induction xs) auto

lemma map_of_remove_fst:
  "map_of (filter (\<lambda>e. fst (fst e) \<noteq> s) ys) p = (if fst p = s then None else map_of ys p)"
  by (induction ys) auto

lemma list_ini_laws: "ini_laws list_ini"
proof -
  have "(to_lowercase s, [to_lowercase k]) \<in> set (ini_map list_ini i)" if "map_of i (to_lowercase s, to_lowercase k) = Some v" for i s k v
    using map_of_SomeD [OF that] by (force simp: list_ini_def)
  then have listed: "\<exists>keys. (to_lowercase s, keys) \<in> set (ini_map list_ini i) \<and> to_lowercase k \<in> set keys"
    if "ini_get list_ini i s k \<noteq> None" for i s k
    using that by (auto simp: list_ini_def intro: exI [of _ "[to_lowercase k]"])
  show ?thesis
    unfolding ini_laws_def
    by (intro conjI allI impI listed) (auto simp: list_ini_def map_of_remove_key map_of_remove_fst)
qed

definition sample_config :: "((string \<times> string) \<times> string) list HimmelblauConfig" where
  "sample_config = \<lparr>config = [((''global'', ''domains''), ''x.org, y.org''), ((''x.org'', ''tenant_id''), ''t''),
     ((''x.org'', ''home_prefix''), ''/srv/'')], filename = DEFAULT_CONFIG_PATH\<rparr>"

definition sample_names :: name_env where
  "sample_names = \<lparr>passwd_users = [''root''], run_script = (\<lambda>_ _. None), utf8_lossy = (\<lambda>_. []),
     mapped_file = \<lparr>ce_root = True, ce_file = None, ce_mkdir_ok = True, ce_open_ok = True, ce_create_ok = True, ce_stmt_fault = False\<rparr>\<rparr>"


theorem server_config_exact_witness:
  "ini_get list_ini (server_config list_ini sample_config) ''x.org'' ''tenant_id'' = Some ''t''
   \<and> ini_get list_ini (server_config list_ini sample_config) ''x.org'' ''home_prefix'' = None
   \<and> ini_get list_ini (server_config list_ini sample_config) ''global'' ''domains'' = None"
  unfolding server_config_exact [OF list_ini_laws] by code_simp

theorem ttl_value_witness:
  "parse_ttl_to_seconds '' 2H '' = Some 7200 \<and> parse_ttl_to_seconds ''213503982334602d'' = Some 61184
   \<and> (\<exists>number len. unat (61184 :: u64) = number * len mod 2 ^ 64 \<and> number < 2 ^ 64 \<and> len \<in> {1, 60, 3600, 86400 :: nat})"
proof -
  have texts: "to_lowercase (trim '' 2H '') = ''2h''" "to_lowercase (trim ''213503982334602d'') = ''213503982334602d''" by code_simp+
  have suffixes: "is_ascii_alphabetic CHR ''h''" "is_ascii_alphabetic CHR ''d''" by code_simp+
  have "parse_ttl_to_seconds '' 2H '' = Some 7200" "parse_ttl_to_seconds ''213503982334602d'' = Some 61184"
    using suffixes by (simp_all add: parse_ttl_to_seconds_def texts Let_def parse_uint_def to_digit_def)
  with ttl_value [of "''213503982334602d''" 61184] show ?thesis by blast
qed

end
