(* ===== verification/Sign_In.thy ===== *)
theory Sign_In
  imports Daemon_Props Resolver_Cache Config_Props
begin

text \<open>
  A whole sign-in, from the PAM module over the daemon's connection to the resolver: a run of the three together, as the
  composition in the root theory needs it for a concrete input.
\<close>

lemma nxset_now: "leaves rs_nxset system_now" "leaves rs_nxset (time_plus t n)"
  by (auto simp: leaves_def system_now_def time_plus_def ppanic_def pret_def split: option.splits)

lemma nxset_db_change: "leaves rs_nxset (db_change (at_db m))"
  unfolding db_change_def end_txn_def by (intro nxset_flow)

lemma nxset_step: "leaves rs_nxset (pam_account_authenticate_step self ss req)"
proof -
  have "leaves rs_nxset (auth_step_conclude self v ss')" for v ss'
    unfolding auth_step_conclude_def set_cache_usertoken_def delete_cache_usertoken_def expiry_offset_def path_exists_def
      check_nxset_def Let_def
    by (auto intro!: nxset_flow nxset_now nxset_db_change split: sum.split AuthResult.split IdpError.split option.split)
  then show ?thesis
    unfolding pam_account_authenticate_step_def
    by (intro nxset_flow nxset_get_cachestate nxset_auth_step_verdict)
qed

section \<open>A sample connection\<close>

definition sample_daemon :: "(((string \<times> string) \<times> string) list, unit) daemon_env" where
  "sample_daemon = \<lparr>dm_lib = list_ini, dm_cfg = sample_config, dm_files = Map.empty, dm_names = sample_names,
     dm_access_token = Some, dm_bearer_token = (\<lambda>a r. a), dm_parse_uuid = (\<lambda>_. None), dm_task = (\<lambda>_ _ w. (NotSent, w))\<rparr>"

text \<open>While the user types, the SPN becomes a local name.\<close>

definition sample_others :: "(unit, unit, (Id \<times> systime) list) rstate \<times> unit \<times> script \<Rightarrow> (unit, unit, (Id \<times> systime) list) rstate \<times> unit" where
  "sample_others = (\<lambda>(r, w, _). (r\<lparr>rs_nxset := {IdName ''alice@example.com''}\<rparr>, w))"

definition sample_connection :: "(unit, unit, (Id \<times> systime) list, unit) dstate" where
  "sample_connection = \<lparr>ds_resolver = sample_idle, ds_world = (), ds_session = None\<rparr>"

lemma provider_request_local:
  assumes "IdName a \<in> rs_nxset s" "rs_held s = []"
  shows "\<exists>t. provider_request self (IdName a) call k s = Return (None, t) \<and> rs_nxset t = rs_nxset s \<and> rs_held t = []"
  using assms
  by (simp add: provider_request_def check_nxset_def id_name_def id_gid_def pbind_def r_lock_def r_unlock_def pgets_def pmodify_def pret_def)

lemma after_sign_in_local:
  assumes "IdName a \<in> rs_nxset (ds_resolver d)" "rs_held (ds_resolver d) = []"
  shows "\<exists>d'. after_sign_in sample_daemon self a d = Return (PR_Success, d')"
proof -
  have script: "logon_script sample_daemon self a = pret PR_Success" "gen_apply_policy list_ini i = False" for i
    by (simp_all add: logon_script_def sample_daemon_def list_ini_def)
  obtain t where t: "get_user_tgts self (IdName a) (ds_resolver d) = Return (None, t)" "rs_nxset t = rs_nxset (ds_resolver d)" "rs_held t = []"
    unfolding get_user_tgts_def using provider_request_local [OF assms] by blast
  obtain v where v: "get_user_accesstoken self (IdName a) [] None None None t = Return (None, v)"
    unfolding get_user_accesstoken_def using provider_request_local [of a t] t assms by metis
  show ?thesis
    using t(1) v script
    by (simp add: after_sign_in_def kerberos_tasks_def profile_photo_def cachelayer_def pzoom_def pbind_def user_name_def pret_def sample_daemon_def)
qed

lemma sample_conversation:
  "\<exists>st. authenticate (joined sample_daemon sample_resolver 1000 sample_others scripted) plain_cfg True None ''Alice'' ''sshd'' no_options
     (sample_connection, [], [], [''123456'']) = Some (PAM_SUCCESS, st)"
proof -
  let ?env = "joined sample_daemon sample_resolver 1000 sample_others scripted"
  let ?past = "[(PamAuthenticateInit ''Alice'' ''sshd'' False False, sample_connection, CR_PamAuthenticateStepResponse PR_Pin)]"
  let ?ss = "InProgress ''alice'' ''sshd'' (IdName ''alice'') (Some sample_user) True CH_None False False"
  have low: "to_lowercase ''Alice'' = ''alice''" "to_lowercase ''alice@example.com'' = ''alice@example.com''" by code_simp+
  obtain r1 where r1: "pam_account_authenticate_init sample_resolver ''alice'' ''sshd'' False False sample_idle = Return (Inr (?ss, PR_Pin), r1)"
    "sample_like r1"
    using sample_init_idle [OF sample_idle_db, of "''alice''" "''sshd''" False False] by auto
  let ?r2 = "r1\<lparr>rs_nxset := {IdName ''alice@example.com''}\<rparr>"
  have "sample_like ?r2" using r1(2) by (simp add: sample_like_def rs_ready_def)
  then obtain r3 where r3: "pam_account_authenticate_step sample_resolver ?ss (PQ_Pin ''123456'') ?r2 =
      Return ((Inr PR_Success, Session_Success ''alice@example.com''), r3)" "sample_like r3"
    using sample_step by blast
  have nx: "IdName ''alice@example.com'' \<in> rs_nxset r3" "rs_held r3 = []"
    using leavesD [OF nxset_step r3(1)] r3(2) by (simp_all add: sample_like_def rs_ready_def)
  define d1 where "d1 = sample_connection\<lparr>ds_resolver := r1, ds_session := Some ?ss\<rparr>"
  define d2 where "d2 = d1\<lparr>ds_resolver := ?r2, ds_world := ()\<rparr>"
  have q1: "handle_request sample_daemon sample_resolver 1000 (PamAuthenticateInit ''Alice'' ''sshd'' False False) sample_connection
      = Return (CR_PamAuthenticateStepResponse PR_Pin, d1)"
    using r1(1)
    by (simp add: low authenticate_init_def cachelayer_def pzoom_def pbind_def set_session_def pmodify_def pret_def d1_def sample_connection_def)
  obtain d3 where q2: "handle_request sample_daemon sample_resolver 1000 (PamAuthenticateStep (PQ_Pin ''123456'')) d2
      = Return (CR_PamAuthenticateStepResponse PR_Success, d3)"
    using r3(1) after_sign_in_local [of "''alice@example.com''" "d2\<lparr>ds_resolver := r3, ds_session := Some (Session_Success ''alice@example.com'')\<rparr>" sample_resolver] nx
    by (auto simp: low authenticate_step_def get_session_def set_session_def cachelayer_def pzoom_def pbind_def pgets_def pmodify_def pret_def d2_def d1_def)
  have c1: "call_and_wait ?env (PamAuthenticateInit ''Alice'' ''sshd'' False False) (sample_connection, [], [], [''123456''])
      = (Some (CR_PamAuthenticateStepResponse PR_Pin), d1, ?past, [], [''123456''])"
    and c2: "call_and_wait ?env (PamAuthenticateStep (PQ_Pin ''123456'')) (d2, ?past, [], [])
      = (Some (CR_PamAuthenticateStepResponse PR_Success), d3, ?past @ [(PamAuthenticateStep (PQ_Pin ''123456''), d2, CR_PamAuthenticateStepResponse PR_Success)], [], [])"
    and p: "prompt_echo_off ?env m (d1, ?past, [], [''123456'']) = (Some ''123456'', d2, ?past, [], [])" for m
    using q1 q2 by (simp_all add: joined_def meanwhile_def scripted_def sample_others_def d1_def d2_def del: handle_request.simps)
  show ?thesis
    by (simp add: authenticate_def Let_def initial_state_def init_request_def no_options_def auth_loop.simps authenticate_request_response_def
        in_world_def c1 c2 p handle_response_def handle_pam_auth_response_pin_def handle_pam_auth_response_success_def print_text_def step_request_def)
qed

section \<open>A session that starts\<close>

definition failing_daemon :: "(((string \<times> string) \<times> string) list, unit) daemon_env" where
  "failing_daemon = sample_daemon\<lparr>dm_task := (\<lambda>_ _ w. (Outcome (task_outcome (Task_Error ''no space left on device'')), w))\<rparr>"

theorem begin_session_ignores_task_errors_witness:
  "\<exists>d'. handle_request failing_daemon sample_resolver 0 (PamAccountBeginSession ''Alice'') sample_connection = Return (CR_Ok, d')"
proof -
  have low: "to_lowercase ''Alice'' = ''alice''" by code_simp
  obtain r where "get_usertoken sample_resolver (IdName ''alice'') sample_idle = Return (Inr (Some sample_user), r)"
    using sample_get_usertoken [OF sample_like_idle, of "''alice''"] by (auto simp: sample_idle_def)
  then obtain info where info: "pam_account_beginsession sample_resolver ''alice'' sample_idle = Return (Inr (Some info), r)"
    by (auto simp: pam_account_beginsession_def pbindE_Return)
  have "get_sudo_groups (dm_lib failing_daemon) (dm_cfg failing_daemon) = []" by code_simp
  with info obtain resp d' where run: "handle_request failing_daemon sample_resolver 0 (PamAccountBeginSession ''Alice'') sample_connection = Return (resp, d')"
    by (auto simp: low begin_session_def cachelayer_def pzoom_def pbind_def pret_def run_task_def failing_daemon_def Let_def sample_connection_def)
  have "resp = CR_Ok"
    using info by (intro begin_session_ignores_task_errors [OF run]) (auto simp: low sample_connection_def failing_daemon_def)
  with run show ?thesis by blast
qed

end
