(* ===== verification/User_Map.thy ===== *)
theory User_Map
  imports Himmelblau_Prelude
begin

text \<open>
  The map from local user names to Entra Id names, \<open>src/common/src/user_map.rs\<close>: the file format, and the
  two hash maps that are built from it. The contents of the file are \<open>None\<close> when it cannot be read.
\<close>

section \<open>The map\<close>

record UserMap =
  forward :: "string \<rightharpoonup> string"
  reverse :: "string \<rightharpoonup> string"

text \<open>\<open>str::lines\<close>: a line ends with a line feed, before which one carriage return is dropped, or with the text.\<close>

definition strip_cr :: "string \<Rightarrow> string" where
  "strip_cr s = (if s \<noteq> [] \<and> last s = CHR 0x0D then butlast s else s)"

fun lines_from :: "string \<Rightarrow> string \<Rightarrow> string list" where
  "lines_from acc [] = (if acc = [] then [] else [rev acc])"
| "lines_from acc (c # cs) = (if c = CHR 0x0A then strip_cr (rev acc) # lines_from [] cs else lines_from (c # acc) cs)"

definition lines :: "string \<Rightarrow> string list" where
  "lines s = lines_from [] s"

text \<open>\<open>splitn(2, ':')\<close>: the text before the first colon, and the text behind it if there is one.\<close>

definition splitn2 :: "string \<Rightarrow> string \<times> string option" where
  "splitn2 line = (takeWhile (\<lambda>c. c \<noteq> CHR '':'') line,
     case dropWhile (\<lambda>c. c \<noteq> CHR '':'') line of [] \<Rightarrow> None | _ # rest \<Rightarrow> Some rest)"

definition add_line :: "string \<Rightarrow> UserMap \<Rightarrow> UserMap" where
  "add_line line um =
     (if starts_with ''#'' (trim_start line) \<or> trim line = [] then um
      else
        let (fst_part, snd_part) = splitn2 line;
            local = trim fst_part;
            upn = to_lowercase (case snd_part of Some u \<Rightarrow> trim u | None \<Rightarrow> [])
        in
          if local = [] \<or> upn = [] then um
          else if forward um local \<noteq> None then um
          else if reverse um upn \<noteq> None then um
          else um\<lparr>forward := (forward um)(local \<mapsto> upn), reverse := (reverse um)(upn \<mapsto> local)\<rparr>)"

definition user_map_new :: "string option \<Rightarrow> UserMap" where
  "user_map_new contents =
     (let um = \<lparr>forward = Map.empty, reverse = Map.empty\<rparr> in
      case contents of Some text \<Rightarrow> fold add_line (lines text) um | None \<Rightarrow> um)"

definition get_upn_from_local :: "UserMap \<Rightarrow> string \<Rightarrow> string option" where
  "get_upn_from_local um username = forward um username"

definition get_local_from_upn :: "UserMap \<Rightarrow> string \<Rightarrow> string option" where
  "get_local_from_upn um upn = reverse um upn"

text \<open>The order of the names is that of a hash map, which is not specified.\<close>

definition get_id_overrides :: "UserMap \<Rightarrow> string set" where
  "get_id_overrides um = dom (forward um)"

section \<open>The entries\<close>

text \<open>The entry of a line, if it has one.\<close>

definition entry :: "string \<Rightarrow> (string \<times> string) option" where
  "entry line =
     (let local = trim (fst (splitn2 line)); upn = to_lowercase (case snd (splitn2 line) of Some u \<Rightarrow> trim u | None \<Rightarrow> [])
      in if starts_with ''#'' (trim_start line) \<or> trim line = [] \<or> local = [] \<or> upn = [] then None else Some (local, upn))"

lemma add_line_entry:
  "add_line line um = (case entry line of
     None \<Rightarrow> um
   | Some (l, u) \<Rightarrow> if forward um l = None \<and> reverse um u = None
       then um\<lparr>forward := (forward um)(l \<mapsto> u), reverse := (reverse um)(u \<mapsto> l)\<rparr> else um)"
  by (auto simp: add_line_def entry_def Let_def case_prod_beta)

definition clean :: "string \<Rightarrow> bool" where
  "clean s \<longleftrightarrow> s \<noteq> [] \<and> trim s = s"

lemma trim_clean:
  assumes "trim s \<noteq> []"
  shows "clean (trim s)"
proof -
  have "trim_start (trim s) = trim s"
  proof (cases "trim s")
    case (Cons c cs)
    have "trim_start s = trim s @ rev (takeWhile is_space (rev (trim_start s)))"
      unfolding trim_def trim_end_def by (metis rev_append rev_rev_ident takeWhile_dropWhile_id)
    with Cons have "trim_start s = c # cs @ rev (takeWhile is_space (rev (trim_start s)))" by simp
    then have "\<not> is_space c" unfolding trim_start_def by (metis dropWhile_eq_Cons_conv)
    with Cons show ?thesis by (simp add: trim_start_def)
  qed (simp add: trim_start_def)
  moreover have "trim_end (trim s) = trim s"
    by (simp add: trim_def trim_end_def dropWhile_idem)
  ultimately show ?thesis using assms by (simp add: clean_def trim_def [of "trim s"])
qed

lemma is_space_lower [simp]: "is_space (lower_char c) \<longleftrightarrow> is_space c"
proof (cases "65 \<le> (of_char c :: nat) \<and> (of_char c :: nat) \<le> 90")
  case True
  then have "(of_char (lower_char c) :: nat) = of_char c + 32" by (simp add: lower_char_def)
  with True show ?thesis by (simp add: is_space_def)
next
  case False
  then have "lower_char c = c" unfolding lower_char_def by (rule if_not_P)
  then show ?thesis by simp
qed

lemma trim_lowercase: "trim (to_lowercase s) = to_lowercase (trim s)"
  by (simp add: trim_def trim_end_def trim_start_def to_lowercase_def dropWhile_map rev_map comp_def)

lemma entry_clean:
  assumes "entry line = Some (l, u)"
  shows "clean l \<and> clean u \<and> to_lowercase u = u"
proof -
  obtain rest where parts: "l = trim (fst (splitn2 line))" "u = to_lowercase (trim rest)" "l \<noteq> []" "u \<noteq> []"
    using assms by (auto simp: entry_def Let_def to_lowercase_def split: if_splits option.splits)
  then have "trim rest \<noteq> []" by (auto simp: to_lowercase_def)
  with parts trim_clean [of rest] trim_clean [of "fst (splitn2 line)"] show ?thesis
    by (simp add: clean_def trim_lowercase)
qed

text \<open>What holds of the two maps after the lines \<open>ls\<close>: they are the inverse of each other, their entries stand in the
  lines, and an entry that is missing has been preceded by one with the same local or the same Entra Id name.\<close>

definition user_map_wf :: "string list \<Rightarrow> UserMap \<Rightarrow> bool" where
  "user_map_wf ls um \<longleftrightarrow> (\<forall>l u. (forward um l = Some u \<longleftrightarrow> reverse um u = Some l)
     \<and> (forward um l = Some u \<longrightarrow> Some (l, u) \<in> entry ` set ls)
     \<and> (Some (l, u) \<in> entry ` set ls \<longrightarrow> forward um l \<noteq> None \<or> reverse um u \<noteq> None))"

lemma add_line_wf:
  assumes "user_map_wf ls um"
  shows "user_map_wf (ls @ [line]) (add_line line um)"
proof (cases "entry line")
  case None
  with assms show ?thesis by (simp add: user_map_wf_def add_line_entry) metis
next
  case (Some e)
  obtain l u where e: "e = (l, u)" by fastforce
  show ?thesis
  proof (cases "forward um l = None \<and> reverse um u = None")
    case True
    with Some e have upd: "forward (add_line line um) = (forward um)(l \<mapsto> u)" "reverse (add_line line um) = (reverse um)(u \<mapsto> l)"
      by (simp_all add: add_line_entry)
    have fresh: "forward um l' \<noteq> Some u" "reverse um u' \<noteq> Some l" for l' u'
      using assms True unfolding user_map_wf_def by (metis option.distinct(1))+
    show ?thesis
      unfolding user_map_wf_def upd
    proof (intro allI)
      fix l' u'
      have old: "forward um l' = Some u' \<longleftrightarrow> reverse um u' = Some l'" "forward um l' = Some u' \<longrightarrow> Some (l', u') \<in> entry ` set ls"
          "Some (l', u') \<in> entry ` set ls \<longrightarrow> forward um l' \<noteq> None \<or> reverse um u' \<noteq> None"
        using assms unfolding user_map_wf_def by blast+
      show "(((forward um)(l \<mapsto> u)) l' = Some u' \<longleftrightarrow> ((reverse um)(u \<mapsto> l)) u' = Some l')
          \<and> (((forward um)(l \<mapsto> u)) l' = Some u' \<longrightarrow> Some (l', u') \<in> entry ` set (ls @ [line]))
          \<and> (Some (l', u') \<in> entry ` set (ls @ [line]) \<longrightarrow> ((forward um)(l \<mapsto> u)) l' \<noteq> None \<or> ((reverse um)(u \<mapsto> l)) u' \<noteq> None)"
        using old fresh True Some e by (cases "l' = l"; cases "u' = u") simp_all
    qed
  next
    case False
    with Some e have "add_line line um = um" by (auto simp: add_line_entry)
    moreover have "entry ` set (ls @ [line]) = insert (Some (l, u)) (entry ` set ls)" using Some e by simp
    moreover have "Some (l', u') \<in> insert (Some (l, u)) (entry ` set ls) \<longrightarrow> forward um l' \<noteq> None \<or> reverse um u' \<noteq> None" for l' u'
    proof -
      have "Some (l', u') \<in> entry ` set ls \<longrightarrow> forward um l' \<noteq> None \<or> reverse um u' \<noteq> None"
        using assms unfolding user_map_wf_def by blast
      then show ?thesis using False by simp
    qed
    ultimately show ?thesis using assms unfolding user_map_wf_def by simp
  qed
qed

lemma fold_add_line_wf: "user_map_wf ls um \<Longrightarrow> user_map_wf (ls @ ls') (fold add_line ls' um)"
proof (induction ls' arbitrary: ls um)
  case (Cons line ls')
  then show ?case using Cons.IH [OF add_line_wf, of ls um line] by simp
qed simp

text \<open>C35. The map from local names to Entra Id names and the map back are the inverse of each other, whatever the file
  holds. Their names are not empty and have no space around them, Entra Id names are in lower case, and every pair stands
  in a line of the file. A pair of the file is missing only if one of its names is mapped by another line.\<close>

theorem user_map_bijective:
  assumes "um = user_map_new (Some text)"
  shows "(get_upn_from_local um l = Some u \<longleftrightarrow> get_local_from_upn um u = Some l)
    \<and> (get_upn_from_local um l = Some u \<longrightarrow> clean l \<and> clean u \<and> to_lowercase u = u \<and> Some (l, u) \<in> entry ` set (lines text))
    \<and> (Some (l, u) \<in> entry ` set (lines text) \<longrightarrow> l \<in> get_id_overrides um \<or> get_local_from_upn um u \<noteq> None)"
proof -
  have "user_map_wf [] \<lparr>forward = Map.empty, reverse = Map.empty\<rparr>" by (simp add: user_map_wf_def)
  then have "user_map_wf (lines text) um"
    using fold_add_line_wf [of "[]" _ "lines text"] assms by (simp add: user_map_new_def)
  moreover have "clean l \<and> clean u \<and> to_lowercase u = u" if "Some (l, u) \<in> entry ` set (lines text)"
    using that entry_clean by (elim imageE) (metis)
  ultimately show ?thesis
    by (auto simp: user_map_wf_def get_upn_from_local_def get_local_from_upn_def get_id_overrides_def)
qed

theorem user_map_bijective_witness:
  "let um = user_map_new (Some (''# users'' @ [CHR 0x0A] @ '' alice : Alice@X.org'' @ [CHR 0x0A] @ ''bob:alice@x.org''))
   in get_upn_from_local um ''alice'' = Some ''alice@x.org'' \<and> get_local_from_upn um ''alice@x.org'' = Some ''alice''
      \<and> get_upn_from_local um ''bob'' = None"
proof -
  let ?text = "''# users'' @ [CHR 0x0A] @ '' alice : Alice@X.org'' @ [CHR 0x0A] @ ''bob:alice@x.org''"
  have "get_upn_from_local (user_map_new (Some ?text)) ''alice'' = Some ''alice@x.org''"
    "get_upn_from_local (user_map_new (Some ?text)) ''bob'' = None" by code_simp+
  with user_map_bijective [of _ ?text "''alice''" "''alice@x.org''"] show ?thesis by (simp add: Let_def)
qed

end
