(* ===== verification/Client_Sync.thy ===== *)
theory Client_Sync
  imports Idp_Interface
begin

text \<open>
  The blocking client of the daemon's socket, \<open>src/common/src/client_sync.rs\<close>, which the NSS and the PAM
  module use. Answers have no frame: the client reads 1024 bytes at a time and takes the first short read for
  the end. The socket is a list of polls: what each \<open>read\<close> gives, and the time since the start of
  the wait that the client measures before it, and after it when the read timed out. The JSON codec is a parameter.
\<close>

section \<open>The client\<close>

definition should_skip_daemon_call :: "string option \<Rightarrow> bool" where
  "should_skip_daemon_call systemd_activation_unit = (case systemd_activation_unit of
       Some v \<Rightarrow> v = ''himmelblaud.service'' \<or> v = ''himmelblaud-tasks.service''
     | None \<Rightarrow> False)"

datatype ReadResult = RdOk bytes | RdWouldBlock | RdTimedOut | RdFailed

text \<open>Times are nanoseconds; they are negative when the clock went back behind the start.\<close>

record poll =
  before :: int
  read_result :: ReadResult
  after :: int

datatype CallError = JsonEncode | SetReadTimeout | SetWriteTimeout | StreamWrite | ClockWentBack | SocketTimeout
  | StreamRead | JsonDecode

fun read_loop :: "int \<Rightarrow> poll list \<Rightarrow> bool \<Rightarrow> bytes \<Rightarrow> nat \<Rightarrow> (CallError + bytes \<times> nat) option" where
  "read_loop timeout [] read_started data counter = None"
| "read_loop timeout (p # ps) read_started data counter =
     (if before p < 0 then Some (Inl ClockWentBack)
      else if timeout < before p then Some (Inr (data, counter))
      else (case read_result p of
          RdOk chunk \<Rightarrow>
            if chunk = [] then
              if read_started then Some (Inr (data, counter)) else read_loop timeout ps read_started data counter
            else
              let data' = data @ chunk @ replicate (1024 - length chunk) 0; counter' = counter + length chunk in
              if length chunk = 1024 then read_loop timeout ps True data' counter' else Some (Inr (data', counter'))
        | RdFailed \<Rightarrow> Some (Inl StreamRead)
        | _ \<Rightarrow>
            if after p < 0 then Some (Inl ClockWentBack)
            else if timeout < after p then Some (Inl SocketTimeout)
            else read_loop timeout ps read_started data counter))"

record sync_env =
  to_vec :: "ClientRequest \<Rightarrow> bytes option"
  from_slice :: "bytes \<Rightarrow> ClientResponse option"
  set_read_timeout_ok :: bool
  set_write_timeout_ok :: bool
  write_ok :: bool

text \<open>The standard library refuses a timeout of zero. \<open>None\<close>: still waiting after the last poll.\<close>

definition sync_call_and_wait :: "sync_env \<Rightarrow> ClientRequest \<Rightarrow> u64 \<Rightarrow> poll list \<Rightarrow> (CallError + ClientResponse) option" where
  "sync_call_and_wait env req timeout ps =
     (let nanos = int (unat timeout) * 10 ^ 9 in
      case to_vec env req of
        None \<Rightarrow> Some (Inl JsonEncode)
      | Some _ \<Rightarrow>
          if \<not> set_read_timeout_ok env then Some (Inl SetReadTimeout)
          else if \<not> set_write_timeout_ok env \<or> timeout = 0 then Some (Inl SetWriteTimeout)
          else if \<not> write_ok env then Some (Inl StreamWrite)
          else map_option (\<lambda>r. case r of
              Inl e \<Rightarrow> Inl e
            | Inr (data, counter) \<Rightarrow>
                (case from_slice env (take counter data) of None \<Rightarrow> Inl JsonDecode | Some cr \<Rightarrow> Inr cr))
            (read_loop nanos ps False [] 0))"

definition call_and_forget :: "sync_env \<Rightarrow> ClientRequest \<Rightarrow> CallError + unit" where
  "call_and_forget env req =
     (case to_vec env req of
        None \<Rightarrow> Inl JsonEncode
      | Some _ \<Rightarrow>
          if \<not> set_write_timeout_ok env then Inl SetWriteTimeout
          else if \<not> write_ok env then Inl StreamWrite
          else Inr ())"

section \<open>What the loop gives\<close>

text \<open>The wait ends as soon as a measured time is past the timeout.\<close>

lemma read_loop_ends: "\<exists>p \<in> set ps. before p < 0 \<or> timeout < before p \<Longrightarrow> read_loop timeout ps rs data counter \<noteq> None"
  by (induction ps arbitrary: rs data counter) (force simp: Let_def split: ReadResult.split)+

text \<open>The daemon's side closing the socket before it answered is not noticed before the timeout.\<close>

lemma read_loop_hangup:
  assumes "\<forall>p \<in> set ps. 0 \<le> before p \<and> before p \<le> timeout \<and> read_result p = RdOk []"
  shows "read_loop timeout ps False data counter = None"
  using assms by (induction ps) auto

function chunks :: "bytes \<Rightarrow> bytes list" where
  "chunks xs = (if xs = [] then [] else take 1024 xs # chunks (drop 1024 xs))"
  by pat_completeness auto
termination by (relation "measure length") auto

declare chunks.simps [simp del]

text \<open>A read within the time.\<close>

definition timely :: "int \<Rightarrow> poll \<Rightarrow> bool" where
  "timely timeout p \<longleftrightarrow> 0 \<le> before p \<and> before p \<le> timeout"

lemma read_loop_chunks:
  assumes "map read_result ps = map RdOk (chunks body)" and "list_all (timely timeout) ps"
  shows "read_loop timeout (ps @ qs) rs data counter =
    (if 1024 dvd length body then read_loop timeout qs (rs \<or> body \<noteq> []) (data @ body) (counter + length body)
     else Some (Inr (data @ body @ replicate (1024 - length body mod 1024) 0, counter + length body)))"
  using assms
proof (induction body arbitrary: ps rs data counter rule: chunks.induct)
  case (1 body)
  show ?case
  proof (cases "body = []")
    case True
    then show ?thesis using "1.prems"(1) by (simp add: chunks.simps)
  next
    case False
    then obtain p ps' where ps: "ps = p # ps'" "read_result p = RdOk (take 1024 body)"
        "map read_result ps' = map RdOk (chunks (drop 1024 body))"
      using "1.prems"(1) by (auto simp: chunks.simps [of body] map_eq_Cons_conv)
    then have time: "\<not> before p < 0" "\<not> timeout < before p" "list_all (timely timeout) ps'"
      using "1.prems"(2) by (auto simp: timely_def list_all_iff)
    show ?thesis
    proof (cases "1024 \<le> length body")
      case True
      then have div: "1024 dvd length body \<longleftrightarrow> 1024 dvd length (drop 1024 body)"
          "(length body - 1024) mod 1024 = length body mod 1024"
        by (simp_all add: le_mod_geq dvd_eq_mod_eq_0)
      show ?thesis
        using False True ps time "1.IH" [OF False ps(3) time(3), of True "data @ take 1024 body" "counter + 1024"] div
        by (simp add: Let_def)
    next
      case short: False
      then have "\<not> 1024 dvd length body" using False by (auto dest: dvd_imp_le)
      then show ?thesis using False short ps time by (simp add: Let_def)
    qed
  qed
qed

lemma read_loop_waits:
  assumes "map read_result ps = replicate (Suc k) RdWouldBlock" and "list_all (timely timeout) ps"
    and "list_all (\<lambda>p. 0 \<le> after p \<and> after p \<le> timeout) (butlast ps)" and "0 \<le> after (last ps)" "timeout < after (last ps)"
  shows "read_loop timeout ps rs data counter = Some (Inl SocketTimeout)"
  using assms
proof (induction k arbitrary: ps)
  case 0
  then show ?case by (auto simp: map_eq_Cons_conv timely_def)
next
  case (Suc k)
  then obtain p ps' where "ps = p # ps'" "read_result p = RdWouldBlock" "map read_result ps' = replicate (Suc k) RdWouldBlock"
    by (auto simp: map_eq_Cons_conv)
  with Suc.prems Suc.IH [of ps'] show ?case by (auto simp: timely_def split: if_splits)
qed

text \<open>C34. When the daemon's answer is in the socket and nothing else follows, the client decodes exactly this
  answer, however many reads it takes, unless its length is a multiple of the 1024 bytes of the buffer: then there is no
  short read that ends it, and the call fails with a timeout although the whole answer has been read.\<close>

theorem answer_read_unless_multiple_of_buffer:
  assumes "to_vec env req = Some sent" "set_read_timeout_ok env" "set_write_timeout_ok env" "write_ok env" "timeout \<noteq> 0"
    and "map read_result arrived = map RdOk (chunks body)" "map read_result quiet = replicate (Suc k) RdWouldBlock"
    and "list_all (timely (int (unat timeout) * 10 ^ 9)) (arrived @ quiet)"
    and "list_all (\<lambda>p. 0 \<le> after p \<and> after p \<le> int (unat timeout) * 10 ^ 9) (butlast quiet)"
    and "int (unat timeout) * 10 ^ 9 < after (last quiet)"
  shows "sync_call_and_wait env req timeout (arrived @ quiet) = Some
    (if 1024 dvd length body then Inl SocketTimeout
     else case from_slice env body of None \<Rightarrow> Inl JsonDecode | Some cr \<Rightarrow> Inr cr)"
proof -
  have "0 \<le> int (unat timeout) * 10 ^ 9" by simp
  then have "0 \<le> after (last quiet)" using assms(10) by linarith
  with assms read_loop_waits [of quiet k "int (unat timeout) * 10 ^ 9"] show ?thesis
    by (simp add: sync_call_and_wait_def Let_def read_loop_chunks)
qed

definition ok_env :: sync_env where
  "ok_env = \<lparr>to_vec = (\<lambda>_. Some []), from_slice = (\<lambda>_. Some CR_Ok), set_read_timeout_ok = True,
     set_write_timeout_ok = True, write_ok = True\<rparr>"

theorem answer_read_unless_multiple_of_buffer_witness:
  "let polls = \<lambda>body. map (\<lambda>c. \<lparr>before = 0, read_result = RdOk c, after = 0\<rparr>) (chunks body)
        @ [\<lparr>before = 0, read_result = RdWouldBlock, after = 10 ^ 9 + 1\<rparr>]
   in sync_call_and_wait ok_env Status 1 (polls (replicate 1025 65)) = Some (Inr CR_Ok)
      \<and> sync_call_and_wait ok_env Status 1 (polls (replicate 1024 65)) = Some (Inl SocketTimeout)"
proof -
  let ?poll = "\<lambda>c. \<lparr>before = 0, read_result = RdOk c, after = 0\<rparr>"
    and ?quiet = "[\<lparr>before = 0, read_result = RdWouldBlock, after = 10 ^ 9 + 1\<rparr>]"
  have "sync_call_and_wait ok_env Status 1 (map ?poll (chunks body) @ ?quiet) = Some
    (if 1024 dvd length body then Inl SocketTimeout else Inr CR_Ok)" for body
    using answer_read_unless_multiple_of_buffer [of ok_env Status "[]" 1 "map ?poll (chunks body)" body ?quiet 0]
    by (simp add: ok_env_def timely_def comp_def list_all_iff)
  then show ?thesis by (simp add: Let_def)
qed

end
