(* ===== verification/Nss_Module.thy ===== *)
theory Nss_Module
  imports Config User_Map Client_Sync
begin

text \<open>
  The NSS module, \<open>nss/src/implementation.rs\<close>: users and groups by name and by id, and the supplementary groups of
  a user. A lookup reads the configuration and the user map, asks the daemon, and falls back to the file of
  users seen before. The daemon is a function from requests to answers (\<open>None\<close> for a failed call); no lookup makes the
  same request twice.
\<close>

section \<open>State and results\<close>

datatype 'a Response = RSuccess 'a | RNotFound | RUnavail

record Passwd =
  pw_name :: string
  pw_gecos :: string
  pw_passwd :: string
  pw_uid :: u32
  pw_gid :: u32
  pw_dir :: string
  pw_shell :: string

record Group =
  gr_name :: string
  gr_passwd :: string
  gr_gid :: u32
  gr_members :: "string list"

definition passwd_from_nssuser :: "NssUser \<Rightarrow> Passwd" where
  "passwd_from_nssuser nu = \<lparr>pw_name = nu_name nu, pw_gecos = nu_gecos nu, pw_passwd = ''x'', pw_uid = nu_uid nu,
     pw_gid = nu_gid nu, pw_dir = nu_homedir nu, pw_shell = nu_shell nu\<rparr>"

definition group_from_nssgroup :: "NssGroup \<Rightarrow> Group" where
  "group_from_nssgroup ng = \<lparr>gr_name = ng_name ng, gr_passwd = ''x'', gr_gid = ng_gid ng, gr_members = ng_members ng\<rparr>"

text \<open>What one call depends on. \<open>etc_group\<close> has the names in \<open>/etc/group\<close>, \<open>daemon\<close> is \<open>None\<close> when the socket cannot be
  opened.\<close>

record 'i nss_env =
  nss_lib :: "'i cfg_lib"
  nss_files :: file_tree
  nss_unit :: "string option"
  nss_clock :: systime
  etc_group :: "string list"
  uuid_parses :: "string \<Rightarrow> bool"
  daemon :: "(ClientRequest \<Rightarrow> ClientResponse option) option"

text \<open>What a call may change: the file of users seen before and the file of mapped names.\<close>

record nss_state =
  ns_users :: "(NssUser \<times> int) cache_env"
  ns_names :: name_env

definition nss_config :: "'i nss_env \<Rightarrow> 'i HimmelblauConfig option" where
  "nss_config env = (case config_new (nss_lib env) (nss_files env) (Some DEFAULT_CONFIG_PATH) of Inr c \<Rightarrow> Some c | Inl _ \<Rightarrow> None)"

definition nss_user_map :: "'i nss_env \<Rightarrow> 'i HimmelblauConfig \<Rightarrow> UserMap" where
  "nss_user_map env cfg = user_map_new (nss_files env (gen_user_map_file (nss_lib env) (config cfg)))"

text \<open>Every lookup gives up when the module is called by the daemon's own start, or without a configuration.\<close>

definition with_config :: "'i nss_env \<Rightarrow> nss_state \<Rightarrow> ('i HimmelblauConfig \<Rightarrow> 'a Response \<times> nss_state) \<Rightarrow> 'a Response \<times> nss_state" where
  "with_config env st k =
     (if should_skip_daemon_call (nss_unit env) then (RUnavail, st)
      else (case nss_config env of Some cfg \<Rightarrow> k cfg | None \<Rightarrow> (RUnavail, st)))"

section \<open>Users\<close>

definition try_nss_cache :: "nss_state \<Rightarrow> (NssUser \<times> int) file_cache option" where
  "try_nss_cache st = (case nss_cache_new (ns_users st) ReadWrite of Inr c \<Rightarrow> Some c | Inl _ \<Rightarrow> None)"

definition keep_cache :: "(NssUser \<times> int) file_cache option \<Rightarrow> nss_state \<Rightarrow> nss_state" where
  "keep_cache cache st = (case cache of Some c \<Rightarrow> st\<lparr>ns_users := stored_back c (ns_users st)\<rparr> | None \<Rightarrow> st)"

definition insert_cached_user :: "'i nss_env \<Rightarrow> NssUser \<Rightarrow> (NssUser \<times> int) file_cache option \<Rightarrow> (NssUser \<times> int) file_cache option" where
  "insert_cached_user env nu cache = map_option (insert_user (nss_clock env) nu) cache"

definition local_passwd :: "'i nss_env \<Rightarrow> 'i HimmelblauConfig \<Rightarrow> nss_state \<Rightarrow> string option \<Rightarrow> NssUser \<Rightarrow> Passwd" where
  "local_passwd env cfg st local_name nu =
     (passwd_from_nssuser nu)\<lparr>pw_name := (case local_name of Some n \<Rightarrow> n | None \<Rightarrow> map_upn_to_name (nss_lib env) cfg (ns_names st) (nu_name nu))\<rparr>"

definition fetch_cached_user :: "'i nss_env \<Rightarrow> 'i HimmelblauConfig \<Rightarrow> nss_state \<Rightarrow> (NssUser \<times> int) file_cache option \<Rightarrow> Id
    \<Rightarrow> Passwd Response \<Rightarrow> string option \<Rightarrow> Passwd Response" where
  "fetch_cached_user env cfg st cache ident ret local_name =
     (case cache of
        Some c \<Rightarrow> (case get_user (nss_clock env) c ident of Some nu \<Rightarrow> RSuccess (local_passwd env cfg st local_name nu) | None \<Rightarrow> ret)
      | None \<Rightarrow> ret)"

definition user_is_mapped :: "UserMap \<Rightarrow> NssUser \<Rightarrow> bool" where
  "user_is_mapped um nu \<longleftrightarrow> get_local_from_upn um (to_lowercase (nu_name nu)) \<noteq> None"

definition fetch_all_cached_users :: "'i nss_env \<Rightarrow> 'i HimmelblauConfig \<Rightarrow> nss_state \<Rightarrow> (NssUser \<times> int) file_cache option \<Rightarrow> UserMap \<Rightarrow> Passwd list" where
  "fetch_all_cached_users env cfg st cache um =
     (case cache of
        Some c \<Rightarrow> map (local_passwd env cfg st None) (filter (\<lambda>nu. \<not> user_is_mapped um nu) (get_users (nss_clock env) c))
      | None \<Rightarrow> [])"

definition passwd_get_all_entries :: "'i nss_env \<Rightarrow> nss_state \<Rightarrow> Passwd list Response \<times> nss_state" where
  "passwd_get_all_entries env st = with_config env st (\<lambda>cfg.
     let cache = try_nss_cache st;
         um = nss_user_map env cfg;
         cached = (RSuccess (fetch_all_cached_users env cfg st cache um), keep_cache cache st)
     in case daemon env of
          None \<Rightarrow> cached
        | Some call \<Rightarrow>
            (case call NssAccounts of
               Some (CR_NssAccounts l) \<Rightarrow>
                 let us = filter (\<lambda>nu. \<not> user_is_mapped um nu) l
                 in (RSuccess (map (local_passwd env cfg st None) us), keep_cache (fold (insert_cached_user env) us cache) st)
             | _ \<Rightarrow> cached))"

text \<open>The request for one user and the fallback to the users seen before.\<close>

definition lookup_user :: "'i nss_env \<Rightarrow> 'i HimmelblauConfig \<Rightarrow> ClientRequest \<Rightarrow> Id \<Rightarrow> string option \<Rightarrow> nss_state \<Rightarrow> Passwd Response \<times> nss_state" where
  "lookup_user env cfg req ident local_name st =
     (let cache = try_nss_cache st;
          cached = (\<lambda>ret. (fetch_cached_user env cfg st cache ident ret local_name, keep_cache cache st))
      in case daemon env of
           None \<Rightarrow> cached RUnavail
         | Some call \<Rightarrow>
             (case call req of
                Some (CR_NssAccount (Some nu)) \<Rightarrow>
                  (RSuccess (local_passwd env cfg st local_name nu), keep_cache (insert_cached_user env nu cache) st)
              | _ \<Rightarrow> cached RNotFound))"

definition passwd_get_entry_by_uid :: "'i nss_env \<Rightarrow> u32 \<Rightarrow> nss_state \<Rightarrow> Passwd Response \<times> nss_state" where
  "passwd_get_entry_by_uid env uid st =
     with_config env st (\<lambda>cfg. lookup_user env cfg (NssAccountByUid uid) (IdGid uid) None st)"

definition passwd_get_entry_by_name :: "'i nss_env \<Rightarrow> string \<Rightarrow> nss_state \<Rightarrow> Passwd Response \<times> nss_state" where
  "passwd_get_entry_by_name env name st = with_config env st (\<lambda>cfg.
     let um = nss_user_map env cfg;
         ((upn, local_name), st') = (case get_upn_from_local um name of
             Some mapped_upn \<Rightarrow> ((mapped_upn, Some name), st)
           | None \<Rightarrow>
               (case get_local_from_upn um (to_lowercase name) of
                  Some local \<Rightarrow> ((to_lowercase name, Some local), st)
                | None \<Rightarrow> let (u, ne) = map_name_to_upn (nss_lib env) cfg name (ns_names st) in ((u, None), st\<lparr>ns_names := ne\<rparr>)))
     in lookup_user env cfg (NssAccountByName upn) (IdName upn) local_name st')"

section \<open>Groups\<close>

definition local_group :: "'i nss_env \<Rightarrow> 'i HimmelblauConfig \<Rightarrow> nss_state \<Rightarrow> NssGroup \<Rightarrow> Group" where
  "local_group env cfg st ng =
     (let name = map_upn_to_name (nss_lib env) cfg (ns_names st); g = group_from_nssgroup ng
      in g\<lparr>gr_name := name (gr_name g), gr_members := map name (gr_members g)\<rparr>)"

definition group_get_all_entries :: "'i nss_env \<Rightarrow> nss_state \<Rightarrow> Group list Response \<times> nss_state" where
  "group_get_all_entries env st = with_config env st (\<lambda>cfg.
     case daemon env of
       None \<Rightarrow> (RUnavail, st)
     | Some call \<Rightarrow>
         (case call NssGroups of
            Some (CR_NssGroups l) \<Rightarrow> (RSuccess (map (local_group env cfg st) l), st)
          | _ \<Rightarrow> (RSuccess [], st)))"

definition group_get_entry_by_gid :: "'i nss_env \<Rightarrow> u32 \<Rightarrow> nss_state \<Rightarrow> Group Response \<times> nss_state" where
  "group_get_entry_by_gid env gid st = with_config env st (\<lambda>cfg.
     case daemon env of
       None \<Rightarrow> (RUnavail, st)
     | Some call \<Rightarrow>
         (case call (NssGroupByGid gid) of
            Some (CR_NssGroup (Some ng)) \<Rightarrow> (RSuccess (local_group env cfg st ng), st)
          | _ \<Rightarrow> (RNotFound, st)))"

definition is_local_group :: "'i nss_env \<Rightarrow> string \<Rightarrow> bool" where
  "is_local_group env name \<longleftrightarrow> name \<in> set (etc_group env)"

definition group_get_entry_by_name :: "'i nss_env \<Rightarrow> string \<Rightarrow> nss_state \<Rightarrow> Group Response \<times> nss_state" where
  "group_get_entry_by_name env name st = with_config env st (\<lambda>cfg.
     if is_local_group env (map_upn_to_name (nss_lib env) cfg (ns_names st) name) then (RNotFound, st)
     else
       let (upn, ne) = map_name_to_upn (nss_lib env) cfg name (ns_names st);
           st' = st\<lparr>ns_names := ne\<rparr>
       in (case daemon env of
             None \<Rightarrow> (RUnavail, st')
           | Some call \<Rightarrow>
               (case (if CHR ''@'' \<in> set upn then
                        (case call (NssGroupByName upn) of
                           Some (CR_NssGroup (Some ng)) \<Rightarrow> RSuccess (local_group env cfg st' ng)
                         | _ \<Rightarrow> RNotFound)
                      else RNotFound) of
                  RNotFound \<Rightarrow>
                    if uuid_parses env name then
                      (case call (NssGroupByName name) of
                         Some (CR_NssGroup (Some ng)) \<Rightarrow>
                           let g = group_from_nssgroup ng in
                           if to_lowercase name \<noteq> to_lowercase (gr_name g) then (RSuccess g, st') else (RNotFound, st')
                       | _ \<Rightarrow> (RNotFound, st'))
                    else (RNotFound, st')
                | other \<Rightarrow> (other, st'))))"

section \<open>Supplementary groups\<close>

datatype nss_status = NSS_STATUS_SUCCESS | NSS_STATUS_NOTFOUND | NSS_STATUS_UNAVAIL | NSS_STATUS_TRYAGAIN
datatype errno = EINVAL | ENOMEM

text \<open>
  The caller's array, the number of its entries in use and its size, with \<open>errno\<close>. The numbers are \<open>c_long\<close>s.
  The array is \<open>None\<close> for a null pointer.
\<close>

record gid_array =
  ga_groups :: "u32 list option"
  ga_start :: int
  ga_size :: int
  ga_errno :: "errno option"

definition C_LONG_MAX :: int where
  "C_LONG_MAX = 2 ^ 63 - 1"

definition new_array_size :: "int \<Rightarrow> int \<Rightarrow> int" where
  "new_array_size limit cur_size =
     (let grown = max 16 (min C_LONG_MAX (cur_size * 2)) in if limit > 0 then min limit grown else grown)"

text \<open>\<open>realloc\<close> keeps the entries that fit; \<open>realloc_ok\<close> tells for which numbers of bytes it succeeds.
  \<open>None\<close> stands for an access outside the array, which is undefined.\<close>

definition realloc_array :: "(nat \<Rightarrow> bool) \<Rightarrow> int \<Rightarrow> u32 list option \<Rightarrow> u32 list option" where
  "realloc_array realloc_ok new_size groups =
     (let bytes = nat new_size * 4 in
      if 0 < new_size \<and> bytes < 2 ^ 64 \<and> realloc_ok bytes
      then (let gs = (case groups of Some g \<Rightarrow> g | None \<Rightarrow> []) in Some (take (nat new_size) gs @ replicate (nat new_size - length gs) 0))
      else None)"

fun add_gids :: "(nat \<Rightarrow> bool) \<Rightarrow> int \<Rightarrow> u32 \<Rightarrow> u32 list \<Rightarrow> gid_array \<Rightarrow> (nss_status \<times> gid_array) option" where
  "add_gids realloc_ok limit primary [] a = Some (NSS_STATUS_SUCCESS, a)"
| "add_gids realloc_ok limit primary (gid # gids) a =
     (if gid = primary then add_gids realloc_ok limit primary gids a
      else
        let used = nat (ga_start a); gs = (case ga_groups a of Some g \<Rightarrow> g | None \<Rightarrow> []) in
        if length gs < used then None
        else if gid \<in> set (take used gs) then add_gids realloc_ok limit primary gids a
        else if limit > 0 \<and> ga_start a \<ge> limit then Some (NSS_STATUS_SUCCESS, a)
        else
          (case (if ga_start a \<ge> ga_size a then
                   let new_size = new_array_size limit (ga_size a) in
                   (case realloc_array realloc_ok new_size (ga_groups a) of
                      None \<Rightarrow> Inl (a\<lparr>ga_errno := Some ENOMEM\<rparr>)
                    | Some gs' \<Rightarrow> Inr (a\<lparr>ga_groups := Some gs', ga_size := new_size\<rparr>))
                 else Inr a) of
             Inl a' \<Rightarrow> Some (NSS_STATUS_TRYAGAIN, a')
           | Inr a' \<Rightarrow>
               (case ga_groups a' of
                  None \<Rightarrow> None
                | Some gs' \<Rightarrow>
                    if used < length gs' then
                      add_gids realloc_ok limit primary gids (a'\<lparr>ga_groups := Some (gs'[used := gid]), ga_start := ga_start a' + 1\<rparr>)
                    else None)))"

text \<open>\<open>user\<close> is \<open>None\<close> for a null pointer, and so is \<open>array\<close> if any other pointer is null.\<close>

definition initgroups_dyn :: "'i nss_env \<Rightarrow> (nat \<Rightarrow> bool) \<Rightarrow> bytes option \<Rightarrow> u32 \<Rightarrow> int \<Rightarrow> gid_array option \<Rightarrow> nss_state
    \<Rightarrow> (nss_status \<times> gid_array option \<times> nss_state) option" where
  "initgroups_dyn env realloc_ok user primary_gid limit arr st =
     (case (user, arr) of
        (Some c_user, Some a) \<Rightarrow>
          if should_skip_daemon_call (nss_unit env) then Some (NSS_STATUS_UNAVAIL, arr, st)
          else (case from_utf8 c_user of
              None \<Rightarrow> Some (NSS_STATUS_UNAVAIL, Some (a\<lparr>ga_errno := Some EINVAL\<rparr>), st)
            | Some name \<Rightarrow>
                (case nss_config env of
                   None \<Rightarrow> Some (NSS_STATUS_UNAVAIL, arr, st)
                 | Some cfg \<Rightarrow>
                     let (account_id, ne) = (case get_upn_from_local (nss_user_map env cfg) name of
                         Some upn \<Rightarrow> (upn, ns_names st)
                       | None \<Rightarrow> map_name_to_upn (nss_lib env) cfg name (ns_names st));
                         st' = st\<lparr>ns_names := ne\<rparr>
                     in (case daemon env of
                           None \<Rightarrow> Some (NSS_STATUS_UNAVAIL, arr, st')
                         | Some call \<Rightarrow>
                             (case call (NssInitgroups account_id) of
                                Some (CR_NssInitgroups (Some gids)) \<Rightarrow>
                                  if ga_start a < 0 \<or> ga_size a < 0 \<or> ga_start a > ga_size a \<or> (ga_size a > 0 \<and> ga_groups a = None)
                                  then Some (NSS_STATUS_UNAVAIL, Some (a\<lparr>ga_errno := Some EINVAL\<rparr>), st')
                                  else map_option (\<lambda>(status, a'). (status, Some a', st')) (add_gids realloc_ok limit primary_gid gids a)
                              | Some (CR_NssInitgroups None) \<Rightarrow> Some (NSS_STATUS_NOTFOUND, arr, st')
                              | _ \<Rightarrow> Some (NSS_STATUS_UNAVAIL, arr, st')))))
      | _ \<Rightarrow> Some (NSS_STATUS_UNAVAIL, arr, st))"

section \<open>The array of the caller\<close>

text \<open>An array of the size that is told, with its first entries in use.\<close>

definition array_ok :: "gid_array \<Rightarrow> bool" where
  "array_ok a \<longleftrightarrow> 0 \<le> ga_start a \<and> ga_start a \<le> ga_size a \<and> ga_size a \<le> C_LONG_MAX \<and>
     (case ga_groups a of Some gs \<Rightarrow> length gs = nat (ga_size a) | None \<Rightarrow> ga_size a = 0)"

definition used_gids :: "gid_array \<Rightarrow> u32 list" where
  "used_gids a = take (nat (ga_start a)) (case ga_groups a of Some gs \<Rightarrow> gs | None \<Rightarrow> [])"

text \<open>The entries to be added: the first occurrence of each gid but the primary one and those in the array.\<close>

fun fresh_gids :: "u32 \<Rightarrow> u32 list \<Rightarrow> u32 list \<Rightarrow> u32 list" where
  "fresh_gids primary seen [] = []"
| "fresh_gids primary seen (gid # gids) =
     (if gid = primary \<or> gid \<in> set seen then fresh_gids primary seen gids
      else gid # fresh_gids primary (seen @ [gid]) gids)"

lemma fresh_gids_set: "set (fresh_gids p seen gids) = set gids - {p} - set seen"
  by (induction p seen gids rule: fresh_gids.induct) auto

lemma fresh_gids_distinct: "distinct (fresh_gids p seen gids)"
  by (induction p seen gids rule: fresh_gids.induct) (auto simp: fresh_gids_set)

lemma used_gids_length: "array_ok a \<Longrightarrow> length (used_gids a) = nat (ga_start a)"
  by (auto simp: array_ok_def used_gids_def split: option.splits)

lemma new_array_size_grows:
  assumes "array_ok a" "ga_size a \<le> ga_start a" "limit > 0 \<Longrightarrow> ga_start a < limit" "nat (new_array_size limit (ga_size a)) * 4 < 2 ^ 64"
  shows "ga_size a < new_array_size limit (ga_size a) \<and> new_array_size limit (ga_size a) \<le> C_LONG_MAX"
  using assms by (auto simp: array_ok_def new_array_size_def C_LONG_MAX_def Let_def min_def max_def split: if_splits)

text \<open>The array with room for one more entry.\<close>

definition grow_if_full :: "(nat \<Rightarrow> bool) \<Rightarrow> int \<Rightarrow> gid_array \<Rightarrow> gid_array + gid_array" where
  "grow_if_full realloc_ok limit a = (if ga_start a \<ge> ga_size a then
       let new_size = new_array_size limit (ga_size a) in
       (case realloc_array realloc_ok new_size (ga_groups a) of
          None \<Rightarrow> Inl (a\<lparr>ga_errno := Some ENOMEM\<rparr>)
        | Some gs' \<Rightarrow> Inr (a\<lparr>ga_groups := Some gs', ga_size := new_size\<rparr>))
     else Inr a)"

lemma grow_if_full_ok:
  assumes "array_ok a" "limit > 0 \<Longrightarrow> ga_start a < limit" "grow_if_full r limit a = Inr a'"
  shows "array_ok a' \<and> ga_start a' = ga_start a \<and> ga_start a < ga_size a' \<and> used_gids a' = used_gids a \<and> (\<exists>gs. ga_groups a' = Some gs)"
proof (cases "ga_start a \<ge> ga_size a")
  case True
  let ?n = "new_array_size limit (ga_size a)"
  obtain gs where gs: "realloc_array r ?n (ga_groups a) = Some gs" "a' = a\<lparr>ga_groups := Some gs, ga_size := ?n\<rparr>"
    using assms(3) True by (auto simp: grow_if_full_def Let_def split: option.splits)
  have bytes: "nat ?n * 4 < 2 ^ 64"
    using gs(1) by (auto simp: realloc_array_def Let_def split: if_splits)
  have "ga_size a < ?n \<and> ?n \<le> C_LONG_MAX"
    using new_array_size_grows [OF assms(1) True assms(2) bytes] by simp
  then show ?thesis
    using gs assms(1) True
    by (auto simp: realloc_array_def array_ok_def used_gids_def Let_def split: if_splits option.splits)
next
  case False
  then show ?thesis
    using assms(1,3) by (auto simp: grow_if_full_def array_ok_def split: option.splits)
qed

lemma grow_if_full_failed: "grow_if_full r limit a = Inl a' \<Longrightarrow> a' = a\<lparr>ga_errno := Some ENOMEM\<rparr>"
  by (auto simp: grow_if_full_def Let_def split: if_splits option.splits)

definition put_gid :: "u32 \<Rightarrow> gid_array \<Rightarrow> gid_array" where
  "put_gid gid a = a\<lparr>ga_groups := map_option (\<lambda>gs. gs[nat (ga_start a) := gid]) (ga_groups a), ga_start := ga_start a + 1\<rparr>"

lemma put_gid_ok:
  assumes "array_ok a" "ga_start a < ga_size a"
  shows "array_ok (put_gid gid a) \<and> used_gids (put_gid gid a) = used_gids a @ [gid]"
  using assms
  by (auto simp: array_ok_def put_gid_def used_gids_def nat_add_distrib take_Suc_conv_app_nth split: option.splits)

text \<open>One round of the loop, on an array that is as told.\<close>

lemma add_gids_Cons:
  assumes "array_ok a"
  shows "add_gids r limit p (gid # gids) a =
    (if gid = p \<or> gid \<in> set (used_gids a) then add_gids r limit p gids a
     else if limit > 0 \<and> ga_start a \<ge> limit then Some (NSS_STATUS_SUCCESS, a)
     else (case grow_if_full r limit a of
         Inl a' \<Rightarrow> Some (NSS_STATUS_TRYAGAIN, a')
       | Inr a' \<Rightarrow> add_gids r limit p gids (put_gid gid a')))"
proof -
  let ?gs = "case ga_groups a of Some g \<Rightarrow> g | None \<Rightarrow> []"
  have len: "\<not> length ?gs < nat (ga_start a)"
    using assms by (auto simp: array_ok_def split: option.splits)
  have step: "(case ga_groups a' of None \<Rightarrow> None | Some gs' \<Rightarrow>
      if nat (ga_start a) < length gs'
      then add_gids r limit p gids (a'\<lparr>ga_groups := Some (gs'[nat (ga_start a) := gid]), ga_start := ga_start a' + 1\<rparr>) else None)
      = add_gids r limit p gids (put_gid gid a')"
    if "grow_if_full r limit a = Inr a'" "\<not> (limit > 0 \<and> ga_start a \<ge> limit)" for a'
    using grow_if_full_ok [OF assms _ that(1)] that(2) by (auto simp: put_gid_def array_ok_def)
  show ?thesis
    using len step
    by (simp only: add_gids.simps(2) Let_def used_gids_def grow_if_full_def [symmetric, unfolded Let_def])
      (auto split: sum.splits)
qed

declare add_gids.simps(2) [simp del]

lemma set_errno_ok [simp]:
  "array_ok (a\<lparr>ga_errno := e\<rparr>) = array_ok a" "used_gids (a\<lparr>ga_errno := e\<rparr>) = used_gids a"
  by (simp_all add: array_ok_def used_gids_def split: option.split)

lemma add_gids_runs:
  assumes "array_ok a"
  shows "\<exists>status a' k. add_gids r limit p gids a = Some (status, a') \<and> array_ok a' \<and>
    used_gids a' = used_gids a @ take k (fresh_gids p (used_gids a) gids) \<and>
    (0 < limit \<longrightarrow> ga_start a' \<le> max limit (ga_start a)) \<and>
    (status = NSS_STATUS_SUCCESS \<longrightarrow> limit \<le> 0 \<or> ga_start a' < limit \<longrightarrow> length (fresh_gids p (used_gids a) gids) \<le> k) \<and>
    status \<in> {NSS_STATUS_SUCCESS, NSS_STATUS_TRYAGAIN}"
  using assms
proof (induction gids arbitrary: a)
  case Nil
  then show ?case by auto
next
  case (Cons gid gids)
  note step = add_gids_Cons [OF Cons.prems, of r limit p gid gids]
  consider "gid = p \<or> gid \<in> set (used_gids a)" | "gid \<noteq> p" "gid \<notin> set (used_gids a)" "limit > 0 \<and> ga_start a \<ge> limit"
    | a' where "gid \<noteq> p" "gid \<notin> set (used_gids a)" "\<not> (limit > 0 \<and> ga_start a \<ge> limit)" "grow_if_full r limit a = Inl a'"
    | a' where "gid \<noteq> p" "gid \<notin> set (used_gids a)" "\<not> (limit > 0 \<and> ga_start a \<ge> limit)" "grow_if_full r limit a = Inr a'"
    by (cases "grow_if_full r limit a") blast+
  then show ?case
  proof cases
    case 1
    then have eq: "add_gids r limit p (gid # gids) a = add_gids r limit p gids a"
      "fresh_gids p (used_gids a) (gid # gids) = fresh_gids p (used_gids a) gids"
      using step by auto
    show ?thesis unfolding eq by (rule Cons.IH [OF Cons.prems])
  next
    case 2
    then have "add_gids r limit p (gid # gids) a = Some (NSS_STATUS_SUCCESS, a)" using step by auto
    then show ?thesis using Cons.prems 2 by (intro exI [of _ NSS_STATUS_SUCCESS] exI [of _ a] exI [of _ 0]) auto
  next
    case (3 a')
    then have "add_gids r limit p (gid # gids) a = Some (NSS_STATUS_TRYAGAIN, a\<lparr>ga_errno := Some ENOMEM\<rparr>)"
      using step grow_if_full_failed [OF 3(4)] by auto
    then show ?thesis using Cons.prems
      by (intro exI [of _ NSS_STATUS_TRYAGAIN] exI [of _ "a\<lparr>ga_errno := Some ENOMEM\<rparr>"] exI [of _ 0]) auto
  next
    case (4 a')
    have a': "array_ok a'" "ga_start a' = ga_start a" "ga_start a < ga_size a'" "used_gids a' = used_gids a"
      using grow_if_full_ok [OF Cons.prems _ 4(4)] 4(3) by auto
    have put: "array_ok (put_gid gid a')" "used_gids (put_gid gid a') = used_gids a @ [gid]" "ga_start (put_gid gid a') = ga_start a + 1"
      using put_gid_ok [OF a'(1)] a' by (auto simp: put_gid_def)
    have eq: "add_gids r limit p (gid # gids) a = add_gids r limit p gids (put_gid gid a')"
      "fresh_gids p (used_gids a) (gid # gids) = gid # fresh_gids p (used_gids a @ [gid]) gids"
      using step 4 by auto
    obtain status b k where b: "add_gids r limit p gids (put_gid gid a') = Some (status, b)" "array_ok b"
      "used_gids b = (used_gids a @ [gid]) @ take k (fresh_gids p (used_gids a @ [gid]) gids)"
      "0 < limit \<longrightarrow> ga_start b \<le> max limit (ga_start a + 1)"
      "status = NSS_STATUS_SUCCESS \<longrightarrow> limit \<le> 0 \<or> ga_start b < limit \<longrightarrow> length (fresh_gids p (used_gids a @ [gid]) gids) \<le> k"
      "status \<in> {NSS_STATUS_SUCCESS, NSS_STATUS_TRYAGAIN}"
      using Cons.IH [OF put(1)] unfolding put by blast
    show ?thesis unfolding eq using b 4(3)
      by (intro exI [of _ status] exI [of _ b] exI [of _ "Suc k"]) auto
  qed
qed

lemma same_errno: "a\<lparr>ga_errno := ga_errno a\<rparr> = a"
  by simp

lemma initgroups_dyn_cases:
  obtains (refused) status e st' where "status \<noteq> NSS_STATUS_SUCCESS"
      "initgroups_dyn env r (Some user) p limit (Some a) st = Some (status, Some (a\<lparr>ga_errno := e\<rparr>), st')"
  | (filled) gids call account_id st' where "daemon env = Some call"
      "call (NssInitgroups account_id) = Some (CR_NssInitgroups (Some gids))"
      "initgroups_dyn env r (Some user) p limit (Some a) st =
         map_option (\<lambda>(status, a'). (status, Some a', st')) (add_gids r limit p gids a)"
proof -
  let ?run = "initgroups_dyn env r (Some user) p limit (Some a) st"
  have stop: thesis if "?run = Some (status, Some a, st')" "status \<noteq> NSS_STATUS_SUCCESS" for status st'
    using refused [OF that(2), of "ga_errno a"] that(1) same_errno by simp
  have bad: thesis if "?run = Some (NSS_STATUS_UNAVAIL, Some (a\<lparr>ga_errno := Some EINVAL\<rparr>), st')" for st'
    using refused [OF _ that] by simp
  show thesis
  proof (cases "should_skip_daemon_call (nss_unit env) \<or> from_utf8 user = None \<or> nss_config env = None")
    case True
    then consider "should_skip_daemon_call (nss_unit env)"
      | "\<not> should_skip_daemon_call (nss_unit env)" "from_utf8 user = None"
      | name where "\<not> should_skip_daemon_call (nss_unit env)" "from_utf8 user = Some name" "nss_config env = None"
      by (cases "from_utf8 user") auto
    then show thesis
    proof cases
      case 1
      then show thesis by (intro stop [of NSS_STATUS_UNAVAIL st]) (simp_all add: initgroups_dyn_def)
    next
      case 2
      then show thesis by (intro bad [of st]) (simp add: initgroups_dyn_def)
    next
      case 3
      then show thesis by (intro stop [of NSS_STATUS_UNAVAIL st]) (simp_all add: initgroups_dyn_def)
    qed
  next
    case False
    then obtain name cfg where go: "\<not> should_skip_daemon_call (nss_unit env)" "from_utf8 user = Some name" "nss_config env = Some cfg"
      by auto
    obtain account_id ne where names: "(case get_upn_from_local (nss_user_map env cfg) name of
        Some upn \<Rightarrow> (upn, ns_names st) | None \<Rightarrow> map_name_to_upn (nss_lib env) cfg name (ns_names st)) = (account_id, ne)"
      by (cases "case get_upn_from_local (nss_user_map env cfg) name of
        Some upn \<Rightarrow> (upn, ns_names st) | None \<Rightarrow> map_name_to_upn (nss_lib env) cfg name (ns_names st)")
    let ?st = "st\<lparr>ns_names := ne\<rparr>"
    note run = initgroups_dyn_def [of env r "Some user" p limit "Some a" st, simplified go names option.case prod.case if_False Let_def]
    show thesis
    proof (cases "\<exists>call gids. daemon env = Some call \<and> call (NssInitgroups account_id) = Some (CR_NssInitgroups (Some gids))")
      case True
      then show thesis
        using filled run bad [of ?st] by (auto split: if_splits)
    next
      case False
      then show thesis
        using run stop [of NSS_STATUS_UNAVAIL ?st] stop [of NSS_STATUS_NOTFOUND ?st]
        by (auto split: option.splits ClientResponse.splits)
    qed
  qed
qed

end
