(* ===== verification/Nss_Props.thy ===== *)
theory Nss_Props
  imports Nss_Module Config_Props
begin

text \<open>
  Theorems on the NSS module (\<^theory_text>\<open>Nss_Module\<close>): the supplementary groups are written inside the caller's array.
\<close>

section \<open>Supplementary groups\<close>

text \<open>
  C36. The supplementary groups of a user: whatever the daemon, the allocator and the user's name are, on an array that is as
  its caller tells, \<open>_nss_himmelblau_initgroups_dyn\<close> returns, with no access outside the array and the array as told
  again. What was in the array stays; what is appended are, in order, the first of those gids in the daemon's answer that
  are not the primary one and not in the array, each once, so the array never grows over the limit. On success all of them are there,
  unless the limit has been reached.
\<close>

theorem initgroups_array_safe:
  assumes "array_ok a"
  shows "\<exists>status a' st' gids k. initgroups_dyn env realloc_ok (Some user) primary limit (Some a) st = Some (status, Some a', st') \<and>
    array_ok a' \<and> used_gids a' = used_gids a @ take k (fresh_gids primary (used_gids a) gids) \<and>
    (0 < limit \<longrightarrow> ga_start a' \<le> max limit (ga_start a)) \<and>
    (status = NSS_STATUS_SUCCESS \<longrightarrow>
       (\<exists>call account_id. daemon env = Some call \<and> call (NssInitgroups account_id) = Some (CR_NssInitgroups (Some gids))) \<and>
       (limit \<le> 0 \<or> ga_start a' < limit \<longrightarrow> length (fresh_gids primary (used_gids a) gids) \<le> k))"
proof (rule initgroups_dyn_cases [of env realloc_ok user primary limit a st])
  fix status e st'
  assume "status \<noteq> NSS_STATUS_SUCCESS"
    "initgroups_dyn env realloc_ok (Some user) primary limit (Some a) st = Some (status, Some (a\<lparr>ga_errno := e\<rparr>), st')"
  then show ?thesis
    using assms by (intro exI [of _ status] exI [of _ "a\<lparr>ga_errno := e\<rparr>"] exI [of _ st'] exI [of _ 0]) auto
next
  fix gids call account_id st'
  assume *: "daemon env = Some call" "call (NssInitgroups account_id) = Some (CR_NssInitgroups (Some gids))"
    "initgroups_dyn env realloc_ok (Some user) primary limit (Some a) st =
       map_option (\<lambda>(status, a'). (status, Some a', st')) (add_gids realloc_ok limit primary gids a)"
  obtain status a' k where run: "add_gids realloc_ok limit primary gids a = Some (status, a')" "array_ok a'"
    "used_gids a' = used_gids a @ take k (fresh_gids primary (used_gids a) gids)"
    "0 < limit \<longrightarrow> ga_start a' \<le> max limit (ga_start a)"
    "status = NSS_STATUS_SUCCESS \<longrightarrow> limit \<le> 0 \<or> ga_start a' < limit \<longrightarrow> length (fresh_gids primary (used_gids a) gids) \<le> k"
    using add_gids_runs [OF assms, of realloc_ok limit primary gids] by blast
  then show ?thesis
    using * by (intro exI [of _ status] exI [of _ a'] exI [of _ st'] exI [of _ gids] exI [of _ k]) auto
qed

definition sample_nss :: "((string \<times> string) \<times> string) list nss_env" where
  "sample_nss = \<lparr>nss_lib = list_ini, nss_files = Map.empty, nss_unit = None, nss_clock = 0, etc_group = [''root'', ''sudo''],
     uuid_parses = (\<lambda>s. length s = 36),
     daemon = Some (\<lambda>req. case req of
         NssInitgroups _ \<Rightarrow> Some (CR_NssInitgroups (Some [1000, 10, 20, 10]))
       | NssGroupByName n \<Rightarrow> Some (CR_NssGroup (Some \<lparr>ng_name = ''ops'', ng_gid = 10, ng_members = []\<rparr>))
       | _ \<Rightarrow> None)\<rparr>"

definition sample_nss_state :: nss_state where
  "sample_nss_state = \<lparr>ns_users = \<lparr>ce_root = True, ce_file = None, ce_mkdir_ok = True, ce_open_ok = True, ce_create_ok = True, ce_stmt_fault = False\<rparr>,
     ns_names = sample_names\<rparr>"

definition sample_array :: gid_array where
  "sample_array = \<lparr>ga_groups = Some [1000], ga_start = 1, ga_size = 1, ga_errno = None\<rparr>"

theorem initgroups_array_safe_witness:
  "\<exists>st'. initgroups_dyn sample_nss (\<lambda>_. True) (Some (as_bytes ''tux'')) 1000 2 (Some sample_array) sample_nss_state
       = Some (NSS_STATUS_SUCCESS, Some (sample_array\<lparr>ga_groups := Some [1000, 10], ga_start := 2, ga_size := 2\<rparr>), st')
     \<and> 2 \<le> max 2 (ga_start sample_array)"
proof -
  have ok: "array_ok sample_array" by (simp add: array_ok_def sample_array_def C_LONG_MAX_def)
  have config: "nss_config sample_nss = Some \<lparr>config = [], filename = DEFAULT_CONFIG_PATH\<rparr>"
    by (simp add: nss_config_def config_new_def sample_nss_def list_ini_def)
  have name: "from_utf8 (as_bytes ''tux'') = Some ''tux''" by code_simp
  have names: "map_name_to_upn list_ini \<lparr>config = [], filename = DEFAULT_CONFIG_PATH\<rparr> ''tux'' sample_names = (''tux'', sample_names)"
    by (simp add: map_name_to_upn_def get_configured_domains_def cfg_get_def list_ini_def sample_names_def)
  have realloc: "realloc_array (\<lambda>_. True) 2 (Some [1000]) = Some [1000, 0]" by (simp add: realloc_array_def Let_def)
  have bounds: "0 \<le> ga_start sample_array" "ga_start sample_array \<le> ga_size sample_array" "ga_groups sample_array \<noteq> None"
    by (simp_all add: sample_array_def)
  have add: "add_gids (\<lambda>_. True) 2 1000 [1000, 10, 20, 10] sample_array
      = Some (NSS_STATUS_SUCCESS, sample_array\<lparr>ga_groups := Some [1000, 10], ga_start := 2, ga_size := 2\<rparr>)"
    by (simp add: sample_array_def add_gids.simps(2) new_array_size_def realloc Let_def C_LONG_MAX_def)
  have "initgroups_dyn sample_nss (\<lambda>_. True) (Some (as_bytes ''tux'')) 1000 2 (Some sample_array) sample_nss_state
       = Some (NSS_STATUS_SUCCESS, Some (sample_array\<lparr>ga_groups := Some [1000, 10], ga_start := 2, ga_size := 2\<rparr>), sample_nss_state)"
    using config name names add bounds
    by (simp add: Let_def initgroups_dyn_def sample_nss_def nss_user_map_def user_map_new_def get_upn_from_local_def sample_nss_state_def should_skip_daemon_call_def)
  then show ?thesis
    using initgroups_array_safe [OF ok, of sample_nss "\<lambda>_. True" "as_bytes ''tux''" 1000 2 sample_nss_state] by auto
qed

end
