(* ===== verification/Idp_Tokens.thy ===== *)
theory Idp_Tokens
  imports Idp_Common Config User_Map
begin

text \<open>
  How the Entra Id provider turns what the service tells into the daemon's tokens,
  \<open>src/common/src/idprovider/himmelblau.rs\<close>: \<open>token_validate\<close>, which decides whether the user that signed in is the one that
  was asked for, \<open>user_token_from_unix_user_token\<close> and \<open>group_token_from_directory_object\<close>.
  The service, the parser of UUIDs and the local user database are parameters.
\<close>

section \<open>What the provider asks\<close>

record DirectoryObject =
  do_id :: string
  do_display_name :: "string option"
  do_extension_attrs :: "string \<rightharpoonup> string"

record UserObject =
  uo_id :: string
  uo_displayname :: string

datatype TokenOrObj = TO_UserToken UnixUserToken | TO_UserObj string UserObject

text \<open>The fields of a token of the service. \<open>msal_spn\<close> and \<open>msal_uuid\<close> may fail.\<close>

record msal =
  msal_spn :: "UnixUserToken \<Rightarrow> string option"
  msal_uuid :: "UnixUserToken \<Rightarrow> Uuid option"
  msal_access_token :: "UnixUserToken \<Rightarrow> string option"
  msal_prt :: "UnixUserToken \<Rightarrow> SealedData option"
  msal_refresh_token :: "UnixUserToken \<Rightarrow> string"
  msal_name :: "UnixUserToken \<Rightarrow> string"

text \<open>The answers of the service during one request, and the machine.\<close>

record 'i entra_env =
  ee_lib :: "'i cfg_lib"
  ee_federation :: federation
  ee_can_write :: "string \<Rightarrow> bool"
  ee_unistring :: unistring
  ee_msal :: msal
  ee_tenant_id :: "string option"
  ee_user_groups :: "string \<Rightarrow> string \<Rightarrow> DirectoryObject list option"
  ee_posix_attrs :: "string \<Rightarrow> string \<Rightarrow> (string \<rightharpoonup> string) option"
  ee_getpwnam :: "string \<Rightarrow> (u32 \<times> u32) option"
  ee_static_file :: "(StaticUser list \<times> StaticGroup list) option"
  ee_static_env :: "unit cache_env"
  ee_parse_uuid :: "string \<Rightarrow> Uuid option"
  ee_show_uuid :: "Uuid \<Rightarrow> string"
  ee_domain :: string

text \<open>The provider's own state and what it shares with the other providers.\<close>

record 'i hp_state =
  hp_own :: hb_state
  hp_config :: "'i HimmelblauConfig"
  hp_files :: file_tree
  hp_idmap :: Idmap

type_synonym ('i, 'a) hp_prog = "('i hp_state, 'a) prog"

definition at_own :: "(hb_state, 'a) prog \<Rightarrow> ('i, 'a) hp_prog" where
  "at_own m = pzoom hp_own (\<lambda>p s. s\<lparr>hp_own := p\<rparr>) m"

definition at_idmap :: "(Idmap, 'a) prog \<Rightarrow> ('i, 'a) hp_prog" where
  "at_idmap m = pzoom hp_idmap (\<lambda>p s. s\<lparr>hp_idmap := p\<rparr>) m"

text \<open>The three ways to a Unix id. Panics of the id mapping are panics of the provider.\<close>

definition id_from_uuid :: "'i entra_env \<Rightarrow> Uuid \<Rightarrow> ('i, unit + u32) hp_prog" where
  "id_from_uuid env uuid = (\<lambda>s.
     case ee_tenant_id env of
       None \<Rightarrow> Return (Inl (), s)
     | Some tenant \<Rightarrow>
         (case object_id_to_unix_id (hp_idmap s) tenant (from_object_id uuid) of
            None \<Rightarrow> Panic
          | Some (Inl _) \<Rightarrow> Return (Inl (), s)
          | Some (Inr n) \<Rightarrow> Return (Inr n, s)))"

definition id_from_name :: "'i entra_env \<Rightarrow> string \<Rightarrow> ('i, unit + u32) hp_prog" where
  "id_from_name env name =
     (case ee_tenant_id env of
        None \<Rightarrow> pret (Inl ())
      | Some tenant \<Rightarrow> map_err (\<lambda>_. ()) (at_idmap (gen_to_unix (ee_unistring env) tenant name)))"

definition id_from_attr :: "string \<Rightarrow> unit + u32" where
  "id_from_attr text = (case parse_uint 32 text of None \<Rightarrow> Inl () | Some n \<Rightarrow> Inr (of_nat n))"

section \<open>Groups\<close>

text \<open>The errors of this function are only logged, so they carry no text here.\<close>

definition group_token_from_directory_object :: "'i entra_env \<Rightarrow> DirectoryObject \<Rightarrow> ('i, unit + GroupToken) hp_prog" where
  "group_token_from_directory_object env value =
     (let name = (case do_display_name value of Some n \<Rightarrow> n | None \<Rightarrow> do_id value) in
      if CHR ''@'' \<in> set name then pret (Inl ())
      else
        (case ee_parse_uuid env (do_id value) of
           None \<Rightarrow> pret (Inl ())
         | Some uuid \<Rightarrow>
             let idmap_cache_entry = (case static_cache_new (ee_static_file env) (ee_static_env env) False of
                 Inl _ \<Rightarrow> None
               | Inr c \<Rightarrow> get_group_by_name c (ee_show_uuid env uuid))
             in
             pbind (pgets hp_config) (\<lambda>cfg.
             pbindE
               (case idmap_cache_entry of
                  Some g \<Rightarrow> pret (Inr (sg_gid g))
                | None \<Rightarrow>
                    (case get_id_attr_map (ee_lib env) cfg of
                       IdUuid \<Rightarrow> id_from_uuid env uuid
                     | IdAttrName \<Rightarrow> id_from_name env (ee_show_uuid env uuid)
                     | IdRfc2307 \<Rightarrow>
                         (case do_extension_attrs value ''gidNumber'' of
                            Some gid_number \<Rightarrow> pret (id_from_attr gid_number)
                          | None \<Rightarrow>
                              (case get_rfc2307_group_fallback_map (ee_lib env) cfg of
                                 Some IdUuid \<Rightarrow> id_from_uuid env uuid
                               | Some IdAttrName \<Rightarrow> id_from_name env name
                               | _ \<Rightarrow> pret (Inl ())))))
               (\<lambda>gidnumber. pret (Inr \<lparr>gt_name = name, gt_spn = name, gt_uuid = uuid, gt_gidnumber = gidnumber\<rparr>)))))"

text \<open>The groups of a user: those that fail are left out.\<close>

fun group_tokens :: "'i entra_env \<Rightarrow> DirectoryObject list \<Rightarrow> ('i, GroupToken list) hp_prog" where
  "group_tokens env [] = pret []"
| "group_tokens env (g # gs) =
     pbind (group_token_from_directory_object env g) (\<lambda>r.
     pbind (group_tokens env gs) (\<lambda>ts.
     pret (case r of Inr t \<Rightarrow> t # ts | Inl _ \<Rightarrow> ts)))"

section \<open>Users\<close>

definition bad_request :: "('s, unit + 'a) prog \<Rightarrow> ('s, IdpError + 'a) prog" where
  "bad_request m = map_err (\<lambda>_. BadRequest) m"

definition old_groups :: "UserToken option \<Rightarrow> GroupToken list" where
  "old_groups old_token = (case old_token of Some t \<Rightarrow> ut_groups t | None \<Rightarrow> [])"

definition fetch_groups :: "'i entra_env \<Rightarrow> string option \<Rightarrow> string \<Rightarrow> UserToken option \<Rightarrow> ('i, GroupToken list) hp_prog" where
  "fetch_groups env access_token uuid old_token =
     (case access_token of
        Some tok \<Rightarrow> (case ee_user_groups env tok uuid of Some gs \<Rightarrow> group_tokens env gs | None \<Rightarrow> pret (old_groups old_token))
      | None \<Rightarrow> pret (old_groups old_token))"

definition fetch_posix_attrs :: "'i entra_env \<Rightarrow> 'i HimmelblauConfig \<Rightarrow> string option \<Rightarrow> string \<Rightarrow> (string \<rightharpoonup> string)" where
  "fetch_posix_attrs env cfg access_token uuid =
     (case access_token of
        Some tok \<Rightarrow>
          if get_id_attr_map (ee_lib env) cfg = IdRfc2307
          then (case ee_posix_attrs env tok uuid of Some attrs \<Rightarrow> attrs | None \<Rightarrow> Map.empty)
          else Map.empty
      | None \<Rightarrow> Map.empty)"

text \<open>The uid and gid, and the groups with the primary group that stands for a user who has none.\<close>

definition user_ids :: "'i entra_env \<Rightarrow> string \<Rightarrow> Uuid \<Rightarrow> (string \<rightharpoonup> string) \<Rightarrow> GroupToken list
    \<Rightarrow> ('i, IdpError + u32 \<times> u32 \<times> GroupToken list) hp_prog" where
  "user_ids env spn uuid posix_attrs groups =
     pbind (pgets hp_config) (\<lambda>cfg.
     pbind (pgets (\<lambda>s. user_map_new (hp_files s (gen_user_map_file (ee_lib env) (config cfg))))) (\<lambda>user_map.
     case get_local_from_upn user_map spn of
       Some user \<Rightarrow>
         if has_nul user then pret (Inl BadRequest)
         else (case ee_getpwnam env user of
             None \<Rightarrow> pret (Inl (NotFound ''getpwnam'' ''local user map''))
           | Some (uid, gid) \<Rightarrow> pret (Inr (uid, gid, groups)))
     | None \<Rightarrow>
         (case static_cache_new (ee_static_file env) (ee_static_env env) False of
            Inl _ \<Rightarrow> pret (Inl BadRequest)
          | Inr idmap_cache \<Rightarrow>
              (case get_user_by_name idmap_cache spn of
                 Some user \<Rightarrow> pret (Inr (su_uid user, su_gid user, groups))
               | None \<Rightarrow>
                   pbindE (bad_request (case get_id_attr_map (ee_lib env) cfg of
                         IdUuid \<Rightarrow> id_from_uuid env uuid
                       | IdAttrName \<Rightarrow> id_from_name env spn
                       | IdRfc2307 \<Rightarrow> pret (case posix_attrs ''uidNumber'' of Some n \<Rightarrow> id_from_attr n | None \<Rightarrow> Inl ())))
                     (\<lambda>uidnumber.
                   case posix_attrs ''gidNumber'' of
                     Some n \<Rightarrow> pbindE (bad_request (pret (id_from_attr n))) (\<lambda>gidnumber. pret (Inr (uidnumber, gidnumber, groups)))
                   | None \<Rightarrow> pret (Inr (uidnumber, uidnumber,
                       groups @ [\<lparr>gt_name = spn, gt_spn = spn, gt_uuid = uuid, gt_gidnumber = uidnumber\<rparr>])))))))"

definition value_uuid :: "'i entra_env \<Rightarrow> TokenOrObj \<Rightarrow> Uuid option" where
  "value_uuid env value = (case value of
      TO_UserObj _ obj \<Rightarrow> ee_parse_uuid env (uo_id obj)
    | TO_UserToken tok \<Rightarrow> msal_uuid (ee_msal env) tok)"

definition value_access_token :: "'i entra_env \<Rightarrow> TokenOrObj \<Rightarrow> string option" where
  "value_access_token env value = (case value of
      TO_UserObj tok _ \<Rightarrow> Some tok
    | TO_UserToken tok \<Rightarrow> msal_access_token (ee_msal env) tok)"

definition value_displayname :: "'i entra_env \<Rightarrow> TokenOrObj \<Rightarrow> string" where
  "value_displayname env value = (case value of
      TO_UserObj _ obj \<Rightarrow> uo_displayname obj
    | TO_UserToken tok \<Rightarrow> msal_name (ee_msal env) tok)"

definition user_token_from_unix_user_token :: "'i entra_env \<Rightarrow> string \<Rightarrow> TokenOrObj \<Rightarrow> UserToken option
    \<Rightarrow> ('i, IdpError + UserToken) hp_prog" where
  "user_token_from_unix_user_token env account value old_token =
     (let spn = to_lowercase account in
      case value_uuid env value of
        None \<Rightarrow> pret (Inl BadRequest)
      | Some uuid \<Rightarrow>
          let access_token = value_access_token env value in
          pbind (fetch_groups env access_token (ee_show_uuid env uuid) old_token) (\<lambda>groups.
          pbind (pgets (\<lambda>s. fetch_posix_attrs env (hp_config s) access_token (ee_show_uuid env uuid))) (\<lambda>posix_attrs.
          pbindE (user_ids env spn uuid posix_attrs groups) (\<lambda>(uidnumber, gidnumber, groups').
          pbind (pgets (\<lambda>s. case posix_attrs ''loginShell'' of
              Some sh \<Rightarrow> sh
            | None \<Rightarrow> get_shell (ee_lib env) (hp_config s) (Some (ee_domain env)))) (\<lambda>shell.
          let displayname = flip_displayname_comma (case posix_attrs ''gecos'' of Some g \<Rightarrow> g | None \<Rightarrow> value_displayname env value) in
          case Option.bind (ee_tenant_id env) (ee_parse_uuid env) of
            None \<Rightarrow> pret (Inl BadRequest)
          | Some tenant \<Rightarrow>
              pret (Inr \<lparr>ut_name = spn, ut_spn = spn, ut_uuid = uuid, ut_real_gidnumber = Some gidnumber, ut_gidnumber = uidnumber,
                ut_displayname = displayname, ut_shell = Some shell, ut_groups = groups', ut_tenant_id = Some tenant, ut_valid = True\<rparr>))))))"

section \<open>Who signed in\<close>

definition mismatch_msg :: "string \<Rightarrow> string" where
  "mismatch_msg uuid = ''Authenticated user '' @ uuid @ '' does not match requested user''"

text \<open>Is the user of the token the requested one? An error stands for a name that has no domain.\<close>

definition names_match :: "'i entra_env \<Rightarrow> string \<Rightarrow> string \<Rightarrow> ('i, IdpError + bool) hp_prog" where
  "names_match env account_id spn =
     (if to_lowercase account_id = to_lowercase spn then pret (Inr True)
      else (case (split_username account_id, split_username spn) of
          (Some (local1, domain1), Some (local2, domain2)) \<Rightarrow> (\<lambda>s.
            let (domains_match, cfg, files) =
                  domains_are_aliases (ee_lib env) (ee_federation env) (ee_can_write env) domain1 domain2 (hp_config s, hp_files s)
            in Return (Inr (to_lowercase local1 = to_lowercase local2 \<and> domains_match), s\<lparr>hp_config := cfg, hp_files := files\<rparr>))
        | _ \<Rightarrow> pret (Inl BadRequest)))"

definition token_validate :: "'i entra_env \<Rightarrow> string \<Rightarrow> UnixUserToken \<Rightarrow> UserToken option \<Rightarrow> ('i, IdpError + AuthResult) hp_prog" where
  "token_validate env account_id token old_token =
     (let uuid = (case msal_uuid (ee_msal env) token of Some u \<Rightarrow> ee_show_uuid env u | None \<Rightarrow> ''unknown'') in
      case msal_access_token (ee_msal env) token of
        None \<Rightarrow> pret (Inl (NotFound ''access_token'' ''token_validate''))
      | Some _ \<Rightarrow>
          (case msal_spn (ee_msal env) token of
             None \<Rightarrow> pret (Inl BadRequest)
           | Some spn \<Rightarrow>
               pbindE (names_match env account_id spn) (\<lambda>ok.
               if \<not> ok then pret (Inr (Auth_Denied (mismatch_msg uuid)))
               else
                 pbind (at_own (refresh_add account_id (case msal_prt (ee_msal env) token of
                     Some prt \<Rightarrow> Prt prt
                   | None \<Rightarrow> RefreshToken (msal_refresh_token (ee_msal env) token)))) (\<lambda>_.
                 pbindE (user_token_from_unix_user_token env account_id (TO_UserToken token) old_token) (\<lambda>t.
                 pret (Inr (Auth_Success t)))))))"

end
