(* ===== verification/Token_Props.thy ===== *)
theory Token_Props
  imports Idp_Tokens Config_Props
begin

text \<open>
  Who may sign in as whom (\<^theory_text>\<open>Idp_Tokens\<close>), down to what makes two domains aliases of each other, and what the names and
  ids of directory groups guarantee.
\<close>

section \<open>Aliases\<close>

text \<open>Documented behaviour of the INI library: a value that was set is read back, under keys without regard to case.\<close>

definition ini_set_law :: "('i, 'z) cfg_lib_scheme \<Rightarrow> bool" where
  "ini_set_law lib \<longleftrightarrow> (\<forall>i sect key v sect' key'. ini_get lib (ini_set lib sect key (Some v) i) sect' key' =
     (if to_lowercase sect' = to_lowercase sect \<and> to_lowercase key' = to_lowercase key then Some v else ini_get lib i sect' key'))"

lemma list_ini_set: "ini_set_law list_ini"
  by (auto simp: ini_set_law_def list_ini_def)

text \<open>The tenant of a domain, as configured or as the federation service tells.\<close>

definition has_tenant :: "('i, 'z) cfg_lib_scheme \<Rightarrow> federation \<Rightarrow> 'i HimmelblauConfig \<Rightarrow> string \<Rightarrow> string \<Rightarrow> bool" where
  "has_tenant lib fed cfg domain tenant \<longleftrightarrow> get_tenant_id lib cfg domain = Some tenant \<or>
     (\<exists>d host graph. to_lowercase d = to_lowercase domain \<and> fed (get_odc_provider lib cfg d) d = Some (host, tenant, graph))"

text \<open>The domain \<open>alias\<close> is another name of the configured domain \<open>primary\<close>.\<close>

definition alias_of :: "('i, 'z) cfg_lib_scheme \<Rightarrow> federation \<Rightarrow> 'i HimmelblauConfig \<Rightarrow> string \<Rightarrow> string \<Rightarrow> bool" where
  "alias_of lib fed cfg alias primary \<longleftrightarrow> primary \<in> set (get_configured_domains lib cfg) \<and>
     (to_lowercase primary = to_lowercase alias \<or> to_lowercase alias \<in> set (lower_aliases lib cfg primary) \<or>
      (\<exists>host tenant graph. fed DEFAULT_ODC_PROVIDER alias = Some (host, tenant, graph) \<and> has_tenant lib fed cfg primary tenant))"

text \<open>A configuration that differs only by tenants that the service told.\<close>

definition tenants_known :: "('i, 'z) cfg_lib_scheme \<Rightarrow> federation \<Rightarrow> 'i HimmelblauConfig \<Rightarrow> 'i HimmelblauConfig \<Rightarrow> bool" where
  "tenants_known lib fed cfg cfg' \<longleftrightarrow> (\<forall>d. get_odc_provider lib cfg' d = get_odc_provider lib cfg d) \<and>
     (\<forall>d t. get_tenant_id lib cfg' d = Some t \<longrightarrow> has_tenant lib fed cfg d t)"

lemma tenants_known_refl: "tenants_known lib fed cfg cfg"
  by (simp add: tenants_known_def has_tenant_def)

lemma tenants_known_told:
  assumes law: "ini_set_law lib" and known: "tenants_known lib fed cfg cfg'"
    and told: "fed (get_odc_provider lib cfg' d) d = Some (host, t, graph)"
  shows "tenants_known lib fed cfg (config_set lib d ''graph_url'' graph (config_set lib d ''tenant_id'' t (config_set lib d ''authority_host'' host cfg')))"
proof -
  have keys: "to_lowercase ''odc_provider'' = ''odc_provider''" "to_lowercase ''graph_url'' = ''graph_url''" "to_lowercase ''tenant_id'' = ''tenant_id''"
    "to_lowercase ''authority_host'' = ''authority_host''" by code_simp+
  let ?cfg = "config_set lib d ''graph_url'' graph (config_set lib d ''tenant_id'' t (config_set lib d ''authority_host'' host cfg'))"
  note get_set = law [unfolded ini_set_law_def, rule_format]
  have odc_get: "cfg_get lib ?cfg q ''odc_provider'' = cfg_get lib cfg' q ''odc_provider''" for q
    by (simp add: cfg_get_def config_set_def get_set keys)
  have odc: "get_odc_provider lib ?cfg q = get_odc_provider lib cfg' q" for q
    by (simp add: get_odc_provider_def domain_or_global_def odc_get split: option.split)
  have tenant: "get_tenant_id lib ?cfg q = (if to_lowercase q = to_lowercase d then Some t else get_tenant_id lib cfg' q)" for q
    by (simp add: get_tenant_id_def cfg_get_def config_set_def get_set keys)
  have "fed (get_odc_provider lib cfg d) d = Some (host, t, graph)"
    using told known by (simp add: tenants_known_def)
  then have "has_tenant lib fed cfg q t" if "to_lowercase q = to_lowercase d" for q
    using that by (metis has_tenant_def)
  with known show ?thesis by (simp add: tenants_known_def odc tenant)
qed

lemma search_alias_sound:
  assumes law: "ini_set_law lib" and "tenants_known lib fed cfg cfg'" and "search_alias lib fed alias tenant ds m cfg' = (Some p, m', cfg'')"
  shows "p \<in> set ds \<and> has_tenant lib fed cfg p tenant"
  using assms(2,3)
proof (induction ds arbitrary: m cfg')
  case (Cons d ds)
  show ?case
  proof (cases "get_tenant_id lib cfg' d")
    case (Some t)
    then show ?thesis
      using Cons by (auto simp: tenants_known_def split: if_splits)
  next
    case none: None
    show ?thesis
    proof (cases "fed (get_odc_provider lib cfg' d) d")
      case None
      then show ?thesis using Cons none by auto
    next
      case (Some r)
      obtain host t graph where r: "r = (host, t, graph)" by (cases r)
      note told = Some [unfolded r]
      have "fed (get_odc_provider lib cfg d) d = Some (host, t, graph)"
        using told Cons.prems(1) by (simp add: tenants_known_def)
      then have "has_tenant lib fed cfg d t" by (auto simp: has_tenant_def)
      then show ?thesis
        using Cons.IH [OF tenants_known_told [OF law Cons.prems(1) told]] Cons.prems(2) none told by (auto split: if_splits)
    qed
  qed
qed simp

lemma find_SomeD: "find P xs = Some x \<Longrightarrow> x \<in> set xs \<and> P x"
  by (induction xs) (auto split: if_splits)

lemma primary_domain_sound:
  assumes law: "ini_set_law lib" and "fst (get_primary_domain_from_alias lib fed can_write alias (cfg, files)) = Some p"
  shows "alias_of lib fed cfg alias p"
proof (cases "get_primary_domain_from_alias_simple lib cfg alias")
  case (Some q)
  then have "p = q" using assms(2) by (auto simp: get_primary_domain_from_alias_def split: if_splits)
  with find_SomeD [OF Some [unfolded get_primary_domain_from_alias_simple_def]] show ?thesis by (auto simp: alias_of_def)
next
  case None
  have "get_oidc_issuer_url lib cfg = None" using assms(2) by (cases "get_oidc_issuer_url lib cfg") (simp_all add: get_primary_domain_from_alias_def)
  moreover have "get_configured_domains lib cfg \<noteq> []"
    using assms(2) None by (cases "get_oidc_issuer_url lib cfg") (auto simp: get_primary_domain_from_alias_def)
  moreover obtain host tenant graph where fed: "fed DEFAULT_ODC_PROVIDER alias = Some (host, tenant, graph)"
    using assms(2) None calculation by (cases "fed DEFAULT_ODC_PROVIDER alias") (auto simp: get_primary_domain_from_alias_def)
  ultimately have "fst (search_alias lib fed alias tenant (get_configured_domains lib cfg) False cfg) = Some p"
    using assms(2) None by (simp add: get_primary_domain_from_alias_def Let_def case_prod_beta)
  then obtain m' cfg' where "search_alias lib fed alias tenant (get_configured_domains lib cfg) False cfg = (Some p, m', cfg')"
    by (cases "search_alias lib fed alias tenant (get_configured_domains lib cfg) False cfg") auto
  from search_alias_sound [OF law tenants_known_refl this] fed show ?thesis by (auto simp: alias_of_def)
qed

section \<open>Who signed in\<close>

lemma token_validate_success:
  assumes "token_validate env account token old s = Return (Inr (Auth_Success t), s')"
  obtains spn s1 s2 where "msal_spn (ee_msal env) token = Some spn" "msal_access_token (ee_msal env) token \<noteq> None"
    "names_match env account spn s = Return (Inr True, s1)"
    "user_token_from_unix_user_token env account (TO_UserToken token) old s2 = Return (Inr t, s')"
  using assms
  by (auto simp: token_validate_def pbindE_Return pbind_Return Let_def split: option.splits if_splits sum.splits)

lemma user_token_fields:
  assumes "user_token_from_unix_user_token env account value old s = Return (Inr t, s')"
  shows "ut_spn t = to_lowercase account \<and> ut_name t = to_lowercase account \<and> value_uuid env value = Some (ut_uuid t)"
  using assms
  by (auto simp: user_token_from_unix_user_token_def pbindE_Return pbind_Return Let_def split: option.splits sum.splits prod.splits)

text \<open>
  C3. The user that signs in is the one that was asked for: when \<open>token_validate\<close> accepts a token, then its SPN is the
  requested account without regard to case, or both have the same local part and one of the domains is an alias of the other: it
  is configured, and the other one is listed as its alias or belongs to the same tenant. The token that is released carries the
  requested name and the object id of the user that signed in.
\<close>

theorem token_validate_sound:
  assumes "ini_set_law (ee_lib env)"
    and "token_validate env account token old s = Return (Inr (Auth_Success t), s')"
  shows "ut_spn t = to_lowercase account \<and> msal_uuid (ee_msal env) token = Some (ut_uuid t) \<and>
    (\<exists>spn. msal_spn (ee_msal env) token = Some spn \<and>
      (to_lowercase spn = to_lowercase account \<or>
       (\<exists>l1 d1 l2 d2. split_username account = Some (l1, d1) \<and> split_username spn = Some (l2, d2) \<and> to_lowercase l1 = to_lowercase l2 \<and>
          (alias_of (ee_lib env) (ee_federation env) (hp_config s) d1 d2 \<or>
           (\<exists>cfg. alias_of (ee_lib env) (ee_federation env) cfg d2 d1 \<and>
              cfg = fst (snd (get_primary_domain_from_alias (ee_lib env) (ee_federation env) (ee_can_write env) d1 (hp_config s, hp_files s))))))))"
proof (rule token_validate_success [OF assms(2)])
  fix spn s1 s2
  assume spn: "msal_spn (ee_msal env) token = Some spn"
    and match: "names_match env account spn s = Return (Inr True, s1)"
    and tok: "user_token_from_unix_user_token env account (TO_UserToken token) old s2 = Return (Inr t, s')"
  let ?primary = "get_primary_domain_from_alias (ee_lib env) (ee_federation env) (ee_can_write env)"
  have "\<exists>l1 d1 l2 d2. split_username account = Some (l1, d1) \<and> split_username spn = Some (l2, d2) \<and> to_lowercase l1 = to_lowercase l2 \<and>
      (alias_of (ee_lib env) (ee_federation env) (hp_config s) d1 d2 \<or>
       alias_of (ee_lib env) (ee_federation env) (fst (snd (?primary d1 (hp_config s, hp_files s)))) d2 d1)"
    if ne: "to_lowercase spn \<noteq> to_lowercase account"
  proof -
    from match ne obtain l1 d1 l2 d2 where names: "split_username account = Some (l1, d1)" "split_username spn = Some (l2, d2)"
        "to_lowercase l1 = to_lowercase l2"
      and dom: "fst (domains_are_aliases (ee_lib env) (ee_federation env) (ee_can_write env) d1 d2 (hp_config s, hp_files s))"
      by (auto simp: names_match_def Let_def split: if_splits option.splits prod.splits)
    obtain r1 cfg1 files1 where p1: "?primary d1 (hp_config s, hp_files s) = (r1, cfg1, files1)" by (cases "?primary d1 (hp_config s, hp_files s)")
    have "alias_of (ee_lib env) (ee_federation env) (hp_config s) d1 d2 \<or> alias_of (ee_lib env) (ee_federation env) cfg1 d2 d1"
      using dom primary_domain_sound [OF assms(1), of "ee_federation env" "ee_can_write env" d1 "hp_config s" "hp_files s"]
        primary_domain_sound [OF assms(1), of "ee_federation env" "ee_can_write env" d2 cfg1 files1]
      by (auto simp: domains_are_aliases_def p1 Let_def case_prod_beta split: option.splits)
    with names p1 show ?thesis by (intro exI [of _ l1] exI [of _ d1] exI [of _ l2] exI [of _ d2]) simp
  qed
  with spn user_token_fields [OF tok] show ?thesis by (auto simp: value_uuid_def)
qed

definition sample_entra :: "((string \<times> string) \<times> string) list entra_env" where
  "sample_entra = \<lparr>ee_lib = list_ini, ee_federation = (\<lambda>_ _. None), ee_can_write = (\<lambda>_. False), ee_unistring = ascii_unistring,
     ee_msal = \<lparr>msal_spn = (\<lambda>_. Some ''Tux@x.org''), msal_uuid = (\<lambda>_. Some 7), msal_access_token = Some, msal_prt = (\<lambda>_. None),
       msal_refresh_token = (\<lambda>_. ''r''), msal_name = (\<lambda>_. ''Tux'')\<rparr>,
     ee_tenant_id = Some ''t'', ee_user_groups = (\<lambda>_ _. None), ee_posix_attrs = (\<lambda>_ _. None), ee_getpwnam = (\<lambda>_. None),
     ee_static_file = Some ([\<lparr>su_name = ''tux@alias.org'', su_uid = 1000, su_gid = 100\<rparr>], []),
     ee_static_env = \<lparr>ce_root = True, ce_file = None, ce_mkdir_ok = True, ce_open_ok = True, ce_create_ok = True, ce_stmt_fault = False\<rparr>,
     ee_parse_uuid = (\<lambda>_. Some 1), ee_show_uuid = (\<lambda>_. ''u''), ee_domain = ''x.org''\<rparr>"

definition sample_hp :: "((string \<times> string) \<times> string) list hp_state" where
  "sample_hp = \<lparr>hp_own = \<lparr>hb_prts = [], hb_refresh_tokens = [], hb_bad_pins = [], hb_cachestate = Online, hb_clock = (\<lambda>_. 0), hb_tick = 0, slept = 0\<rparr>,
     hp_config = \<lparr>config = [((''global'', ''domains''), ''x.org''), ((''x.org'', ''domain_aliases''), ''alias.org'')], filename = DEFAULT_CONFIG_PATH\<rparr>,
     hp_files = Map.empty, hp_idmap = sample_idmap\<rparr>"

theorem token_validate_sound_witness:
  "\<exists>t s'. token_validate sample_entra ''tux@ALIAS.org'' ''token'' None sample_hp = Return (Inr (Auth_Success t), s')
    \<and> ut_spn t = ''tux@alias.org'' \<and> ut_uuid t = 7 \<and> to_lowercase ''Tux@x.org'' \<noteq> ''tux@alias.org''"
proof -
  have low: "to_lowercase ''tux@ALIAS.org'' = ''tux@alias.org''" "to_lowercase ''Tux@x.org'' \<noteq> ''tux@alias.org''" by code_simp+
  have "(case token_validate sample_entra ''tux@ALIAS.org'' ''token'' None sample_hp of Return (Inr (Auth_Success t), _) \<Rightarrow> True | _ \<Rightarrow> False)"
    by code_simp
  then obtain t s' where run: "token_validate sample_entra ''tux@ALIAS.org'' ''token'' None sample_hp = Return (Inr (Auth_Success t), s')"
    by (auto split: outcome.splits prod.splits sum.splits AuthResult.splits)
  have "ini_set_law (ee_lib sample_entra)" using list_ini_set by (simp add: sample_entra_def)
  from token_validate_sound [OF this run] low run show ?thesis by (auto simp: sample_entra_def)
qed

text \<open>
  The check for aliases works in one direction only. A requested domain that is configured is its own primary domain, so the
  domain of the token has to be this very domain: a user who asks for an account of the configured domain, and whose name in the
  directory is in an alias of this domain, is denied although the alias is listed.
\<close>

theorem alias_of_requested_domain_denied:
  assumes "split_username account = Some (l1, d1)" "split_username spn = Some (l2, d2)"
    and "get_oidc_issuer_url (ee_lib env) (hp_config s) = None"
    and "get_primary_domain_from_alias_simple (ee_lib env) (hp_config s) d1 = Some d1"
    and "to_lowercase d2 \<in> set (lower_aliases (ee_lib env) (hp_config s) d1)" "to_lowercase d2 \<noteq> to_lowercase d1"
    and "msal_access_token (ee_msal env) token \<noteq> None" "msal_spn (ee_msal env) token = Some spn" "to_lowercase account \<noteq> to_lowercase spn"
  shows "\<exists>msg. token_validate env account token old s = Return (Inr (Auth_Denied msg), s)"
proof -
  have "d2 \<noteq> d1" using assms(6) by auto
  with assms(3,4) have "domains_are_aliases (ee_lib env) (ee_federation env) (ee_can_write env) d1 d2 (hp_config s, hp_files s)
      = (False, hp_config s, hp_files s)"
    by (simp add: domains_are_aliases_def get_primary_domain_from_alias_def)
  with assms show ?thesis
    by (auto simp: token_validate_def names_match_def Let_def pbindE_def pbind_def pret_def)
qed

theorem alias_of_requested_domain_denied_witness:
  "\<exists>msg. token_validate (sample_entra\<lparr>ee_msal := (ee_msal sample_entra)\<lparr>msal_spn := (\<lambda>_. Some ''tux@alias.org'')\<rparr>\<rparr>) ''tux@x.org'' ''token'' None sample_hp
     = Return (Inr (Auth_Denied msg), sample_hp)"
proof (rule alias_of_requested_domain_denied [where spn = "''tux@alias.org''"])
  show "split_username ''tux@x.org'' = Some (''tux'', ''x.org'')" "split_username ''tux@alias.org'' = Some (''tux'', ''alias.org'')" by code_simp+
qed (simp_all add: sample_entra_def, code_simp+)

text \<open>The gid of a group by its display name.\<close>

lemma id_from_name_same:
  assumes "id_from_name env name s = Return (r, s')"
  shows "s' = s"
  using assms
  by (auto simp: id_from_name_def at_idmap_def gen_to_unix_def at_ctx_def sss_idmap_gen_to_unix_def prog_Return Let_def
      split: option.splits if_splits list.splits)

lemma group_gid_by_name:
  assumes "get_id_attr_map (ee_lib env) (hp_config s) = IdRfc2307" "get_rfc2307_group_fallback_map (ee_lib env) (hp_config s) = Some IdAttrName"
    and "ee_static_file env \<in> {None, Some (us, [])}" "do_extension_attrs g ''gidNumber'' = None" "do_display_name g = Some name"
    and "group_token_from_directory_object env g s = Return (Inr t, s')"
  shows "id_from_name env name s = Return (Inr (gt_gidnumber t), s) \<and> s' = s"
proof -
  have "(case static_cache_new (ee_static_file env) (ee_static_env env) False of Inl _ \<Rightarrow> None | Inr c \<Rightarrow> get_group_by_name c u) = None" for u
    using assms(3) by (auto simp: static_cache_new_def get_group_by_name_def)
  with assms obtain n where "id_from_name env name s = Return (Inr n, s')" "gt_gidnumber t = n"
    by (auto simp: group_token_from_directory_object_def Let_def pbind_Return pbindE_Return split: if_splits option.splits)
  with id_from_name_same show ?thesis by blast
qed

text \<open>
  C39. With \<open>id_attr_map = rfc2307\<close> and the fallback \<open>name\<close> a group without a \<open>gidNumber\<close> gets a gid that depends only on its display
  name, while display names are not unique in a directory: of two groups with the same name, whatever their object ids are,
  both get the same gid. (Without \<open>rfc2307\<close> the map \<open>name\<close> uses the object id of a group.)
\<close>

theorem same_name_same_gid:
  assumes "group_token_from_directory_object env g s = Return (Inr t, s1)" "group_token_from_directory_object env g' s1 = Return (Inr t', s2)"
    and "get_id_attr_map (ee_lib env) (hp_config s) = IdRfc2307" "get_rfc2307_group_fallback_map (ee_lib env) (hp_config s) = Some IdAttrName"
    and "ee_static_file env \<in> {None, Some (us, [])}"
    and "do_extension_attrs g ''gidNumber'' = None" "do_extension_attrs g' ''gidNumber'' = None"
    and "do_display_name g = Some name" "do_display_name g' = Some name"
  shows "gt_gidnumber t = gt_gidnumber t'"
  using group_gid_by_name [OF assms(3-5,6,8,1)] group_gid_by_name [of env s1 us g' name t' s2] assms by simp

definition sample_object :: "string \<Rightarrow> DirectoryObject" where
  "sample_object i = \<lparr>do_id = i, do_display_name = Some ''admins'', do_extension_attrs = Map.empty\<rparr>"

definition group_entra :: "((string \<times> string) \<times> string) list entra_env" where
  "group_entra = sample_entra\<lparr>ee_static_file := None, ee_tenant_id := Some ''d7af6c1b'', ee_parse_uuid := (\<lambda>s. Some (of_nat (length s)))\<rparr>"

definition group_hp :: "((string \<times> string) \<times> string) list hp_state" where
  "group_hp = sample_hp\<lparr>hp_idmap := sample_tenant, hp_config := \<lparr>config = [((''global'', ''id_attr_map''), ''rfc2307''), ((''global'', ''rfc2307_group_fallback_map''), ''name'')],
     filename = DEFAULT_CONFIG_PATH\<rparr>\<rparr>"

theorem same_name_same_gid_witness:
  "\<exists>t t' s1 s2. group_token_from_directory_object group_entra (sample_object ''a'') group_hp = Return (Inr t, s1)
    \<and> group_token_from_directory_object group_entra (sample_object ''bb'') s1 = Return (Inr t', s2)
    \<and> gt_gidnumber t = gt_gidnumber t' \<and> gt_uuid t = 1 \<and> gt_uuid t' = 2"
proof -
  let ?uuid = "\<lambda>i. case group_token_from_directory_object group_entra (sample_object i) group_hp of Return (Inr t, _) \<Rightarrow> gt_uuid t | _ \<Rightarrow> 0"
  have cfg: "get_id_attr_map (ee_lib group_entra) (hp_config group_hp) = IdRfc2307"
    "get_rfc2307_group_fallback_map (ee_lib group_entra) (hp_config group_hp) = Some IdAttrName"
    and uuids: "?uuid ''a'' = 1" "?uuid ''bb'' = 2" by code_simp+
  have g: "ee_static_file group_entra \<in> {None, Some ([], [])}" "do_extension_attrs (sample_object i) ''gidNumber'' = None"
    "do_display_name (sample_object i) = Some ''admins''" for i
    by (simp_all add: group_entra_def sample_object_def)
  from uuids obtain t t' s1 s2 where t: "group_token_from_directory_object group_entra (sample_object ''a'') group_hp = Return (Inr t, s1)" "gt_uuid t = 1"
    and t': "group_token_from_directory_object group_entra (sample_object ''bb'') group_hp = Return (Inr t', s2)" "gt_uuid t' = 2"
    by (auto split: outcome.splits prod.splits sum.splits)
  have "s1 = group_hp" using group_gid_by_name [OF cfg g t(1)] by simp
  with same_name_same_gid [OF t(1) _ cfg g(1,2,2,3,3)] t t' show ?thesis by blast
qed

end
