(* ===== verification/Group_Lookup.thy ===== *)
theory Group_Lookup
  imports Daemon Resolver_Cache Nss_Props Token_Props
begin

text \<open>
  The way of a group from the directory to NSS: the provider makes the tokens, the cache keeps them, the daemon
  answers requests for them, and the NSS module decides which answers are passed on.
\<close>

lemma show_nat_no_at: "CHR ''@'' \<notin> set (show_nat n)"
proof (induction n rule: show_nat.induct)
  case (1 n)
  have "CHR ''@'' \<noteq> digit_char d" if "d < 10" for d
  proof
    assume "CHR ''@'' = digit_char d"
    then have "(of_char (CHR ''@'') :: nat) = 48 + d" using of_char_digit_char [OF that] by simp
    with that show False by simp
  qed
  with 1 show ?case by (simp add: show_nat.simps [of n])
qed

section \<open>The names of directory groups\<close>

lemma group_token_name:
  assumes "group_token_from_directory_object env v s = Return (Inr t, s')"
  shows "CHR ''@'' \<notin> set (gt_name t) \<and> gt_spn t = gt_name t"
  using assms
  by (auto simp: group_token_from_directory_object_def Let_def pbind_Return pbindE_Return split: if_splits option.splits)

text \<open>
  What the provider makes: groups of the directory, and primary groups, which are named after their user. The environments \<open>E\<close> are those in which the
  provider answered, since the directory may change between requests.
\<close>

definition directory_group :: "'i entra_env set \<Rightarrow> GroupToken \<Rightarrow> bool" where
  "directory_group E t \<longleftrightarrow> (\<exists>env \<in> E. \<exists>v s s'. group_token_from_directory_object env v s = Return (Inr t, s'))"

definition primary_group :: "'i entra_env set \<Rightarrow> GroupToken \<Rightarrow> bool" where
  "primary_group E t \<longleftrightarrow> (\<exists>env \<in> E. \<exists>account value old s s' u. user_token_from_unix_user_token env account value old s = Return (Inr u, s')
     \<and> CHR ''@'' \<in> set (ut_spn u) \<and> t = \<lparr>gt_name = ut_spn u, gt_spn = ut_spn u, gt_uuid = ut_uuid u, gt_gidnumber = ut_gidnumber u\<rparr>)"

lemma directory_group_name: "directory_group E t \<Longrightarrow> CHR ''@'' \<notin> set (gt_name t) \<and> gt_spn t = gt_name t"
  using group_token_name by (fastforce simp: directory_group_def)

lemma primary_group_name: "primary_group E t \<Longrightarrow> CHR ''@'' \<in> set (gt_name t) \<and> gt_spn t = gt_name t"
  by (auto simp: primary_group_def)

lemma group_tokens_made: "group_tokens env gs s = Return (ts, s') \<Longrightarrow> env \<in> E \<Longrightarrow> list_all (directory_group E) ts"
proof (induction gs arbitrary: ts s)
  case (Cons g gs)
  then obtain r s1 ts' where "group_token_from_directory_object env g s = Return (r, s1)" "group_tokens env gs s1 = Return (ts', s')"
    "ts = (case r of Inr t \<Rightarrow> t # ts' | Inl _ \<Rightarrow> ts')"
    by (auto simp: pbind_Return)
  with Cons show ?case by (auto simp: directory_group_def split: sum.splits)
qed simp

lemma user_ids_groups:
  assumes "user_ids env spn uuid attrs gs s = Return (Inr (uid, gid, groups), s')"
  shows "groups = gs \<or> groups = gs @ [\<lparr>gt_name = spn, gt_spn = spn, gt_uuid = uuid, gt_gidnumber = uid\<rparr>]"
  using assms by (auto simp: user_ids_def pbind_Return pbindE_Return Let_def split: option.splits if_splits prod.splits sum.splits)

text \<open>So every group in the token of a user who has a domain is one or the other.\<close>

lemma user_token_groups_made:
  assumes run: "user_token_from_unix_user_token env account value old s = Return (Inr t, s')"
    and "env \<in> E" "CHR ''@'' \<in> set account" "list_all (\<lambda>g. directory_group E g \<or> primary_group E g) (old_groups old)"
  shows "list_all (\<lambda>g. directory_group E g \<or> primary_group E g) (ut_groups t)"
proof -
  obtain uuid where u: "value_uuid env value = Some uuid"
    using run by (auto simp: user_token_from_unix_user_token_def Let_def split: option.splits)
  let ?tok = "value_access_token env value" and ?spn = "to_lowercase account"
  from run u obtain gs s1 attrs b s2 where g: "fetch_groups env ?tok (ee_show_uuid env uuid) old s = Return (gs, s1)"
    and i: "user_ids env ?spn uuid attrs gs s1 = Return (Inr (ut_gidnumber t, b, ut_groups t), s2)"
    and t: "ut_spn t = ?spn" "ut_uuid t = uuid"
    by (auto simp: user_token_from_unix_user_token_def pbindE_Return pbind_Return Let_def split: option.splits)
  have "list_all (\<lambda>g. directory_group E g \<or> primary_group E g) gs"
    using g assms(2,4) by (auto simp: fetch_groups_def list_all_iff split: option.splits dest!: group_tokens_made)
  moreover have "lower_char CHR ''@'' = CHR ''@''" by (simp add: lower_char_def)
  then have "CHR ''@'' \<in> set ?spn" using assms(3) by (metis to_lowercase_def image_eqI set_map)
  then have "primary_group E \<lparr>gt_name = ?spn, gt_spn = ?spn, gt_uuid = uuid, gt_gidnumber = ut_gidnumber t\<rparr>"
    using run assms(2) t unfolding primary_group_def by metis
  ultimately show ?thesis using user_ids_groups [OF i] by (auto simp: list_all_iff)
qed

section \<open>Cached groups\<close>

text \<open>The columns of the table are those of the token in the row.\<close>

definition recorded :: "'h deps \<Rightarrow> group_row \<Rightarrow> GroupToken \<Rightarrow> bool" where
  "recorded d row tok \<longleftrightarrow> de_group d (gr_token row) = Some tok \<and> gr_uuid row = uuid_str d (gt_uuid tok) \<and> group_row.gr_name row = gt_name tok
     \<and> gr_spn row = gt_spn tok \<and> gr_gidnumber row = gt_gidnumber tok"

definition groups_recorded :: "'h deps \<Rightarrow> tables \<Rightarrow> bool" where
  "groups_recorded d t \<longleftrightarrow> (\<forall>row \<in> set (group_t t). \<exists>tok. recorded d row tok)"

definition cached_group :: "'h deps \<Rightarrow> tables \<Rightarrow> GroupToken \<Rightarrow> bool" where
  "cached_group d t tok \<longleftrightarrow> (\<exists>row \<in> set (group_t t). recorded d row tok)"

lemma update_group_recorded:
  assumes "\<And>g b. ser_group d g = Some b \<Longrightarrow> de_group d b = Some g" "groups_recorded d (cur c)" "update_group d g e c = Return (Inr u, c')"
  shows "groups_recorded d (cur c')"
proof -
  from assms(3) obtain data ex where d: "ser_group d g = Some data" "i64_of_u64 e = Some ex"
    by (auto simp: update_group_def split: option.splits)
  let ?row = "\<lparr>gr_uuid = uuid_str d (gt_uuid g), group_row.gr_name = gt_name g, gr_spn = gt_spn g, gr_gidnumber = gt_gidnumber g, gr_token = data, gr_expiry = ex\<rparr>"
  have "cur c' = (cur c)\<lparr>group_t := replace_group_row ?row (group_t (cur c))\<rparr>"
    using assms(3) d by (auto simp: update_group_def pbindE_Return dest!: sql_exec_Inr sql_prepare_Inr)
  moreover have "recorded d ?row g" using assms(1) [OF d(1)] by (simp add: recorded_def)
  ultimately show ?thesis
    using assms(2) by (auto simp: groups_recorded_def replace_group_row_def)
qed

lemma get_group_found:
  assumes "get_group d (IdName n) c = Return (Inr (Some (tok, e)), c')"
  shows "\<exists>row \<in> set (group_t (cur c)). de_group d (gr_token row) = Some tok \<and> (gr_uuid row = n \<or> group_row.gr_name row = n \<or> gr_spn row = n)"
proof -
  let ?rows = "filter (\<lambda>r. gr_uuid r = n \<or> group_row.gr_name r = n \<or> gr_spn r = n) (group_t (cur c))"
  have "Inr (Some (tok, e)) = one_token (de_group d) (map (\<lambda>r. (gr_token r, gr_expiry r)) ?rows)"
    using assms
    by (auto simp: get_group_def get_group_data_name_def pbindE_Return
      dest!: sql_select_Inr sql_prepare_Inr dest: sql_select_Inl sql_prepare_Inl)
  then obtain row where "row \<in> set ?rows" "de_group d (gr_token row) = Some tok"
    by (cases ?rows) (auto simp: one_token_def split: if_splits option.splits)
  then show ?thesis by auto
qed

lemma get_cached_grouptoken_found:
  assumes "get_cached_grouptoken self (IdName n) s = Return (Inr (b, Some tok), t)"
  shows "\<exists>row \<in> set (group_t (disk (rs_db s))). de_group (r_deps self) (gr_token row) = Some tok \<and> (gr_uuid row = n \<or> group_row.gr_name row = n \<or> gr_spn row = n)"
proof -
  from assms obtain u v where b: "r_begin s = Return ((), u)"
    and m: "pbindE (map_err (\<lambda>_. ()) (at_db (get_group (r_deps self) (IdName n)))) (cached_or_nx self (IdName n)) u = Return (Inr (b, Some tok), v)"
    unfolding get_cached_grouptoken_def by (rule db_read_Return)
  have u: "cur (rs_db u) = disk (rs_db s)" using r_begin_Return [OF b] by (auto simp: cur_def)
  from m obtain q c where q: "get_group (r_deps self) (IdName n) (rs_db u) = Return (q, c)"
    and k: "(case q of Inl _ \<Rightarrow> pret (Inl ()) | Inr x \<Rightarrow> cached_or_nx self (IdName n) x) (u\<lparr>rs_db := c\<rparr>) = Return (Inr (b, Some tok), v)"
    by (auto simp: prog_Return at_db_def split: sum.split)
  then obtain e where "q = Inr (Some (tok, e))"
    by (auto simp: cached_or_nx_def pbind_Return split: sum.splits option.splits)
  with get_group_found [of "r_deps self" n "rs_db u" tok e c] q u show ?thesis by simp
qed

lemma get_nssgroup_found:
  assumes "get_nssgroup self (IdName n) s = Return (Inr (Some ng), t)" "groups_recorded (r_deps self) (disk (rs_db s))"
  obtains tok where "cached_group (r_deps self) (disk (rs_db s)) tok" "uuid_str (r_deps self) (gt_uuid tok) = n \<or> gt_name tok = n \<or> gt_spn tok = n"
    "ng_gid ng = gt_gidnumber tok" "ng_name ng = token_gidattr self tok"
proof -
  from assms(1) obtain tok u where g: "get_grouptoken self (IdName n) s = Return (Inr (Some tok), u)"
    and ng: "ng_gid ng = gt_gidnumber tok" "ng_name ng = token_gidattr self tok"
    by (auto simp: get_nssgroup_def pbindE_Return pbind_Return nss_group_of_def split: option.splits)
  from g obtain b where "get_cached_grouptoken self (IdName n) s = Return (Inr (b, Some tok), u)"
    by (auto simp: get_grouptoken_def pbindE_Return Let_def)
  from get_cached_grouptoken_found [OF this] assms(2) ng that show ?thesis
    by (fastforce simp: groups_recorded_def cached_group_def recorded_def)
qed

section \<open>The daemon as NSS sees it\<close>

text \<open>One request over a connection of its own; a request that does not return gets no answer.\<close>

definition daemon_call :: "('i, 'w) daemon_env \<Rightarrow> ('p, 'h, 'l) resolver \<Rightarrow> u32 \<Rightarrow> ('p, 'h, 'l, 'w) dstate \<Rightarrow> ClientRequest \<Rightarrow> ClientResponse option" where
  "daemon_call denv self uid d req = (case handle_request denv self uid req d of Return (resp, _) \<Rightarrow> Some resp | _ \<Rightarrow> None)"

lemma daemon_call_group:
  assumes "daemon_call denv self uid d (NssGroupByName n) = Some (CR_NssGroup (Some ng))"
  shows "\<exists>t. get_nssgroup self (IdName n) (ds_resolver d) = Return (Inr (Some ng), t)"
  using assms
  by (auto simp: daemon_call_def answer_or_def get_nssgroup_name_def pbind_def cachelayer_def pzoom_def pret_def
      split: outcome.splits prod.splits sum.splits)

text \<open>The two ways to a group by its name.\<close>

lemma group_by_name_success:
  assumes "group_get_entry_by_name env name st = (RSuccess g, st')" "daemon env = Some call"
  obtains (upn) upn ne cfg ng where "map_name_to_upn (nss_lib env) cfg name (ns_names st) = (upn, ne)" "CHR ''@'' \<in> set upn"
      "gr_gid g = ng_gid ng" "call (NssGroupByName upn) = Some (CR_NssGroup (Some ng))"
      "nss_config env = Some cfg" "g = local_group env cfg st' ng"
  | (uuid) ng where "uuid_parses env name" "g = group_from_nssgroup ng" "to_lowercase name \<noteq> to_lowercase (ng_name ng)"
      "call (NssGroupByName name) = Some (CR_NssGroup (Some ng))"
  using assms
  by (auto simp: group_get_entry_by_name_def with_config_def Let_def local_group_def group_from_nssgroup_def
      split: if_splits option.splits prod.splits Response.splits ClientResponse.splits)

end
