(* ===== verification/Offline_Session.thy ===== *)
theory Offline_Session
  imports Resolver_Cache Idp_Offline
begin

text \<open>
  A session of the resolver that starts offline, with a provider whose offline half is the shared code of the providers: what the resolver
  does with the requests of the PAM module, the transactions it opens around the provider's steps, and the second factor.
\<close>

section \<open>Sessions\<close>

text \<open>The provider starts and continues offline sessions with the shared code, and telling its state does not change the key store.\<close>

definition shared_offline :: "'h hello_crates \<Rightarrow> hb_config \<Rightarrow> bool \<Rightarrow> bool \<Rightarrow> (hb_state, 'h) IdProvider \<Rightarrow> bool" where
  "shared_offline k cfg pw hp cl \<longleftrightarrow>
     (\<forall>a token n. idp_unix_user_offline_auth_init cl a token n = offline_auth_init k cfg pw a n) \<and>
     (\<forall>a token ch req mk b. idp_unix_user_offline_auth_step cl a token ch req mk b = offline_auth_step k cfg hp a token ch req mk b) \<and>
     (\<forall>a. keystore_call (idp_get_cachestate cl a) \<and> leaves store_view (idp_get_cachestate cl a))"

text \<open>
  The steps of one session, each with the state of the resolver in which it was taken, its request and its answer. Between two steps
  other connections may have changed the resolver.
\<close>

fun session_run :: "('p, 'h, 'l) resolver \<Rightarrow> AuthSession \<Rightarrow> (('p, 'h, 'l) rstate \<times> PamAuthRequest \<times> (unit + PamAuthResponse)) list \<Rightarrow> bool" where
  "session_run self ss [] = True"
| "session_run self ss ((s, req, resp) # steps) =
     (case pam_account_authenticate_step self ss req s of
        Return ((r, ss'), _) \<Rightarrow> r = resp \<and> session_run self ss' steps
      | _ \<Rightarrow> False)"

declare session_run.simps(2) [simp del]

lemma session_run_Cons [simp]:
  "session_run self ss ((s, req, resp) # steps) \<longleftrightarrow>
     (\<exists>ss' t. pam_account_authenticate_step self ss req s = Return ((resp, ss'), t) \<and> session_run self ss' steps)"
  by (auto simp: session_run.simps(2) split: outcome.splits)

text \<open>A session that started offline and has no handler, or is over.\<close>

definition plain_offline :: "string \<Rightarrow> AuthSession \<Rightarrow> bool" where
  "plain_offline a ss \<longleftrightarrow> (case ss of InProgress a' _ _ _ onl h _ _ \<Rightarrow> a' = a \<and> \<not> onl \<and> h = CH_None | Session_Success _ \<Rightarrow> False | Session_Denied \<Rightarrow> True)"

lemma plain_offline_simps [simp]:
  "plain_offline a Session_Denied" "\<not> plain_offline a (Session_Success u)"
  "plain_offline a (InProgress a' sv i tk onl h n f) \<longleftrightarrow> a' = a \<and> \<not> onl \<and> h = CH_None"
  by (simp_all add: plain_offline_def)

lemma plain_offline_handler: "plain_offline a ss \<Longrightarrow> plain_offline a (set_handler CH_None ss)"
  by (cases ss) (simp_all add: set_handler_def)

section \<open>The start\<close>

lemma offline_auth_init_handler: "yields (\<lambda>r. \<forall>x. r = Inr x \<longrightarrow> snd x = CH_None) (offline_auth_init k cfg pw a n)"
  unfolding offline_auth_init_def by (auto intro!: yields_pbind)

lemma yields_pzoom: "yields P m \<Longrightarrow> yields P (pzoom g u m)"
  by (auto simp: yields_def pzoom_Return)

lemma auth_init_offline_handler:
  assumes "shared_offline k cfg pw hp (r_client self)"
  shows "yields (\<lambda>r. \<forall>x. r = Inr x \<longrightarrow> snd x = CH_None) (auth_init_offline self a n token)"
proof -
  have "yields (\<lambda>r. \<forall>x. r = Inr x \<longrightarrow> snd x = CH_None) (at_db_client (offline_auth_init k cfg pw a n))"
    unfolding at_db_client_def by (intro yields_pzoom offline_auth_init_handler)
  then have "yields (\<lambda>r. \<forall>x. r = Inr x \<longrightarrow> snd x = CH_None) (db_read (at_db_client (offline_auth_init k cfg pw a n)))"
    unfolding db_read_def yields_def pbind_Return by auto
  with assms show ?thesis by (simp add: auth_init_offline_def shared_offline_def)
qed

definition starts_plain :: "string \<Rightarrow> unit + AuthSession \<times> PamAuthResponse \<Rightarrow> bool" where
  "starts_plain a r \<longleftrightarrow> (\<forall>ss resp. r = Inr (ss, resp) \<longrightarrow> plain_offline a ss \<or> as_online_at_init ss)"

lemma init_starts_plain:
  assumes "shared_offline k cfg pw hp (r_client self)"
  shows "yields (starts_plain a) (pam_account_authenticate_init self a sv n f)"
proof -
  have "starts_plain a (case m of
             Inr (next_req, cred_handler) \<Rightarrow> Inr (InProgress a sv i tk onl cred_handler n f, into_PamAuthResponse next_req)
           | Inl (NotFound what locus) \<Rightarrow> Inr (Session_Denied, PR_Denied (not_found_msg what locus))
           | Inl _ \<Rightarrow> Inl ())" if "onl \<or> (\<forall>x. m = Inr x \<longrightarrow> snd x = CH_None)" for m i tk onl
    using that by (auto simp: starts_plain_def split: sum.splits prod.splits IdpError.splits)
  moreover have "starts_plain a (Inr (Session_Denied, resp))" "starts_plain a (Inl e)" for resp e by (simp_all add: starts_plain_def)
  ultimately show ?thesis
    unfolding pam_account_authenticate_init_def Let_def
    by (auto intro!: yields_pbind yields_pbindE yields_pbind_via [OF auth_init_offline_handler [OF assms]] split: prod.split)
qed

section \<open>One step\<close>

lemma offline_auth_step_handler: "yields (\<lambda>r. snd r = ch) (offline_auth_step k cfg hp a token ch req mk b)"
  unfolding offline_auth_step_def by (auto intro!: yields_pbind)

lemma hsm_db_call_yields: "yields P m \<Longrightarrow> yields (\<lambda>r. P (fst r)) (hsm_db_call m)"
  unfolding hsm_db_call_def yields_def pbind_Return by auto

lemma auth_step_pin_plain:
  assumes "shared_offline k cfg pw hp (r_client self)" "plain_offline a ss" "as_cred_handler ss = CH_None"
  shows "yields (\<lambda>r. plain_offline a (snd r)) (auth_step_pin self ss token req)"
proof -
  have "yields (\<lambda>r. snd (fst r) = CH_None) (hsm_db_call (at_all (offline_auth_step k cfg hp (as_account_id ss) token CH_None req
      (r_machine_key self) (as_online_at_init ss))))"
    unfolding at_all_def by (intro hsm_db_call_yields yields_pzoom offline_auth_step_handler)
  with assms show ?thesis
    unfolding auth_step_pin_def shared_offline_def
    by (auto intro!: yields_pbind_via simp: plain_offline_handler split: prod.split)
qed

lemma auth_step_verdict_plain:
  assumes "shared_offline k cfg pw hp (r_client self)" "plain_offline a ss"
  shows "yields (\<lambda>r. plain_offline a (snd r)) (auth_step_verdict self ss cs req)"
proof -
  have "yields (\<lambda>r. plain_offline a (snd r)) (auth_step_offline self ss token req)" if "as_cred_handler ss = CH_None" for token
    using assms that
    by (auto simp: auth_step_offline_def intro!: yields_pbind auth_step_pin_plain split: PamAuthRequest.split)
  with assms show ?thesis by (auto simp: auth_step_verdict_def split: AuthSession.split option.split)
qed

lemma step_plain:
  assumes "shared_offline k cfg pw hp (r_client self)" "plain_offline a ss"
  shows "yields (\<lambda>r. fst r \<noteq> Inr PR_Success \<longrightarrow> plain_offline a (snd r)) (pam_account_authenticate_step self ss req)"
proof -
  have "yields (\<lambda>r. fst r \<noteq> Inr PR_Success \<longrightarrow> plain_offline a (snd r)) (auth_step_conclude self v ss1)" if "plain_offline a ss1" for v ss1
    using that by (auto simp: auth_step_conclude_def intro!: yields_pbind split: sum.split AuthResult.split IdpError.split)
  then show ?thesis
    unfolding pam_account_authenticate_step_def
    by (auto intro!: yields_pbind yields_pbind_via [OF auth_step_verdict_plain [OF assms]] split: prod.split)
qed

text \<open>No handler accepts a code.\<close>

definition refused :: "unit + PamAuthResponse \<Rightarrow> bool" where
  "refused r \<longleftrightarrow> r = Inl () \<or> (\<exists>m. r = Inr (PR_Denied m))"

lemma code_verdict:
  assumes "shared_offline k cfg pw hp (r_client self)" "plain_offline a ss"
  shows "yields (\<lambda>r. \<forall>early. fst r = Inl early \<longrightarrow> refused early) (auth_step_verdict self ss cs (PQ_HelloTOTP code))"
    "yields (\<lambda>r. \<forall>y. fst r \<noteq> Inr (Inr y)) (auth_step_verdict self ss cs (PQ_HelloTOTP code))"
proof -
  have "yields (\<lambda>r. fst (fst r) = Inl BadRequest) (hsm_db_call (at_all (offline_auth_step k cfg hp a token CH_None (PQ_HelloTOTP code) mk b)))" for token mk b
    unfolding at_all_def by (intro hsm_db_call_yields yields_pzoom) (simp add: offline_auth_step_def yields_def pbind_Return)
  then have pin: "yields (\<lambda>r. fst r = Inl (Inl ()) \<or> fst r = Inr (Inl BadRequest)) (auth_step_pin self ss token (PQ_HelloTOTP code))"
    if "as_cred_handler ss = CH_None" "as_account_id ss = a" for token
    using assms that unfolding auth_step_pin_def shared_offline_def
    by (auto intro!: yields_pbind_via split: prod.split sum.split)
  have off: "yields (\<lambda>r. fst r \<in> {Inl (Inl ()), Inl (Inr (PR_Denied reauth_msg)), Inr (Inl BadRequest)}) (auth_step_offline self ss token (PQ_HelloTOTP code))"
    if "as_cred_handler ss = CH_None" "as_account_id ss = a" for token
  proof (cases "as_force_reauth ss")
    case False
    with that have "auth_step_offline self ss token (PQ_HelloTOTP code) = auth_step_pin self ss token (PQ_HelloTOTP code)"
      by (simp add: auth_step_offline_def)
    with pin [OF that, of token] show ?thesis unfolding yields_def by fastforce
  qed (simp add: auth_step_offline_def)
  show "yields (\<lambda>r. \<forall>early. fst r = Inl early \<longrightarrow> refused early) (auth_step_verdict self ss cs (PQ_HelloTOTP code))"
    "yields (\<lambda>r. \<forall>y. fst r \<noteq> Inr (Inr y)) (auth_step_verdict self ss cs (PQ_HelloTOTP code))"
    using assms(2) off by (auto simp: auth_step_verdict_def refused_def yields_def split: AuthSession.splits option.splits) fastforce+
qed

lemma code_refused:
  assumes "shared_offline k cfg pw hp (r_client self)" "plain_offline a ss"
    and "pam_account_authenticate_step self ss (PQ_HelloTOTP code) s = Return ((resp, ss'), t)"
  shows "refused resp"
proof -
  from assms(3) obtain cs u v ss1 w where v: "auth_step_verdict self ss cs (PQ_HelloTOTP code) u = Return ((v, ss1), w)"
    and c: "auth_step_conclude self v ss1 w = Return ((resp, ss'), t)"
    by (auto simp: pam_account_authenticate_step_def pbind_Return)
  from yieldsD [OF code_verdict(1) [OF assms(1,2)] v] yieldsD [OF code_verdict(2) [OF assms(1,2)] v] c show ?thesis
    by (auto simp: auth_step_conclude_def refused_def split: sum.splits IdpError.splits)
qed

section \<open>The second factor\<close>

text \<open>No transaction is open, the store answers, and a TOTP secret is stored on disk.\<close>

definition enrolled_on_disk :: "'h hello_crates \<Rightarrow> hb_config \<Rightarrow> string \<Rightarrow> (hb_state, 'h, 'l) rstate \<Rightarrow> bool" where
  "enrolled_on_disk k cfg a s \<longleftrightarrow> txn (rs_db s) = None \<and> totp_due k cfg (rs_db s) a"

lemma totp_due_cong: "cur c = cur c' \<Longrightarrow> sql_fault c = sql_fault c' \<Longrightarrow> totp_due k cfg c a = totp_due k cfg c' a"
  by (simp add: totp_due_def sql_ready_def hsm_stored_def)

lemma cachestate_keeps_due:
  assumes "shared_offline k cfg pw hp (r_client self)" "enrolled_on_disk k cfg a s"
    and "get_cachestate self x s = Return (cs, u)" and "txn (rs_db u) = None"
  shows "totp_due k cfg (rs_db u) a"
proof -
  from assms(3) obtain s1 s2 r where b: "r_begin s = Return ((), s1)"
    and c: "at_db_client (idp_get_cachestate (r_client self) x) s1 = Return (cs, s2)" and e: "r_commit s2 = Return (r, u)"
    by (auto simp: get_cachestate_def pbind_Return)
  have s1: "cur (rs_db s1) = cur (rs_db s)" "sql_fault (rs_db s1) = sql_fault (rs_db s)" "txn (rs_db s1) \<noteq> None"
    using r_begin_Return [OF b] assms(2) by (auto simp: cur_def enrolled_on_disk_def)
  from c obtain p where run: "idp_get_cachestate (r_client self) x (rs_db s1, rs_client s1) = Return (cs, rs_db s2, p)"
    by (auto simp: at_db_client_def pzoom_Return)
  have kc: "keystore_call (idp_get_cachestate (r_client self) x)" and lv: "leaves store_view (idp_get_cachestate (r_client self) x)"
    using assms(1) by (simp_all add: shared_offline_def)
  have "cur (rs_db s2) = cur (rs_db s1)" "sql_fault (rs_db s2) = sql_fault (rs_db s1)"
    using leavesD [OF lv run] by (simp_all add: store_view_def)
  moreover have "txn (rs_db s2) \<noteq> None"
  proof -
    have "keystore_only (fst (rs_db s1, rs_client s1)) (fst (rs_db s2, p))"
      using kc run unfolding keystore_call_def keeps_def by blast
    with s1(3) show ?thesis by (simp add: keystore_only_def in_txn_def)
  qed
  moreover have "cur (rs_db u) = cur (rs_db s2) \<and> sql_fault (rs_db u) = sql_fault (rs_db s2)"
    using e assms(4) calculation(3)
    by (auto simp: r_commit_def r_unlock_def at_db_def prog_Return commit_def Let_def cur_def split: option.splits if_splits)
  ultimately show ?thesis
    using assms(2) s1 totp_due_cong [of "rs_db u" "rs_db s" k cfg a] by (simp add: enrolled_on_disk_def)
qed

lemma step_not_success:
  assumes client: "shared_offline k cfg pw hp (r_client self)" and ss: "plain_offline a ss" and due: "enrolled_on_disk k cfg a s"
    and req: "\<And>c. req \<noteq> PQ_Password c" and run: "pam_account_authenticate_step self ss req s = Return ((resp, ss'), t)"
  shows "resp \<noteq> Inr PR_Success"
proof
  assume "resp = Inr PR_Success"
  with run have "pam_account_authenticate_step self ss req s = Return ((Inr PR_Success, ss'), t)" by simp
  then obtain sv i token onl h n f tok cs u where ev: "ss = InProgress a sv i (Some token) False CH_None n f"
    "get_cachestate self (Some a) s = Return (cs, u)" "success_evidence self u cs ss token req tok"
    using auth_step_success [of self ss req s ss' t] ss by auto
  then have "pin_accepted self u ss token req tok" using req by (auto simp: success_evidence_def split: PamAuthRequest.splits)
  then obtain h w where "hsm_db_call (at_all (offline_auth_step k cfg hp a token CH_None req (r_machine_key self) False)) u
      = Return (((Inr (Auth_Success tok), h), Inr ()), w)"
    using client ev(1) by (auto simp: pin_accepted_def shared_offline_def)
  then obtain x y z where x: "r_lock LHsm u = Return ((), x)" and y: "r_begin x = Return ((), y)"
    and z: "at_all (offline_auth_step k cfg hp a token CH_None req (r_machine_key self) False) y = Return ((Inr (Auth_Success tok), h), z)"
    by (auto simp: hsm_db_call_def pbind_Return)
  have db: "rs_db x = rs_db u" using x by (auto simp: r_lock_def split: if_splits)
  have "txn (rs_db u) = None" using y db by (auto simp: r_begin_def at_db_def r_lock_def prog_Return db_write_Return split: if_splits)
  with cachestate_keeps_due [OF client due ev(2)] have "totp_due k cfg (rs_db u) a" by simp
  moreover have "cur (rs_db y) = cur (rs_db u)" "sql_fault (rs_db y) = sql_fault (rs_db u)"
    using r_begin_Return [OF y] db \<open>txn (rs_db u) = None\<close> by (auto simp: cur_def)
  ultimately have "totp_due k cfg (rs_db y) a" using totp_due_cong by metis
  with z show False by (auto simp: at_all_def pzoom_Return dest!: offline_step_totp_due)
qed

lemma steps_not_success:
  assumes "shared_offline k cfg pw hp (r_client self)"
  shows "plain_offline a ss \<Longrightarrow> session_run self ss steps \<Longrightarrow>
    \<forall>(s, req, resp) \<in> set steps. enrolled_on_disk k cfg a s \<and> (\<forall>c. req \<noteq> PQ_Password c) \<Longrightarrow>
    (s, req, resp) \<in> set steps \<Longrightarrow> resp \<noteq> Inr PR_Success \<and> (\<forall>c. req = PQ_HelloTOTP c \<longrightarrow> refused resp)"
proof (induction steps arbitrary: ss)
  case (Cons e steps)
  obtain s1 req1 resp1 where e: "e = (s1, req1, resp1)" by (cases e)
  with Cons.prems obtain ss' t where run: "pam_account_authenticate_step self ss req1 s1 = Return ((resp1, ss'), t)" and rest: "session_run self ss' steps"
    by auto
  have first: "enrolled_on_disk k cfg a s1" "\<And>c. req1 \<noteq> PQ_Password c" using Cons.prems(3) e by auto
  note no = step_not_success [OF assms Cons.prems(1) first run]
  have "plain_offline a ss'" using yieldsD [OF step_plain [OF assms Cons.prems(1)] run] no by simp
  note IH = Cons.IH [OF this rest]
  show ?case
  proof (cases "(s, req, resp) \<in> set steps")
    case True
    then show ?thesis using IH Cons.prems(3) by simp
  next
    case False
    with Cons.prems(4) e have "s = s1" "req = req1" "resp = resp1" by auto
    with no run code_refused [OF assms Cons.prems(1)] show ?thesis by blast
  qed
qed simp

text \<open>
  C25. A session of the resolver that starts offline, where the second factor is enabled and a TOTP secret is stored: no sequence of PINs, codes and other
  answers except a password can make it succeed, whatever other connections do between the steps. After the right PIN the code is asked for, but the handler that
  would accept one is never installed, so every code is answered with an error or a denial. (A password is checked by the resolver against the cached one.)
\<close>

theorem offline_totp_never_succeeds:
  assumes "shared_offline k cfg pw hp (r_client self)"
    and "pam_account_authenticate_init self a sv n f s0 = Return (Inr (ss, first), s1)" "\<not> as_online_at_init ss"
    and "session_run self ss steps"
    and "\<And>s req resp. (s, req, resp) \<in> set steps \<Longrightarrow> enrolled_on_disk k cfg a s \<and> (\<forall>c. req \<noteq> PQ_Password c)"
    and "(s, req, resp) \<in> set steps"
  shows "resp \<noteq> Inr PR_Success \<and> (\<forall>code. req = PQ_HelloTOTP code \<longrightarrow> refused resp)"
proof -
  have "plain_offline a ss" using yieldsD [OF init_starts_plain [OF assms(1)] assms(2)] assms(3) by (auto simp: starts_plain_def)
  moreover have "\<forall>(s, req, resp) \<in> set steps. enrolled_on_disk k cfg a s \<and> (\<forall>c. req \<noteq> PQ_Password c)" using assms(5) by blast
  ultimately show ?thesis by (rule steps_not_success [OF assms(1) _ assms(4) _ assms(6)])
qed

section \<open>A sample session\<close>

definition offline_provider :: "(hb_state, unit) IdProvider" where
  "offline_provider = \<lparr>
     idp_configure_hsm_keys = (\<lambda>_. pret (Inr ())),
     idp_check_online = (\<lambda>_. pret False),
     idp_unix_user_get = (\<lambda>_ _ _. pret (Inl BadRequest)),
     idp_unix_user_access = (\<lambda>_ _ _ _ _ _ _. pret (Inl BadRequest)),
     idp_unix_user_tgts = (\<lambda>_ _ _. pret (None, None, None, None)),
     idp_unix_user_prt_cookie = (\<lambda>_ _ _ _. pret (Inl BadRequest)),
     idp_change_auth_token = (\<lambda>_ _ _ _. pret (Inl BadRequest)),
     idp_unix_user_online_auth_init = (\<lambda>_ _ _ _ _ _. pret (Inl BadRequest)),
     idp_unix_user_online_auth_step = (\<lambda>_ t _ _ h r _. pret (Inl BadRequest, h)),
     idp_unix_user_offline_auth_init = (\<lambda>a _ n. offline_auth_init sample_crates sample_cfg True a n),
     idp_unix_user_offline_auth_step = offline_auth_step sample_crates sample_cfg True,
     idp_unix_group_get = (\<lambda>_. pret (Inl BadRequest)),
     idp_get_cachestate = (\<lambda>_. pret Offline),
     idp_offline_break_glass = (\<lambda>_. pret (Inr ())),
     idp_export_broker_prts = pret (Inr []),
     idp_import_broker_prts = (\<lambda>_. pret (Inr ()))\<rparr>"

lemma offline_provider_shared: "shared_offline sample_crates sample_cfg True True offline_provider"
  by (simp add: shared_offline_def offline_provider_def keystore_call_pret leaves_pret)

definition offline_resolver :: "(hb_state, unit, (Id \<times> systime) list) resolver" where
  "offline_resolver = \<lparr>r_deps = sample_deps, r_lru = sample_lru, r_client = offline_provider, r_machine_key = ''mk'',
     r_pam_allow_groups = {''7''}, r_timeout_seconds = 300, r_default_shell = ''/bin/bash'',
     r_home_prefix = ''/home/'', r_home_attr = HA_Uuid, r_home_alias = Some HA_Spn, r_uid_attr_map = UA_Spn,
     r_gid_attr_map = UA_Spn, r_allow_id_overrides = {}\<rparr>"

definition enrolled_idle :: "(hb_state, unit, (Id \<times> systime) list) rstate" where
  "enrolled_idle = \<lparr>rs_db = \<lparr>disk = sample_tables\<lparr>hsm_data_t := map (\<lambda>(t, v). (t, as_bytes v)) alice_keys,
         account_t := [\<lparr>ar_uuid = ''1'', ar_name = ''alice'', ar_spn = ''alice@example.com'', ar_gidnumber = 1000, ar_password = None,
           ar_token = [1], ar_expiry = 0\<rparr>]\<rparr>,
       txn = None, guard = False, sql_fault = (\<lambda>_. False), stmt_no = 0, foreign_keys = False\<rparr>,
     rs_hsm = (), rs_client = sample_hb, rs_nxset = {}, rs_nxcache = [], rs_held = [],
     rs_trace = [], rs_clock = (\<lambda>_. 1700000000 * 1000000000), rs_tick = 0, rs_files = {}, rs_remove_fails = (\<lambda>_. False)\<rparr>"

definition sample_session :: "((hb_state, unit, (Id \<times> systime) list) rstate \<times> PamAuthRequest \<times> (unit + PamAuthResponse)) list" where
  "sample_session =
     [(enrolled_idle, PQ_Pin ''1234'', Inr (PR_HelloTOTP ''Please enter your Hello TOTP code from your Authenticator: '')),
      (enrolled_idle, PQ_HelloTOTP ''JBSW'', Inl ())]"

definition sample_starts :: "AuthSession \<Rightarrow> bool" where
  "sample_starts ss \<longleftrightarrow> \<not> as_online_at_init ss \<and> session_run offline_resolver ss sample_session"

lemma sample_session_runs:
  "case pam_account_authenticate_init offline_resolver ''alice@example.com'' ''sshd'' False False enrolled_idle of
     Return (Inr (ss, _), _) \<Rightarrow> sample_starts ss | _ \<Rightarrow> False"
  by code_simp

lemma sample_enrolled: "enrolled_on_disk sample_crates sample_cfg ''alice@example.com'' enrolled_idle"
proof -
  have "db_tables \<subseteq> set (schema (cur (rs_db enrolled_idle)))" "hsm_stored sample_crates (rs_db enrolled_idle) (fetch_hello_totp_key_tag ''alice@example.com'') \<noteq> None"
    by code_simp+
  then show ?thesis by (simp add: enrolled_on_disk_def totp_due_def sql_ready_def sample_cfg_def) (simp add: enrolled_idle_def)
qed

theorem offline_totp_never_succeeds_witness:
  "(\<exists>ss first s1. pam_account_authenticate_init offline_resolver ''alice@example.com'' ''sshd'' False False enrolled_idle = Return (Inr (ss, first), s1) \<and>
      \<not> as_online_at_init ss \<and> session_run offline_resolver ss sample_session) \<and>
   (enrolled_idle, PQ_HelloTOTP ''JBSW'', Inl ()) \<in> set sample_session \<and> refused (Inl ())"
proof -
  obtain ss first s1 where init: "pam_account_authenticate_init offline_resolver ''alice@example.com'' ''sshd'' False False enrolled_idle = Return (Inr (ss, first), s1)"
    and run: "\<not> as_online_at_init ss" "session_run offline_resolver ss sample_session"
    using sample_session_runs by (auto simp: sample_starts_def split: outcome.splits prod.splits sum.splits)
  have "shared_offline sample_crates sample_cfg True True (r_client offline_resolver)"
    using offline_provider_shared by (simp add: offline_resolver_def)
  moreover have "enrolled_on_disk sample_crates sample_cfg ''alice@example.com'' s \<and> (\<forall>c. req \<noteq> PQ_Password c)" if "(s, req, resp) \<in> set sample_session" for s req resp
    using that sample_enrolled by (auto simp: sample_session_def)
  moreover have tried: "(enrolled_idle, PQ_HelloTOTP ''JBSW'', Inl ()) \<in> set sample_session" by (simp add: sample_session_def)
  ultimately have "refused (Inl ())" using offline_totp_never_succeeds [OF _ init run] by blast
  with init run tried show ?thesis by blast
qed

end
