(* ===== verification/Spec2Isabelle.thy ===== *)
theory Spec2Isabelle
  imports Cache_Props Idmap_Sids Idp_Keys Sign_In Group_Lookup Offline_Session
begin

text \<open>
  A verification development for himmelblau, which lets Linux hosts authenticate their users against Entra Id.

  \<^bold>\<open>The program.\<close> Login programs call a PAM module and an NSS module. Both talk over a Unix socket to a daemon. The daemon hands every request
  to a resolver, which answers from an SQLite cache or asks an identity provider; the provider talks to the directory service, keeps sealed
  Hello keys in the cache's key store, and gives users and groups their Unix ids through an id-mapping library. Work that needs root is
  passed on to a task daemon. Small SQLite files carry mapped names, static ids, NSS entries and policies between the modules.

  \<^bold>\<open>The theories and the code.\<close> Paths are below \<open>src/src\<close>; a definition has the name of the function it translates.
  \<^item> \<^theory_text>\<open>Himmelblau_Prelude\<close>: programs on an explicit state that return, panic or block for ever on a lock of their own; the rules for what a program
    keeps (\<open>keeps\<close>), leaves alone (\<open>leaves\<close>), returns (\<open>yields\<close>) and that it succeeds (\<open>succeeds\<close>); text and numbers of Rust's library.
  \<^item> \<^theory_text>\<open>Idp_Interface\<close>: \<open>idprovider/interface.rs\<close>, \<open>unix_proto.rs\<close>, \<open>unix_config.rs\<close> of \<open>common/src\<close>. The provider trait is the record \<open>IdProvider\<close>.
  \<^item> \<^theory_text>\<open>Cache_Db\<close>, \<^theory_text>\<open>Cache_Props\<close>: \<open>common/src/db.rs\<close>. The state is a connection with the tables on disk, an open transaction, the \<open>committed\<close>
    guard and the faults of the engine, one decision per statement.
  \<^item> \<^theory_text>\<open>Resolver\<close>, with \<^theory_text>\<open>Resolver_Locks\<close>, \<^theory_text>\<open>Resolver_Auth\<close>, \<^theory_text>\<open>Resolver_Cache\<close>: \<open>common/src/resolver.rs\<close>. The state \<open>rstate\<close> has the connection, the
    HSM, the provider, the sets of local names, the clock and the mutexes that are held.
  \<^item> \<^theory_text>\<open>Idp_Common\<close>, with \<^theory_text>\<open>Idp_Offline\<close>, \<^theory_text>\<open>Idp_Keys\<close>: \<open>common/src/idprovider/common.rs\<close>, the macros and caches that the providers share.
    \<^theory_text>\<open>Offline_Session\<close> puts them behind the resolver.
  \<^item> \<^theory_text>\<open>Idp_Tokens\<close>, \<^theory_text>\<open>Token_Props\<close>: the part of \<open>common/src/idprovider/himmelblau.rs\<close> that decides whose token it is and makes user and group tokens.
  \<^item> \<^theory_text>\<open>Daemon\<close>, \<^theory_text>\<open>Daemon_Props\<close>: \<open>daemon/src/daemon.rs\<close>, one definition per request (\<open>handle_request\<close>), the tasks and the Intune check.
  \<^item> \<^theory_text>\<open>Pam_Client\<close>, \<^theory_text>\<open>Pam_Props\<close>: \<open>common/src/auth.rs\<close> and \<open>pam.rs\<close>, one definition per handler of an answer, and the loop.
    \<^theory_text>\<open>Auth_Service\<close> states what the loop relies on, \<^theory_text>\<open>Sign_In\<close> runs module, daemon and resolver together.
  \<^item> \<^theory_text>\<open>Pin_Policy\<close>: \<open>common/src/hello_pin_complexity.rs\<close> and \<open>policy_cache.rs\<close>. \<^theory_text>\<open>Client_Sync\<close>: \<open>client_sync.rs\<close>. \<^theory_text>\<open>User_Map\<close>: \<open>user_map.rs\<close>.
    \<^theory_text>\<open>File_Caches\<close>: \<open>mapping.rs\<close>, \<open>nss_cache.rs\<close>, \<open>idmap_cache.rs\<close>. \<^theory_text>\<open>Config\<close>, \<^theory_text>\<open>Config_Props\<close>: \<open>config.rs\<close>.
  \<^item> \<^theory_text>\<open>Nss_Module\<close>, \<^theory_text>\<open>Nss_Props\<close>: \<open>nss/src/implementation.rs\<close>. \<^theory_text>\<open>Group_Lookup\<close> follows a group from the directory to NSS.
  \<^item> \<^theory_text>\<open>Murmur_Hash\<close>, \<^theory_text>\<open>Sss_Idmap\<close>, \<^theory_text>\<open>Idmap\<close>, \<^theory_text>\<open>Idmap_Sids\<close>: \<open>idmap/src/murmurhash3.c\<close>, \<open>sss_idmap.c\<close> and \<open>lib.rs\<close>. Machine integers are words.

  \<^bold>\<open>Interfaces.\<close> Each is a locale that is interpreted on the model's own definitions: \<open>kept\<close> (invariants of programs; the statements of the cache), \<open>row_store\<close>
  (rows with unique columns; accounts and groups), \<open>key_store\<close> (sealed keys; \<open>hsm_data_t\<close>), \<open>keyed_cache\<close> (the small SQLite
  files), \<open>auth_service\<close> (a partner of the PAM conversation; the daemon's connection, while others change the resolver).

  \<^bold>\<open>What is shown.\<close>
  \<^item> Across components, in this theory: what \<open>PAM_SUCCESS\<close> stands for, traced back to the step that the daemon handled, and by which names groups can be found.
  \<^item> Cache: storing refines a map update, lookups find what was stored, transactions are atomic, passwords survive updates; a refused COMMIT or a failed read
    of the version does harm.
  \<^item> Resolver: every success has evidence, fresh sign-ins need the provider, local users are left alone, allow lists go by object id, requests end
    and give their locks back; one error path of the authentication start waits for itself.
  \<^item> Providers: whose token is accepted; offline success needs a stored key that the PIN opens and a current code; wrong PINs lock out; a changed PIN and an enrolled
    TOTP secret are in force; refresh tokens survive a restart; where the second factor is lost or can never be given.
  \<^item> Ids: hash, uids, subordinate ids and free slices; a range that encloses another one is not noticed.
  \<^item> Modules and files: PIN rules, result codes and polling of the PAM conversation, the socket client, the arrays of NSS, the name maps and the daemon's configuration file.

  \<^bold>\<open>Loops and bounds.\<close> No definition takes fuel. Loops over data are structural or have a measure. The dialogues that repeat until the user gives in and the search for a free slice
  are partial functions into \<open>option\<close>, where \<open>None\<close> is a run without end. \<open>slice_search_ends\<close> shows that the search returns. The theorems on conversations are
  about runs that return, since a user can go on for ever, and their witnesses are such runs. \<open>Blocked\<close> is a task that waits for a mutex it holds;
  \<open>requests_release_locks\<close> shows that requests do return.

  \<^bold>\<open>Parameters.\<close> Third-party code is an argument of the definitions that use it: the HSM and TPM crates, JSON, UUIDs, the LRU cache, the INI library and generated getters, SQLite's opening of
  files, the directory service, the user at the terminal, the tasks' answers. What the proofs use of it is a named hypothesis (\<open>idp_laws\<close>, \<open>pw_laws\<close>, \<open>ini_laws\<close>, \<open>keys_bound\<close>,
  \<open>shared_offline\<close>), and the witnesses instantiate it.

  \<^bold>\<open>Simplifications.\<close> \<open>to_lowercase\<close> and SQLite's \<open>LIKE\<close> fold ASCII letters only; for SQLite this is its behaviour, for Rust it leaves out names
  with other letters. Log messages are left out, and memory is never exhausted, except in NSS, where the allocator is a parameter. One task runs at a time; others may change the state only
  between the requests of a conversation.

  \<^bold>\<open>Not modelled.\<close> The online half of the Entra Id provider and the OpenID Connect provider (exchanges with the service, behind the provider interface); the start of
  the daemon, its broker and the task daemon (sockets, D-Bus, files, processes); the C interface and the PIN change dialogue of the PAM module; security key and Bluetooth drivers; binary SIDs (\<open>sss_idmap_conv.c\<close>, not called by the Rust code);
  the command line tool, the orchestrator, the policies and the packaging, which do not take part in a sign-in or a lookup, or only through these interfaces.
\<close>

section \<open>From the PAM module to the provider\<close>

text \<open>
  C1. A whole sign-in: the PAM module talks to the daemon over a new connection, while other connections may change
  the resolver and the task daemon whenever the module waits for the user. If the module returns \<open>PAM_SUCCESS\<close>, then
  the last request that the daemon handled on this connection was a step of an authentication session that was started for this very
  account (in lower case), service and options, and in the state \<open>d\<close> in which the daemon handled it there was evidence: the provider accepted the step
  online, or the cache accepted the password, or the provider accepted a PIN or
  TOTP code offline; and in this state neither the name nor the uid of the user was a local one. If a fresh sign-in was asked for, then
  the provider itself accepted it while online.
\<close>

theorem pam_success_end_to_end:
  fixes conn :: "('p, 'h, 'l, 'w) dstate"
  assumes "authenticate (joined denv self uid others user) cfg connected authtok account service opts (conn, [], x) = Some (PAM_SUCCESS, st)"
    and "ds_session conn = None"
  shows "\<exists>older req d u cs i token onl h tok. let ss = InProgress (to_lowercase account) service i (Some token) onl h
      (opt_no_hello_pin opts) (opt_force_reauth opts) in
    fst (snd (world st)) = older @ [(PamAuthenticateStep req, d, CR_PamAuthenticateStepResponse PR_Success)]
    \<and> ds_session d = Some ss
    \<and> get_cachestate self (Some (to_lowercase account)) (ds_resolver d) = Return (cs, u) \<and> success_evidence self u cs ss token req tok
    \<and> (opt_force_reauth opts \<longrightarrow> cs = Online \<and> online_accepts self u ss token req tok)
    \<and> IdName (ut_name tok) \<notin> rs_nxset (ds_resolver d) \<and> IdGid (ut_gidnumber tok) \<notin> rs_nxset (ds_resolver d)"
proof -
  let ?n = "opt_no_hello_pin opts" and ?f = "opt_force_reauth opts"
  have "mine_session (to_lowercase account) service ?n ?f (ds_session (fst (conn, [], x)))" using assms(2) by (simp add: mine_session_def)
  from daemon.success_earned [OF assms(1) this refl]
  obtain older req and d :: "('p, 'h, 'l, 'w) dstate" where
    last: "fst (snd (world st)) = older @ [(PamAuthenticateStep req, d, CR_PamAuthenticateStepResponse PR_Success)]"
    and mine: "mine_session (to_lowercase account) service ?n ?f (ds_session d)" and won: "step_succeeds self req d"
    by (auto simp: earned_by_def)
  then obtain ss ss' r where ss: "ds_session d = Some ss" "session_for (to_lowercase account) service ?n ?f ss"
    and step: "pam_account_authenticate_step self ss req (ds_resolver d) = Return ((Inr PR_Success, ss'), r)"
    by (auto simp: step_succeeds_def mine_session_def)
  obtain a sv i token onl h n f tok cs u where ev: "ss = InProgress a sv i (Some token) onl h n f"
    "get_cachestate self (Some a) (ds_resolver d) = Return (cs, u)" "success_evidence self u cs ss token req tok"
    "IdName (ut_name tok) \<notin> rs_nxset (ds_resolver d)" "IdGid (ut_gidnumber tok) \<notin> rs_nxset (ds_resolver d)"
    using auth_step_success [OF step] by blast
  have "?f \<longrightarrow> cs = Online \<and> online_accepts self u ss token req tok"
    using ev ss(2) by (auto simp: success_evidence_def split: if_splits)
  with ev ss last show ?thesis
    by (intro exI [of _ older] exI [of _ req] exI [of _ d] exI [of _ u] exI [of _ cs] exI [of _ i] exI [of _ token] exI [of _ onl] exI [of _ h]
        exI [of _ tok]) (simp add: Let_def)
qed

theorem pam_success_end_to_end_witness:
  "\<exists>st older req d u cs i token onl h tok.
    authenticate (joined sample_daemon sample_resolver 1000 sample_others scripted) plain_cfg True None ''Alice'' ''sshd''
      no_options (sample_connection, [], [], [''123456'']) = Some (PAM_SUCCESS, st)
    \<and> fst (snd (world st)) = older @ [(PamAuthenticateStep req, d, CR_PamAuthenticateStepResponse PR_Success)]
    \<and> get_cachestate sample_resolver (Some ''alice'') (ds_resolver d) = Return (cs, u)
    \<and> success_evidence sample_resolver u cs (InProgress ''alice'' ''sshd'' i (Some token) onl h False False) token req tok
    \<and> IdName (ut_name tok) \<notin> rs_nxset (ds_resolver d)"
proof -
  obtain st where run: "authenticate (joined sample_daemon sample_resolver 1000 sample_others scripted) plain_cfg True None ''Alice'' ''sshd''
      no_options (sample_connection, [], [], [''123456'']) = Some (PAM_SUCCESS, st)"
    using sample_conversation by blast
  have "to_lowercase ''Alice'' = ''alice''" "ds_session sample_connection = None" "opt_no_hello_pin no_options = False" "opt_force_reauth no_options = False"
    by (code_simp, simp_all add: sample_connection_def no_options_def)
  with pam_success_end_to_end [OF run] run show ?thesis by (simp add: Let_def) blast
qed

section \<open>From the directory to NSS\<close>

text \<open>
  C2. Group lookup by name across the provider, the cache, the daemon and the NSS module, where the daemon may be in another state
  at every request and the cache holds only groups that the provider made. The group that is answered is in the cache. If it is a group of the
  directory, whose display name anybody may choose, then the caller asked for its object id, and the id is not its name: a display name
  never makes NSS answer with a directory group. Otherwise it is the primary group of a user, and the caller asked for its id or for a name that is mapped to the
  user's name.
\<close>

theorem directory_group_only_by_id:
  assumes "daemon nenv = Some (\<lambda>req. daemon_call denv self uid (d req) req)"
    and "\<And>req. groups_recorded (r_deps self) (disk (rs_db (ds_resolver (d req))))"
    and "\<And>req tok. cached_group (r_deps self) (disk (rs_db (ds_resolver (d req)))) tok \<Longrightarrow> directory_group E tok \<or> primary_group E tok"
    and "\<And>u. CHR ''@'' \<notin> set (uuid_str (r_deps self) u)"
    and "group_get_entry_by_name nenv name st = (RSuccess g, st')"
  shows "\<exists>req tok. cached_group (r_deps self) (disk (rs_db (ds_resolver (d req)))) tok \<and> gr_gid g = gt_gidnumber tok
    \<and> (directory_group E tok \<longrightarrow> uuid_parses nenv name \<and> name = uuid_str (r_deps self) (gt_uuid tok)
        \<and> to_lowercase name \<noteq> to_lowercase (gt_name tok) \<and> gr_name g = gt_name tok)
    \<and> (\<not> directory_group E tok \<longrightarrow> primary_group E tok \<and> (name = uuid_str (r_deps self) (gt_uuid tok)
        \<or> (\<exists>cfg. nss_config nenv = Some cfg \<and> fst (map_name_to_upn (nss_lib nenv) cfg name (ns_names st)) = gt_name tok)))"
proof (rule group_by_name_success [OF assms(5,1)])
  fix upn ne cfg ng
  assume upn: "map_name_to_upn (nss_lib nenv) cfg name (ns_names st) = (upn, ne)" "CHR ''@'' \<in> set upn" "gr_gid g = ng_gid ng" "nss_config nenv = Some cfg"
    and "daemon_call denv self uid (d (NssGroupByName upn)) (NssGroupByName upn) = Some (CR_NssGroup (Some ng))"
  then obtain r where "get_nssgroup self (IdName upn) (ds_resolver (d (NssGroupByName upn))) = Return (Inr (Some ng), r)"
    using daemon_call_group by blast
  from get_nssgroup_found [OF this assms(2)] obtain tok where tok: "cached_group (r_deps self) (disk (rs_db (ds_resolver (d (NssGroupByName upn))))) tok"
    "uuid_str (r_deps self) (gt_uuid tok) = upn \<or> gt_name tok = upn \<or> gt_spn tok = upn" "ng_gid ng = gt_gidnumber tok" by blast
  note made = assms(3) [OF tok(1)]
  have "gt_name tok = upn" using upn(2) assms(4) [of "gt_uuid tok"] tok(2) made by (auto dest: directory_group_name primary_group_name)
  with upn(2) made have "\<not> directory_group E tok" "primary_group E tok" by (auto dest: directory_group_name)
  with tok upn \<open>gt_name tok = upn\<close> show ?thesis by (intro exI [of _ "NssGroupByName upn"] exI [of _ tok]) auto
next
  fix ng
  assume ng: "uuid_parses nenv name" "g = group_from_nssgroup ng" "to_lowercase name \<noteq> to_lowercase (ng_name ng)"
    and "daemon_call denv self uid (d (NssGroupByName name)) (NssGroupByName name) = Some (CR_NssGroup (Some ng))"
  then obtain r where "get_nssgroup self (IdName name) (ds_resolver (d (NssGroupByName name))) = Return (Inr (Some ng), r)"
    using daemon_call_group by blast
  from get_nssgroup_found [OF this assms(2)] obtain tok where tok: "cached_group (r_deps self) (disk (rs_db (ds_resolver (d (NssGroupByName name))))) tok"
    "uuid_str (r_deps self) (gt_uuid tok) = name \<or> gt_name tok = name \<or> gt_spn tok = name" "ng_gid ng = gt_gidnumber tok"
    "ng_name ng = token_gidattr self tok" by blast
  note made = assms(3) [OF tok(1)]
  then have spn: "gt_spn tok = gt_name tok" by (auto dest: directory_group_name primary_group_name)
  then have "ng_name ng = gt_name tok" using tok(4) by (simp add: token_gidattr_def split: UidAttr.split)
  with tok ng spn made show ?thesis
    by (intro exI [of _ "NssGroupByName name"] exI [of _ tok]) (auto simp: group_from_nssgroup_def)
qed

definition admins :: GroupToken where
  "admins = \<lparr>gt_name = ''admins'', gt_spn = ''admins'', gt_uuid = 1, gt_gidnumber = 100\<rparr>"
definition admins_resolver :: "(unit, unit, (Id \<times> systime) list) resolver" where
  "admins_resolver = sample_resolver\<lparr>r_deps := sample_deps\<lparr>de_group := (\<lambda>_. Some admins)\<rparr>\<rparr>"
definition admins_disk :: tables where
  "admins_disk = sample_tables\<lparr>group_t := [\<lparr>gr_uuid = ''1'', group_row.gr_name = ''admins'', gr_spn = ''admins'', gr_gidnumber = 100, gr_token = [], gr_expiry = 0\<rparr>]\<rparr>"
definition admins_daemon :: "(unit, unit, (Id \<times> systime) list, unit) dstate" where
  "admins_daemon = sample_connection\<lparr>ds_resolver := sample_idle\<lparr>rs_db := (rs_db sample_idle)\<lparr>disk := admins_disk\<rparr>\<rparr>\<rparr>"

definition admins_nss :: "((string \<times> string) \<times> string) list nss_env" where
  "admins_nss = sample_nss\<lparr>uuid_parses := (\<lambda>s. s = ''1''), daemon := Some (daemon_call sample_daemon admins_resolver 1000 admins_daemon)\<rparr>"

definition admins_entra :: "((string \<times> string) \<times> string) list entra_env" where
  "admins_entra = group_entra\<lparr>ee_static_file := Some ([], [\<lparr>sg_name = ''u'', sg_gid = 100\<rparr>])\<rparr>"

theorem directory_group_only_by_id_witness:
  "\<exists>g st'. group_get_entry_by_name admins_nss ''1'' sample_nss_state = (RSuccess g, st') \<and> directory_group {admins_entra} admins
     \<and> gr_gid g = gt_gidnumber admins \<and> gr_name g = ''admins'' \<and> ''1'' = uuid_str (r_deps admins_resolver) (gt_uuid admins)"
proof -
  have "(case group_get_entry_by_name admins_nss ''1'' sample_nss_state of (RSuccess g, _) \<Rightarrow> True | _ \<Rightarrow> False)" by code_simp
  then obtain g st' where run: "group_get_entry_by_name admins_nss ''1'' sample_nss_state = (RSuccess g, st')"
    by (auto split: prod.splits Response.splits)
  have deps: "r_deps admins_resolver = sample_deps\<lparr>de_group := (\<lambda>_. Some admins)\<rparr>" "disk (rs_db (ds_resolver admins_daemon)) = admins_disk"
    by (simp_all add: admins_resolver_def admins_daemon_def)
  have "show_nat (unat (1 :: Uuid)) = ''1''" by code_simp
  then have row: "recorded (r_deps admins_resolver) row tok \<longleftrightarrow> tok = admins" if "row \<in> set (group_t admins_disk)" for row tok
    using that by (auto simp: deps recorded_def admins_disk_def sample_deps_def admins_def)
  have "group_token_from_directory_object admins_entra (sample_object ''a'') group_hp = Return (Inr admins, group_hp)"
    by (simp add: group_token_from_directory_object_def Let_def pbind_def pbindE_def pgets_def pret_def admins_entra_def group_entra_def sample_entra_def sample_object_def
        static_cache_new_def get_group_by_name_def admins_def)
  then have made: "directory_group {admins_entra} admins" by (auto simp: directory_group_def)
  have only: "tok = admins" if "cached_group (r_deps admins_resolver) (disk (rs_db (ds_resolver admins_daemon))) tok" for tok
    using that row by (auto simp: deps cached_group_def)
  have "daemon admins_nss = Some (\<lambda>req. daemon_call sample_daemon admins_resolver 1000 ((\<lambda>_. admins_daemon) req) req)" by (simp add: admins_nss_def)
  moreover have "groups_recorded (r_deps admins_resolver) (disk (rs_db (ds_resolver admins_daemon)))" using row by (simp add: deps groups_recorded_def)
  moreover have "CHR ''@'' \<notin> set (uuid_str (r_deps admins_resolver) u)" for u by (simp add: deps sample_deps_def show_nat_no_at)
  ultimately obtain tok where "cached_group (r_deps admins_resolver) (disk (rs_db (ds_resolver admins_daemon))) tok" "gr_gid g = gt_gidnumber tok"
    "directory_group {admins_entra} tok \<longrightarrow> ''1'' = uuid_str (r_deps admins_resolver) (gt_uuid tok) \<and> gr_name g = gt_name tok"
    using directory_group_only_by_id [where d = "\<lambda>_. admins_daemon" and E = "{admins_entra}", OF _ _ _ _ run] only made by blast
  moreover have "gt_name admins = ''admins''" by (simp add: admins_def)
  ultimately show ?thesis using only made run by metis
qed

end
